(* ===== verification/Prelude.thy ===== *)
theory Prelude
  imports Complex_Main "HOL-Library.Monad_Syntax" "HOL-Library.Char_ord" "HOL-Library.List_Lexorder"
begin

text \<open>
  Shared vocabulary of the development: the result type of fallible Rust code, the JSON values
  the service writes into its journal, SQL statements on tables kept as lists of rows, and byte
  string helpers of the Rust standard library.  Also the generic lemmas about them that the
  component theories use.

  A \<open>Result\<close> is \<open>Ok\<close> or \<open>Err\<close>; \<open>Panic\<close> is a Rust panic, which is not a value of the source's
  \<open>Result\<close> types: the running task ends and an open transaction is rolled back.
\<close>

named_theorems res_simps \<open>how a successful chain of fallible calls decomposes\<close>
named_theorems sql_simps \<open>reading a table after a statement\<close>

type_synonym decimal = rat
type_synonym uuid = nat
type_synonym instant = int

section \<open>Results\<close>

datatype ('e, 'a) res = Ok 'a | Err 'e | Panic

fun rbind :: "('e, 'a) res \<Rightarrow> ('a \<Rightarrow> ('e, 'b) res) \<Rightarrow> ('e, 'b) res" where
  "rbind (Ok x) f = f x"
| "rbind (Err e) f = Err e"
| "rbind Panic f = Panic"

fun map_err :: "('e \<Rightarrow> 'f) \<Rightarrow> ('e, 'a) res \<Rightarrow> ('f, 'a) res" where
  "map_err h (Ok x) = Ok x"
| "map_err h (Err e) = Err (h e)"
| "map_err h Panic = Panic"

fun ok_or :: "'e \<Rightarrow> 'a option \<Rightarrow> ('e, 'a) res" where
  "ok_or e (Some x) = Ok x"
| "ok_or e None = Err e"

fun or_panic :: "'a option \<Rightarrow> ('e, 'a) res" where
  "or_panic (Some x) = Ok x"
| "or_panic None = Panic"

fun is_ok :: "('e, 'a) res \<Rightarrow> bool" where
  "is_ok (Ok x) = True"
| "is_ok (Err e) = False"
| "is_ok Panic = False"

lemma rbind_eq_Ok [res_simps]: "rbind m f = Ok y \<longleftrightarrow> (\<exists>x. m = Ok x \<and> f x = Ok y)"
  by (cases m) auto

lemma rbind_OkE:
  assumes "rbind m f = Ok y"
  obtains x where "m = Ok x" "f x = Ok y"
  using assms by (auto simp: rbind_eq_Ok)

lemma if_ErrE:
  assumes "(if c then Err e else m) = Ok y"
  obtains "\<not> c" "m = Ok y"
  using assms by (auto split: if_split_asm)

lemma rbind_eq_Panic: "rbind m f = Panic \<longleftrightarrow> m = Panic \<or> (\<exists>x. m = Ok x \<and> f x = Panic)"
  by (cases m) auto

lemma map_err_eq_Ok [res_simps]: "map_err h m = Ok y \<longleftrightarrow> m = Ok y"
  by (cases m) auto

lemma ok_or_eq_Ok [res_simps]: "ok_or e x = Ok y \<longleftrightarrow> x = Some y"
  by (cases x) auto

lemma ok_or_not_Panic [simp]: "ok_or e x \<noteq> Panic"
  by (cases x) auto

lemma or_panic_eq_Ok [res_simps]: "or_panic x = Ok y \<longleftrightarrow> x = Some y"
  by (cases x) auto

lemma rbind_eq_Err: "rbind m f = Err e \<longleftrightarrow> m = Err e \<or> (\<exists>x. m = Ok x \<and> f x = Err e)"
  by (cases m) auto

lemma ok_or_eq_Err: "ok_or e x = Err e' \<longleftrightarrow> x = None \<and> e' = e"
  by (cases x) auto

lemma or_panic_not_Err [simp]: "or_panic x \<noteq> Err e"
  by (cases x) auto

lemma is_ok_iff: "is_ok m \<longleftrightarrow> (\<exists>x. m = Ok x)"
  by (cases m) auto

lemma if_Err_eq_Ok [res_simps]: "(if c then Err e else m) = Ok y \<longleftrightarrow> \<not> c \<and> m = Ok y"
  by simp

lemmas bind_Some_simps = bind_eq_Some_conv

lemma bind_SomeE:
  assumes "m \<bind> f = Some y"
  obtains x where "m = Some x" "f x = Some y"
  using assms by (auto simp: bind_Some_simps)

section \<open>JSON values\<close>

text \<open>
  \<open>serde_json::Value\<close>.  Text leaves that another crate prints keep the value that is printed: a
  decimal, a UUID, a time stamp.  A column that stores serialized JSON stores the value here.
\<close>

datatype json =
    JNull
  | JBool bool
  | JInt int
  | JStr string
  | JDec decimal
  | JUuid uuid
  | JTime instant
  | JArr "json list"
  | JObj "(string \<times> json) list"

fun json_opt :: "('a \<Rightarrow> json) \<Rightarrow> 'a option \<Rightarrow> json" where
  "json_opt f None = JNull"
| "json_opt f (Some x) = f x"

definition jget :: "json \<Rightarrow> string \<Rightarrow> json option" where
  "jget v k = (case v of JObj kvs \<Rightarrow> map_of kvs k | _ \<Rightarrow> None)"

section \<open>SQL statements on lists of rows\<close>

text \<open>
  A table is the list of its rows in insertion order.  \<open>sql_update\<close> is \<open>UPDATE .. SET .. WHERE ..\<close>,
  \<open>sql_count\<close> the number of rows a \<open>WHERE\<close> clause selects (\<open>rows_affected\<close> of the update,
  \<open>COUNT(*)\<close> of a query), \<open>sql_find\<close> the row \<open>fetch_optional\<close> returns.
\<close>

definition sql_update :: "('r \<Rightarrow> bool) \<Rightarrow> ('r \<Rightarrow> 'r) \<Rightarrow> 'r list \<Rightarrow> 'r list" where
  "sql_update P f rows = map (\<lambda>r. if P r then f r else r) rows"

definition sql_count :: "('r \<Rightarrow> bool) \<Rightarrow> 'r list \<Rightarrow> nat" where
  "sql_count P rows = length (filter P rows)"

definition sql_find :: "('r \<Rightarrow> bool) \<Rightarrow> 'r list \<Rightarrow> 'r option" where
  "sql_find P rows = find P rows"

lemma sql_update_Nil [simp]: "sql_update P f [] = []"
  by (simp add: sql_update_def)

lemma sql_update_Cons [simp]:
  "sql_update P f (r # rows) = (if P r then f r else r) # sql_update P f rows"
  by (simp add: sql_update_def)

lemma sql_update_append [simp]: "sql_update P f (xs @ ys) = sql_update P f xs @ sql_update P f ys"
  by (simp add: sql_update_def)

lemma length_sql_update [simp]: "length (sql_update P f rows) = length rows"
  by (simp add: sql_update_def)

lemma set_sql_update: "set (sql_update P f rows) = (\<lambda>r. if P r then f r else r) ` set rows"
  by (simp add: sql_update_def)

lemma in_sql_updateE:
  assumes "r \<in> set (sql_update P f rows)"
  obtains r0 where "r0 \<in> set rows" "r = (if P r0 then f r0 else r0)"
  using assms by (auto simp: set_sql_update)

lemma map_sql_update [sql_simps]:
  assumes "\<And>r. P r \<Longrightarrow> g (f r) = g r"
  shows "map g (sql_update P f rows) = map g rows"
  using assms by (auto simp: sql_update_def)

lemma sql_count_Nil [simp]: "sql_count P [] = 0"
  by (simp add: sql_count_def)

lemma sql_count_Cons [simp]: "sql_count P (r # rows) = (if P r then Suc (sql_count P rows) else sql_count P rows)"
  by (simp add: sql_count_def)

lemma sql_count_append [simp]: "sql_count P (xs @ ys) = sql_count P xs + sql_count P ys"
  by (simp add: sql_count_def)

lemma sql_count_0_iff: "sql_count P rows = 0 \<longleftrightarrow> (\<forall>r \<in> set rows. \<not> P r)"
  by (auto simp: sql_count_def filter_empty_conv)

lemma sql_count_pos_iff: "0 < sql_count P rows \<longleftrightarrow> (\<exists>r \<in> set rows. P r)"
  using sql_count_0_iff [of P rows] by auto

lemma sql_count_mono:
  assumes "\<And>r. r \<in> set rows \<Longrightarrow> P r \<Longrightarrow> Q r"
  shows "sql_count P rows \<le> sql_count Q rows"
  using assms by (induction rows) (auto intro: le_SucI)

lemma sql_count_cong:
  assumes "\<And>r. r \<in> set rows \<Longrightarrow> P r = Q r"
  shows "sql_count P rows = sql_count Q rows"
  using assms by (induction rows) auto

lemma sql_find_Nil [simp]: "sql_find P [] = None"
  by (simp add: sql_find_def)

lemma sql_find_Cons [simp]: "sql_find P (r # rows) = (if P r then Some r else sql_find P rows)"
  by (simp add: sql_find_def)

lemma sql_find_None_iff: "sql_find P rows = None \<longleftrightarrow> (\<forall>r \<in> set rows. \<not> P r)"
  by (auto simp: sql_find_def find_None_iff)

lemma sql_find_SomeD: "sql_find P rows = Some r \<Longrightarrow> r \<in> set rows \<and> P r"
  by (auto simp: sql_find_def find_Some_iff)

lemma sql_find_append:
  "sql_find P (xs @ ys) = (case sql_find P xs of Some r \<Rightarrow> Some r | None \<Rightarrow> sql_find P ys)"
  by (induction xs) auto

subsection \<open>Tables with a primary key\<close>

lemma key_unique:
  assumes "distinct (map key rows)" "r \<in> set rows" "r' \<in> set rows" "key r = key r'"
  shows "r = r'"
  using assms by (auto simp: distinct_map inj_on_def)

lemma sql_count_key_le_1:
  assumes "distinct (map key rows)"
  shows "sql_count (\<lambda>r. key r = k \<and> Q r) rows \<le> 1"
  using assms
proof (induction rows)
  case (Cons a rows)
  show ?case
  proof (cases "key a = k")
    case True
    with Cons.prems have "\<forall>r \<in> set rows. key r \<noteq> k"
      by (auto simp: image_iff)
    then have "sql_count (\<lambda>r. key r = k \<and> Q r) rows = 0" by (simp add: sql_count_0_iff)
    then show ?thesis by simp
  next
    case False
    with Cons show ?thesis by simp
  qed
qed simp

lemma sql_find_key:
  assumes "distinct (map key rows)" "r \<in> set rows"
  shows "sql_find (\<lambda>x. key x = key r) rows = Some r"
  using assms by (induction rows) force+

section \<open>Strings of the Rust standard library\<close>

text \<open>
  A \<open>str\<close> is the list of its UTF-8 bytes, so \<open>length\<close> is \<open>str::len\<close>.  \<open>is_blank s\<close> is
  \<open>s.trim().is_empty()\<close>: every character has the Unicode property \<open>White_Space\<close>, written out on the
  byte encoding of the twenty-five characters that have it.
\<close>

definition byte :: "char \<Rightarrow> nat" where
  "byte c = of_char c"

fun ws_width :: "string \<Rightarrow> nat" where
  "ws_width [] = 0"
| "ws_width (a # rest) =
     (let x = byte a in
      if (9 \<le> x \<and> x \<le> 13) \<or> x = 32 then 1
      else (case rest of [] \<Rightarrow> 0
            | b # rest2 \<Rightarrow>
                let y = byte b in
                if x = 194 \<and> (y = 133 \<or> y = 160) then 2
                else (case rest2 of [] \<Rightarrow> 0
                      | c # _ \<Rightarrow>
                          let z = byte c in
                          if (x = 225 \<and> y = 154 \<and> z = 128)
                             \<or> (x = 226 \<and> y = 128 \<and> (128 \<le> z \<and> z \<le> 138 \<or> z = 168 \<or> z = 169 \<or> z = 175))
                             \<or> (x = 226 \<and> y = 129 \<and> z = 159)
                             \<or> (x = 227 \<and> y = 128 \<and> z = 128)
                          then 3 else 0)))"

function is_blank :: "string \<Rightarrow> bool" where
  "is_blank s = (if s = [] then True
                 else if ws_width s = 0 then False
                 else is_blank (drop (ws_width s) s))"
  by pat_completeness auto
termination
  by (relation "measure length") auto

declare is_blank.simps [simp del]

definition ascii_digit :: "char \<Rightarrow> bool" where
  "ascii_digit c \<longleftrightarrow> 48 \<le> byte c \<and> byte c \<le> 57"

definition ascii_lowercase :: "string \<Rightarrow> string" where
  "ascii_lowercase = map (\<lambda>c. if 65 \<le> byte c \<and> byte c \<le> 90 then char_of (byte c + 32) else c)"

fun strip_prefix :: "string \<Rightarrow> string \<Rightarrow> string option" where
  "strip_prefix [] s = Some s"
| "strip_prefix (p # ps) [] = None"
| "strip_prefix (p # ps) (c # s) = (if p = c then strip_prefix ps s else None)"

lemma strip_prefix_append [simp]: "strip_prefix p (p @ s) = Some s"
  by (induction p) auto

lemma strip_prefix_Some_iff: "strip_prefix p s = Some r \<longleftrightarrow> s = p @ r"
  by (induction p s rule: strip_prefix.induct) auto

text \<open>\<open>str::split\<close> on a character, and \<open>join\<close>.\<close>

fun split_on :: "char \<Rightarrow> string \<Rightarrow> string list" where
  "split_on d [] = [[]]"
| "split_on d (c # s) =
     (if c = d then [] # split_on d s
      else (case split_on d s of [] \<Rightarrow> [[c]] | w # ws \<Rightarrow> (c # w) # ws))"

fun join_with :: "char \<Rightarrow> string list \<Rightarrow> string" where
  "join_with d [] = []"
| "join_with d [w] = w"
| "join_with d (w # v # ws) = w @ d # join_with d (v # ws)"

lemma split_on_nonempty [simp]: "split_on d s \<noteq> []"
  by (induction s) (auto split: list.splits)

lemma split_on_no_sep: "d \<notin> set s \<Longrightarrow> split_on d s = [s]"
  by (induction s) auto

lemma split_on_append:
  assumes "d \<notin> set w"
  shows "split_on d (w @ d # s) = w # split_on d s"
  using assms by (induction w) auto

lemma split_join:
  assumes "ws \<noteq> []" "\<forall>w \<in> set ws. d \<notin> set w"
  shows "split_on d (join_with d ws) = ws"
  using assms by (induction d ws rule: join_with.induct) (auto simp: split_on_no_sep split_on_append)

section \<open>Transition systems\<close>

text \<open>
  A transition system with an invariant: what holds initially and is kept by every step holds in
  every reachable state, and so is a property that the steps keep under the invariant.
\<close>

locale invariant_system =
  fixes init :: "'s \<Rightarrow> bool" and step :: "'s \<Rightarrow> 's \<Rightarrow> bool" and inv :: "'s \<Rightarrow> bool"
  assumes init_inv: "init s \<Longrightarrow> inv s"
    and step_inv: "inv s \<Longrightarrow> step s t \<Longrightarrow> inv t"
begin

lemma steps_inv:
  assumes "step\<^sup>*\<^sup>* s t" "inv s"
  shows "inv t"
  using assms by (induction rule: rtranclp_induct) (auto intro: step_inv)

lemma reachable_inv:
  assumes "init s" "step\<^sup>*\<^sup>* s t"
  shows "inv t"
  using assms init_inv steps_inv by blast

lemma stable:
  assumes "\<And>s t. inv s \<Longrightarrow> step s t \<Longrightarrow> P s \<Longrightarrow> P t" and "step\<^sup>*\<^sup>* s t" "inv s" "P s"
  shows "P t"
  using assms(2-4)
proof (induction rule: rtranclp_induct)
  case (step y z)
  then show ?case using assms(1) steps_inv by blast
qed

end

end
