(* ===== verification/Decimal.thy ===== *)
theory Decimal
  imports Prelude
begin

text \<open>
  \<open>rust_decimal\<close> is a third-party crate, so its operations are a parameter of the model: the record
  \<open>dec_ops\<close>, passed as \<open>D\<close> to every definition that computes with decimals.  A \<open>Decimal\<close> denotes a
  rational number; comparison, \<open>abs\<close>, \<open>min\<close>, \<open>max\<close> and the constants are those of the rationals.
  The arithmetic operators and the text conversions are fields of \<open>D\<close>:

  \<^item> \<open>d_add\<close>, \<open>d_sub\<close>, \<open>d_mul\<close>, \<open>d_div\<close>, \<open>d_rem\<close> return \<open>None\<close> where the operator panics
    (overflow of the 96-bit mantissa, division by zero);
  \<^item> \<open>d_from_str\<close> is \<open>Decimal::from_str\<close>; \<open>d_from_str_exact\<close> is \<open>Decimal::from_str_exact\<close> with the
    \<open>scale()\<close> of what it returns;
  \<^item> \<open>d_norm\<close> is \<open>normalize().to_string()\<close>, the text every decimal column holds.

  What the service relies on is stated as named hypotheses: \<open>dec_exact\<close> (no round-off in \<open>+\<close>, \<open>-\<close> and
  \<open>*\<close> that return; the crate rounds these only past 28 fractional digits or 96 bits, and the
  amounts admitted by the service have at most six places, so a run that rounds there is outside
  what the theorems with this hypothesis speak about), \<open>dec_text\<close> (the stored text reads back as the
  same number) and \<open>dec_sign\<close> (a quotient of a non-negative by a positive number is not negative).
  Division is not assumed to be exact.  \<open>dec_rat\<close> is a concrete instance on which witnesses are
  evaluated.
\<close>

record dec_ops =
  d_from_str :: "string \<Rightarrow> decimal option"
  d_from_str_exact :: "string \<Rightarrow> (decimal \<times> nat) option"
  d_norm :: "decimal \<Rightarrow> string"
  d_add :: "decimal \<Rightarrow> decimal \<Rightarrow> decimal option"
  d_sub :: "decimal \<Rightarrow> decimal \<Rightarrow> decimal option"
  d_mul :: "decimal \<Rightarrow> decimal \<Rightarrow> decimal option"
  d_div :: "decimal \<Rightarrow> decimal \<Rightarrow> decimal option"
  d_rem :: "decimal \<Rightarrow> decimal \<Rightarrow> decimal option"

definition dec_exact :: "dec_ops \<Rightarrow> bool" where
  "dec_exact D \<longleftrightarrow>
     (\<forall>a b c. d_add D a b = Some c \<longrightarrow> c = a + b) \<and>
     (\<forall>a b c. d_sub D a b = Some c \<longrightarrow> c = a - b) \<and>
     (\<forall>a b c. d_mul D a b = Some c \<longrightarrow> c = a * b)"

definition dec_text :: "dec_ops \<Rightarrow> bool" where
  "dec_text D \<longleftrightarrow> (\<forall>x. d_from_str D (d_norm D x) = Some x)"

definition dec_sign :: "dec_ops \<Rightarrow> bool" where
  "dec_sign D \<longleftrightarrow>
     (\<forall>a b c. d_div D a b = Some c \<longrightarrow> b \<noteq> 0 \<and> (0 \<le> a \<longrightarrow> 0 < b \<longrightarrow> 0 \<le> c))"

lemma dec_exactD:
  assumes "dec_exact D"
  shows "d_add D a b = Some c \<Longrightarrow> c = a + b"
    and "d_sub D a b = Some c \<Longrightarrow> c = a - b"
    and "d_mul D a b = Some c \<Longrightarrow> c = a * b"
  using assms by (auto simp: dec_exact_def)

lemma dec_textD [simp]: "dec_text D \<Longrightarrow> d_from_str D (d_norm D x) = Some x"
  by (simp add: dec_text_def)

lemma dec_signD: "dec_sign D \<Longrightarrow> d_div D a b = Some c \<Longrightarrow> 0 \<le> a \<Longrightarrow> 0 < b \<Longrightarrow> 0 \<le> c"
  by (auto simp: dec_sign_def)

text \<open>
  Under exact arithmetic a returned result is the rational result: the rewrite rules below turn a
  chain of decimal operations into arithmetic, keeping the fact that each operation returned.
\<close>

definition returned :: "'a option \<Rightarrow> bool" where
  "returned x \<longleftrightarrow> x \<noteq> None"

lemma returned_Some [simp]: "returned (Some x)"
  by (simp add: returned_def)

lemma dec_exact_simps:
  assumes "dec_exact D"
  shows "d_add D a b = Some c \<longleftrightarrow> returned (d_add D a b) \<and> c = a + b"
    and "d_sub D a b = Some c \<longleftrightarrow> returned (d_sub D a b) \<and> c = a - b"
    and "d_mul D a b = Some c \<longleftrightarrow> returned (d_mul D a b) \<and> c = a * b"
  using dec_exactD [OF assms] by (auto simp: returned_def)

text \<open>\<open>Iterator::sum\<close> over decimals: a left fold of \<open>+\<close> from zero.\<close>

fun d_sum_from :: "dec_ops \<Rightarrow> decimal \<Rightarrow> decimal list \<Rightarrow> decimal option" where
  "d_sum_from D acc [] = Some acc"
| "d_sum_from D acc (x # xs) = do { acc' \<leftarrow> d_add D acc x; d_sum_from D acc' xs }"

lemma d_sum_from_exact:
  assumes "dec_exact D"
  shows "d_sum_from D acc xs = Some s \<Longrightarrow> s = acc + sum_list xs"
proof (induction xs arbitrary: acc)
  case (Cons x xs)
  then obtain acc' where "d_add D acc x = Some acc'" and "d_sum_from D acc' xs = Some s"
    by (auto simp: bind_Some_simps)
  with Cons.IH [of acc'] dec_exactD(1) [OF assms] show ?case by fastforce
qed simp

lemma d_sum_from_eq_Some:
  assumes "dec_exact D"
  shows "d_sum_from D acc xs = Some s \<longleftrightarrow> returned (d_sum_from D acc xs) \<and> s = acc + sum_list xs"
  using d_sum_from_exact [OF assms, of acc xs] by (auto simp: returned_def)

section \<open>A concrete instance\<close>

text \<open>
  Exact rational arithmetic.  Numbers print as a fraction, and both fractions and plain decimal
  notation are read.
\<close>

definition digit_char :: "nat \<Rightarrow> char" where
  "digit_char d = char_of (48 + d)"

fun show_nat :: "nat \<Rightarrow> string" where
  "show_nat n = (if n < 10 then [digit_char n] else show_nat (n div 10) @ [digit_char (n mod 10)])"

declare show_nat.simps [simp del]

definition read_nat :: "string \<Rightarrow> nat" where
  "read_nat s = foldl (\<lambda>n c. 10 * n + (byte c - 48)) 0 s"

lemma byte_digit_char: "d < 10 \<Longrightarrow> byte (digit_char d) = 48 + d"
  by (simp add: byte_def digit_char_def)

lemma digits_show_nat: "\<forall>c \<in> set (show_nat n). ascii_digit c"
proof (induction n rule: show_nat.induct)
  case (1 n)
  then show ?case
    by (subst show_nat.simps) (auto simp: ascii_digit_def byte_digit_char)
qed

lemma read_show_nat [simp]: "read_nat (show_nat n) = n"
proof (induction n rule: show_nat.induct)
  case (1 n)
  then show ?case
    by (subst show_nat.simps) (auto simp: read_nat_def byte_digit_char)
qed

definition show_rat :: "rat \<Rightarrow> string" where
  "show_rat x = (case quotient_of x of (p, q) \<Rightarrow>
     (if p < 0 then ''-'' else ''+'') @ show_nat (nat \<bar>p\<bar>) @ ''/'' @ show_nat (nat q))"

definition read_fraction :: "string \<Rightarrow> rat" where
  "read_fraction s =
     (let body = tl s;
          p = read_nat (takeWhile (\<lambda>c. c \<noteq> CHR ''/'') body);
          q = read_nat (tl (dropWhile (\<lambda>c. c \<noteq> CHR ''/'') body))
      in (if hd s = CHR ''-'' then - 1 else 1) * of_nat p / of_nat q)"

definition read_decimal :: "string \<Rightarrow> (rat \<times> nat) option" where
  "read_decimal s =
     (let ip = takeWhile (\<lambda>c. c \<noteq> CHR ''.'') s; fp = tl (dropWhile (\<lambda>c. c \<noteq> CHR ''.'') s)
      in if s = [] \<or> \<not> list_all ascii_digit ip \<or> \<not> list_all ascii_digit fp then None
         else Some (of_nat (read_nat (ip @ fp)) / 10 ^ length fp, length fp))"

definition read_rat :: "string \<Rightarrow> rat option" where
  "read_rat s = (if CHR ''/'' \<in> set s then Some (read_fraction s) else map_option fst (read_decimal s))"

definition dec_rat :: dec_ops where
  "dec_rat =
     \<lparr>d_from_str = read_rat, d_from_str_exact = read_decimal, d_norm = show_rat,
      d_add = (\<lambda>a b. Some (a + b)), d_sub = (\<lambda>a b. Some (a - b)), d_mul = (\<lambda>a b. Some (a * b)),
      d_div = (\<lambda>a b. if b = 0 then None else Some (a / b)),
      d_rem = (\<lambda>a b. if b = 0 then None
                     else Some (a - b * of_int (if 0 \<le> a / b then \<lfloor>a / b\<rfloor> else \<lceil>a / b\<rceil>)))\<rparr>"

lemma slash_not_digit: "ascii_digit c \<Longrightarrow> c \<noteq> CHR ''/''"
  by (auto simp: ascii_digit_def byte_def)

lemma read_fraction_show:
  "read_fraction ((if b then ''-'' else ''+'') @ show_nat p @ ''/'' @ show_nat q)
     = (if b then - 1 else 1) * of_nat p / of_nat q"
proof -
  have p: "\<forall>c \<in> set (show_nat p). c \<noteq> CHR ''/''"
    using digits_show_nat slash_not_digit by blast
  have tw: "takeWhile (\<lambda>c. c \<noteq> CHR ''/'') (show_nat p @ CHR ''/'' # show_nat q) = show_nat p"
    using p by simp
  have dw: "dropWhile (\<lambda>c. c \<noteq> CHR ''/'') (show_nat p @ CHR ''/'' # show_nat q)
              = CHR ''/'' # show_nat q"
    using p by simp
  show ?thesis by (simp add: read_fraction_def Let_def tw dw)
qed

lemma read_show_rat: "read_rat (show_rat x) = Some x"
proof -
  obtain p q where pq: "quotient_of x = (p, q)" by (cases "quotient_of x")
  then have q: "q > 0" by (rule quotient_of_denom_pos)
  have x: "x = of_int p / of_int q" using pq by (rule quotient_of_div)
  let ?s = "(if p < 0 then ''-'' else ''+'') @ show_nat (nat \<bar>p\<bar>) @ ''/'' @ show_nat (nat q)"
  have s: "show_rat x = ?s" by (simp add: show_rat_def pq)
  have "read_rat ?s = Some (read_fraction ?s)" by (simp add: read_rat_def)
  also have "read_fraction ?s = (if p < 0 then - 1 else 1) * of_nat (nat \<bar>p\<bar>) / of_nat (nat q)"
    by (rule read_fraction_show)
  also have "\<dots> = x" using q by (auto simp: x)
  finally show ?thesis by (simp only: s)
qed

lemma dec_rat_exact: "dec_exact dec_rat"
  by (simp add: dec_exact_def dec_rat_def)

lemma dec_rat_text: "dec_text dec_rat"
  by (simp add: dec_text_def dec_rat_def read_show_rat)

lemma dec_rat_sign: "dec_sign dec_rat"
  by (auto simp: dec_sign_def dec_rat_def)

end
