(* ===== verification/Domain.thy ===== *)
theory Domain
  imports Decimal
begin

text \<open>
  \<open>src/src/domain.rs\<close>: the enums and structs of the public contract, their serde text and JSON
  forms, and the validation of order intents and cancellation requests.  The lemmas characterise
  exactly which requests are accepted and show that the JSON written to the journal reads back as
  the request it was written from.
\<close>

section \<open>Enums\<close>

datatype Mode = Paper | Live

datatype ServiceState = Starting | Reconciling | Ready | Degraded | Halted | ShuttingDown

datatype IntentState =
  Received | Validating | Rejected | Approved | Preparing | Prepared | Submitting | Submitted | Unknown

datatype OrderState =
  Prepared | Submitting | Live | PartiallyFilled | Filled | CancelPending | Cancelled | Expired
  | Rejected | Unknown

datatype TradeState = Matched | Mined | Confirmed | Retrying | Failed

datatype Side = Buy | Sell

datatype TimeInForce = Gtc | Gtd | Fok | Fak

datatype QuantityUnit = Shares | Quote

text \<open>The derived \<open>Ord\<close> of the enums kept in ordered sets: declaration order.\<close>

primrec side_rank :: "Side \<Rightarrow> nat" where
  "side_rank Buy = 0"
| "side_rank Sell = 1"

primrec tif_rank :: "TimeInForce \<Rightarrow> nat" where
  "tif_rank Gtc = 0"
| "tif_rank Gtd = 1"
| "tif_rank Fok = 2"
| "tif_rank Fak = 3"

lemma side_rank_inject [simp]: "side_rank a = side_rank b \<longleftrightarrow> a = b"
  by (cases a; cases b) auto

lemma tif_rank_inject [simp]: "tif_rank a = tif_rank b \<longleftrightarrow> a = b"
  by (cases a; cases b) auto

instantiation Side :: linorder
begin

definition less_eq_Side :: "Side \<Rightarrow> Side \<Rightarrow> bool" where
  "less_eq_Side a b \<longleftrightarrow> side_rank a \<le> side_rank b"

definition less_Side :: "Side \<Rightarrow> Side \<Rightarrow> bool" where
  "less_Side a b \<longleftrightarrow> side_rank a < side_rank b"

instance
  by standard (auto simp: less_eq_Side_def less_Side_def intro: side_rank_inject [THEN iffD1])

end

instantiation TimeInForce :: linorder
begin

definition less_eq_TimeInForce :: "TimeInForce \<Rightarrow> TimeInForce \<Rightarrow> bool" where
  "less_eq_TimeInForce a b \<longleftrightarrow> tif_rank a \<le> tif_rank b"

definition less_TimeInForce :: "TimeInForce \<Rightarrow> TimeInForce \<Rightarrow> bool" where
  "less_TimeInForce a b \<longleftrightarrow> tif_rank a < tif_rank b"

instance
  by standard (auto simp: less_eq_TimeInForce_def less_TimeInForce_def intro: tif_rank_inject [THEN iffD1])

end

text \<open>The text forms \<open>serde\<close> and \<open>sqlx\<close> derive from \<open>rename_all\<close>.\<close>

primrec mode_text :: "Mode \<Rightarrow> string" where
  "mode_text Mode.Paper = ''paper''"
| "mode_text Mode.Live = ''live''"

primrec intent_state_text :: "IntentState \<Rightarrow> string" where
  "intent_state_text IntentState.Received = ''RECEIVED''"
| "intent_state_text IntentState.Validating = ''VALIDATING''"
| "intent_state_text IntentState.Rejected = ''REJECTED''"
| "intent_state_text IntentState.Approved = ''APPROVED''"
| "intent_state_text IntentState.Preparing = ''PREPARING''"
| "intent_state_text IntentState.Prepared = ''PREPARED''"
| "intent_state_text IntentState.Submitting = ''SUBMITTING''"
| "intent_state_text IntentState.Submitted = ''SUBMITTED''"
| "intent_state_text IntentState.Unknown = ''UNKNOWN''"

primrec order_state_text :: "OrderState \<Rightarrow> string" where
  "order_state_text OrderState.Prepared = ''PREPARED''"
| "order_state_text OrderState.Submitting = ''SUBMITTING''"
| "order_state_text OrderState.Live = ''LIVE''"
| "order_state_text OrderState.PartiallyFilled = ''PARTIALLY_FILLED''"
| "order_state_text OrderState.Filled = ''FILLED''"
| "order_state_text OrderState.CancelPending = ''CANCEL_PENDING''"
| "order_state_text OrderState.Cancelled = ''CANCELLED''"
| "order_state_text OrderState.Expired = ''EXPIRED''"
| "order_state_text OrderState.Rejected = ''REJECTED''"
| "order_state_text OrderState.Unknown = ''UNKNOWN''"

primrec trade_state_text :: "TradeState \<Rightarrow> string" where
  "trade_state_text Matched = ''MATCHED''"
| "trade_state_text Mined = ''MINED''"
| "trade_state_text Confirmed = ''CONFIRMED''"
| "trade_state_text Retrying = ''RETRYING''"
| "trade_state_text Failed = ''FAILED''"

primrec side_text :: "Side \<Rightarrow> string" where
  "side_text Buy = ''BUY''"
| "side_text Sell = ''SELL''"

primrec tif_text :: "TimeInForce \<Rightarrow> string" where
  "tif_text Gtc = ''GTC''"
| "tif_text Gtd = ''GTD''"
| "tif_text Fok = ''FOK''"
| "tif_text Fak = ''FAK''"

primrec unit_text :: "QuantityUnit \<Rightarrow> string" where
  "unit_text Shares = ''shares''"
| "unit_text Quote = ''quote''"

text \<open>Event names use the lower-cased \<open>Debug\<close> form of a state.\<close>

primrec intent_state_debug :: "IntentState \<Rightarrow> string" where
  "intent_state_debug IntentState.Received = ''received''"
| "intent_state_debug IntentState.Validating = ''validating''"
| "intent_state_debug IntentState.Rejected = ''rejected''"
| "intent_state_debug IntentState.Approved = ''approved''"
| "intent_state_debug IntentState.Preparing = ''preparing''"
| "intent_state_debug IntentState.Prepared = ''prepared''"
| "intent_state_debug IntentState.Submitting = ''submitting''"
| "intent_state_debug IntentState.Submitted = ''submitted''"
| "intent_state_debug IntentState.Unknown = ''unknown''"

primrec order_state_debug :: "OrderState \<Rightarrow> string" where
  "order_state_debug OrderState.Prepared = ''prepared''"
| "order_state_debug OrderState.Submitting = ''submitting''"
| "order_state_debug OrderState.Live = ''live''"
| "order_state_debug OrderState.PartiallyFilled = ''partiallyfilled''"
| "order_state_debug OrderState.Filled = ''filled''"
| "order_state_debug OrderState.CancelPending = ''cancelpending''"
| "order_state_debug OrderState.Cancelled = ''cancelled''"
| "order_state_debug OrderState.Expired = ''expired''"
| "order_state_debug OrderState.Rejected = ''rejected''"
| "order_state_debug OrderState.Unknown = ''unknown''"

definition mode_from_str :: "string \<Rightarrow> Mode option" where
  "mode_from_str s = (if s = ''paper'' then Some Mode.Paper
                      else if s = ''live'' then Some Mode.Live else None)"

definition side_from_text :: "string \<Rightarrow> Side option" where
  "side_from_text s = (if s = ''BUY'' then Some Buy else if s = ''SELL'' then Some Sell else None)"

definition tif_from_text :: "string \<Rightarrow> TimeInForce option" where
  "tif_from_text s = (if s = ''GTC'' then Some Gtc else if s = ''GTD'' then Some Gtd
                      else if s = ''FOK'' then Some Fok else if s = ''FAK'' then Some Fak else None)"

definition unit_from_text :: "string \<Rightarrow> QuantityUnit option" where
  "unit_from_text s = (if s = ''shares'' then Some Shares else if s = ''quote'' then Some Quote else None)"

section \<open>Requests and records\<close>

record Quantity =
  q_unit :: QuantityUnit
  q_value :: string

record ClientContext =
  ctx_strategy :: "string option"
  ctx_strategy_order_id :: "string option"
  ctx_correlation_id :: "string option"

record OrderIntentRequest =
  rq_condition_id :: string
  rq_token_id :: string
  rq_side :: Side
  rq_time_in_force :: TimeInForce
  rq_quantity :: Quantity
  rq_limit_price :: "string option"
  rq_worst_price :: "string option"
  rq_expires_at :: "instant option"
  rq_post_only :: bool
  rq_client_context :: ClientContext

record IntentRecord =
  in_id :: uuid
  in_mode :: Mode
  in_actor_id :: string
  in_idempotency_key :: string
  in_request_hash :: string
  in_request_json :: json
  in_state :: IntentState
  in_rejection_code :: "string option"
  in_rejection_message :: "string option"
  in_created_at :: instant
  in_updated_at :: instant

record OrderRecord =
  or_id :: uuid
  or_intent_id :: uuid
  or_mode :: Mode
  or_venue_order_id :: "string option"
  or_condition_id :: string
  or_token_id :: string
  or_side :: Side
  or_time_in_force :: TimeInForce
  or_price :: string
  or_original_quantity :: string
  or_remaining_quantity :: string
  or_state :: OrderState
  or_created_at :: instant
  or_updated_at :: instant

record TradeRecord =
  tr_id :: uuid
  tr_order_id :: uuid
  tr_mode :: Mode
  tr_venue_trade_id :: string
  tr_price :: string
  tr_size :: string
  tr_status :: TradeState
  tr_created_at :: instant
  tr_updated_at :: instant

record PositionRecord =
  ps_token_id :: string
  ps_condition_id :: string
  ps_mode :: Mode
  ps_shares :: string
  ps_updated_at :: instant

text \<open>The resource an event is about is named by a UUID or by a text key.\<close>

datatype resource = RUuid uuid | RText string

record ExecutionEvent =
  ev_sequence :: int
  ev_type :: string
  ev_resource_type :: string
  ev_resource_id :: resource
  ev_mode :: Mode
  ev_payload :: json
  ev_created_at :: instant

record CancellationRequest =
  cn_order_id :: "uuid option"
  cn_intent_id :: "uuid option"
  cn_condition_id :: "string option"
  cn_all_open_orders :: bool
  cn_reason :: string

section \<open>JSON forms\<close>

abbreviation jstr_opt :: "string option \<Rightarrow> json" where
  "jstr_opt \<equiv> json_opt JStr"

definition json_of_context :: "ClientContext \<Rightarrow> json" where
  "json_of_context c = JObj
     [(''strategy'', jstr_opt (ctx_strategy c)),
      (''strategy_order_id'', jstr_opt (ctx_strategy_order_id c)),
      (''correlation_id'', jstr_opt (ctx_correlation_id c))]"

definition json_of_quantity :: "Quantity \<Rightarrow> json" where
  "json_of_quantity q = JObj [(''unit'', JStr (unit_text (q_unit q))), (''value'', JStr (q_value q))]"

definition json_of_request :: "OrderIntentRequest \<Rightarrow> json" where
  "json_of_request r = JObj
     [(''condition_id'', JStr (rq_condition_id r)),
      (''token_id'', JStr (rq_token_id r)),
      (''side'', JStr (side_text (rq_side r))),
      (''time_in_force'', JStr (tif_text (rq_time_in_force r))),
      (''quantity'', json_of_quantity (rq_quantity r)),
      (''limit_price'', jstr_opt (rq_limit_price r)),
      (''worst_price'', jstr_opt (rq_worst_price r)),
      (''expires_at'', json_opt JTime (rq_expires_at r)),
      (''post_only'', JBool (rq_post_only r)),
      (''client_context'', json_of_context (rq_client_context r))]"

definition json_of_intent :: "IntentRecord \<Rightarrow> json" where
  "json_of_intent r = JObj
     [(''id'', JUuid (in_id r)),
      (''mode'', JStr (mode_text (in_mode r))),
      (''actor_id'', JStr (in_actor_id r)),
      (''idempotency_key'', JStr (in_idempotency_key r)),
      (''request_hash'', JStr (in_request_hash r)),
      (''request_json'', in_request_json r),
      (''state'', JStr (intent_state_text (in_state r))),
      (''rejection_code'', jstr_opt (in_rejection_code r)),
      (''rejection_message'', jstr_opt (in_rejection_message r)),
      (''created_at'', JTime (in_created_at r)),
      (''updated_at'', JTime (in_updated_at r))]"

definition json_of_order :: "OrderRecord \<Rightarrow> json" where
  "json_of_order r = JObj
     [(''id'', JUuid (or_id r)),
      (''intent_id'', JUuid (or_intent_id r)),
      (''mode'', JStr (mode_text (or_mode r))),
      (''venue_order_id'', jstr_opt (or_venue_order_id r)),
      (''condition_id'', JStr (or_condition_id r)),
      (''token_id'', JStr (or_token_id r)),
      (''side'', JStr (side_text (or_side r))),
      (''time_in_force'', JStr (tif_text (or_time_in_force r))),
      (''price'', JStr (or_price r)),
      (''original_quantity'', JStr (or_original_quantity r)),
      (''remaining_quantity'', JStr (or_remaining_quantity r)),
      (''state'', JStr (order_state_text (or_state r))),
      (''created_at'', JTime (or_created_at r)),
      (''updated_at'', JTime (or_updated_at r))]"

definition json_of_trade :: "TradeRecord \<Rightarrow> json" where
  "json_of_trade r = JObj
     [(''id'', JUuid (tr_id r)),
      (''order_id'', JUuid (tr_order_id r)),
      (''mode'', JStr (mode_text (tr_mode r))),
      (''venue_trade_id'', JStr (tr_venue_trade_id r)),
      (''price'', JStr (tr_price r)),
      (''size'', JStr (tr_size r)),
      (''status'', JStr (trade_state_text (tr_status r))),
      (''created_at'', JTime (tr_created_at r)),
      (''updated_at'', JTime (tr_updated_at r))]"

definition json_of_cancellation :: "CancellationRequest \<Rightarrow> json" where
  "json_of_cancellation r = JObj
     [(''order_id'', json_opt JUuid (cn_order_id r)),
      (''intent_id'', json_opt JUuid (cn_intent_id r)),
      (''condition_id'', jstr_opt (cn_condition_id r)),
      (''all_open_orders'', JBool (cn_all_open_orders r)),
      (''reason'', JStr (cn_reason r))]"

text \<open>
  \<open>Deserialize\<close> of the request structs: unknown and repeated fields are errors, an absent or null
  optional field is \<open>None\<close>, and \<open>post_only\<close> and \<open>client_context\<close> have defaults.
\<close>

fun de_string :: "json option \<Rightarrow> string option" where
  "de_string (Some (JStr s)) = Some s"
| "de_string _ = None"

fun de_opt_string :: "json option \<Rightarrow> string option option" where
  "de_opt_string None = Some None"
| "de_opt_string (Some JNull) = Some None"
| "de_opt_string (Some (JStr s)) = Some (Some s)"
| "de_opt_string _ = None"

fun de_opt_time :: "json option \<Rightarrow> instant option option" where
  "de_opt_time None = Some None"
| "de_opt_time (Some JNull) = Some None"
| "de_opt_time (Some (JTime t)) = Some (Some t)"
| "de_opt_time _ = None"

fun de_bool_default :: "json option \<Rightarrow> bool option" where
  "de_bool_default None = Some False"
| "de_bool_default (Some (JBool b)) = Some b"
| "de_bool_default _ = None"

definition known_fields :: "string list \<Rightarrow> json \<Rightarrow> bool" where
  "known_fields names v = (case v of
     JObj kvs \<Rightarrow> distinct (map fst kvs) \<and> list_all (\<lambda>kv. fst kv \<in> set names) kvs
   | _ \<Rightarrow> False)"

definition default_context :: ClientContext where
  "default_context = \<lparr>ctx_strategy = None, ctx_strategy_order_id = None, ctx_correlation_id = None\<rparr>"

definition de_context :: "json option \<Rightarrow> ClientContext option" where
  "de_context v = (case v of
     None \<Rightarrow> Some default_context
   | Some j \<Rightarrow>
       if \<not> known_fields [''strategy'', ''strategy_order_id'', ''correlation_id''] j then None
       else do {
         s \<leftarrow> de_opt_string (jget j ''strategy'');
         so \<leftarrow> de_opt_string (jget j ''strategy_order_id'');
         c \<leftarrow> de_opt_string (jget j ''correlation_id'');
         Some \<lparr>ctx_strategy = s, ctx_strategy_order_id = so, ctx_correlation_id = c\<rparr> })"

definition de_quantity :: "json option \<Rightarrow> Quantity option" where
  "de_quantity v = (case v of
     None \<Rightarrow> None
   | Some j \<Rightarrow>
       if \<not> known_fields [''unit'', ''value''] j then None
       else do {
         u \<leftarrow> de_string (jget j ''unit'');
         un \<leftarrow> unit_from_text u;
         x \<leftarrow> de_string (jget j ''value'');
         Some \<lparr>q_unit = un, q_value = x\<rparr> })"

definition request_of_json :: "json \<Rightarrow> OrderIntentRequest option" where
  "request_of_json j =
     (if \<not> known_fields [''condition_id'', ''token_id'', ''side'', ''time_in_force'', ''quantity'',
           ''limit_price'', ''worst_price'', ''expires_at'', ''post_only'', ''client_context''] j
      then None
      else do {
        cid \<leftarrow> de_string (jget j ''condition_id'');
        tok \<leftarrow> de_string (jget j ''token_id'');
        sd \<leftarrow> de_string (jget j ''side'');
        side \<leftarrow> side_from_text sd;
        tf \<leftarrow> de_string (jget j ''time_in_force'');
        tif \<leftarrow> tif_from_text tf;
        qty \<leftarrow> de_quantity (jget j ''quantity'');
        lp \<leftarrow> de_opt_string (jget j ''limit_price'');
        wp \<leftarrow> de_opt_string (jget j ''worst_price'');
        ex \<leftarrow> de_opt_time (jget j ''expires_at'');
        po \<leftarrow> de_bool_default (jget j ''post_only'');
        ctx \<leftarrow> de_context (jget j ''client_context'');
        Some \<lparr>rq_condition_id = cid, rq_token_id = tok, rq_side = side, rq_time_in_force = tif,
              rq_quantity = qty, rq_limit_price = lp, rq_worst_price = wp, rq_expires_at = ex,
              rq_post_only = po, rq_client_context = ctx\<rparr> })"

text \<open>\<open>IntentRecord::request\<close>: the request is parsed back from its stored JSON.\<close>

definition intent_request :: "IntentRecord \<Rightarrow> OrderIntentRequest option" where
  "intent_request r = request_of_json (in_request_json r)"

section \<open>Validation\<close>

datatype DomainError = InvalidField string string | InvalidCombination string

primrec domain_error_text :: "DomainError \<Rightarrow> string" where
  "domain_error_text (InvalidField field message) = ''invalid '' @ field @ '': '' @ message"
| "domain_error_text (InvalidCombination m) = ''invalid order combination: '' @ m"

definition parse_positive_decimal :: "dec_ops \<Rightarrow> string \<Rightarrow> string \<Rightarrow> (DomainError, decimal) res" where
  "parse_positive_decimal D field raw =
     (case d_from_str_exact D raw of
        None \<Rightarrow> Err (InvalidField field ''must be an exact decimal string'')
      | Some (val, scale) \<Rightarrow>
          if val \<le> 0 then Err (InvalidField field ''must be greater than zero'')
          else if scale > 6 then Err (InvalidField field ''supports at most six decimal places'')
          else Ok val)"

definition quantity_decimal :: "dec_ops \<Rightarrow> OrderIntentRequest \<Rightarrow> (DomainError, decimal) res" where
  "quantity_decimal D r = parse_positive_decimal D ''quantity.value'' (q_value (rq_quantity r))"

definition protection_raw :: "OrderIntentRequest \<Rightarrow> string option" where
  "protection_raw r = (case rq_time_in_force r of
     Gtc \<Rightarrow> rq_limit_price r | Gtd \<Rightarrow> rq_limit_price r
   | Fok \<Rightarrow> rq_worst_price r | Fak \<Rightarrow> rq_worst_price r)"

definition protection_price :: "dec_ops \<Rightarrow> OrderIntentRequest \<Rightarrow> (DomainError, decimal) res" where
  "protection_price D r =
     rbind (ok_or (InvalidField ''price'' ''required for the selected time_in_force'') (protection_raw r))
       (\<lambda>raw. rbind (parse_positive_decimal D ''price'' raw)
         (\<lambda>price. if 1 \<le> price then Err (InvalidField ''price'' ''must be less than 1'') else Ok price))"

abbreviation is_immediate :: "TimeInForce \<Rightarrow> bool" where
  "is_immediate t \<equiv> t = Fok \<or> t = Fak"

definition three_minutes :: instant where
  "three_minutes = 180 * 10 ^ 9"

text \<open>The match on \<open>time_in_force\<close> in \<open>OrderIntentRequest::validate\<close>.\<close>

definition validate_tif :: "OrderIntentRequest \<Rightarrow> instant \<Rightarrow> (DomainError, unit) res" where
  "validate_tif r now = (case rq_time_in_force r of
     Gtc \<Rightarrow>
       if rq_worst_price r \<noteq> None \<or> rq_expires_at r \<noteq> None
       then Err (InvalidCombination ''GTC accepts limit_price and no expiration'') else Ok ()
   | Gtd \<Rightarrow>
       if rq_worst_price r \<noteq> None then Err (InvalidCombination ''GTD does not accept worst_price'')
       else rbind (ok_or (InvalidField ''expires_at'' ''required for GTD'') (rq_expires_at r))
         (\<lambda>e. if e < now + three_minutes
               then Err (InvalidField ''expires_at'' ''must be at least three minutes in the future'')
               else Ok ())
   | _ \<Rightarrow>
       if rq_limit_price r \<noteq> None \<or> rq_expires_at r \<noteq> None \<or> rq_post_only r
       then Err (InvalidCombination ''FOK/FAK accept worst_price and cannot be post_only or expiring'')
       else if q_unit (rq_quantity r) \<noteq> (case rq_side r of Buy \<Rightarrow> Quote | Sell \<Rightarrow> Shares)
       then Err (InvalidCombination ''immediate buys use quote; immediate sells use shares'')
       else Ok ())"

definition validate_request :: "dec_ops \<Rightarrow> OrderIntentRequest \<Rightarrow> instant \<Rightarrow> (DomainError, unit) res" where
  "validate_request D r now =
     (if rq_condition_id r = [] \<or> length (rq_condition_id r) > 128
      then Err (InvalidField ''condition_id'' ''must contain 1 to 128 characters'')
      else if rq_token_id r = [] \<or> length (rq_token_id r) > 128 \<or> \<not> list_all ascii_digit (rq_token_id r)
      then Err (InvalidField ''token_id'' ''must be a decimal token identifier'')
      else rbind (quantity_decimal D r) (\<lambda>_.
           rbind (protection_price D r) (\<lambda>_.
           rbind (validate_tif r now) (\<lambda>_.
             if (rq_time_in_force r = Gtc \<or> rq_time_in_force r = Gtd) \<and> q_unit (rq_quantity r) \<noteq> Shares
             then Err (InvalidCombination ''resting orders use share quantity'')
             else Ok ()))))"

definition validate_cancellation :: "CancellationRequest \<Rightarrow> (DomainError, unit) res" where
  "validate_cancellation r =
     (if of_bool (cn_order_id r \<noteq> None) + of_bool (cn_intent_id r \<noteq> None)
          + of_bool (cn_condition_id r \<noteq> None) + of_bool (cn_all_open_orders r) \<noteq> (1::nat)
      then Err (InvalidCombination ''exactly one cancellation selector is required'')
      else if is_blank (cn_reason r) \<or> length (cn_reason r) > 512
      then Err (InvalidField ''reason'' ''must contain 1 to 512 characters'')
      else Ok ())"

section \<open>Properties\<close>

lemma side_roundtrip [simp]: "side_from_text (side_text s) = Some s"
  by (cases s) (auto simp: side_from_text_def)

lemma tif_roundtrip [simp]: "tif_from_text (tif_text t) = Some t"
  by (cases t) (auto simp: tif_from_text_def)

lemma unit_roundtrip [simp]: "unit_from_text (unit_text u) = Some u"
  by (cases u) (auto simp: unit_from_text_def)

lemma mode_roundtrip [simp]: "mode_from_str (mode_text m) = Some m"
  by (cases m) (auto simp: mode_from_str_def)

lemma de_opt_string_jstr [simp]: "de_opt_string (Some (jstr_opt x)) = Some x"
  by (cases x) auto

lemma de_opt_time_jtime [simp]: "de_opt_time (Some (json_opt JTime x)) = Some x"
  by (cases x) auto

lemma de_context_roundtrip [simp]: "de_context (Some (json_of_context c)) = Some c"
  by (simp add: de_context_def json_of_context_def known_fields_def jget_def)

lemma de_quantity_roundtrip [simp]: "de_quantity (Some (json_of_quantity q)) = Some q"
  by (simp add: de_quantity_def json_of_quantity_def known_fields_def jget_def)

text \<open>
  The JSON text the journal stores for an order intent reads back as exactly the request it was
  written from, so recovery after a restart works on the admitted request.
\<close>

theorem request_json_roundtrip: "request_of_json (json_of_request r) = Some r"
  by (simp add: request_of_json_def json_of_request_def known_fields_def jget_def)

subsection \<open>Which requests are accepted\<close>

definition exact_amount :: "dec_ops \<Rightarrow> string \<Rightarrow> decimal \<Rightarrow> bool" where
  "exact_amount D raw x \<longleftrightarrow> (\<exists>scale \<le> 6. d_from_str_exact D raw = Some (x, scale)) \<and> 0 < x"

lemma parse_positive_decimal_Ok:
  "parse_positive_decimal D f raw = Ok x \<longleftrightarrow> exact_amount D raw x"
  by (auto simp: parse_positive_decimal_def exact_amount_def split: option.splits prod.splits)

lemma parse_positive_decimal_no_panic [simp]: "parse_positive_decimal D f raw \<noteq> Panic"
  by (auto simp: parse_positive_decimal_def split: option.splits)

lemma quantity_decimal_Ok: "quantity_decimal D r = Ok x \<longleftrightarrow> exact_amount D (q_value (rq_quantity r)) x"
  by (simp add: quantity_decimal_def parse_positive_decimal_Ok)

lemma protection_price_Ok:
  "protection_price D r = Ok x \<longleftrightarrow> (\<exists>raw. protection_raw r = Some raw \<and> exact_amount D raw x) \<and> x < 1"
  by (auto simp: protection_price_def res_simps parse_positive_decimal_Ok split: if_splits)

lemma quantity_decimal_pos: "quantity_decimal D r = Ok x \<Longrightarrow> 0 < x"
  by (auto simp: quantity_decimal_Ok exact_amount_def)

lemma protection_price_range: "protection_price D r = Ok x \<Longrightarrow> 0 < x \<and> x < 1"
  by (auto simp: protection_price_Ok exact_amount_def)

text \<open>The documented shape of each time in force, as a table.\<close>

definition tif_shape :: "OrderIntentRequest \<Rightarrow> instant \<Rightarrow> bool" where
  "tif_shape r now \<longleftrightarrow>
     (rq_time_in_force r = Gtc \<longrightarrow>
        rq_worst_price r = None \<and> rq_expires_at r = None \<and> q_unit (rq_quantity r) = Shares) \<and>
     (rq_time_in_force r = Gtd \<longrightarrow>
        rq_worst_price r = None \<and> q_unit (rq_quantity r) = Shares
        \<and> (\<exists>e \<ge> now + three_minutes. rq_expires_at r = Some e)) \<and>
     (is_immediate (rq_time_in_force r) \<longrightarrow>
        rq_limit_price r = None \<and> rq_expires_at r = None \<and> \<not> rq_post_only r
        \<and> q_unit (rq_quantity r) = (if rq_side r = Buy then Quote else Shares))"

lemma validate_tif_Ok:
  "validate_tif r now = Ok () \<and> \<not> ((rq_time_in_force r = Gtc \<or> rq_time_in_force r = Gtd)
      \<and> q_unit (rq_quantity r) \<noteq> Shares) \<longleftrightarrow> tif_shape r now"
  by (cases "rq_time_in_force r"; cases "rq_side r"; cases "rq_expires_at r")
     (auto simp: validate_tif_def tif_shape_def)

text \<open>
  A request passes validation exactly when its identifiers are well formed, its quantity is a
  positive exact decimal of at most six places, its protection price is such a decimal below one,
  and its remaining fields have the shape documented for its time in force.
\<close>

theorem validate_request_iff:
  "validate_request D r now = Ok () \<longleftrightarrow>
     rq_condition_id r \<noteq> [] \<and> length (rq_condition_id r) \<le> 128
     \<and> rq_token_id r \<noteq> [] \<and> length (rq_token_id r) \<le> 128 \<and> list_all ascii_digit (rq_token_id r)
     \<and> (\<exists>q. exact_amount D (q_value (rq_quantity r)) q)
     \<and> (\<exists>raw p. protection_raw r = Some raw \<and> exact_amount D raw p \<and> p < 1)
     \<and> tif_shape r now"
  unfolding validate_tif_Ok [symmetric]
  by (auto simp: validate_request_def res_simps quantity_decimal_Ok protection_price_Ok)

lemma quantity_decimal_no_panic [simp]: "quantity_decimal D r \<noteq> Panic"
  by (simp add: quantity_decimal_def)

lemma protection_price_no_panic [simp]: "protection_price D r \<noteq> Panic"
  by (auto simp: protection_price_def rbind_eq_Panic split: if_splits)

lemma validate_tif_no_panic [simp]: "validate_tif r now \<noteq> Panic"
  by (cases "rq_time_in_force r") (auto simp: validate_tif_def rbind_eq_Panic split: if_splits)

lemma validate_request_no_panic: "validate_request D r now \<noteq> Panic"
  by (simp add: validate_request_def rbind_eq_Panic)

text \<open>
  A cancellation request is accepted exactly when one and only one selector is given and the
  reason is not blank and at most 512 bytes long.
\<close>

theorem validate_cancellation_iff:
  "validate_cancellation r = Ok () \<longleftrightarrow>
     ((\<exists>i. cn_order_id r = Some i \<and> cn_intent_id r = None \<and> cn_condition_id r = None \<and> \<not> cn_all_open_orders r)
      \<or> (\<exists>i. cn_order_id r = None \<and> cn_intent_id r = Some i \<and> cn_condition_id r = None \<and> \<not> cn_all_open_orders r)
      \<or> (\<exists>c. cn_order_id r = None \<and> cn_intent_id r = None \<and> cn_condition_id r = Some c \<and> \<not> cn_all_open_orders r)
      \<or> (cn_order_id r = None \<and> cn_intent_id r = None \<and> cn_condition_id r = None \<and> cn_all_open_orders r))
     \<and> \<not> is_blank (cn_reason r) \<and> length (cn_reason r) \<le> 512"
  by (cases "cn_order_id r"; cases "cn_intent_id r"; cases "cn_condition_id r"; cases "cn_all_open_orders r")
     (auto simp: validate_cancellation_def)

end
