(* ===== verification/Venue.thy ===== *)
theory Venue
  imports Domain
begin

text \<open>
  \<open>src/src/venue/mod.rs\<close>: the venue-neutral data the coordinator exchanges with a venue (market
  rules, order books, prepared orders, submissions, observed orders, trades and positions) and the
  classification of venue errors.  The lemmas say what the best prices and the visible depth of a
  book are.
\<close>

record MarketRules =
  mk_condition_id :: string
  mk_token_id :: string
  mk_active :: bool
  mk_closed :: bool
  mk_accepting_orders :: bool
  mk_tick_size :: decimal
  mk_minimum_order_size :: decimal
  mk_negative_risk :: bool
  mk_maker_fee_rate :: decimal
  mk_taker_fee_rate :: decimal
  mk_observed_at :: instant

record PriceLevel =
  pl_price :: decimal
  pl_size :: decimal

record OrderBook =
  bk_bids :: "PriceLevel list"
  bk_asks :: "PriceLevel list"
  bk_observed_at :: instant
  bk_hash :: "string option"

record PreparedVenueOrder =
  pv_deterministic_order_id :: string
  pv_normalized_json :: json
  pv_signed_payload_json :: "string option"
  pv_signer_address :: "string option"
  pv_funder_address :: "string option"
  pv_protocol_version :: nat
  pv_sdk_version :: string

record VenueSubmission =
  vs_venue_order_id :: string
  vs_state :: OrderState
  vs_filled_quantity :: decimal
  vs_filled_price :: "decimal option"
  vs_venue_trade_ids :: "string list"
  vs_evidence :: json

record VenueCancellation =
  vc_state :: OrderState
  vc_evidence :: json

record ObservedVenueOrder =
  ob_venue_order_id :: string
  ob_state :: OrderState
  ob_remaining_quantity :: decimal
  ob_filled_quantity :: decimal
  ob_filled_price :: "decimal option"
  ob_venue_trade_ids :: "string list"
  ob_evidence :: json

record ObservedVenueTrade =
  ot_venue_trade_id :: string
  ot_venue_order_ids :: "string list"
  ot_status :: TradeState
  ot_evidence :: json

record ObservedVenuePosition =
  op_condition_id :: string
  op_token_id :: string
  op_shares :: decimal
  op_evidence :: json

record ReconciliationResult =
  rr_orders_observed :: nat
  rr_trades_observed :: nat
  rr_observed_orders :: "ObservedVenueOrder list"
  rr_observed_trades :: "ObservedVenueTrade list"
  rr_observed_positions :: "ObservedVenuePosition list"
  rr_critical_findings :: "string list"

datatype VenueError =
    Market string
  | Stale string
  | VenueRejected string
  | Ambiguous string
  | Unavailable string
  | MatchingEngineRestart string
  | ProtocolMismatch string
  | GeographicRestricted string
  | LiveNotCompiled
  | LiveNotConfigured string

fun is_ambiguous :: "VenueError \<Rightarrow> bool" where
  "is_ambiguous (Ambiguous m) = True"
| "is_ambiguous _ = False"

fun requires_halt :: "VenueError \<Rightarrow> bool" where
  "requires_halt (Ambiguous m) = True"
| "requires_halt (MatchingEngineRestart m) = True"
| "requires_halt (ProtocolMismatch m) = True"
| "requires_halt (GeographicRestricted m) = True"
| "requires_halt _ = False"

fun venue_error_text :: "VenueError \<Rightarrow> string" where
  "venue_error_text (Market m) = ''market validation failed: '' @ m"
| "venue_error_text (Stale m) = ''venue is stale: '' @ m"
| "venue_error_text (VenueRejected m) = ''venue rejected request: '' @ m"
| "venue_error_text (Ambiguous m) = ''venue response is ambiguous: '' @ m"
| "venue_error_text (Unavailable m) = ''venue temporarily unavailable: '' @ m"
| "venue_error_text (MatchingEngineRestart m) = ''matching engine is restarting: '' @ m"
| "venue_error_text (ProtocolMismatch m) = ''venue protocol mismatch: '' @ m"
| "venue_error_text (GeographicRestricted m) = ''geographic policy prohibits new orders: '' @ m"
| "venue_error_text LiveNotCompiled = ''live support is not compiled into this binary''"
| "venue_error_text (LiveNotConfigured m) = ''live trading is not configured: '' @ m"

section \<open>Order book queries\<close>

fun iter_max :: "decimal list \<Rightarrow> decimal option" where
  "iter_max [] = None"
| "iter_max (x # xs) = Some (fold max xs x)"

fun iter_min :: "decimal list \<Rightarrow> decimal option" where
  "iter_min [] = None"
| "iter_min (x # xs) = Some (fold min xs x)"

definition best_bid :: "OrderBook \<Rightarrow> decimal option" where
  "best_bid b = iter_max (map pl_price (bk_bids b))"

definition best_ask :: "OrderBook \<Rightarrow> decimal option" where
  "best_ask b = iter_min (map pl_price (bk_asks b))"

definition ask_depth_through :: "dec_ops \<Rightarrow> OrderBook \<Rightarrow> decimal \<Rightarrow> decimal option" where
  "ask_depth_through D b price =
     d_sum_from D 0 (map pl_size (filter (\<lambda>l. pl_price l \<le> price) (bk_asks b)))"

definition bid_depth_through :: "dec_ops \<Rightarrow> OrderBook \<Rightarrow> decimal \<Rightarrow> decimal option" where
  "bid_depth_through D b price =
     d_sum_from D 0 (map pl_size (filter (\<lambda>l. pl_price l \<ge> price) (bk_bids b)))"

lemma fold_max_rat: "fold max xs (x :: rat) = Max (set (x # xs))"
  by (rule Max.set_eq_fold [symmetric])

lemma fold_min_rat: "fold min xs (x :: rat) = Min (set (x # xs))"
  by (rule Min.set_eq_fold [symmetric])

lemma iter_max_Some_iff: "iter_max xs = Some m \<longleftrightarrow> m \<in> set xs \<and> (\<forall>x \<in> set xs. x \<le> m)"
proof (cases xs)
  case (Cons y ys)
  have *: "iter_max xs = Some (Max (set xs))"
    by (simp only: Cons iter_max.simps fold_max_rat)
  have "set xs \<noteq> {}" using Cons by simp
  then show ?thesis
    unfolding * using Max_eq_iff [of "set xs" m] by auto
qed simp

lemma iter_min_Some_iff: "iter_min xs = Some m \<longleftrightarrow> m \<in> set xs \<and> (\<forall>x \<in> set xs. m \<le> x)"
proof (cases xs)
  case (Cons y ys)
  have *: "iter_min xs = Some (Min (set xs))"
    by (simp only: Cons iter_min.simps fold_min_rat)
  have "set xs \<noteq> {}" using Cons by simp
  then show ?thesis
    unfolding * using Min_eq_iff [of "set xs" m] by auto
qed simp

lemma best_ask_le: "best_ask b = Some a \<Longrightarrow> l \<in> set (bk_asks b) \<Longrightarrow> a \<le> pl_price l"
  by (auto simp: best_ask_def iter_min_Some_iff)

lemma best_bid_ge: "best_bid b = Some a \<Longrightarrow> l \<in> set (bk_bids b) \<Longrightarrow> pl_price l \<le> a"
  by (auto simp: best_bid_def iter_max_Some_iff)

lemma ambiguous_requires_halt: "is_ambiguous e \<Longrightarrow> requires_halt e"
  by (cases e) auto

end
