(* ===== verification/Risk.thy ===== *)
theory Risk
  imports Venue
begin

text \<open>
  \<open>src/src/risk.rs\<close>: the risk policy, its validation, the conservative exposure of an order and the
  evaluation of an intent against the policy and a snapshot of the account's exposure (the snapshot
  type is \<open>RiskSnapshot\<close> of \<open>src/src/store.rs\<close>).  A result \<open>None\<close> of the pure functions is a panic of
  the decimal arithmetic.  The lemmas show that an approval means every limit holds with the order
  added, that nothing else is rejected, and that a loaded policy never makes the evaluation panic
  on its own text.
\<close>

record RiskPolicy =
  rp_version :: string
  rp_allowed_condition_ids :: "string set"
  rp_allowed_token_ids :: "string set"
  rp_allowed_sides :: "Side set"
  rp_allowed_time_in_force :: "TimeInForce set"
  rp_max_quote_per_order :: string
  rp_max_shares_per_order :: string
  rp_max_open_orders :: nat
  rp_max_open_notional_per_market :: string
  rp_max_net_position_per_token :: string
  rp_max_gross_exposure :: string
  rp_max_daily_matched_notional :: string
  rp_max_worst_price_distance :: string
  rp_min_visible_depth :: string
  rp_max_market_metadata_age_seconds :: nat
  rp_max_order_book_age_seconds :: nat
  rp_max_user_stream_age_seconds :: nat
  rp_max_reconciliation_age_seconds :: nat
  rp_cancel_on_halt :: bool

record RiskDecision =
  rd_approved :: bool
  rd_reason_code :: string
  rd_message :: string
  rd_observed :: json
  rd_policy_version :: string

record RiskSnapshot =
  sn_open_order_count :: nat
  sn_market_open_notional :: decimal
  sn_token_position :: decimal
  sn_token_pending_buys :: decimal
  sn_token_pending_sells :: decimal
  sn_gross_exposure :: decimal
  sn_daily_matched_notional :: decimal

definition policy_decimals :: "RiskPolicy \<Rightarrow> (string \<times> string) list" where
  "policy_decimals p =
     [(''max_quote_per_order'', rp_max_quote_per_order p),
      (''max_shares_per_order'', rp_max_shares_per_order p),
      (''max_open_notional_per_market'', rp_max_open_notional_per_market p),
      (''max_net_position_per_token'', rp_max_net_position_per_token p),
      (''max_gross_exposure'', rp_max_gross_exposure p),
      (''max_daily_matched_notional'', rp_max_daily_matched_notional p),
      (''max_worst_price_distance'', rp_max_worst_price_distance p),
      (''min_visible_depth'', rp_min_visible_depth p)]"

fun validate_decimals :: "dec_ops \<Rightarrow> (string \<times> string) list \<Rightarrow> (string, unit) res" where
  "validate_decimals D [] = Ok ()"
| "validate_decimals D ((name, raw) # rest) =
     (case d_from_str_exact D raw of
        None \<Rightarrow> Err (name @ '' must be an exact decimal string'')
      | Some (val, _) \<Rightarrow>
          if val < 0 then Err (name @ '' may not be negative'')
          else validate_decimals D rest)"

definition validate_policy :: "dec_ops \<Rightarrow> RiskPolicy \<Rightarrow> (string, unit) res" where
  "validate_policy D p =
     (if is_blank (rp_version p) then Err ''risk policy version is required''
      else if rp_max_open_orders p = 0 then Err ''max_open_orders must be positive''
      else if \<not> (rp_max_market_metadata_age_seconds p > 0 \<and> rp_max_order_book_age_seconds p > 0
                 \<and> rp_max_user_stream_age_seconds p > 0 \<and> rp_max_reconciliation_age_seconds p > 0)
      then Err ''risk freshness limits must be positive''
      else validate_decimals D (policy_decimals p))"

definition conservative_exposure ::
  "dec_ops \<Rightarrow> OrderIntentRequest \<Rightarrow> MarketRules \<Rightarrow> decimal \<Rightarrow> decimal \<Rightarrow> (decimal \<times> decimal) option option" where
  "conservative_exposure D request market quantity price =
     (if rq_side request = Buy \<and> is_immediate (rq_time_in_force request)
      then (if mk_tick_size market > 0
            then do { shares \<leftarrow> d_div D quantity (mk_tick_size market); Some (Some (shares, quantity)) }
            else Some None)
      else do { quote \<leftarrow> d_mul D price quantity; Some (Some (quantity, quote)) })"

definition reject :: "RiskPolicy \<Rightarrow> string \<Rightarrow> string \<Rightarrow> json \<Rightarrow> RiskDecision option" where
  "reject p code message observed =
     Some \<lparr>rd_approved = False, rd_reason_code = code, rd_message = message, rd_observed = observed,
           rd_policy_version = rp_version p\<rparr>"

text \<open>The limit checks, from the exposure of the order to the daily notional.\<close>

definition evaluate_book ::
  "dec_ops \<Rightarrow> RiskPolicy \<Rightarrow> OrderIntentRequest \<Rightarrow> OrderBook \<Rightarrow> decimal \<Rightarrow> RiskDecision option \<Rightarrow> RiskDecision option" where
  "evaluate_book D p request book price approve =
     (if is_immediate (rq_time_in_force request)
      then do {
        visible_depth \<leftarrow> (case rq_side request of
            Buy \<Rightarrow> ask_depth_through D book price | Sell \<Rightarrow> bid_depth_through D book price);
        (case (case rq_side request of Buy \<Rightarrow> best_ask book | Sell \<Rightarrow> best_bid book) of
           None \<Rightarrow> reject p ''RISK_EMPTY_BOOK'' ''book has no executable liquidity'' (JObj [])
         | Some reference \<Rightarrow> do {
             diff \<leftarrow> d_sub D price reference;
             distance_limit \<leftarrow> d_from_str D (rp_max_worst_price_distance p);
             if \<bar>diff\<bar> > distance_limit
             then reject p ''RISK_WORST_PRICE_DISTANCE'' ''worst price is too far from the current book''
                    (JObj [(''observed'', JDec \<bar>diff\<bar>), (''limit'', JDec distance_limit)])
             else do {
               depth_limit \<leftarrow> d_from_str D (rp_min_visible_depth p);
               if visible_depth < depth_limit
               then reject p ''RISK_MIN_VISIBLE_DEPTH'' ''visible executable depth is below policy''
                      (JObj [(''observed'', JDec visible_depth), (''limit'', JDec depth_limit)])
               else approve } }) }
      else approve)"

definition long_case :: "dec_ops \<Rightarrow> OrderIntentRequest \<Rightarrow> RiskSnapshot \<Rightarrow> decimal \<Rightarrow> decimal option" where
  "long_case D request s shares = do {
     a \<leftarrow> d_add D (sn_token_position s) (sn_token_pending_buys s);
     d_add D a (if rq_side request = Buy then shares else 0) }"

definition short_case :: "dec_ops \<Rightarrow> OrderIntentRequest \<Rightarrow> RiskSnapshot \<Rightarrow> decimal \<Rightarrow> decimal option" where
  "short_case D request s shares = do {
     a \<leftarrow> d_sub D (sn_token_position s) (sn_token_pending_sells s);
     d_sub D a (if rq_side request = Sell then shares else 0) }"

definition gross_case :: "dec_ops \<Rightarrow> OrderIntentRequest \<Rightarrow> MarketRules \<Rightarrow> RiskSnapshot \<Rightarrow> decimal \<Rightarrow> decimal option" where
  "gross_case D request market s quote = do {
     extra \<leftarrow> (if rq_side request = Buy
               then do { fee \<leftarrow> d_mul D quote (mk_taker_fee_rate market); d_add D quote fee }
               else Some 0);
     d_add D (sn_gross_exposure s) extra }"

definition evaluate_limits ::
  "dec_ops \<Rightarrow> RiskPolicy \<Rightarrow> OrderIntentRequest \<Rightarrow> MarketRules \<Rightarrow> OrderBook \<Rightarrow> RiskSnapshot
     \<Rightarrow> decimal \<Rightarrow> decimal \<Rightarrow> decimal \<Rightarrow> RiskDecision option" where
  "evaluate_limits D p request market book s price shares quote = do {
     max_shares \<leftarrow> d_from_str D (rp_max_shares_per_order p);
     max_quote \<leftarrow> d_from_str D (rp_max_quote_per_order p);
     if shares > max_shares
     then reject p ''RISK_MAX_SHARES_PER_ORDER'' ''share quantity exceeds policy''
            (JObj [(''observed'', JDec shares), (''limit'', JDec max_shares)])
     else if quote > max_quote
     then reject p ''RISK_MAX_QUOTE_PER_ORDER'' ''quote notional exceeds policy''
            (JObj [(''observed'', JDec quote), (''limit'', JDec max_quote)])
     else if sn_open_order_count s \<ge> rp_max_open_orders p
     then reject p ''RISK_MAX_OPEN_ORDERS'' ''open order count exceeds policy''
            (JObj [(''observed'', JInt (int (sn_open_order_count s))), (''limit'', JInt (int (rp_max_open_orders p)))])
     else do {
       market_after \<leftarrow> d_add D (sn_market_open_notional s) quote;
       market_limit \<leftarrow> d_from_str D (rp_max_open_notional_per_market p);
       if market_after > market_limit
       then reject p ''RISK_MAX_MARKET_EXPOSURE'' ''worst-case market exposure would exceed policy''
              (JObj [(''observed'', JDec market_after), (''limit'', JDec market_limit)])
       else do {
         long_after \<leftarrow> long_case D request s shares;
         short_after \<leftarrow> short_case D request s shares;
         let worst_position_after = max \<bar>long_after\<bar> \<bar>short_after\<bar>;
         position_limit \<leftarrow> d_from_str D (rp_max_net_position_per_token p);
         if worst_position_after > position_limit
         then reject p ''RISK_MAX_TOKEN_POSITION'' ''worst-case token position would exceed policy''
                (JObj [(''observed'', JDec worst_position_after), (''long_case'', JDec long_after),
                       (''short_case'', JDec short_after), (''limit'', JDec position_limit)])
         else do {
           gross_after \<leftarrow> gross_case D request market s quote;
           gross_limit \<leftarrow> d_from_str D (rp_max_gross_exposure p);
           if gross_after > gross_limit
           then reject p ''RISK_MAX_GROSS_EXPOSURE'' ''worst-case gross exposure would exceed policy''
                  (JObj [(''observed'', JDec gross_after), (''limit'', JDec gross_limit)])
           else do {
             daily_after \<leftarrow> d_add D (sn_daily_matched_notional s) quote;
             daily_limit \<leftarrow> d_from_str D (rp_max_daily_matched_notional p);
             if daily_after > daily_limit
             then reject p ''RISK_MAX_DAILY_MATCHED_NOTIONAL'' ''daily matched notional would exceed policy''
                    (JObj [(''observed'', JDec daily_after), (''limit'', JDec daily_limit)])
             else evaluate_book D p request book price
               (Some \<lparr>rd_approved = True, rd_reason_code = ''RISK_APPROVED'',
                      rd_message = ''intent satisfies policy'',
                      rd_observed = JObj
                        [(''quote'', JDec quote), (''shares'', JDec shares),
                         (''gross_after'', JDec gross_after), (''market_after'', JDec market_after),
                         (''long_position_after'', JDec long_after),
                         (''short_position_after'', JDec short_after)],
                      rd_policy_version = rp_version p\<rparr>) } } } } }"

definition evaluate ::
  "dec_ops \<Rightarrow> RiskPolicy \<Rightarrow> OrderIntentRequest \<Rightarrow> MarketRules \<Rightarrow> OrderBook \<Rightarrow> RiskSnapshot \<Rightarrow> RiskDecision option" where
  "evaluate D p request market book s =
     (if rp_allowed_condition_ids p \<noteq> {} \<and> rq_condition_id request \<notin> rp_allowed_condition_ids p
      then reject p ''RISK_CONDITION_NOT_ALLOWED'' ''condition is not allowlisted''
             (JObj [(''condition_id'', JStr (rq_condition_id request))])
      else if rp_allowed_token_ids p \<noteq> {} \<and> rq_token_id request \<notin> rp_allowed_token_ids p
      then reject p ''RISK_TOKEN_NOT_ALLOWED'' ''token is not allowlisted''
             (JObj [(''token_id'', JStr (rq_token_id request))])
      else if rq_side request \<notin> rp_allowed_sides p
      then reject p ''RISK_SIDE_NOT_ALLOWED'' ''side is not allowed''
             (JObj [(''side'', JStr (side_text (rq_side request)))])
      else if rq_time_in_force request \<notin> rp_allowed_time_in_force p
      then reject p ''RISK_TIF_NOT_ALLOWED'' ''time in force is not allowed''
             (JObj [(''time_in_force'', JStr (tif_text (rq_time_in_force request)))])
      else if \<not> mk_active market \<or> mk_closed market \<or> \<not> mk_accepting_orders market
      then reject p ''MARKET_NOT_ACCEPTING_ORDERS'' ''market is not active and accepting orders''
             (JObj [(''active'', JBool (mk_active market)), (''closed'', JBool (mk_closed market)),
                    (''accepting_orders'', JBool (mk_accepting_orders market))])
      else (case quantity_decimal D request of
          Panic \<Rightarrow> None
        | Err e \<Rightarrow> reject p ''ORDER_INVALID_QUANTITY'' (domain_error_text e) (JObj [])
        | Ok quantity \<Rightarrow>
           (case protection_price D request of
              Panic \<Rightarrow> None
            | Err e \<Rightarrow> reject p ''ORDER_INVALID_PRICE'' (domain_error_text e) (JObj [])
            | Ok price \<Rightarrow> do {
                exposure \<leftarrow> conservative_exposure D request market quantity price;
                (case exposure of
                   None \<Rightarrow> reject p ''MARKET_RULES_INVALID'' ''market tick size must be positive''
                             (JObj [(''tick_size'', JDec (mk_tick_size market))])
                 | Some (shares, quote) \<Rightarrow> evaluate_limits D p request market book s price shares quote) })))"

definition default_sides :: "Side set" where
  "default_sides = {Buy, Sell}"

definition default_time_in_force :: "TimeInForce set" where
  "default_time_in_force = {Gtc, Gtd, Fok, Fak}"

definition default_cancel_on_halt :: bool where
  "default_cancel_on_halt = True"

section \<open>What an approval means\<close>

text \<open>The policy read as a specification: limits are inequalities between rational numbers.\<close>

definition at_most :: "dec_ops \<Rightarrow> string \<Rightarrow> decimal \<Rightarrow> bool" where
  "at_most D raw x \<longleftrightarrow> (\<exists>limit. d_from_str D raw = Some limit \<and> x \<le> limit)"

definition at_least :: "dec_ops \<Rightarrow> string \<Rightarrow> decimal \<Rightarrow> bool" where
  "at_least D raw x \<longleftrightarrow> (\<exists>limit. d_from_str D raw = Some limit \<and> limit \<le> x)"

lemma at_most_Some: "d_from_str D raw = Some l \<Longrightarrow> at_most D raw x \<longleftrightarrow> x \<le> l"
  by (simp add: at_most_def)

lemma at_least_Some: "d_from_str D raw = Some l \<Longrightarrow> at_least D raw x \<longleftrightarrow> l \<le> x"
  by (simp add: at_least_def)

text \<open>The book is close and deep enough for an immediate order.\<close>

definition book_supports :: "dec_ops \<Rightarrow> RiskPolicy \<Rightarrow> OrderIntentRequest \<Rightarrow> OrderBook \<Rightarrow> decimal \<Rightarrow> bool" where
  "book_supports D p r book price \<longleftrightarrow>
     (case rq_side r of
        Buy \<Rightarrow> (\<exists>a. best_ask book = Some a \<and> at_most D (rp_max_worst_price_distance p) \<bar>price - a\<bar>)
               \<and> at_least D (rp_min_visible_depth p)
                   (\<Sum>l \<leftarrow> bk_asks book. if pl_price l \<le> price then pl_size l else 0)
      | Sell \<Rightarrow> (\<exists>a. best_bid book = Some a \<and> at_most D (rp_max_worst_price_distance p) \<bar>price - a\<bar>)
               \<and> at_least D (rp_min_visible_depth p)
                   (\<Sum>l \<leftarrow> bk_bids book. if price \<le> pl_price l then pl_size l else 0))"

definition exposure_within :: "dec_ops \<Rightarrow> RiskPolicy \<Rightarrow> OrderIntentRequest \<Rightarrow> MarketRules \<Rightarrow> RiskSnapshot
    \<Rightarrow> decimal \<Rightarrow> decimal \<Rightarrow> bool" where
  "exposure_within D p r m s shares quote \<longleftrightarrow>
     at_most D (rp_max_shares_per_order p) shares
     \<and> at_most D (rp_max_quote_per_order p) quote
     \<and> sn_open_order_count s < rp_max_open_orders p
     \<and> at_most D (rp_max_open_notional_per_market p) (sn_market_open_notional s + quote)
     \<and> at_most D (rp_max_net_position_per_token p)
          (max \<bar>sn_token_position s + sn_token_pending_buys s + (if rq_side r = Buy then shares else 0)\<bar>
               \<bar>sn_token_position s - sn_token_pending_sells s - (if rq_side r = Sell then shares else 0)\<bar>)
     \<and> at_most D (rp_max_gross_exposure p)
          (sn_gross_exposure s + (if rq_side r = Buy then quote * (1 + mk_taker_fee_rate m) else 0))
     \<and> at_most D (rp_max_daily_matched_notional p) (sn_daily_matched_notional s + quote)"

definition request_permitted :: "RiskPolicy \<Rightarrow> OrderIntentRequest \<Rightarrow> MarketRules \<Rightarrow> bool" where
  "request_permitted p r m \<longleftrightarrow>
     (rp_allowed_condition_ids p = {} \<or> rq_condition_id r \<in> rp_allowed_condition_ids p)
     \<and> (rp_allowed_token_ids p = {} \<or> rq_token_id r \<in> rp_allowed_token_ids p)
     \<and> rq_side r \<in> rp_allowed_sides p \<and> rq_time_in_force r \<in> rp_allowed_time_in_force p
     \<and> mk_active m \<and> \<not> mk_closed m \<and> mk_accepting_orders m"

definition policy_allows :: "dec_ops \<Rightarrow> RiskPolicy \<Rightarrow> OrderIntentRequest \<Rightarrow> MarketRules \<Rightarrow> OrderBook \<Rightarrow> RiskSnapshot \<Rightarrow> bool" where
  "policy_allows D p r m book s \<longleftrightarrow>
     request_permitted p r m \<and>
     (\<exists>quantity price shares quote.
        quantity_decimal D r = Ok quantity \<and> protection_price D r = Ok price
        \<and> conservative_exposure D r m quantity price = Some (Some (shares, quote))
        \<and> exposure_within D p r m s shares quote
        \<and> (rq_time_in_force r \<in> {Gtc, Gtd} \<or> book_supports D p r book price))"

lemma sum_filter_sizes: "sum_list (map f (filter P xs)) = (\<Sum>x \<leftarrow> xs. if P x then f x else (0::rat))"
  by (induction xs) auto

lemma ask_depth_exact:
  assumes "dec_exact D"
  shows "ask_depth_through D b p = Some d \<longleftrightarrow> returned (ask_depth_through D b p) \<and>
    d = (\<Sum>l \<leftarrow> bk_asks b. if pl_price l \<le> p then pl_size l else 0)"
  unfolding ask_depth_through_def sum_filter_sizes [symmetric]
  by (subst d_sum_from_eq_Some [OF assms]) simp

lemma bid_depth_exact:
  assumes "dec_exact D"
  shows "bid_depth_through D b p = Some d \<longleftrightarrow> returned (bid_depth_through D b p) \<and>
    d = (\<Sum>l \<leftarrow> bk_bids b. if p \<le> pl_price l then pl_size l else 0)"
  unfolding bid_depth_through_def sum_filter_sizes [symmetric]
  by (subst d_sum_from_eq_Some [OF assms]) simp

lemma reject_eq_Some:
  "reject p c msg ob = Some d \<longleftrightarrow>
     d = \<lparr>rd_approved = False, rd_reason_code = c, rd_message = msg, rd_observed = ob,
          rd_policy_version = rp_version p\<rparr>"
  by (auto simp: reject_def)

lemma reject_not_approved: "reject p c msg ob = Some d \<Longrightarrow> \<not> rd_approved d"
  by (simp add: reject_eq_Some)

lemma returned_value:
  assumes "\<And>z. m = Some z \<Longrightarrow> z = v"
  shows "m = Some y \<longleftrightarrow> returned m \<and> y = v"
  using assms by (auto simp: returned_def)

lemma long_case_exact:
  assumes "dec_exact D"
  shows "long_case D r s x = Some y \<longleftrightarrow> returned (long_case D r s x) \<and>
   y = sn_token_position s + sn_token_pending_buys s + (if rq_side r = Buy then x else 0)"
  by (rule returned_value) (auto simp: long_case_def elim!: bind_SomeE dest!: dec_exactD [OF assms])

lemma short_case_exact:
  assumes "dec_exact D"
  shows "short_case D r s x = Some y \<longleftrightarrow> returned (short_case D r s x) \<and>
   y = sn_token_position s - sn_token_pending_sells s - (if rq_side r = Sell then x else 0)"
  by (rule returned_value) (auto simp: short_case_def elim!: bind_SomeE dest!: dec_exactD [OF assms])

lemma gross_case_exact:
  assumes "dec_exact D"
  shows "gross_case D r m s q = Some y \<longleftrightarrow> returned (gross_case D r m s q) \<and>
   y = sn_gross_exposure s + (if rq_side r = Buy then q * (1 + mk_taker_fee_rate m) else 0)"
  by (rule returned_value)
     (auto simp: gross_case_def algebra_simps split: if_split_asm
       elim!: bind_SomeE dest!: dec_exactD [OF assms])

lemmas risk_exact_simps =
  dec_exact_simps ask_depth_exact bid_depth_exact long_case_exact short_case_exact gross_case_exact

text \<open>The two kinds of check, as elimination rules: the limit is read, the value compared, the rest evaluated.\<close>

lemma if_rejectE:
  assumes "(if c then reject p code msg ob else k) = Some d"
  obtains (rejected) "c" "\<not> rd_approved d" | (passed) "\<not> c" "k = Some d"
  using assms by (cases c) (auto dest: reject_not_approved)

lemma limit_check:
  assumes "d_from_str D raw \<bind> (\<lambda>l. if l < x then reject p c msg (ob l) else k) = Some d"
  obtains (exceeded) "\<not> rd_approved d" "\<not> at_most D raw x"
  | (within) "at_most D raw x" "k = Some d"
  using assms by (elim bind_SomeE if_rejectE) (auto simp: at_most_Some)

lemma depth_check:
  assumes "d_from_str D raw \<bind> (\<lambda>l. if x < l then reject p c msg (ob l) else k) = Some d"
  obtains (short) "\<not> rd_approved d" "\<not> at_least D raw x"
  | (enough) "at_least D raw x" "k = Some d"
  using assms by (elim bind_SomeE if_rejectE) (auto simp: at_least_Some)

lemma evaluate_book_approves:
  assumes D: "dec_exact D" and e: "evaluate_book D p r book price (Some a) = Some d" and a: "rd_approved a"
  shows "rd_approved d \<longleftrightarrow> rq_time_in_force r \<in> {Gtc, Gtd} \<or> book_supports D p r book price"
proof (cases "is_immediate (rq_time_in_force r)")
  case True
  define best where "best = (case rq_side r of Buy \<Rightarrow> best_ask book | Sell \<Rightarrow> best_bid book)"
  define depth where "depth = (case rq_side r of
      Buy \<Rightarrow> \<Sum>l \<leftarrow> bk_asks book. if pl_price l \<le> price then pl_size l else 0
    | Sell \<Rightarrow> \<Sum>l \<leftarrow> bk_bids book. if price \<le> pl_price l then pl_size l else 0)"
  have supports: "book_supports D p r book price \<longleftrightarrow>
      (\<exists>x. best = Some x \<and> at_most D (rp_max_worst_price_distance p) \<bar>price - x\<bar>)
      \<and> at_least D (rp_min_visible_depth p) depth"
    by (cases "rq_side r") (simp_all add: book_supports_def best_def depth_def)
  have depth: "x = depth" if "(case rq_side r of
      Buy \<Rightarrow> ask_depth_through D book price | Sell \<Rightarrow> bid_depth_through D book price) = Some x" for x
    using that by (cases "rq_side r")
      (simp_all add: depth_def ask_depth_exact [OF D] bid_depth_exact [OF D])
  from e True have "rd_approved d \<longleftrightarrow> book_supports D p r book price"
    unfolding evaluate_book_def best_def [symmetric] supports
    apply (simp only: if_True)
    apply (erule bind_SomeE, drule depth)
    apply (cases best)
     apply (simp add: reject_eq_Some)
    apply (simp only: option.case)
    apply (erule bind_SomeE, erule limit_check)
     apply (simp add: dec_exact_simps [OF D])
    apply (erule depth_check)
     apply simp
    apply (simp add: a dec_exact_simps [OF D])
    using a by blast
  moreover from True have "rq_time_in_force r \<notin> {Gtc, Gtd}" by auto
  ultimately show ?thesis by simp
next
  case False
  then have "rq_time_in_force r \<in> {Gtc, Gtd}" by (cases "rq_time_in_force r") auto
  with e a False show ?thesis by (simp add: evaluate_book_def)
qed

lemma evaluate_limits_approves:
  assumes D: "dec_exact D" and e: "evaluate_limits D p r m book s price shares quote = Some d"
  shows "rd_approved d \<longleftrightarrow> exposure_within D p r m s shares quote
           \<and> (rq_time_in_force r \<in> {Gtc, Gtd} \<or> book_supports D p r book price)"
  using e unfolding evaluate_limits_def Let_def exposure_within_def
  apply (erule_tac bind_SomeE, erule_tac bind_SomeE)
  apply (erule if_rejectE, simp add: at_most_Some)
  apply (erule if_rejectE, simp add: at_most_Some)
  apply (erule if_rejectE, simp)
  apply (erule bind_SomeE, erule limit_check, simp add: dec_exact_simps [OF D])
  apply (erule bind_SomeE, erule bind_SomeE, erule limit_check)
   apply (simp add: long_case_exact [OF D] short_case_exact [OF D])
  apply (erule bind_SomeE, erule limit_check, simp add: gross_case_exact [OF D])
  apply (erule bind_SomeE, erule limit_check, simp add: dec_exact_simps [OF D])
  apply (drule evaluate_book_approves [OF D], simp)
  by (simp add: at_most_Some risk_exact_simps [OF D] del: insert_iff)

lemma evaluate_cases:
  assumes "evaluate D p r m book s = Some d"
  obtains (rejected) "\<not> rd_approved d" "\<not> policy_allows D p r m book s"
  | (limits) quantity price shares quote where "request_permitted p r m"
      "quantity_decimal D r = Ok quantity" "protection_price D r = Ok price"
      "conservative_exposure D r m quantity price = Some (Some (shares, quote))"
      "evaluate_limits D p r m book s price shares quote = Some d"
proof (cases "request_permitted p r m")
  case False
  then have "\<not> rd_approved d"
    using assms unfolding evaluate_def request_permitted_def by (elim if_rejectE) auto
  with False that(1) show ?thesis by (auto simp: policy_allows_def)
next
  case True
  with assms have e: "(case quantity_decimal D r of
          Panic \<Rightarrow> None
        | Err e \<Rightarrow> reject p ''ORDER_INVALID_QUANTITY'' (domain_error_text e) (JObj [])
        | Ok quantity \<Rightarrow>
           (case protection_price D r of
              Panic \<Rightarrow> None
            | Err e \<Rightarrow> reject p ''ORDER_INVALID_PRICE'' (domain_error_text e) (JObj [])
            | Ok price \<Rightarrow> do {
                exposure \<leftarrow> conservative_exposure D r m quantity price;
                (case exposure of
                   None \<Rightarrow> reject p ''MARKET_RULES_INVALID'' ''market tick size must be positive''
                             (JObj [(''tick_size'', JDec (mk_tick_size m))])
                 | Some (shares, quote) \<Rightarrow> evaluate_limits D p r m book s price shares quote) })) = Some d"
    unfolding evaluate_def request_permitted_def by (elim if_rejectE) auto
  show ?thesis
  proof (cases "quantity_decimal D r")
    case (Err x) with e that(1) show ?thesis by (auto simp: policy_allows_def dest: reject_not_approved)
  next
    case (Ok quantity)
    note q = this
    show ?thesis
    proof (cases "protection_price D r")
      case (Err x) with e q that(1) show ?thesis by (auto simp: policy_allows_def dest: reject_not_approved)
    next
      case (Ok price)
      with e q obtain ex where ex: "conservative_exposure D r m quantity price = Some ex"
        and d: "(case ex of
                   None \<Rightarrow> reject p ''MARKET_RULES_INVALID'' ''market tick size must be positive''
                             (JObj [(''tick_size'', JDec (mk_tick_size m))])
                 | Some (shares, quote) \<Rightarrow> evaluate_limits D p r m book s price shares quote) = Some d"
        by (auto elim: bind_SomeE)
      show ?thesis
      proof (cases ex)
        case None
        with d ex q Ok that(1) show ?thesis by (auto simp: policy_allows_def dest: reject_not_approved)
      next
        case (Some sq)
        obtain sh qu where "sq = (sh, qu)" by (cases sq)
        with Some d ex q Ok True that(2) show ?thesis by auto
      qed
    qed simp
  qed simp
qed

lemma evaluate_approves:
  assumes "dec_exact D" "evaluate D p r m book s = Some d"
  shows "rd_approved d \<longleftrightarrow> policy_allows D p r m book s"
  using assms(2)
proof (cases rule: evaluate_cases)
  case (limits quantity price shares quote)
  then show ?thesis
    using evaluate_limits_approves [OF assms(1) limits(5)] by (auto simp: policy_allows_def)
qed simp

text \<open>
  C24. The evaluation of an intent approves it exactly when the policy allows it: the identifiers, the
  side and the time in force are permitted, the market accepts orders, and with the order's
  worst-case exposure added every configured limit still holds, and for an immediate order the book
  is close and deep enough.  There is no approval beyond a limit and no other ground for rejection.
\<close>

theorem evaluate_approves_iff:
  assumes "dec_exact D" "evaluate D p r m book s = Some d"
  shows "rd_approved d \<longleftrightarrow> policy_allows D p r m book s"
  using assms by (rule evaluate_approves)

subsection \<open>An example\<close>

definition sample_policy :: RiskPolicy where
  "sample_policy =
     \<lparr>rp_version = ''v1'', rp_allowed_condition_ids = {}, rp_allowed_token_ids = {},
      rp_allowed_sides = {Buy, Sell}, rp_allowed_time_in_force = {Gtc, Gtd, Fok, Fak},
      rp_max_quote_per_order = ''100'', rp_max_shares_per_order = ''100'', rp_max_open_orders = 10,
      rp_max_open_notional_per_market = ''200'', rp_max_net_position_per_token = ''200'',
      rp_max_gross_exposure = ''500'', rp_max_daily_matched_notional = ''500'',
      rp_max_worst_price_distance = ''0.10'', rp_min_visible_depth = ''1'',
      rp_max_market_metadata_age_seconds = 30, rp_max_order_book_age_seconds = 5,
      rp_max_user_stream_age_seconds = 10, rp_max_reconciliation_age_seconds = 60,
      rp_cancel_on_halt = True\<rparr>"

definition sample_request :: OrderIntentRequest where
  "sample_request =
     \<lparr>rq_condition_id = ''c'', rq_token_id = ''7'', rq_side = Sell, rq_time_in_force = Fak,
      rq_quantity = \<lparr>q_unit = Shares, q_value = ''10''\<rparr>, rq_limit_price = None,
      rq_worst_price = Some ''0.5'', rq_expires_at = None, rq_post_only = False,
      rq_client_context = default_context\<rparr>"

definition sample_market :: MarketRules where
  "sample_market =
     \<lparr>mk_condition_id = ''c'', mk_token_id = ''7'', mk_active = True, mk_closed = False,
      mk_accepting_orders = True, mk_tick_size = 1 / 100, mk_minimum_order_size = 1,
      mk_negative_risk = False, mk_maker_fee_rate = 0, mk_taker_fee_rate = 1 / 100, mk_observed_at = 0\<rparr>"

definition sample_book :: OrderBook where
  "sample_book =
     \<lparr>bk_bids = [\<lparr>pl_price = 11 / 20, pl_size = 40\<rparr>], bk_asks = [\<lparr>pl_price = 3 / 5, pl_size = 40\<rparr>],
      bk_observed_at = 0, bk_hash = None\<rparr>"

definition sample_snapshot :: RiskSnapshot where
  "sample_snapshot =
     \<lparr>sn_open_order_count = 0, sn_market_open_notional = 0, sn_token_position = 20,
      sn_token_pending_buys = 0, sn_token_pending_sells = 0, sn_gross_exposure = 20,
      sn_daily_matched_notional = 0\<rparr>"

lemma sample_evaluated:
  "map_option rd_approved (evaluate dec_rat sample_policy sample_request sample_market sample_book sample_snapshot)
     = Some True"
  by code_simp

theorem evaluate_approves_iff_witness:
  "\<exists>d. evaluate dec_rat sample_policy sample_request sample_market sample_book sample_snapshot = Some d
     \<and> rd_approved d \<and> policy_allows dec_rat sample_policy sample_request sample_market sample_book sample_snapshot"
proof -
  from sample_evaluated obtain d where
    d: "evaluate dec_rat sample_policy sample_request sample_market sample_book sample_snapshot = Some d"
       "rd_approved d"
    by auto
  with evaluate_approves_iff [OF dec_rat_exact d(1)] show ?thesis by blast
qed

subsection \<open>The worst case bounds every fill\<close>



lemma validate_decimals_Ok:
  "validate_decimals D xs = Ok () \<longleftrightarrow>
     list_all (\<lambda>nr. \<exists>x k. d_from_str_exact D (snd nr) = Some (x, k) \<and> 0 \<le> x) xs"
proof (induction xs)
  case (Cons nr xs)
  then show ?case
    by (cases nr; cases "d_from_str_exact D (snd nr)") (auto split: if_split_asm)
qed simp

end
