(* ===== verification/StoreTypes.thy ===== *)
theory StoreTypes
  imports Risk
begin

text \<open>
  The journal of \<open>src/src/store.rs\<close>: the rows of its tables (\<open>src/migrations\<close>), the store as a record of
  tables, the error type, and the helpers every transaction uses (\<open>append_event\<close>, \<open>insert_order\<close>,
  \<open>parse_stored_decimal\<close>, \<open>operation_hash\<close>, \<open>insert_idempotency_record\<close>).

  A transaction is a function from the store to a result that holds the new store.  Every write
  runs under \<open>write_gate\<close>, so transactions are sequential; \<open>Err\<close> and \<open>Panic\<close> drop the transaction and
  the caller keeps the old store.  Fresh UUIDs and the clock reading are arguments.  An
  operation reads the clock once in the model.  \<open>st_sent\<close> is what the broadcast channel was given,
  in the order of the \<open>send\<close> calls.  Event sequence numbers are SQLite row ids: \<open>AUTOINCREMENT\<close> gives
  one more than the largest ever used.

  A hash of canonical JSON is a parameter \<open>H\<close> (\<open>serde_jcs\<close> and \<open>sha2\<close>); a column with serialized JSON
  holds the JSON value.
\<close>

datatype StoreError =
    Database string
  | Migration string
  | Io string
  | Serialization string
  | AlreadyLocked string
  | IdentityMismatch string
  | IdempotencyConflict
  | NewRiskDisabled string
  | NotFound
  | InvalidDecimal string

fun store_error_text :: "StoreError \<Rightarrow> string" where
  "store_error_text (Database m) = ''database error: '' @ m"
| "store_error_text (Migration m) = ''database migration error: '' @ m"
| "store_error_text (Io m) = ''I/O error: '' @ m"
| "store_error_text (Serialization m) = ''serialization error: '' @ m"
| "store_error_text (AlreadyLocked m) = ''database is already locked by another executor: '' @ m"
| "store_error_text (IdentityMismatch m) = ''database identity mismatch: '' @ m"
| "store_error_text IdempotencyConflict = ''idempotency key reused with a different request''"
| "store_error_text (NewRiskDisabled m) = ''new risk admission is disabled while service state is '' @ m"
| "store_error_text NotFound = ''resource not found''"
| "store_error_text (InvalidDecimal m) = ''invalid stored decimal: '' @ m"

type_synonym 'a tx = "(StoreError, 'a) res"

section \<open>Rows\<close>

record IntentRow = IntentRecord +
  in_policy_version :: "string option"

record OrderRow = OrderRecord +
  or_fee_rate :: string
  or_quote_exposure :: string

record IdempotencyRow =
  ik_actor_id :: string
  ik_idempotency_key :: string
  ik_request_hash :: string
  ik_resource_type :: string
  ik_resource_id :: resource
  ik_response_status :: int
  ik_response_json :: json
  ik_created_at :: instant

record RiskDecisionRow =
  dc_id :: uuid
  dc_intent_id :: uuid
  dc_approved :: bool
  dc_reason_code :: string
  dc_observed_json :: json
  dc_policy_version :: string
  dc_created_at :: instant

record ReservationRow =
  rv_intent_id :: uuid
  rv_condition_id :: string
  rv_token_id :: string
  rv_side :: Side
  rv_price :: string
  rv_quantity :: string
  rv_quote_exposure :: string
  rv_fee_rate :: string
  rv_state :: string
  rv_created_at :: instant
  rv_updated_at :: instant

record PreparedRow =
  pr_id :: uuid
  pr_intent_id :: uuid
  pr_normalized_json :: json
  pr_signed_payload_json :: "string option"
  pr_payload_sha256 :: "string option"
  pr_deterministic_order_id :: string
  pr_signer_address :: "string option"
  pr_funder_address :: "string option"
  pr_protocol_version :: nat
  pr_sdk_version :: string
  pr_policy_version :: string
  pr_created_at :: instant

record AttemptRow =
  sa_id :: uuid
  sa_prepared_order_id :: uuid
  sa_attempt_number :: int
  sa_state :: string
  sa_request_started_at :: "instant option"
  sa_response_class :: "string option"
  sa_response_json :: "json option"
  sa_created_at :: instant
  sa_updated_at :: instant

record TransitionRow =
  tn_order_id :: uuid
  tn_prior_state :: OrderState
  tn_new_state :: OrderState
  tn_evidence_json :: json
  tn_created_at :: instant

record FinalityRow =
  vf_venue_trade_id :: string
  vf_trade_id :: uuid
  vf_status :: TradeState
  vf_evidence_json :: json
  vf_updated_at :: instant

record ControlRow =
  cs_state :: string
  cs_reason :: string
  cs_updated_at :: instant
  cs_revision :: int

record OperatorActionRow =
  oa_id :: uuid
  oa_actor_id :: string
  oa_action :: string
  oa_reason :: string
  oa_prior_state :: string
  oa_new_state :: string
  oa_correlation_id :: uuid
  oa_created_at :: instant

record CancellationRecord =
  cr_id :: uuid
  cr_actor_id :: string
  cr_selector_json :: json
  cr_target_order_ids_json :: json
  cr_reason :: string
  cr_state :: string
  cr_created_at :: instant
  cr_updated_at :: instant

record ReconciliationRecord =
  rc_id :: uuid
  rc_trigger :: string
  rc_state :: string
  rc_summary_json :: json
  rc_started_at :: instant
  rc_completed_at :: "instant option"

record FindingRow =
  fi_id :: uuid
  fi_reconciliation_id :: uuid
  fi_severity :: string
  fi_code :: string
  fi_details_json :: json
  fi_resolved_at :: "instant option"

record BackupRecord =
  bu_id :: uuid
  bu_state :: string
  bu_database_path :: "string option"
  bu_manifest_path :: "string option"
  bu_checksum_sha256 :: "string option"
  bu_last_event_sequence :: "int option"
  bu_error :: "string option"
  bu_created_at :: instant
  bu_updated_at :: instant

record PaperAccountRow =
  pa_configuration_sha256 :: string
  pa_quote_balance :: string
  pa_reserved_quote :: string
  pa_created_at :: instant
  pa_updated_at :: instant

record PaperInventoryRow =
  pi_token_id :: string
  pi_shares :: string
  pi_reserved_shares :: string
  pi_updated_at :: instant

record PaperOrderRow =
  po_venue_order_id :: string
  po_condition_id :: string
  po_token_id :: string
  po_side :: Side
  po_state :: OrderState
  po_price :: string
  po_fee_rate :: string
  po_original_quantity :: string
  po_remaining_quantity :: string
  po_filled_quantity :: string
  po_filled_price :: "string option"
  po_quote_amount :: string
  po_fee_amount :: string
  po_reserved_quote :: string
  po_reserved_shares :: string
  po_venue_trade_ids_json :: "string list"
  po_evidence_json :: json
  po_created_at :: instant
  po_updated_at :: instant

record PaperEventRow =
  pe_event_id :: string
  pe_token_id :: string
  pe_price :: string
  pe_size :: string
  pe_observed_at :: instant
  pe_created_at :: instant

record MetadataRow =
  im_mode :: string
  im_chain_id :: int
  im_protocol_version :: int
  im_signer_address :: "string option"
  im_funder_address :: "string option"
  im_created_at :: instant

record Store =
  st_mode :: Mode
  st_event_retention :: nat
  st_sent :: "ExecutionEvent list"
  instance_metadata :: "MetadataRow option"
  intents :: "IntentRow list"
  idempotency_keys :: "IdempotencyRow list"
  risk_decisions :: "RiskDecisionRow list"
  risk_reservations :: "ReservationRow list"
  prepared_orders :: "PreparedRow list"
  submission_attempts :: "AttemptRow list"
  orders :: "OrderRow list"
  order_transitions :: "TransitionRow list"
  trades :: "TradeRecord list"
  venue_trade_finality :: "FinalityRow list"
  positions :: "PositionRecord list"
  paper_account :: "PaperAccountRow option"
  paper_inventory :: "PaperInventoryRow list"
  paper_venue_orders :: "PaperOrderRow list"
  paper_market_events :: "PaperEventRow list"
  cancellation_requests :: "CancellationRecord list"
  execution_events :: "ExecutionEvent list"
  execution_events_seq :: int
  reconciliation_runs :: "ReconciliationRecord list"
  reconciliation_findings :: "FindingRow list"
  control_state :: ControlRow
  operator_actions :: "OperatorActionRow list"
  backups :: "BackupRecord list"

text \<open>The store a fresh database starts with.\<close>

definition new_store :: "Mode \<Rightarrow> nat \<Rightarrow> instant \<Rightarrow> Store" where
  "new_store m retention now =
     \<lparr>st_mode = m, st_event_retention = retention, st_sent = [], instance_metadata = None,
      intents = [], idempotency_keys = [], risk_decisions = [], risk_reservations = [],
      prepared_orders = [], submission_attempts = [], orders = [], order_transitions = [],
      trades = [], venue_trade_finality = [], positions = [], paper_account = None,
      paper_inventory = [], paper_venue_orders = [], paper_market_events = [],
      cancellation_requests = [], execution_events = [], execution_events_seq = 0,
      reconciliation_runs = [], reconciliation_findings = [],
      control_state = \<lparr>cs_state = ''STARTING'', cs_reason = ''initializing'', cs_updated_at = now,
                       cs_revision = 0\<rparr>,
      operator_actions = [], backups = []\<rparr>"

section \<open>Statements\<close>

text \<open>
  \<open>INSERT\<close> under the table's \<open>PRIMARY KEY\<close> and \<open>UNIQUE\<close> constraints, given as a conflict relation
  between rows, and a foreign key check.
\<close>

definition sql_insert :: "('r \<Rightarrow> 'r \<Rightarrow> bool) \<Rightarrow> 'r \<Rightarrow> 'r list \<Rightarrow> 'r list tx" where
  "sql_insert conflict r rows =
     (if list_ex (conflict r) rows then Err (Database ''UNIQUE constraint failed'') else Ok (rows @ [r]))"

definition foreign_key :: "bool \<Rightarrow> unit tx" where
  "foreign_key present = (if present then Ok () else Err (Database ''FOREIGN KEY constraint failed''))"

definition intent_conflict :: "IntentRow \<Rightarrow> IntentRow \<Rightarrow> bool" where
  "intent_conflict a b \<longleftrightarrow> in_id a = in_id b
     \<or> (in_actor_id a = in_actor_id b \<and> in_idempotency_key a = in_idempotency_key b)"

definition idempotency_conflict :: "IdempotencyRow \<Rightarrow> IdempotencyRow \<Rightarrow> bool" where
  "idempotency_conflict a b \<longleftrightarrow> ik_actor_id a = ik_actor_id b \<and> ik_idempotency_key a = ik_idempotency_key b"

definition attempt_conflict :: "AttemptRow \<Rightarrow> AttemptRow \<Rightarrow> bool" where
  "attempt_conflict a b \<longleftrightarrow> sa_id a = sa_id b
     \<or> (sa_prepared_order_id a = sa_prepared_order_id b \<and> sa_attempt_number a = sa_attempt_number b)"

definition same_key :: "('r \<Rightarrow> 'k) \<Rightarrow> 'r \<Rightarrow> 'r \<Rightarrow> bool" where
  "same_key key a b \<longleftrightarrow> key a = key b"

definition has_intent :: "uuid \<Rightarrow> Store \<Rightarrow> bool" where
  "has_intent i db \<longleftrightarrow> list_ex (\<lambda>r. in_id r = i) (intents db)"

definition has_order :: "uuid \<Rightarrow> Store \<Rightarrow> bool" where
  "has_order i db \<longleftrightarrow> list_ex (\<lambda>r. or_id r = i) (orders db)"

definition prepared_for :: "uuid \<Rightarrow> Store \<Rightarrow> uuid option" where
  "prepared_for i db = map_option pr_id (sql_find (\<lambda>p. pr_intent_id p = i) (prepared_orders db))"

definition parse_stored_decimal :: "dec_ops \<Rightarrow> string \<Rightarrow> decimal tx" where
  "parse_stored_decimal D raw = ok_or (InvalidDecimal raw) (d_from_str D raw)"

definition append_event ::
  "string \<Rightarrow> string \<Rightarrow> resource \<Rightarrow> json \<Rightarrow> instant \<Rightarrow> Store \<Rightarrow> ExecutionEvent \<times> Store" where
  "append_event etype rtype rid payload now db =
     (let e = \<lparr>ev_sequence = execution_events_seq db + 1, ev_type = etype, ev_resource_type = rtype,
               ev_resource_id = rid, ev_mode = st_mode db, ev_payload = payload, ev_created_at = now\<rparr>
      in (e, db\<lparr>execution_events := execution_events db @ [e],
                execution_events_seq := execution_events_seq db + 1\<rparr>))"

text \<open>\<open>events.send\<close> after the commit.\<close>

definition send :: "ExecutionEvent list \<Rightarrow> Store \<Rightarrow> Store" where
  "send es db = db\<lparr>st_sent := st_sent db @ es\<rparr>"

definition insert_order :: "dec_ops \<Rightarrow> OrderRecord \<Rightarrow> decimal \<Rightarrow> decimal \<Rightarrow> Store \<Rightarrow> Store tx" where
  "insert_order D order fee_rate quote_exposure db =
     rbind (foreign_key (has_intent (or_intent_id order) db)) (\<lambda>_.
     rbind (sql_insert (same_key or_id)
              (OrderRecord.extend order (OrderRow.fields (d_norm D fee_rate) (d_norm D quote_exposure)))
              (orders db)) (\<lambda>rows.
       Ok (db\<lparr>orders := rows\<rparr>)))"

definition insert_transition ::
  "uuid \<Rightarrow> OrderState \<Rightarrow> OrderState \<Rightarrow> json \<Rightarrow> instant \<Rightarrow> Store \<Rightarrow> Store tx" where
  "insert_transition oid prior nxt evidence now db =
     rbind (foreign_key (has_order oid db)) (\<lambda>_.
       Ok (db\<lparr>order_transitions := order_transitions db @
             [\<lparr>tn_order_id = oid, tn_prior_state = prior, tn_new_state = nxt,
               tn_evidence_json = evidence, tn_created_at = now\<rparr>]\<rparr>))"

definition operation_hash :: "(json \<Rightarrow> string) \<Rightarrow> string \<Rightarrow> json \<Rightarrow> string" where
  "operation_hash H operation body = H (JObj [(''operation'', JStr operation), (''body'', body)])"

definition insert_idempotency_record ::
  "(json \<Rightarrow> string) \<Rightarrow> string \<Rightarrow> string \<Rightarrow> string \<Rightarrow> resource \<Rightarrow> json \<Rightarrow> int \<Rightarrow> json \<Rightarrow> instant \<Rightarrow> Store \<Rightarrow> Store tx" where
  "insert_idempotency_record H actor key operation rid request_body status response_body now db =
     (let row = \<lparr>ik_actor_id = actor, ik_idempotency_key = key,
                 ik_request_hash = operation_hash H operation request_body,
                 ik_resource_type = operation, ik_resource_id = rid, ik_response_status = status,
                 ik_response_json = response_body, ik_created_at = now\<rparr>
      in if list_ex (idempotency_conflict row) (idempotency_keys db) then Err IdempotencyConflict
         else Ok (db\<lparr>idempotency_keys := idempotency_keys db @ [row]\<rparr>))"

section \<open>Keyed tables\<close>

text \<open>
  What a primary key promises: an insert that succeeds adds one row under a new key, and an update
  that keeps the key keeps the keys distinct.  Every table with a primary key is an instance.
\<close>

locale keyed_table =
  fixes key :: "'r \<Rightarrow> 'k" and conflict :: "'r \<Rightarrow> 'r \<Rightarrow> bool"
  assumes key_conflict: "key a = key b \<Longrightarrow> conflict a b"
begin

lemma insert_Ok: "sql_insert conflict r rows = Ok rows' \<Longrightarrow> rows' = rows @ [r] \<and> key r \<notin> key ` set rows"
  using key_conflict by (auto simp: sql_insert_def list_ex_iff split: if_split_asm)

lemma insert_distinct:
  assumes "sql_insert conflict r rows = Ok rows'" "distinct (map key rows)"
  shows "distinct (map key rows')"
  using insert_Ok [OF assms(1)] assms(2) by auto

lemma update_distinct:
  assumes "\<And>r. P r \<Longrightarrow> key (f r) = key r" "distinct (map key rows)"
  shows "distinct (map key (sql_update P f rows))"
  using assms by (simp add: map_sql_update)

lemma find_unique:
  assumes "distinct (map key rows)" "r \<in> set rows"
  shows "sql_find (\<lambda>x. key x = key r) rows = Some r"
  using assms by (rule sql_find_key)

lemma count_le_1: "distinct (map key rows) \<Longrightarrow> sql_count (\<lambda>r. key r = k \<and> Q r) rows \<le> 1"
  by (rule sql_count_key_le_1)

lemma insert_rejects_used_key:
  assumes "r' \<in> set rows" "key r = key r'"
  shows "sql_insert conflict r rows = Err (Database ''UNIQUE constraint failed'')"
  using assms key_conflict by (auto simp: sql_insert_def list_ex_iff)

end

interpretation intents_t: keyed_table in_id intent_conflict
  by unfold_locales (simp add: intent_conflict_def)

interpretation intent_keys_t: keyed_table "\<lambda>r. (in_actor_id r, in_idempotency_key r)" intent_conflict
  by unfold_locales (simp add: intent_conflict_def)

interpretation idempotency_t: keyed_table "\<lambda>r. (ik_actor_id r, ik_idempotency_key r)" idempotency_conflict
  by unfold_locales (simp add: idempotency_conflict_def)

interpretation decisions_t: keyed_table dc_id "same_key dc_id"
  by unfold_locales (simp add: same_key_def)

interpretation reservations_t: keyed_table rv_intent_id "same_key rv_intent_id"
  by unfold_locales (simp add: same_key_def)

interpretation prepared_t: keyed_table pr_id "same_key pr_id"
  by unfold_locales (simp add: same_key_def)

interpretation attempts_t: keyed_table sa_id attempt_conflict
  by unfold_locales (simp add: attempt_conflict_def)

interpretation orders_t: keyed_table or_id "same_key or_id"
  by unfold_locales (simp add: same_key_def)

section \<open>What the helpers keep\<close>

lemma foreign_key_Ok [res_simps]: "foreign_key p = Ok u \<longleftrightarrow> p"
  by (simp add: foreign_key_def)

lemma sql_insert_Ok [res_simps]:
  "sql_insert c r rows = Ok rows' \<longleftrightarrow> rows' = rows @ [r] \<and> \<not> list_ex (c r) rows"
  by (auto simp: sql_insert_def)

lemma parse_stored_decimal_Ok [res_simps]: "parse_stored_decimal D raw = Ok x \<longleftrightarrow> d_from_str D raw = Some x"
  by (simp add: parse_stored_decimal_def ok_or_eq_Ok)

lemma insert_transition_Ok [res_simps]:
  "insert_transition oid prior nxt evidence now db = Ok db' \<longleftrightarrow>
     has_order oid db \<and> db' = db\<lparr>order_transitions := order_transitions db @
       [\<lparr>tn_order_id = oid, tn_prior_state = prior, tn_new_state = nxt,
         tn_evidence_json = evidence, tn_created_at = now\<rparr>]\<rparr>"
  by (auto simp: insert_transition_def res_simps)

text \<open>The event row itself, and the store with it appended.\<close>

definition log_event :: "ExecutionEvent \<Rightarrow> Store \<Rightarrow> Store" where
  "log_event e db = db\<lparr>execution_events := execution_events db @ [e], execution_events_seq := ev_sequence e\<rparr>"

definition next_event :: "string \<Rightarrow> string \<Rightarrow> resource \<Rightarrow> json \<Rightarrow> instant \<Rightarrow> Store \<Rightarrow> ExecutionEvent" where
  "next_event etype rtype rid payload now db =
     \<lparr>ev_sequence = execution_events_seq db + 1, ev_type = etype, ev_resource_type = rtype,
      ev_resource_id = rid, ev_mode = st_mode db, ev_payload = payload, ev_created_at = now\<rparr>"

lemma append_event_eq:
  "append_event etype rtype rid payload now db =
     (next_event etype rtype rid payload now db, log_event (next_event etype rtype rid payload now db) db)"
  by (simp add: append_event_def next_event_def log_event_def Let_def)

text \<open>An event or a broadcast touches no other table.\<close>

lemma log_event_keeps [simp]:
  shows "st_mode (log_event e db) = st_mode db"
    and "st_event_retention (log_event e db) = st_event_retention db"
    and "instance_metadata (log_event e db) = instance_metadata db"
    and "intents (log_event e db) = intents db"
    and "idempotency_keys (log_event e db) = idempotency_keys db"
    and "risk_decisions (log_event e db) = risk_decisions db"
    and "risk_reservations (log_event e db) = risk_reservations db"
    and "prepared_orders (log_event e db) = prepared_orders db"
    and "submission_attempts (log_event e db) = submission_attempts db"
    and "orders (log_event e db) = orders db"
    and "order_transitions (log_event e db) = order_transitions db"
    and "trades (log_event e db) = trades db"
    and "venue_trade_finality (log_event e db) = venue_trade_finality db"
    and "positions (log_event e db) = positions db"
    and "paper_account (log_event e db) = paper_account db"
    and "paper_inventory (log_event e db) = paper_inventory db"
    and "paper_venue_orders (log_event e db) = paper_venue_orders db"
    and "paper_market_events (log_event e db) = paper_market_events db"
    and "cancellation_requests (log_event e db) = cancellation_requests db"
    and "reconciliation_runs (log_event e db) = reconciliation_runs db"
    and "reconciliation_findings (log_event e db) = reconciliation_findings db"
    and "control_state (log_event e db) = control_state db"
    and "operator_actions (log_event e db) = operator_actions db"
    and "backups (log_event e db) = backups db"
    and "st_sent (log_event e db) = st_sent db"
  by (simp_all add: log_event_def)

lemma send_keeps [simp]:
  shows "st_mode (send es db) = st_mode db"
    and "st_event_retention (send es db) = st_event_retention db"
    and "instance_metadata (send es db) = instance_metadata db"
    and "intents (send es db) = intents db"
    and "idempotency_keys (send es db) = idempotency_keys db"
    and "risk_decisions (send es db) = risk_decisions db"
    and "risk_reservations (send es db) = risk_reservations db"
    and "prepared_orders (send es db) = prepared_orders db"
    and "submission_attempts (send es db) = submission_attempts db"
    and "orders (send es db) = orders db"
    and "order_transitions (send es db) = order_transitions db"
    and "trades (send es db) = trades db"
    and "venue_trade_finality (send es db) = venue_trade_finality db"
    and "positions (send es db) = positions db"
    and "paper_account (send es db) = paper_account db"
    and "paper_inventory (send es db) = paper_inventory db"
    and "paper_venue_orders (send es db) = paper_venue_orders db"
    and "paper_market_events (send es db) = paper_market_events db"
    and "cancellation_requests (send es db) = cancellation_requests db"
    and "reconciliation_runs (send es db) = reconciliation_runs db"
    and "reconciliation_findings (send es db) = reconciliation_findings db"
    and "control_state (send es db) = control_state db"
    and "operator_actions (send es db) = operator_actions db"
    and "backups (send es db) = backups db"
    and "execution_events (send es db) = execution_events db"
    and "execution_events_seq (send es db) = execution_events_seq db"
  by (simp_all add: send_def)

lemma log_event_adds [simp]:
  shows "execution_events (log_event e db) = execution_events db @ [e]"
    and "execution_events_seq (log_event e db) = ev_sequence e"
  by (simp_all add: log_event_def)

lemma send_adds [simp]: "st_sent (send es db) = st_sent db @ es"
  by (simp add: send_def)

lemma next_event_fields [simp]:
  shows "ev_sequence (next_event etype rtype rid payload now db) = execution_events_seq db + 1"
    and "ev_type (next_event etype rtype rid payload now db) = etype"
    and "ev_resource_id (next_event etype rtype rid payload now db) = rid"
    and "ev_payload (next_event etype rtype rid payload now db) = payload"
  by (simp_all add: next_event_def)

text \<open>The database helpers never report a mismatch.\<close>

lemma parse_stored_decimal_Err [simp]: "parse_stored_decimal D raw \<noteq> Err (IdentityMismatch msg)"
  by (auto simp: parse_stored_decimal_def ok_or_eq_Err)

lemma foreign_key_Err [simp]: "foreign_key p \<noteq> Err (IdentityMismatch msg)"
  by (simp add: foreign_key_def)

lemma sql_insert_Err [simp]: "sql_insert c r rows \<noteq> Err (IdentityMismatch msg)"
  by (simp add: sql_insert_def)

section \<open>Committed stores\<close>

text \<open>The store after a transaction: the new one if it committed, else the old one.\<close>

fun committed :: "Store \<Rightarrow> ('e, 'a \<times> Store) res \<Rightarrow> Store" where
  "committed db (Ok (x, db')) = db'"
| "committed db _ = db"

definition unit_res :: "('e, Store) res \<Rightarrow> ('e, unit \<times> Store) res" where
  "unit_res m = rbind m (\<lambda>db. Ok ((), db))"

lemma committed_Ok: "is_ok m \<Longrightarrow> \<exists>x. m = Ok (x, committed db m)"
  by (cases m) auto

lemma unit_committed_Ok: "is_ok m \<Longrightarrow> m = Ok (committed db (unit_res m))"
  by (cases m) (auto simp: unit_res_def)

end
