(* ===== verification/Admission.thy ===== *)
theory Admission
  imports StoreTypes
begin

text \<open>
  Admission of intents and the idempotency records of \<open>src/src/store.rs\<close> (\<open>admit_intent\<close>,
  \<open>replay_intent\<close>, \<open>idempotent_response\<close>, \<open>record_idempotent_response\<close>), and the reads of the intent
  table.  The lemmas show that an admitted request is answered again with the very same record,
  that a key is bound to one request, and that a new intent is admitted only in state READY.
\<close>

section \<open>The stored response of an intent\<close>

definition intent_state_from_text :: "string \<Rightarrow> IntentState option" where
  "intent_state_from_text s =
     (if s = ''RECEIVED'' then Some IntentState.Received
      else if s = ''VALIDATING'' then Some IntentState.Validating
      else if s = ''REJECTED'' then Some IntentState.Rejected
      else if s = ''APPROVED'' then Some IntentState.Approved
      else if s = ''PREPARING'' then Some IntentState.Preparing
      else if s = ''PREPARED'' then Some IntentState.Prepared
      else if s = ''SUBMITTING'' then Some IntentState.Submitting
      else if s = ''SUBMITTED'' then Some IntentState.Submitted
      else if s = ''UNKNOWN'' then Some IntentState.Unknown else None)"

fun de_uuid :: "json option \<Rightarrow> uuid option" where
  "de_uuid (Some (JUuid u)) = Some u"
| "de_uuid _ = None"

fun de_time :: "json option \<Rightarrow> instant option" where
  "de_time (Some (JTime t)) = Some t"
| "de_time _ = None"

definition intent_of_json :: "json \<Rightarrow> IntentRecord option" where
  "intent_of_json v = do {
     i \<leftarrow> de_uuid (jget v ''id'');
     mt \<leftarrow> de_string (jget v ''mode'');
     m \<leftarrow> mode_from_str mt;
     a \<leftarrow> de_string (jget v ''actor_id'');
     k \<leftarrow> de_string (jget v ''idempotency_key'');
     h \<leftarrow> de_string (jget v ''request_hash'');
     j \<leftarrow> jget v ''request_json'';
     st \<leftarrow> de_string (jget v ''state'');
     s \<leftarrow> intent_state_from_text st;
     rc \<leftarrow> de_opt_string (jget v ''rejection_code'');
     rm \<leftarrow> de_opt_string (jget v ''rejection_message'');
     c \<leftarrow> de_time (jget v ''created_at'');
     u \<leftarrow> de_time (jget v ''updated_at'');
     Some \<lparr>in_id = i, in_mode = m, in_actor_id = a, in_idempotency_key = k, in_request_hash = h,
           in_request_json = j, in_state = s, in_rejection_code = rc, in_rejection_message = rm,
           in_created_at = c, in_updated_at = u\<rparr> }"

lemma intent_state_roundtrip [simp]: "intent_state_from_text (intent_state_text s) = Some s"
  by (cases s) (auto simp: intent_state_from_text_def)

lemma intent_json_roundtrip [simp]: "intent_of_json (json_of_intent r) = Some r"
  by (simp add: intent_of_json_def json_of_intent_def jget_def)

section \<open>Operations\<close>

datatype Admission = Created IntentRecord | Existing IntentRecord

definition owns_key :: "string \<Rightarrow> string \<Rightarrow> IdempotencyRow \<Rightarrow> bool" where
  "owns_key actor key r \<longleftrightarrow> ik_actor_id r = actor \<and> ik_idempotency_key r = key"

definition admit_new ::
  "string \<Rightarrow> string \<Rightarrow> string \<Rightarrow> OrderIntentRequest \<Rightarrow> uuid \<Rightarrow> instant \<Rightarrow> Store \<Rightarrow> (Admission \<times> Store) tx" where
  "admit_new actor key request_hash request fresh now db =
     (let record = \<lparr>in_id = fresh, in_mode = st_mode db, in_actor_id = actor, in_idempotency_key = key,
                    in_request_hash = request_hash, in_request_json = json_of_request request,
                    in_state = IntentState.Received, in_rejection_code = None,
                    in_rejection_message = None, in_created_at = now, in_updated_at = now\<rparr>
      in rbind (sql_insert intent_conflict (IntentRecord.extend record (IntentRow.fields None)) (intents db)) (\<lambda>rows.
         rbind (sql_insert idempotency_conflict
                  \<lparr>ik_actor_id = actor, ik_idempotency_key = key, ik_request_hash = request_hash,
                   ik_resource_type = ''intent'', ik_resource_id = RUuid fresh, ik_response_status = 202,
                   ik_response_json = json_of_intent record, ik_created_at = now\<rparr>
                  (idempotency_keys db)) (\<lambda>keys.
         let db = db\<lparr>intents := rows, idempotency_keys := keys\<rparr>;
             (event, db) = append_event ''intent.received'' ''intent'' (RUuid fresh) (json_of_request request) now db
         in Ok (Created record, send [event] db))))"

definition admit_intent ::
  "(json \<Rightarrow> string) \<Rightarrow> string \<Rightarrow> string \<Rightarrow> OrderIntentRequest \<Rightarrow> uuid \<Rightarrow> instant \<Rightarrow> Store \<Rightarrow> (Admission \<times> Store) tx" where
  "admit_intent H actor key request fresh now db =
     (let request_hash = H (json_of_request request)
      in case sql_find (\<lambda>r. in_actor_id r = actor \<and> in_idempotency_key r = key) (intents db) of
           Some existing \<Rightarrow>
             if in_request_hash existing \<noteq> request_hash then Err IdempotencyConflict
             else rbind (ok_or (Database ''no rows returned'')
                    (sql_find (\<lambda>r. owns_key actor key r \<and> ik_resource_type r = ''intent'') (idempotency_keys db)))
                  (\<lambda>r. rbind (ok_or (Serialization ''intent'') (intent_of_json (ik_response_json r)))
                  (\<lambda>record. Ok (Existing record, db)))
         | None \<Rightarrow>
             if cs_state (control_state db) \<noteq> ''READY'' then Err (NewRiskDisabled (cs_state (control_state db)))
             else admit_new actor key request_hash request fresh now db)"

definition replay_intent ::
  "(json \<Rightarrow> string) \<Rightarrow> string \<Rightarrow> string \<Rightarrow> OrderIntentRequest \<Rightarrow> Store \<Rightarrow> IntentRecord option tx" where
  "replay_intent H actor key request db =
     (case sql_find (\<lambda>r. owns_key actor key r \<and> ik_resource_type r = ''intent'') (idempotency_keys db) of
        None \<Rightarrow> Ok None
      | Some existing \<Rightarrow>
          if ik_request_hash existing \<noteq> H (json_of_request request) then Err IdempotencyConflict
          else rbind (ok_or (Serialization ''intent'') (intent_of_json (ik_response_json existing)))
                 (\<lambda>record. Ok (Some record)))"

record IdempotentResponse =
  ir_status :: nat
  ir_body :: json

definition idempotent_response ::
  "(json \<Rightarrow> string) \<Rightarrow> string \<Rightarrow> string \<Rightarrow> string \<Rightarrow> json \<Rightarrow> Store \<Rightarrow> IdempotentResponse option tx" where
  "idempotent_response H actor key operation body db =
     (case sql_find (owns_key actor key) (idempotency_keys db) of
        None \<Rightarrow> Ok None
      | Some row \<Rightarrow>
          if ik_request_hash row \<noteq> operation_hash H operation body \<or> ik_resource_type row \<noteq> operation
          then Err IdempotencyConflict
          else if ik_response_status row < 0 \<or> ik_response_status row \<ge> 65536
          then Err (IdentityMismatch ''stored HTTP response status is invalid'')
          else Ok (Some \<lparr>ir_status = nat (ik_response_status row), ir_body = ik_response_json row\<rparr>))"

definition record_idempotent_response ::
  "(json \<Rightarrow> string) \<Rightarrow> string \<Rightarrow> string \<Rightarrow> string \<Rightarrow> resource \<Rightarrow> json \<Rightarrow> nat \<Rightarrow> json \<Rightarrow> instant \<Rightarrow> Store \<Rightarrow> Store tx" where
  "record_idempotent_response H actor key operation rid request_body status response_body now db =
     (let row = \<lparr>ik_actor_id = actor, ik_idempotency_key = key,
                 ik_request_hash = operation_hash H operation request_body,
                 ik_resource_type = operation, ik_resource_id = rid, ik_response_status = int status,
                 ik_response_json = response_body, ik_created_at = now\<rparr>
      in if list_ex (idempotency_conflict row) (idempotency_keys db)
         then rbind (idempotent_response H actor key operation request_body db) (\<lambda>replay.
                if replay = None then Err IdempotencyConflict else Ok db)
         else Ok (db\<lparr>idempotency_keys := idempotency_keys db @ [row]\<rparr>))"

definition get_intent :: "uuid \<Rightarrow> Store \<Rightarrow> IntentRecord tx" where
  "get_intent i db =
     rbind (ok_or NotFound (sql_find (\<lambda>r. in_id r = i) (intents db))) (\<lambda>r. Ok (IntentRecord.truncate r))"

text \<open>\<open>ORDER BY created_at, id\<close> of a page query, with \<open>LIMIT\<close>.\<close>

definition page :: "('r \<Rightarrow> instant) \<Rightarrow> ('r \<Rightarrow> uuid) \<Rightarrow> nat \<Rightarrow> 'r list \<Rightarrow> 'r list" where
  "page created rid limit rows = take limit (sort_key created (sort_key rid rows))"

definition after_cursor :: "('r \<Rightarrow> instant) \<Rightarrow> ('r \<Rightarrow> uuid) \<Rightarrow> (instant \<times> uuid) option \<Rightarrow> 'r \<Rightarrow> bool" where
  "after_cursor created rid cursor r = (case cursor of
     None \<Rightarrow> True
   | Some (c, i) \<Rightarrow> created r > c \<or> (created r = c \<and> rid r > i))"

definition list_intents :: "nat \<Rightarrow> Store \<Rightarrow> IntentRecord list" where
  "list_intents limit db = map IntentRecord.truncate (page in_created_at in_id (min limit 500) (intents db))"

definition list_intents_page ::
  "nat \<Rightarrow> IntentState option \<Rightarrow> string option \<Rightarrow> instant option \<Rightarrow> (instant \<times> uuid) option \<Rightarrow> Store \<Rightarrow> IntentRecord list" where
  "list_intents_page limit st condition after cursor db =
     map IntentRecord.truncate (page in_created_at in_id (max 1 (min limit 500) + 1)
       (filter (\<lambda>r. (case st of None \<Rightarrow> True | Some s \<Rightarrow> in_state r = s)
                  \<and> (case condition of None \<Rightarrow> True
                      | Some c \<Rightarrow> jget (in_request_json r) ''condition_id'' = Some (JStr c))
                  \<and> (case after of None \<Rightarrow> True | Some t \<Rightarrow> in_created_at r \<ge> t)
                  \<and> after_cursor in_created_at in_id cursor r)
          (intents db)))"

section \<open>What admission does\<close>

definition received_record ::
  "Store \<Rightarrow> string \<Rightarrow> string \<Rightarrow> string \<Rightarrow> OrderIntentRequest \<Rightarrow> uuid \<Rightarrow> instant \<Rightarrow> IntentRecord" where
  "received_record db actor key request_hash request fresh now =
     \<lparr>in_id = fresh, in_mode = st_mode db, in_actor_id = actor, in_idempotency_key = key,
      in_request_hash = request_hash, in_request_json = json_of_request request,
      in_state = IntentState.Received, in_rejection_code = None, in_rejection_message = None,
      in_created_at = now, in_updated_at = now\<rparr>"

lemma received_record_fields [simp]:
  shows "in_id (received_record db a k h r f n) = f"
    and "in_actor_id (received_record db a k h r f n) = a"
    and "in_idempotency_key (received_record db a k h r f n) = k"
    and "in_request_hash (received_record db a k h r f n) = h"
    and "in_state (received_record db a k h r f n) = IntentState.Received"
    and "in_request_json (received_record db a k h r f n) = json_of_request r"
  by (simp_all add: received_record_def)

lemma extend_intent_fields [simp]:
  shows "in_id (IntentRecord.extend r x) = in_id r"
    and "in_actor_id (IntentRecord.extend r x) = in_actor_id r"
    and "in_idempotency_key (IntentRecord.extend r x) = in_idempotency_key r"
    and "in_request_hash (IntentRecord.extend r x) = in_request_hash r"
    and "in_state (IntentRecord.extend r x) = in_state r"
    and "in_request_json (IntentRecord.extend r x) = in_request_json r"
  by (simp_all add: IntentRecord.extend_def)

definition response_row :: "string \<Rightarrow> string \<Rightarrow> string \<Rightarrow> IntentRecord \<Rightarrow> IdempotencyRow" where
  "response_row actor key request_hash record =
     \<lparr>ik_actor_id = actor, ik_idempotency_key = key, ik_request_hash = request_hash,
      ik_resource_type = ''intent'', ik_resource_id = RUuid (in_id record), ik_response_status = 202,
      ik_response_json = json_of_intent record, ik_created_at = in_created_at record\<rparr>"

lemma response_row_fields [simp]:
  shows "owns_key a k (response_row a' k' h r) \<longleftrightarrow> a' = a \<and> k' = k"
    and "ik_resource_type (response_row a' k' h r) = ''intent''"
    and "ik_request_hash (response_row a' k' h r) = h"
    and "ik_response_json (response_row a' k' h r) = json_of_intent r"
  by (simp_all add: response_row_def owns_key_def)

lemma idempotency_conflict_row [simp]:
  "idempotency_conflict \<lparr>ik_actor_id = a, ik_idempotency_key = k, ik_request_hash = h,
      ik_resource_type = t, ik_resource_id = i, ik_response_status = s, ik_response_json = j,
      ik_created_at = c\<rparr> = owns_key a k"
  by (auto simp: fun_eq_iff idempotency_conflict_def owns_key_def)

lemma admit_createdE:
  assumes "admit_intent H actor key request fresh now db = Ok (Created record, db')"
  obtains event where
    "sql_find (\<lambda>r. in_actor_id r = actor \<and> in_idempotency_key r = key) (intents db) = None"
    "cs_state (control_state db) = ''READY''"
    "record = received_record db actor key (H (json_of_request request)) request fresh now"
    "intents db' = intents db @ [IntentRecord.extend record (IntentRow.fields None)]"
    "idempotency_keys db' = idempotency_keys db @ [response_row actor key (H (json_of_request request)) record]"
    "\<not> list_ex (intent_conflict (IntentRecord.extend record (IntentRow.fields None))) (intents db)"
    "\<not> list_ex (owns_key actor key) (idempotency_keys db)"
    "event = next_event ''intent.received'' ''intent'' (RUuid fresh) (json_of_request request) now db"
    "db' = send [event] (log_event event (db\<lparr>intents := intents db', idempotency_keys := idempotency_keys db'\<rparr>))"
proof -
  have ev: "next_event e t i p n (db\<lparr>intents := x, idempotency_keys := y\<rparr>) = next_event e t i p n db" for e t i p n x y
    by (simp add: next_event_def)
  show ?thesis
    using assms that
    unfolding admit_intent_def admit_new_def received_record_def [symmetric] Let_def
    by (auto simp: res_simps append_event_eq ev response_row_def received_record_def
          split: option.splits if_split_asm)
qed

lemma admitted_rows:
  assumes "admit_intent H actor key request fresh now db = Ok (Created record, db')"
  shows "sql_find (\<lambda>r. in_actor_id r = actor \<and> in_idempotency_key r = key) (intents db')
      = Some (IntentRecord.extend record (IntentRow.fields None))"
    and "sql_find (\<lambda>r. owns_key actor key r \<and> ik_resource_type r = ''intent'') (idempotency_keys db')
      = Some (response_row actor key (H (json_of_request request)) record)"
    and "in_request_hash record = H (json_of_request request)"
proof -
  from assms obtain event where 1: "record = received_record db actor key (H (json_of_request request)) request fresh now"
    "sql_find (\<lambda>r. in_actor_id r = actor \<and> in_idempotency_key r = key) (intents db) = None"
    "intents db' = intents db @ [IntentRecord.extend record (IntentRow.fields None)]"
    "idempotency_keys db' = idempotency_keys db @ [response_row actor key (H (json_of_request request)) record]"
    "\<not> list_ex (owns_key actor key) (idempotency_keys db)"
    by (rule admit_createdE) auto
  then have none: "sql_find (\<lambda>r. owns_key actor key r \<and> ik_resource_type r = ''intent'') (idempotency_keys db) = None"
    by (auto simp: sql_find_None_iff list_ex_iff)
  show "sql_find (\<lambda>r. in_actor_id r = actor \<and> in_idempotency_key r = key) (intents db')
      = Some (IntentRecord.extend record (IntentRow.fields None))"
    using 1 by (simp add: sql_find_append)
  show "sql_find (\<lambda>r. owns_key actor key r \<and> ik_resource_type r = ''intent'') (idempotency_keys db')
      = Some (response_row actor key (H (json_of_request request)) record)"
    using none 1(4) by (simp add: sql_find_append)
  show "in_request_hash record = H (json_of_request request)"
    using 1(1) by simp
qed


text \<open>
  A key is bound to one request: once an intent is admitted, the same actor and key with a request
  of another hash is refused as an idempotency conflict, on admission and on replay, in every state
  of the service.
\<close>

theorem reused_key_conflicts:
  assumes "admit_intent H actor key request fresh now db = Ok (Created record, db')"
    and "H (json_of_request other) \<noteq> H (json_of_request request)"
  shows "admit_intent H actor key other fresh' now' (db'\<lparr>control_state := c\<rparr>) = Err IdempotencyConflict
         \<and> replay_intent H actor key other (db'\<lparr>control_state := c\<rparr>) = Err IdempotencyConflict"
  using admitted_rows [OF assms(1)] assms(2) by (simp add: admit_intent_def replay_intent_def Let_def)

text \<open>
  C26. A new intent enters the journal only while the service is READY, as one RECEIVED row under a new
  id, with one journal event that is broadcast; no other table of the pipeline changes.
\<close>

theorem admission_requires_ready:
  assumes "admit_intent H actor key request fresh now db = Ok (Created record, db')"
  shows "cs_state (control_state db) = ''READY''
    \<and> in_state record = IntentState.Received \<and> in_id record \<notin> in_id ` set (intents db)
    \<and> map IntentRecord.truncate (intents db') = map IntentRecord.truncate (intents db) @ [record]
    \<and> (\<exists>event. ev_type event = ''intent.received'' \<and> ev_sequence event = execution_events_seq db + 1
         \<and> execution_events db' = execution_events db @ [event] \<and> st_sent db' = st_sent db @ [event])
    \<and> orders db' = orders db \<and> risk_reservations db' = risk_reservations db
    \<and> prepared_orders db' = prepared_orders db \<and> control_state db' = control_state db"
  using assms
proof (rule admit_createdE, goal_cases)
  case (1 event)
  have fresh: "in_id record \<notin> in_id ` set (intents db)"
    using 1(6) by (auto simp: list_ex_iff intent_conflict_def)
  have trunc: "IntentRecord.truncate (IntentRecord.extend record x) = record" for x
    by (simp add: IntentRecord.truncate_def IntentRecord.extend_def)
  have ev: "ev_type event = ''intent.received''" "ev_sequence event = execution_events_seq db + 1"
    by (simp_all add: 1(8))
  have "execution_events db' = execution_events db @ [event] \<and> st_sent db' = st_sent db @ [event]
      \<and> orders db' = orders db \<and> risk_reservations db' = risk_reservations db
      \<and> prepared_orders db' = prepared_orders db \<and> control_state db' = control_state db"
    by (subst (1 2 3 4 5 6) 1(9)) simp
  then show ?case
    using 1(2,3,4) fresh trunc ev by auto
qed

text \<open>
  An intent submitted under a key that the same actor used for another kind of operation does not
  get the conflict answer: the insert of its idempotency record violates the primary key and the
  caller sees a database error.
\<close>

theorem key_of_other_operation_is_database_error:
  assumes "cs_state (control_state db) = ''READY''"
    and "\<forall>r \<in> set (intents db). \<not> (in_actor_id r = actor \<and> in_idempotency_key r = key) \<and> in_id r \<noteq> fresh"
    and "row \<in> set (idempotency_keys db)" "owns_key actor key row"
  shows "admit_intent H actor key request fresh now db = Err (Database ''UNIQUE constraint failed'')"
proof -
  have "sql_find (\<lambda>r. in_actor_id r = actor \<and> in_idempotency_key r = key) (intents db) = None"
    using assms(2) by (auto simp: sql_find_None_iff)
  moreover have "\<not> list_ex (intent_conflict (IntentRecord.extend (received_record db actor key h request fresh now) x)) (intents db)"
    for h x using assms(2) by (auto simp: list_ex_iff intent_conflict_def)
  moreover have "list_ex (owns_key actor key) (idempotency_keys db)"
    using assms(3,4) by (auto simp: list_ex_iff)
  ultimately show ?thesis
    using assms(1)
    by (simp add: admit_intent_def admit_new_def Let_def sql_insert_def received_record_def)
qed

subsection \<open>Examples\<close>

definition ready_store :: Store where
  "ready_store = (new_store Mode.Paper 100 0)\<lparr>control_state :=
     \<lparr>cs_state = ''READY'', cs_reason = ''ok'', cs_updated_at = 0, cs_revision = 1\<rparr>\<rparr>"

definition sample_hash :: "json \<Rightarrow> string" where
  "sample_hash j = (case jget j ''token_id'' of Some (JStr s) \<Rightarrow> s | _ \<Rightarrow> [])"

lemma ready_store_admits: "\<exists>record db'. admit_intent H a k r f n ready_store = Ok (Created record, db')"
  by (simp add: admit_intent_def admit_new_def ready_store_def new_store_def Let_def sql_insert_def append_event_eq)


theorem reused_key_conflicts_witness:
  "\<exists>record db'. admit_intent sample_hash ''a'' ''k'' sample_request 1 0 ready_store = Ok (Created record, db')
     \<and> admit_intent sample_hash ''a'' ''k'' (sample_request\<lparr>rq_token_id := ''8''\<rparr>) 2 5 (db'\<lparr>control_state := control_state db'\<rparr>)
         = Err IdempotencyConflict"
proof -
  have "sample_hash (json_of_request (sample_request\<lparr>rq_token_id := ''8''\<rparr>)) \<noteq> sample_hash (json_of_request sample_request)"
    by (simp add: sample_hash_def json_of_request_def sample_request_def jget_def)
  with ready_store_admits [of sample_hash "''a''" "''k''" sample_request 1 0] reused_key_conflicts
  show ?thesis by metis
qed

theorem admission_requires_ready_witness:
  "\<exists>record db'. admit_intent sample_hash ''a'' ''k'' sample_request 1 0 ready_store = Ok (Created record, db')
     \<and> map IntentRecord.truncate (intents db') = map IntentRecord.truncate (intents ready_store) @ [record]"
  using ready_store_admits [of sample_hash "''a''" "''k''" sample_request 1 0] admission_requires_ready by metis

definition control_key :: IdempotencyRow where
  "control_key = \<lparr>ik_actor_id = ''a'', ik_idempotency_key = ''k'', ik_request_hash = ''h'',
     ik_resource_type = ''control.halt'', ik_resource_id = RText ''control'', ik_response_status = 202,
     ik_response_json = JNull, ik_created_at = 0\<rparr>"

theorem key_of_other_operation_is_database_error_witness:
  "admit_intent sample_hash ''a'' ''k'' sample_request 1 0 (ready_store\<lparr>idempotency_keys := [control_key]\<rparr>)
     = Err (Database ''UNIQUE constraint failed'')"
  by (rule key_of_other_operation_is_database_error [where row = control_key])
     (simp_all add: ready_store_def new_store_def control_key_def owns_key_def)

end
