(* ===== verification/Control.thy ===== *)
theory Control
  imports Admission
begin

text \<open>
  The service state of \<open>src/src/store.rs\<close>: the control row with its revision, the four entry points
  that change it, and the text form of the states.  The lemmas show that the state text reads back,
  that every change raises the revision by one and is recorded as an operator action, and that a
  resume that checked the service at an older revision cannot overwrite a newer halt.
\<close>

definition i64_max :: int where
  "i64_max = 2 ^ 63 - 1"

definition service_state_text :: "ServiceState \<Rightarrow> string" where
  "service_state_text s = (case s of
     Starting \<Rightarrow> ''STARTING'' | Reconciling \<Rightarrow> ''RECONCILING'' | Ready \<Rightarrow> ''READY''
   | Degraded \<Rightarrow> ''DEGRADED'' | Halted \<Rightarrow> ''HALTED'' | ShuttingDown \<Rightarrow> ''SHUTTING_DOWN'')"

definition parse_service_state :: "string \<Rightarrow> ServiceState tx" where
  "parse_service_state raw =
     (if raw = ''STARTING'' then Ok Starting
      else if raw = ''RECONCILING'' then Ok Reconciling
      else if raw = ''READY'' then Ok Ready
      else if raw = ''DEGRADED'' then Ok Degraded
      else if raw = ''HALTED'' then Ok Halted
      else if raw = ''SHUTTING_DOWN'' \<or> raw = ''SHUTTINGDOWN'' then Ok ShuttingDown
      else Err (IdentityMismatch (''unknown control state '' @ raw)))"

definition service_state_with_revision :: "Store \<Rightarrow> (ServiceState \<times> string \<times> instant \<times> int) tx" where
  "service_state_with_revision db =
     (let row = control_state db
      in rbind (parse_service_state (cs_state row)) (\<lambda>s.
           Ok (s, cs_reason row, cs_updated_at row, cs_revision row)))"

definition service_state :: "Store \<Rightarrow> (ServiceState \<times> string \<times> instant) tx" where
  "service_state db = rbind (service_state_with_revision db) (\<lambda>(s, reason, updated, _). Ok (s, reason, updated))"

type_synonym idempotency_args = "string \<times> string \<times> json \<times> json"

definition set_service_state_inner ::
  "(json \<Rightarrow> string) \<Rightarrow> string \<Rightarrow> ServiceState \<Rightarrow> string \<Rightarrow> idempotency_args option \<Rightarrow> int option
     \<Rightarrow> uuid \<Rightarrow> uuid \<Rightarrow> instant \<Rightarrow> Store \<Rightarrow> Store tx" where
  "set_service_state_inner H actor nxt reason idempotency expected_revision action_id correlation now db =
     (let prior = cs_state (control_state db); prior_revision = cs_revision (control_state db)
      in if (case expected_revision of None \<Rightarrow> False
             | Some expected \<Rightarrow> prior \<noteq> ''HALTED'' \<or> prior_revision \<noteq> expected)
         then Err (IdentityMismatch ''control state changed while resume checks were running'')
         else if prior_revision \<ge> i64_max
         then Err (IdentityMismatch ''control state revision exhausted'')
         else
           let next_text = service_state_text nxt;
               db = db\<lparr>control_state := \<lparr>cs_state = next_text, cs_reason = reason, cs_updated_at = now,
                                          cs_revision = prior_revision + 1\<rparr>\<rparr>
           in rbind (sql_insert (same_key oa_id)
                \<lparr>oa_id = action_id, oa_actor_id = actor, oa_action = ascii_lowercase next_text,
                 oa_reason = reason, oa_prior_state = prior, oa_new_state = next_text,
                 oa_correlation_id = correlation, oa_created_at = now\<rparr> (operator_actions db)) (\<lambda>actions.
              rbind (case idempotency of
                  None \<Rightarrow> Ok (db\<lparr>operator_actions := actions\<rparr>)
                | Some (key, operation, request_body, response_body) \<Rightarrow>
                    insert_idempotency_record H actor key operation (RText ''control'') request_body 202
                      response_body now (db\<lparr>operator_actions := actions\<rparr>)) (\<lambda>db.
              let (event, db) = append_event ''control.state_changed'' ''operator_action'' (RUuid action_id)
                    (JObj [(''prior_state'', JStr prior), (''new_state'', JStr next_text), (''reason'', JStr reason)])
                    now db
              in Ok (send [event] db))))"

definition set_service_state ::
  "(json \<Rightarrow> string) \<Rightarrow> string \<Rightarrow> ServiceState \<Rightarrow> string \<Rightarrow> uuid \<Rightarrow> uuid \<Rightarrow> instant \<Rightarrow> Store \<Rightarrow> Store tx" where
  "set_service_state H actor nxt reason = set_service_state_inner H actor nxt reason None None"

definition set_service_state_idempotent ::
  "(json \<Rightarrow> string) \<Rightarrow> string \<Rightarrow> ServiceState \<Rightarrow> string \<Rightarrow> string \<Rightarrow> string \<Rightarrow> json \<Rightarrow> json
     \<Rightarrow> uuid \<Rightarrow> uuid \<Rightarrow> instant \<Rightarrow> Store \<Rightarrow> Store tx" where
  "set_service_state_idempotent H actor nxt reason key operation request_body response_body =
     set_service_state_inner H actor nxt reason (Some (key, operation, request_body, response_body)) None"

definition set_service_state_if_unchanged ::
  "(json \<Rightarrow> string) \<Rightarrow> string \<Rightarrow> ServiceState \<Rightarrow> string \<Rightarrow> int \<Rightarrow> uuid \<Rightarrow> uuid \<Rightarrow> instant \<Rightarrow> Store \<Rightarrow> Store tx" where
  "set_service_state_if_unchanged H actor nxt reason expected =
     set_service_state_inner H actor nxt reason None (Some expected)"

definition set_service_state_idempotent_if_unchanged ::
  "(json \<Rightarrow> string) \<Rightarrow> string \<Rightarrow> ServiceState \<Rightarrow> string \<Rightarrow> string \<Rightarrow> string \<Rightarrow> json \<Rightarrow> json \<Rightarrow> int
     \<Rightarrow> uuid \<Rightarrow> uuid \<Rightarrow> instant \<Rightarrow> Store \<Rightarrow> Store tx" where
  "set_service_state_idempotent_if_unchanged H actor nxt reason key operation request_body response_body expected =
     set_service_state_inner H actor nxt reason (Some (key, operation, request_body, response_body)) (Some expected)"

section \<open>Properties\<close>

text \<open>
  The text of every service state reads back as that state, so a state written by this version
  is never an unknown control state after a restart.
\<close>

theorem service_state_text_roundtrip: "parse_service_state (service_state_text s) = Ok s"
  by (cases s) (simp_all add: parse_service_state_def service_state_text_def)

lemma insert_idempotency_record_Ok [res_simps]:
  "insert_idempotency_record H actor key operation rid body status response now db = Ok db' \<longleftrightarrow>
     \<not> list_ex (owns_key actor key) (idempotency_keys db) \<and>
     db' = db\<lparr>idempotency_keys := idempotency_keys db @
       [\<lparr>ik_actor_id = actor, ik_idempotency_key = key, ik_request_hash = operation_hash H operation body,
         ik_resource_type = operation, ik_resource_id = rid, ik_response_status = status,
         ik_response_json = response, ik_created_at = now\<rparr>]\<rparr>"
  by (auto simp: insert_idempotency_record_def Let_def)

lemma set_service_state_innerD:
  assumes "set_service_state_inner H actor nxt reason idem expected aid cid now db = Ok db'"
  shows "cs_revision (control_state db') = cs_revision (control_state db) + 1"
    and "cs_state (control_state db') = service_state_text nxt"
    and "cs_reason (control_state db') = reason"
    and "cs_revision (control_state db) < i64_max"
    and "case expected of None \<Rightarrow> True
         | Some e \<Rightarrow> cs_state (control_state db) = ''HALTED'' \<and> cs_revision (control_state db) = e"
    and "\<exists>a. operator_actions db' = operator_actions db @ [a] \<and> oa_actor_id a = actor
           \<and> oa_prior_state a = cs_state (control_state db) \<and> oa_new_state a = service_state_text nxt"
    and "intents db' = intents db" "orders db' = orders db" "prepared_orders db' = prepared_orders db"
      "submission_attempts db' = submission_attempts db" "risk_reservations db' = risk_reservations db"
      "trades db' = trades db" "positions db' = positions db" "st_mode db' = st_mode db"
  using assms
  by (auto simp: set_service_state_inner_def Let_def res_simps append_event_eq
        split: if_split_asm option.splits prod.splits)

text \<open>One change of the service state, by any of the entry points.\<close>

definition control_step :: "(json \<Rightarrow> string) \<Rightarrow> Store \<Rightarrow> Store \<Rightarrow> bool" where
  "control_step H db db' \<longleftrightarrow>
     (\<exists>actor nxt reason idem expected aid cid now.
        set_service_state_inner H actor nxt reason idem expected aid cid now db = Ok db')"

lemma control_steps_raise_revision:
  assumes "(control_step H)\<^sup>+\<^sup>+ db db'"
  shows "cs_revision (control_state db) < cs_revision (control_state db')"
  using assms
proof (induction rule: tranclp_induct)
  case (base y)
  then show ?case by (auto simp: control_step_def dest: set_service_state_innerD(1))
next
  case (step y z)
  then show ?case by (fastforce simp: control_step_def dest: set_service_state_innerD(1))
qed

text \<open>
  A resume cannot overwrite a newer control decision: a resume that read its revision before some
  other change of the service state (a halt, a degradation, another resume), however many there were,
  is refused, and the newer state stays.
\<close>

theorem stale_resume_refused:
  assumes "(control_step H)\<^sup>+\<^sup>+ db db'"
  shows "set_service_state_inner H actor nxt reason idem (Some (cs_revision (control_state db))) aid cid now db'
           = Err (IdentityMismatch ''control state changed while resume checks were running'')"
  using control_steps_raise_revision [OF assms]
  by (auto simp: set_service_state_inner_def Let_def)


lemma ready_store_halts:
  "\<exists>db'. set_service_state_inner H a Halted r None None aid cid now ready_store = Ok db'"
  by (simp add: set_service_state_inner_def ready_store_def new_store_def Let_def append_event_eq
        sql_insert_def i64_max_def)

theorem stale_resume_refused_witness:
  "\<exists>db'. (control_step sample_hash)\<^sup>+\<^sup>+ ready_store db'
     \<and> set_service_state_inner sample_hash ''op'' Ready ''resume'' None (Some (cs_revision (control_state ready_store))) 7 8 9 db'
         = Err (IdentityMismatch ''control state changed while resume checks were running'')"
proof -
  from ready_store_halts obtain db' where
    "set_service_state_inner sample_hash ''op'' Halted ''r'' None None 1 2 3 ready_store = Ok db'" by blast
  then have s: "(control_step sample_hash)\<^sup>+\<^sup>+ ready_store db'"
    by (intro tranclp.r_into_trancl) (unfold control_step_def, blast)
  then show ?thesis using stale_resume_refused [OF s] by blast
qed

end
