(* ===== verification/RiskReserve.thy ===== *)
theory RiskReserve
  imports Control
begin

text \<open>
  The risk side of the journal in \<open>src/src/store.rs\<close>: intent transitions, risk decisions, the exposure
  snapshot built from open orders, active reservations, positions and today's trades, and the
  transaction that evaluates an intent and reserves its exposure.  The lemmas give the snapshot in
  closed form and show that an approval reserves exactly the exposure that was checked, so that the
  limits also hold for the snapshot taken afterwards.
\<close>

section \<open>Intent transitions and decisions\<close>

definition transition_intent ::
  "uuid \<Rightarrow> IntentState \<Rightarrow> IntentState \<Rightarrow> (string \<times> string) option \<Rightarrow> instant \<Rightarrow> Store \<Rightarrow> (IntentRecord \<times> Store) tx" where
  "transition_intent i expected nxt rejection now db =
     (let P = (\<lambda>r. in_id r = i \<and> in_state r = expected)
      in if sql_count P (intents db) \<noteq> 1 then Err NotFound
         else
           let db = db\<lparr>intents := sql_update P (\<lambda>r. r\<lparr>in_state := nxt,
                         in_rejection_code := map_option fst rejection,
                         in_rejection_message := map_option snd rejection, in_updated_at := now\<rparr>) (intents db)\<rparr>
           in rbind (ok_or (Database ''no rows returned'') (sql_find (\<lambda>r. in_id r = i) (intents db))) (\<lambda>row.
              let record = IntentRecord.truncate row;
                  (event, db) = append_event (''intent.'' @ intent_state_debug nxt) ''intent'' (RUuid i)
                                  (json_of_intent record) now db
              in Ok (record, send [event] db)))"

definition decision_json :: "uuid \<Rightarrow> uuid \<Rightarrow> bool \<Rightarrow> string \<Rightarrow> json \<Rightarrow> string \<Rightarrow> Mode \<Rightarrow> instant \<Rightarrow> json" where
  "decision_json did i approved code observed policy_version mode now = JObj
     [(''id'', JUuid did), (''intent_id'', JUuid i), (''approved'', JBool approved),
      (''reason_code'', JStr code), (''observed'', observed), (''policy_version'', JStr policy_version),
      (''mode'', JStr (mode_text mode)), (''created_at'', JTime now)]"

definition insert_decision ::
  "uuid \<Rightarrow> uuid \<Rightarrow> bool \<Rightarrow> string \<Rightarrow> json \<Rightarrow> string \<Rightarrow> instant \<Rightarrow> Store \<Rightarrow> (ExecutionEvent \<times> Store) tx" where
  "insert_decision did i approved code observed policy_version now db =
     rbind (foreign_key (has_intent i db)) (\<lambda>_.
     rbind (sql_insert (same_key dc_id)
              \<lparr>dc_id = did, dc_intent_id = i, dc_approved = approved, dc_reason_code = code,
               dc_observed_json = observed, dc_policy_version = policy_version, dc_created_at = now\<rparr>
              (risk_decisions db)) (\<lambda>rows.
       Ok (append_event ''risk.decision'' ''risk_decision'' (RUuid did)
             (decision_json did i approved code observed policy_version (st_mode db) now) now
             (db\<lparr>risk_decisions := rows\<rparr>))))"

definition record_risk_decision ::
  "uuid \<Rightarrow> bool \<Rightarrow> string \<Rightarrow> json \<Rightarrow> string \<Rightarrow> uuid \<Rightarrow> instant \<Rightarrow> Store \<Rightarrow> Store tx" where
  "record_risk_decision i approved code observed policy_version did now db =
     rbind (insert_decision did i approved code observed policy_version now db) (\<lambda>(event, db).
       Ok (send [event] db))"

section \<open>The exposure snapshot\<close>

record RiskExposureRow =
  rx_condition_id :: string
  rx_token_id :: string
  rx_side :: string
  rx_fee_rate :: string
  rx_quote_exposure :: string
  rx_original_quantity :: string
  rx_quantity :: string

definition open_states :: "OrderState list" where
  "open_states = [OrderState.Prepared, OrderState.Submitting, OrderState.Live, OrderState.PartiallyFilled,
                  OrderState.CancelPending, OrderState.Unknown]"

definition order_is_open :: "'a OrderRecord_scheme \<Rightarrow> bool" where
  "order_is_open r \<longleftrightarrow> or_state r \<in> set open_states"

definition order_exposure :: "OrderRow \<Rightarrow> RiskExposureRow" where
  "order_exposure r =
     \<lparr>rx_condition_id = or_condition_id r, rx_token_id = or_token_id r, rx_side = side_text (or_side r),
      rx_fee_rate = or_fee_rate r, rx_quote_exposure = or_quote_exposure r,
      rx_original_quantity = or_original_quantity r, rx_quantity = or_remaining_quantity r\<rparr>"

definition reservation_exposure :: "ReservationRow \<Rightarrow> RiskExposureRow" where
  "reservation_exposure r =
     \<lparr>rx_condition_id = rv_condition_id r, rx_token_id = rv_token_id r, rx_side = side_text (rv_side r),
      rx_fee_rate = rv_fee_rate r, rx_quote_exposure = rv_quote_exposure r,
      rx_original_quantity = rv_quantity r, rx_quantity = rv_quantity r\<rparr>"

text \<open>One round of the exposure loop on the four accumulators, then the loop.\<close>

record exposure_acc =
  ea_market :: decimal
  ea_buys :: decimal
  ea_sells :: decimal
  ea_gross :: decimal

definition exposure_row ::
  "dec_ops \<Rightarrow> string \<Rightarrow> string \<Rightarrow> RiskExposureRow \<Rightarrow> exposure_acc \<Rightarrow> exposure_acc tx" where
  "exposure_row D cid tid row acc =
     rbind (parse_stored_decimal D (rx_quantity row)) (\<lambda>quantity.
     rbind (parse_stored_decimal D (rx_original_quantity row)) (\<lambda>original.
     if original \<le> 0 then Err (IdentityMismatch ''risk exposure has a non-positive original quantity'')
     else
     rbind (parse_stored_decimal D (rx_quote_exposure row)) (\<lambda>quote_exposure.
     rbind (or_panic (do { x \<leftarrow> d_mul D quote_exposure quantity; d_div D x original })) (\<lambda>notional.
     rbind (or_panic (if rx_condition_id row = cid then d_add D (ea_market acc) notional else Some (ea_market acc))) (\<lambda>market.
     rbind (or_panic (if rx_token_id row = tid \<and> rx_side row = ''BUY''
                      then d_add D (ea_buys acc) quantity else Some (ea_buys acc))) (\<lambda>buys.
     rbind (or_panic (if rx_token_id row = tid \<and> rx_side row = ''SELL''
                      then d_add D (ea_sells acc) quantity else Some (ea_sells acc))) (\<lambda>sells.
     rbind (if rx_side row = ''BUY''
            then rbind (parse_stored_decimal D (rx_fee_rate row)) (\<lambda>fee_rate.
                   or_panic (do { f \<leftarrow> d_add D 1 fee_rate; x \<leftarrow> d_mul D notional f; d_add D (ea_gross acc) x }))
            else Ok (ea_gross acc)) (\<lambda>gross.
       Ok \<lparr>ea_market = market, ea_buys = buys, ea_sells = sells, ea_gross = gross\<rparr>))))))))"

fun exposure_loop ::
  "dec_ops \<Rightarrow> string \<Rightarrow> string \<Rightarrow> RiskExposureRow list \<Rightarrow> exposure_acc \<Rightarrow> exposure_acc tx" where
  "exposure_loop D cid tid [] acc = Ok acc"
| "exposure_loop D cid tid (row # rows) acc =
     rbind (exposure_row D cid tid row acc) (\<lambda>acc. exposure_loop D cid tid rows acc)"

fun position_loop ::
  "dec_ops \<Rightarrow> string \<Rightarrow> (string \<times> string) list \<Rightarrow> decimal \<times> decimal \<Rightarrow> (decimal \<times> decimal) tx" where
  "position_loop D tid [] acc = Ok acc"
| "position_loop D tid ((token, raw) # rows) (gross, position) =
     rbind (parse_stored_decimal D raw) (\<lambda>shares.
     rbind (or_panic (d_add D gross \<bar>shares\<bar>)) (\<lambda>gross.
       position_loop D tid rows (gross, if token = tid then shares else position)))"

fun daily_loop :: "dec_ops \<Rightarrow> (string \<times> string) list \<Rightarrow> decimal \<Rightarrow> decimal tx" where
  "daily_loop D [] acc = Ok acc"
| "daily_loop D ((rprice, rsize) # rows) acc =
     rbind (parse_stored_decimal D rprice) (\<lambda>price.
     rbind (parse_stored_decimal D rsize) (\<lambda>size.
     rbind (or_panic (do { x \<leftarrow> d_mul D price size; d_add D acc x })) (\<lambda>acc.
       daily_loop D rows acc)))"

definition build_risk_snapshot ::
  "dec_ops \<Rightarrow> string \<Rightarrow> string \<Rightarrow> RiskExposureRow list \<Rightarrow> RiskExposureRow list
     \<Rightarrow> (string \<times> string) list \<Rightarrow> (string \<times> string) list \<Rightarrow> RiskSnapshot tx" where
  "build_risk_snapshot D cid tid order_rows reservation_rows position_rows daily_rows =
     rbind (exposure_loop D cid tid (order_rows @ reservation_rows)
              \<lparr>ea_market = 0, ea_buys = 0, ea_sells = 0, ea_gross = 0\<rparr>) (\<lambda>acc.
     rbind (position_loop D tid position_rows (ea_gross acc, 0)) (\<lambda>(gross, position).
     rbind (daily_loop D daily_rows 0) (\<lambda>daily.
       Ok \<lparr>sn_open_order_count = length order_rows + length reservation_rows,
           sn_market_open_notional = ea_market acc, sn_token_position = position,
           sn_token_pending_buys = ea_buys acc, sn_token_pending_sells = ea_sells acc,
           sn_gross_exposure = gross, sn_daily_matched_notional = daily\<rparr>)))"

text \<open>\<open>date('now')\<close>: midnight UTC of the current day, in nanoseconds.\<close>

definition day_start :: "instant \<Rightarrow> instant" where
  "day_start now = now - now mod (86400 * 10 ^ 9)"

definition active_reservations :: "Store \<Rightarrow> ReservationRow list" where
  "active_reservations db = filter (\<lambda>r. rv_state r = ''ACTIVE'') (risk_reservations db)"

definition open_orders :: "Store \<Rightarrow> OrderRow list" where
  "open_orders db = filter order_is_open (orders db)"

definition risk_snapshot_in_transaction ::
  "dec_ops \<Rightarrow> string \<Rightarrow> string \<Rightarrow> instant \<Rightarrow> Store \<Rightarrow> RiskSnapshot tx" where
  "risk_snapshot_in_transaction D cid tid now db =
     build_risk_snapshot D cid tid
       (map order_exposure (open_orders db)) (map reservation_exposure (active_reservations db))
       (map (\<lambda>p. (ps_token_id p, ps_shares p)) (positions db))
       (map (\<lambda>t. (tr_price t, tr_size t)) (filter (\<lambda>t. tr_created_at t \<ge> day_start now) (trades db)))"

definition risk_snapshot :: "dec_ops \<Rightarrow> string \<Rightarrow> string \<Rightarrow> instant \<Rightarrow> Store \<Rightarrow> RiskSnapshot tx" where
  "risk_snapshot D cid tid now db = risk_snapshot_in_transaction D cid tid now db"

section \<open>Evaluate and reserve\<close>

definition reserve_exposure ::
  "dec_ops \<Rightarrow> uuid \<Rightarrow> OrderIntentRequest \<Rightarrow> MarketRules \<Rightarrow> RiskPolicy \<Rightarrow> instant \<Rightarrow> Store
     \<Rightarrow> (ExecutionEvent \<times> Store) tx" where
  "reserve_exposure D i request market policy now db =
     rbind (map_err (\<lambda>e. InvalidDecimal (domain_error_text e)) (protection_price D request)) (\<lambda>price.
     rbind (map_err (\<lambda>e. InvalidDecimal (domain_error_text e)) (quantity_decimal D request)) (\<lambda>quantity.
     rbind (or_panic (conservative_exposure D request market quantity price)) (\<lambda>exposure.
     rbind (ok_or (IdentityMismatch ''approved risk decision has an invalid market tick size'') exposure) (\<lambda>(shares, quote_exposure).
       let fee_rate = max (mk_maker_fee_rate market) (mk_taker_fee_rate market)
       in rbind (foreign_key (has_intent i db)) (\<lambda>_.
          rbind (sql_insert (same_key rv_intent_id)
                   \<lparr>rv_intent_id = i, rv_condition_id = rq_condition_id request, rv_token_id = rq_token_id request,
                    rv_side = rq_side request, rv_price = d_norm D price, rv_quantity = d_norm D shares,
                    rv_quote_exposure = d_norm D quote_exposure, rv_fee_rate = d_norm D fee_rate,
                    rv_state = ''ACTIVE'', rv_created_at = now, rv_updated_at = now\<rparr>
                   (risk_reservations db)) (\<lambda>rows.
          Ok (append_event ''risk.reserved'' ''risk_reservation'' (RUuid i)
                (JObj [(''intent_id'', JUuid i), (''condition_id'', JStr (rq_condition_id request)),
                       (''token_id'', JStr (rq_token_id request)), (''side'', JStr (side_text (rq_side request))),
                       (''price'', JDec price), (''quantity'', JDec shares),
                       (''quote_exposure'', JDec quote_exposure), (''fee_rate'', JDec fee_rate),
                       (''policy_version'', JStr (rp_version policy)), (''mode'', JStr (mode_text (st_mode db)))])
                now (db\<lparr>risk_reservations := rows\<rparr>))))))))"

definition evaluate_and_reserve_risk ::
  "dec_ops \<Rightarrow> uuid \<Rightarrow> OrderIntentRequest \<Rightarrow> MarketRules \<Rightarrow> OrderBook \<Rightarrow> RiskPolicy \<Rightarrow> uuid \<Rightarrow> instant \<Rightarrow> Store
     \<Rightarrow> (RiskDecision \<times> Store) tx" where
  "evaluate_and_reserve_risk D i request market book policy did now db =
     rbind (risk_snapshot_in_transaction D (rq_condition_id request) (rq_token_id request) now db) (\<lambda>snapshot.
     rbind (or_panic (evaluate D policy request market book snapshot)) (\<lambda>decision.
     rbind (insert_decision did i (rd_approved decision) (rd_reason_code decision) (rd_observed decision)
              (rd_policy_version decision) now db) (\<lambda>(decision_event, db).
     rbind (if rd_approved decision
            then rbind (reserve_exposure D i request market policy now db) (\<lambda>(e, db). Ok ([decision_event, e], IntentState.Approved, db))
            else Ok ([decision_event], IntentState.Rejected, db)) (\<lambda>(evs, next_state, db).
     let P = (\<lambda>r. in_id r = i \<and> in_state r = IntentState.Validating);
         code = (if rd_approved decision then None else Some (rd_reason_code decision))
     in if sql_count P (intents db) \<noteq> 1
        then Err (IdentityMismatch ''intent was not VALIDATING during risk reservation'')
        else
          let db = db\<lparr>intents := sql_update P (\<lambda>r. r\<lparr>in_state := next_state, in_rejection_code := code,
                        in_rejection_message := (if rd_approved decision then None else Some (rd_message decision)),
                        in_policy_version := Some (rd_policy_version decision), in_updated_at := now\<rparr>) (intents db)\<rparr>;
              (event, db) = append_event (''intent.'' @ intent_state_debug next_state) ''intent'' (RUuid i)
                (JObj [(''state'', JStr (intent_state_text next_state)), (''reason_code'', jstr_opt code),
                       (''policy_version'', JStr (rd_policy_version decision))]) now db
          in Ok (decision, send (evs @ [event]) db)))))"

section \<open>The snapshot in closed form\<close>

text \<open>The quotient of an exact product by one of its factors is the other factor.\<close>

definition dec_cancel :: "dec_ops \<Rightarrow> bool" where
  "dec_cancel D \<longleftrightarrow> (\<forall>a b c. b \<noteq> 0 \<longrightarrow> d_div D (a * b) b = Some c \<longrightarrow> c = a)"

lemma dec_rat_cancel: "dec_cancel dec_rat"
  by (auto simp: dec_cancel_def dec_rat_def)

text \<open>The numbers a row contributes, as the loop reads them.\<close>

definition stored :: "dec_ops \<Rightarrow> string \<Rightarrow> decimal" where
  "stored D raw = (case d_from_str D raw of Some x \<Rightarrow> x | None \<Rightarrow> 0)"

definition row_notional :: "dec_ops \<Rightarrow> RiskExposureRow \<Rightarrow> decimal" where
  "row_notional D row =
     (case d_div D (stored D (rx_quote_exposure row) * stored D (rx_quantity row)) (stored D (rx_original_quantity row))
      of Some x \<Rightarrow> x | None \<Rightarrow> 0)"

definition row_market :: "dec_ops \<Rightarrow> string \<Rightarrow> RiskExposureRow \<Rightarrow> decimal" where
  "row_market D cid row = (if rx_condition_id row = cid then row_notional D row else 0)"

definition row_pending :: "dec_ops \<Rightarrow> string \<Rightarrow> string \<Rightarrow> RiskExposureRow \<Rightarrow> decimal" where
  "row_pending D tid side row = (if rx_token_id row = tid \<and> rx_side row = side then stored D (rx_quantity row) else 0)"

definition row_gross :: "dec_ops \<Rightarrow> RiskExposureRow \<Rightarrow> decimal" where
  "row_gross D row = (if rx_side row = ''BUY'' then row_notional D row * (1 + stored D (rx_fee_rate row)) else 0)"

lemma stored_Some: "d_from_str D raw = Some x \<Longrightarrow> stored D raw = x"
  by (simp add: stored_def)

lemma exposure_row_exact:
  assumes D: "dec_exact D" and r: "exposure_row D cid tid row acc = Ok acc'"
  shows "ea_market acc' = ea_market acc + row_market D cid row"
    and "ea_buys acc' = ea_buys acc + row_pending D tid ''BUY'' row"
    and "ea_sells acc' = ea_sells acc + row_pending D tid ''SELL'' row"
    and "ea_gross acc' = ea_gross acc + row_gross D row"
proof -
  from r obtain q n ou x where v: "d_from_str D (rx_quantity row) = Some q"
      "d_from_str D (rx_original_quantity row) = Some ou" "d_from_str D (rx_quote_exposure row) = Some n"
      "d_mul D n q = Some x"
    by (auto simp: exposure_row_def res_simps bind_Some_simps split: if_split_asm)
  have x: "x = n * q" using v(4) by (rule dec_exactD(3) [OF D])
  have s: "stored D (rx_quantity row) = q" "stored D (rx_original_quantity row) = ou"
      "stored D (rx_quote_exposure row) = n"
    using v by (simp_all add: stored_Some)
  from r v x obtain nn where nn: "d_div D (n * q) ou = Some nn"
    by (auto simp: exposure_row_def res_simps bind_Some_simps split: if_split_asm)
  have notional: "row_notional D row = nn"
    by (simp add: row_notional_def s nn)
  note simps = exposure_row_def res_simps bind_Some_simps v nn x
  show "ea_market acc' = ea_market acc + row_market D cid row"
    using r by (auto simp: simps row_market_def notional split: if_split_asm dest: dec_exactD(1) [OF D])
  show "ea_buys acc' = ea_buys acc + row_pending D tid ''BUY'' row"
    using r by (auto simp: simps row_pending_def s split: if_split_asm dest: dec_exactD(1) [OF D])
  show "ea_sells acc' = ea_sells acc + row_pending D tid ''SELL'' row"
    using r by (auto simp: simps row_pending_def s split: if_split_asm dest: dec_exactD(1) [OF D])
  show "ea_gross acc' = ea_gross acc + row_gross D row"
    using r
    by (auto simp: simps row_gross_def notional stored_Some algebra_simps split: if_split_asm
          dest!: dec_exactD(1) [OF D] dec_exactD(3) [OF D])
qed

lemma exposure_loop_exact:
  assumes D: "dec_exact D" and r: "exposure_loop D cid tid rows acc = Ok acc'"
  shows "ea_market acc' = ea_market acc + sum_list (map (row_market D cid) rows)"
    and "ea_buys acc' = ea_buys acc + sum_list (map (row_pending D tid ''BUY'') rows)"
    and "ea_sells acc' = ea_sells acc + sum_list (map (row_pending D tid ''SELL'') rows)"
    and "ea_gross acc' = ea_gross acc + sum_list (map (row_gross D) rows)"
  using r by (induction rows arbitrary: acc) (auto simp: res_simps exposure_row_exact [OF D])

lemma position_loop_exact:
  assumes "dec_exact D" "position_loop D tid rows (g, p) = Ok (g', p')"
  shows "g' = g + (\<Sum>(token, raw) \<leftarrow> rows. \<bar>stored D raw\<bar>)"
  using assms(2)
proof (induction rows arbitrary: g p)
  case (Cons row rows)
  obtain token raw where row: "row = (token, raw)" by (cases row)
  from Cons.prems obtain x p1 where x: "d_from_str D raw = Some x"
    and rest: "position_loop D tid rows (g + \<bar>x\<bar>, p1) = Ok (g', p')"
    by (auto simp: row res_simps dest: dec_exactD(1) [OF assms(1)])
  from Cons.IH [OF rest] x show ?case by (simp add: row stored_Some)
qed simp

lemma position_loop_position:
  assumes "position_loop D tid rows (g, p) = Ok (g', p')" "position_loop D tid rows (h, p) = Ok (h', q')"
  shows "p' = q'"
  using assms by (induction rows arbitrary: g h p) (auto simp: res_simps)

text \<open>
  Two snapshots of stores that differ only by one more active reservation: the later one adds that
  reservation's share, notional and fee, and nothing else.
\<close>

lemma snapshot_added_reservation:
  assumes D: "dec_exact D"
    and s: "risk_snapshot_in_transaction D cid tid now db = Ok s"
    and s': "risk_snapshot_in_transaction D cid tid now db' = Ok s'"
    and db': "orders db' = orders db" "positions db' = positions db" "trades db' = trades db"
    and rows: "risk_reservations db' = risk_reservations db @ [row]" "rv_state row = ''ACTIVE''"
  shows "sn_open_order_count s' = Suc (sn_open_order_count s)"
    and "sn_market_open_notional s' = sn_market_open_notional s + row_market D cid (reservation_exposure row)"
    and "sn_token_position s' = sn_token_position s"
    and "sn_token_pending_buys s' = sn_token_pending_buys s + row_pending D tid ''BUY'' (reservation_exposure row)"
    and "sn_token_pending_sells s' = sn_token_pending_sells s + row_pending D tid ''SELL'' (reservation_exposure row)"
    and "sn_gross_exposure s' = sn_gross_exposure s + row_gross D (reservation_exposure row)"
    and "sn_daily_matched_notional s' = sn_daily_matched_notional s"
proof -
  let ?zero = "\<lparr>ea_market = 0, ea_buys = 0, ea_sells = 0, ea_gross = 0\<rparr>"
  define rs where "rs = map order_exposure (open_orders db) @ map reservation_exposure (active_reservations db)"
  define ps where "ps = map (\<lambda>p. (ps_token_id p, ps_shares p)) (positions db)"
  from s obtain a g p where a: "exposure_loop D cid tid rs ?zero = Ok a"
      "position_loop D tid ps (ea_gross a, 0) = Ok (g, p)"
      "sn_open_order_count s = length rs" "sn_market_open_notional s = ea_market a"
      "sn_token_position s = p" "sn_token_pending_buys s = ea_buys a"
      "sn_token_pending_sells s = ea_sells a" "sn_gross_exposure s = g"
      "daily_loop D (map (\<lambda>t. (tr_price t, tr_size t)) (filter (\<lambda>t. tr_created_at t \<ge> day_start now) (trades db))) 0
         = Ok (sn_daily_matched_notional s)"
    by (auto simp: risk_snapshot_in_transaction_def build_risk_snapshot_def res_simps rs_def ps_def)
  have "open_orders db' = open_orders db" "active_reservations db' = active_reservations db @ [row]"
    using rows db' by (simp_all add: open_orders_def active_reservations_def)
  with s' db' obtain a' g' p' where a': "exposure_loop D cid tid (rs @ [reservation_exposure row]) ?zero = Ok a'"
      "position_loop D tid ps (ea_gross a', 0) = Ok (g', p')"
      "sn_open_order_count s' = Suc (length rs)" "sn_market_open_notional s' = ea_market a'"
      "sn_token_position s' = p'" "sn_token_pending_buys s' = ea_buys a'"
      "sn_token_pending_sells s' = ea_sells a'" "sn_gross_exposure s' = g'"
      "daily_loop D (map (\<lambda>t. (tr_price t, tr_size t)) (filter (\<lambda>t. tr_created_at t \<ge> day_start now) (trades db))) 0
         = Ok (sn_daily_matched_notional s')"
    by (auto simp: risk_snapshot_in_transaction_def build_risk_snapshot_def res_simps rs_def ps_def)
  note e = exposure_loop_exact [OF D a(1)] and e' = exposure_loop_exact [OF D a'(1)]
  show "sn_open_order_count s' = Suc (sn_open_order_count s)" using a a' by simp
  show "sn_market_open_notional s' = sn_market_open_notional s + row_market D cid (reservation_exposure row)"
    using a(4) a'(4) e(1) e'(1) by simp
  show "sn_token_pending_buys s' = sn_token_pending_buys s + row_pending D tid ''BUY'' (reservation_exposure row)"
    using a(6) a'(6) e(2) e'(2) by simp
  show "sn_token_pending_sells s' = sn_token_pending_sells s + row_pending D tid ''SELL'' (reservation_exposure row)"
    using a(7) a'(7) e(3) e'(3) by simp
  show "sn_token_position s' = sn_token_position s"
    using a(5) a'(5) position_loop_position [OF a(2) a'(2)] by simp
  show "sn_gross_exposure s' = sn_gross_exposure s + row_gross D (reservation_exposure row)"
    using a(8) a'(8) e(4) e'(4) position_loop_exact [OF D a(2)] position_loop_exact [OF D a'(2)] by simp
  show "sn_daily_matched_notional s' = sn_daily_matched_notional s"
    using a(9) a'(9) by simp
qed

section \<open>An approval reserves what it checked\<close>

lemma reserve_exposureE:
  assumes "reserve_exposure D i request market policy now db = Ok (e, db')"
  obtains price quantity shares quote row where
    "protection_price D request = Ok price" "quantity_decimal D request = Ok quantity"
    "conservative_exposure D request market quantity price = Some (Some (shares, quote))"
    "row = \<lparr>rv_intent_id = i, rv_condition_id = rq_condition_id request, rv_token_id = rq_token_id request,
            rv_side = rq_side request, rv_price = d_norm D price, rv_quantity = d_norm D shares,
            rv_quote_exposure = d_norm D quote,
            rv_fee_rate = d_norm D (max (mk_maker_fee_rate market) (mk_taker_fee_rate market)),
            rv_state = ''ACTIVE'', rv_created_at = now, rv_updated_at = now\<rparr>"
    "i \<notin> rv_intent_id ` set (risk_reservations db)"
    "db' = log_event e (db\<lparr>risk_reservations := risk_reservations db @ [row]\<rparr>)"
proof -
  from assms obtain price quantity shares quote where
    1: "protection_price D request = Ok price" "quantity_decimal D request = Ok quantity"
       "conservative_exposure D request market quantity price = Some (Some (shares, quote))"
    by (auto simp: reserve_exposure_def res_simps)
  show ?thesis
    by (rule that [OF 1 refl])
       (use assms 1 in \<open>auto simp: reserve_exposure_def res_simps Let_def append_event_eq same_key_def list_ex_iff\<close>)
qed

lemma insert_decision_Ok:
  assumes "insert_decision did i ap code ob pv now db = Ok (e, db')"
  shows "\<exists>rows. db' = log_event e (db\<lparr>risk_decisions := rows\<rparr>)" and "has_intent i db"
  using assms by (auto simp: insert_decision_def res_simps append_event_eq)

lemma approvedE:
  assumes "evaluate_and_reserve_risk D i request market book policy did now db = Ok (d, db')" "rd_approved d"
  obtains snapshot price quantity shares quote row where
    "risk_snapshot_in_transaction D (rq_condition_id request) (rq_token_id request) now db = Ok snapshot"
    "evaluate D policy request market book snapshot = Some d"
    "protection_price D request = Ok price" "quantity_decimal D request = Ok quantity"
    "conservative_exposure D request market quantity price = Some (Some (shares, quote))"
    "row = \<lparr>rv_intent_id = i, rv_condition_id = rq_condition_id request, rv_token_id = rq_token_id request,
            rv_side = rq_side request, rv_price = d_norm D price, rv_quantity = d_norm D shares,
            rv_quote_exposure = d_norm D quote,
            rv_fee_rate = d_norm D (max (mk_maker_fee_rate market) (mk_taker_fee_rate market)),
            rv_state = ''ACTIVE'', rv_created_at = now, rv_updated_at = now\<rparr>"
    "i \<notin> rv_intent_id ` set (risk_reservations db)"
    "risk_reservations db' = risk_reservations db @ [row]"
    "orders db' = orders db" "positions db' = positions db" "trades db' = trades db"
    "prepared_orders db' = prepared_orders db" "submission_attempts db' = submission_attempts db"
    "sql_count (\<lambda>r. in_id r = i \<and> in_state r = IntentState.Validating) (intents db) = 1"
    "intents db' = sql_update (\<lambda>r. in_id r = i \<and> in_state r = IntentState.Validating)
       (\<lambda>r. r\<lparr>in_state := IntentState.Approved, in_rejection_code := None, in_rejection_message := None,
             in_policy_version := Some (rd_policy_version d), in_updated_at := now\<rparr>) (intents db)"
proof -
  from assms obtain snapshot e1 db1 e2 db2 e3 where
    1: "risk_snapshot_in_transaction D (rq_condition_id request) (rq_token_id request) now db = Ok snapshot"
       "evaluate D policy request market book snapshot = Some d"
    and 2: "insert_decision did i (rd_approved d) (rd_reason_code d) (rd_observed d) (rd_policy_version d) now db = Ok (e1, db1)"
    and 3: "reserve_exposure D i request market policy now db1 = Ok (e2, db2)"
    and 4: "sql_count (\<lambda>r. in_id r = i \<and> in_state r = IntentState.Validating) (intents db2) = 1"
    and 5: "db' = send [e1, e2, e3] (log_event e3 (db2\<lparr>intents :=
       sql_update (\<lambda>r. in_id r = i \<and> in_state r = IntentState.Validating)
       (\<lambda>r. r\<lparr>in_state := IntentState.Approved, in_rejection_code := None, in_rejection_message := None,
             in_policy_version := Some (rd_policy_version d), in_updated_at := now\<rparr>) (intents db2)\<rparr>))"
    unfolding evaluate_and_reserve_risk_def
    by (auto simp: res_simps Let_def append_event_eq)
  from insert_decision_Ok(1) [OF 2] obtain rows where db1: "db1 = log_event e1 (db\<lparr>risk_decisions := rows\<rparr>)" ..
  from 3 show ?thesis
    by (rule reserve_exposureE) (use that 1 4 5 db1 in auto)
qed

text \<open>The reservation of an approval, read back by a later snapshot.\<close>

lemma reservation_row_values:
  assumes D: "dec_text D" "dec_cancel D" and sh: "shares \<noteq> 0"
    and row: "rv_side row = side" "rv_quantity row = d_norm D shares" "rv_quote_exposure row = d_norm D quote"
      "rv_fee_rate row = d_norm D fee"
    and ret: "d_div D (quote * shares) shares \<noteq> None"
  shows "row_notional D (reservation_exposure row) = quote"
    and "row_pending D tid txt (reservation_exposure row)
           = (if rv_token_id row = tid \<and> side_text side = txt then shares else 0)"
    and "row_gross D (reservation_exposure row) = (if side = Buy then quote * (1 + fee) else 0)"
proof -
  have s: "stored D (d_norm D x) = x" for x using D(1) by (simp add: stored_def)
  from ret obtain c where "d_div D (quote * shares) shares = Some c" by auto
  moreover from this D(2) sh have "c = quote" by (auto simp: dec_cancel_def)
  ultimately show n: "row_notional D (reservation_exposure row) = quote"
    by (simp add: row_notional_def reservation_exposure_def row s)
  show "row_pending D tid txt (reservation_exposure row)
      = (if rv_token_id row = tid \<and> side_text side = txt then shares else 0)"
    by (simp add: row_pending_def reservation_exposure_def row s)
  have "rx_side (reservation_exposure row) = side_text side" "rx_fee_rate (reservation_exposure row) = d_norm D fee"
    by (simp_all add: reservation_exposure_def row)
  then show "row_gross D (reservation_exposure row) = (if side = Buy then quote * (1 + fee) else 0)"
    using n s by (cases side) (simp_all add: row_gross_def)
qed

text \<open>Where a snapshot returns, every row's quotient returned.\<close>

lemma exposure_loop_divides:
  assumes D: "dec_exact D" and r: "exposure_loop D cid tid rows acc = Ok acc'" and "row \<in> set rows"
  shows "d_div D (stored D (rx_quote_exposure row) * stored D (rx_quantity row)) (stored D (rx_original_quantity row)) \<noteq> None
    \<and> 0 < stored D (rx_original_quantity row)"
  using r assms(3)
proof (induction rows arbitrary: acc)
  case (Cons r rows)
  from Cons.prems(1) obtain acc1 where r: "exposure_row D cid tid r acc = Ok acc1"
    and rest: "exposure_loop D cid tid rows acc1 = Ok acc'" by (auto simp: res_simps)
  from r have "d_div D (stored D (rx_quote_exposure r) * stored D (rx_quantity r)) (stored D (rx_original_quantity r)) \<noteq> None
     \<and> 0 < stored D (rx_original_quantity r)"
    by (auto simp: exposure_row_def res_simps bind_Some_simps stored_Some split: if_split_asm
        dest!: dec_exactD(3) [OF D])
  with Cons.IH [OF rest] Cons.prems(2) show ?case by auto
qed simp

text \<open>
  C7. Approved risk is reserved risk: after an approval the exposure snapshot of the same market and
  token, which now counts the new reservation, still satisfies the policy's limits on open orders,
  market notional, net position in both directions and daily notional, and on gross exposure when
  the taker fee is the larger of the two fee rates.
\<close>

theorem approval_keeps_limits:
  assumes D: "dec_exact D" "dec_text D" "dec_cancel D"
    and ok: "evaluate_and_reserve_risk D i request market book policy did now db = Ok (d, db')" "rd_approved d"
    and after: "risk_snapshot D (rq_condition_id request) (rq_token_id request) now db' = Ok s'"
  shows "sn_open_order_count s' \<le> rp_max_open_orders policy
    \<and> at_most D (rp_max_open_notional_per_market policy) (sn_market_open_notional s')
    \<and> at_most D (rp_max_net_position_per_token policy) (max \<bar>sn_token_position s' + sn_token_pending_buys s'\<bar>
           \<bar>sn_token_position s' - sn_token_pending_sells s'\<bar>)
    \<and> (mk_maker_fee_rate market \<le> mk_taker_fee_rate market
           \<longrightarrow> at_most D (rp_max_gross_exposure policy) (sn_gross_exposure s'))
    \<and> at_most D (rp_max_daily_matched_notional policy) (sn_daily_matched_notional s')"
proof -
  let ?cid = "rq_condition_id request" and ?tid = "rq_token_id request"
  let ?fee = "max (mk_maker_fee_rate market) (mk_taker_fee_rate market)"
  obtain s price quantity shares quote row where
    s: "risk_snapshot_in_transaction D ?cid ?tid now db = Ok s"
       "evaluate D policy request market book s = Some d"
       "protection_price D request = Ok price" "quantity_decimal D request = Ok quantity"
       "conservative_exposure D request market quantity price = Some (Some (shares, quote))"
    and row: "rv_side row = rq_side request" "rv_quantity row = d_norm D shares"
       "rv_quote_exposure row = d_norm D quote" "rv_fee_rate row = d_norm D ?fee"
       "rv_condition_id row = ?cid" "rv_token_id row = ?tid" "rv_state row = ''ACTIVE''"
    and db': "risk_reservations db' = risk_reservations db @ [row]"
       "orders db' = orders db" "positions db' = positions db" "trades db' = trades db"
    using ok by (rule approvedE) (rule that, assumption+, simp_all)
  have allows: "exposure_within D policy request market s shares quote"
    using evaluate_approves [OF D(1) s(2)] ok(2) s by (auto simp: policy_allows_def)
  note after' = after [unfolded risk_snapshot_def]
  note added = snapshot_added_reservation [OF D(1) s(1) after' db'(2-4,1) row(7)]
  from after' obtain acc where loop: "exposure_loop D ?cid ?tid
      (map order_exposure (open_orders db') @ map reservation_exposure (active_reservations db'))
      \<lparr>ea_market = 0, ea_buys = 0, ea_sells = 0, ea_gross = 0\<rparr> = Ok acc"
    by (auto simp: risk_snapshot_in_transaction_def build_risk_snapshot_def res_simps)
  have mem: "reservation_exposure row \<in> set (map order_exposure (open_orders db') @ map reservation_exposure (active_reservations db'))"
    using db'(1) row(7) by (auto simp: active_reservations_def)
  have st: "stored D (d_norm D x) = x" for x using D(2) by (simp add: stored_def)
  have div: "d_div D (quote * shares) shares \<noteq> None" "shares \<noteq> 0"
    using exposure_loop_divides [OF D(1) loop mem] by (auto simp: reservation_exposure_def row st)
  note v = reservation_row_values [OF D(2,3) div(2) row(1-4) div(1)]
  have m: "row_market D ?cid (reservation_exposure row) = quote"
    using v(1) row(5) by (simp add: row_market_def) (simp add: reservation_exposure_def)
  have "0 \<le> quote"
    using s(5) quantity_decimal_pos [OF s(4)] protection_price_range [OF s(3)]
    by (auto simp: conservative_exposure_def bind_Some_simps dec_exact_simps [OF D(1)] split: if_split_asm)
  then have daily: "at_most D (rp_max_daily_matched_notional policy) (sn_daily_matched_notional s)"
    using allows by (auto simp: exposure_within_def at_most_def)
  show ?thesis
    using allows daily unfolding exposure_within_def added m v row(6)
    by (cases "rq_side request") (auto simp: max_absorb2 algebra_simps)
qed

subsection \<open>Examples\<close>

definition sample_intent :: "IntentState \<Rightarrow> OrderIntentRequest \<Rightarrow> IntentRow" where
  "sample_intent state request =
     \<lparr>in_id = 1, in_mode = Mode.Paper, in_actor_id = ''a'', in_idempotency_key = ''k'', in_request_hash = ''h'',
      in_request_json = json_of_request request, in_state = state, in_rejection_code = None,
      in_rejection_message = None, in_created_at = 0, in_updated_at = 0, in_policy_version = None\<rparr>"

definition validating_store :: "OrderIntentRequest \<Rightarrow> Store" where
  "validating_store request = ready_store\<lparr>intents := [sample_intent IntentState.Validating request]\<rparr>"

lemma sample_approval:
  "(case evaluate_and_reserve_risk dec_rat 1 sample_request sample_market sample_book sample_policy 9 0
           (validating_store sample_request) of
      Ok (d, db') \<Rightarrow> rd_approved d \<and> is_ok (risk_snapshot dec_rat ''c'' ''7'' 0 db')
    | _ \<Rightarrow> False)"
  by code_simp

theorem approval_keeps_limits_witness:
  "\<exists>d db' s'. evaluate_and_reserve_risk dec_rat 1 sample_request sample_market sample_book sample_policy 9 0
       (validating_store sample_request) = Ok (d, db') \<and> rd_approved d
     \<and> risk_snapshot dec_rat (rq_condition_id sample_request) (rq_token_id sample_request) 0 db' = Ok s'
     \<and> sn_open_order_count s' \<le> rp_max_open_orders sample_policy"
proof -
  from sample_approval obtain d db' s' where
    ok: "evaluate_and_reserve_risk dec_rat 1 sample_request sample_market sample_book sample_policy 9 0
           (validating_store sample_request) = Ok (d, db')" "rd_approved d"
    and after: "risk_snapshot dec_rat (rq_condition_id sample_request) (rq_token_id sample_request) 0 db' = Ok s'"
    by (auto simp: is_ok_iff sample_request_def split: res.splits)
  with approval_keeps_limits [OF dec_rat_exact dec_rat_text dec_rat_cancel ok after] show ?thesis by blast
qed

definition maker_request :: OrderIntentRequest where
  "maker_request = sample_request\<lparr>rq_side := Buy, rq_time_in_force := Gtc,
     rq_limit_price := Some ''0.5'', rq_worst_price := None\<rparr>"

text \<open>
  Where the maker fee is the larger one, the check of gross exposure adds the order with the taker
  fee while the reservation and every later snapshot count it with the larger fee: this order of
  notional 5 is approved under a gross limit of 5, and the exposure recorded for it is 5.5.
\<close>

theorem maker_fee_exceeds_gross_limit:
  "case evaluate_and_reserve_risk dec_rat 1 maker_request
          (sample_market\<lparr>mk_maker_fee_rate := 1 / 10, mk_taker_fee_rate := 0\<rparr>) sample_book
          (sample_policy\<lparr>rp_max_gross_exposure := ''5''\<rparr>) 9 0 (validating_store maker_request) of
     Ok (d, db') \<Rightarrow> rd_approved d
       \<and> (case risk_snapshot dec_rat ''c'' ''7'' 0 db' of Ok s' \<Rightarrow> sn_gross_exposure s' = 11 / 2 | _ \<Rightarrow> False)
   | _ \<Rightarrow> False"
  by code_simp

end
