(* ===== verification/Submission.thy ===== *)
theory Submission
  imports RiskReserve
begin

text \<open>
  Preparation and submission of orders in \<open>src/src/store.rs\<close>: the prepared order and its single
  submission attempt, the commit that precedes the venue request, the commit of the venue's answer
  with its fill, and the helpers for fills and venue evidence.  \<open>S\<close> is SHA-256 of a text as hex, \<open>U\<close>
  the text of a UUID.  The lemmas say what each transaction requires and does; the exactly-once
  argument over all transactions is in \<open>Pipeline\<close>.
\<close>

section \<open>Preparation\<close>

definition create_prepared_order ::
  "dec_ops \<Rightarrow> (string \<Rightarrow> string) \<Rightarrow> IntentRecord \<Rightarrow> OrderIntentRequest \<Rightarrow> PreparedVenueOrder \<Rightarrow> string \<Rightarrow> decimal
     \<Rightarrow> uuid \<Rightarrow> uuid \<Rightarrow> uuid \<Rightarrow> instant \<Rightarrow> Store \<Rightarrow> (OrderRecord \<times> Store) tx" where
  "create_prepared_order D S intent request prepared policy_version fee_rate prepared_id attempt_id order_id now db =
     (let i = in_id intent in
      rbind (foreign_key (has_intent i db)) (\<lambda>_.
      rbind (sql_insert (same_key pr_id)
               \<lparr>pr_id = prepared_id, pr_intent_id = i, pr_normalized_json = pv_normalized_json prepared,
                pr_signed_payload_json = pv_signed_payload_json prepared,
                pr_payload_sha256 = map_option S (pv_signed_payload_json prepared),
                pr_deterministic_order_id = pv_deterministic_order_id prepared,
                pr_signer_address = pv_signer_address prepared, pr_funder_address = pv_funder_address prepared,
                pr_protocol_version = pv_protocol_version prepared, pr_sdk_version = pv_sdk_version prepared,
                pr_policy_version = policy_version, pr_created_at = now\<rparr>
               (prepared_orders db)) (\<lambda>prepared_rows.
      rbind (sql_insert attempt_conflict
               \<lparr>sa_id = attempt_id, sa_prepared_order_id = prepared_id, sa_attempt_number = 1,
                sa_state = ''PREPARED'', sa_request_started_at = None, sa_response_class = None,
                sa_response_json = None, sa_created_at = now, sa_updated_at = now\<rparr>
               (submission_attempts db)) (\<lambda>attempt_rows.
      let db = db\<lparr>prepared_orders := prepared_rows, submission_attempts := attempt_rows\<rparr> in
      rbind (map_err (\<lambda>e. InvalidDecimal (domain_error_text e)) (protection_price D request)) (\<lambda>price.
      let R = (\<lambda>r. rv_intent_id r = i \<and> rv_state r = ''ACTIVE'') in
      rbind (ok_or (IdentityMismatch ''prepared order does not have an active risk reservation'')
               (sql_find R (risk_reservations db))) (\<lambda>reservation.
      rbind (parse_stored_decimal D (rv_quantity reservation)) (\<lambda>share_quantity.
      rbind (parse_stored_decimal D (rv_quote_exposure reservation)) (\<lambda>quote_exposure.
      let order = \<lparr>or_id = order_id, or_intent_id = i, or_mode = st_mode db, or_venue_order_id = None,
                   or_condition_id = rq_condition_id request, or_token_id = rq_token_id request,
                   or_side = rq_side request, or_time_in_force = rq_time_in_force request,
                   or_price = d_norm D price, or_original_quantity = d_norm D share_quantity,
                   or_remaining_quantity = d_norm D share_quantity, or_state = OrderState.Prepared,
                   or_created_at = now, or_updated_at = now\<rparr> in
      rbind (insert_order D order fee_rate quote_exposure db) (\<lambda>db.
      if sql_count R (risk_reservations db) \<noteq> 1
      then Err (IdentityMismatch ''prepared order does not have exactly one active risk reservation'')
      else
      let db = db\<lparr>risk_reservations := sql_update R (\<lambda>r. r\<lparr>rv_state := ''CONSUMED'', rv_updated_at := now\<rparr>)
                                          (risk_reservations db)\<rparr>;
          P = (\<lambda>r. in_id r = i \<and> in_state r = IntentState.Preparing)
      in if sql_count P (intents db) \<noteq> 1
         then Err (IdentityMismatch ''intent was not PREPARING while committing prepared order'')
         else
         let db = db\<lparr>intents := sql_update P (\<lambda>r. r\<lparr>in_state := IntentState.Prepared, in_updated_at := now\<rparr>) (intents db)\<rparr>
         in rbind (ok_or (Database ''no rows returned'') (sql_find (\<lambda>r. in_id r = i) (intents db))) (\<lambda>row.
            let (intent_event, db) = append_event ''intent.prepared'' ''intent'' (RUuid i)
                                       (json_of_intent (IntentRecord.truncate row)) now db;
                (order_event, db) = append_event ''order.prepared'' ''order'' (RUuid order_id) (json_of_order order) now db
            in Ok (order, send [intent_event, order_event] db)))))))))))"

definition reject_preparation :: "uuid \<Rightarrow> string \<Rightarrow> string \<Rightarrow> instant \<Rightarrow> Store \<Rightarrow> Store tx" where
  "reject_preparation i code message now db =
     (let R = (\<lambda>r. rv_intent_id r = i \<and> rv_state r = ''ACTIVE'');
          P = (\<lambda>r. in_id r = i \<and> in_state r = IntentState.Preparing)
      in if sql_count R (risk_reservations db) \<noteq> 1
         then Err (IdentityMismatch ''preparation rejection does not have an active risk reservation'')
         else if sql_count P (intents db) \<noteq> 1
         then Err (IdentityMismatch ''intent was not PREPARING during reservation release'')
         else
         let db = db\<lparr>risk_reservations := sql_update R (\<lambda>r. r\<lparr>rv_state := ''RELEASED'', rv_updated_at := now\<rparr>)
                                            (risk_reservations db),
                    intents := sql_update P (\<lambda>r. r\<lparr>in_state := IntentState.Rejected, in_rejection_code := Some code,
                                 in_rejection_message := Some message, in_updated_at := now\<rparr>) (intents db)\<rparr>;
             (reservation_event, db) = append_event ''risk.released'' ''risk_reservation'' (RUuid i)
               (JObj [(''intent_id'', JUuid i), (''reason'', JStr code), (''mode'', JStr (mode_text (st_mode db)))]) now db;
             (intent_event, db) = append_event ''intent.rejected'' ''intent'' (RUuid i)
               (JObj [(''state'', JStr ''REJECTED''), (''reason_code'', JStr code), (''message'', JStr message)]) now db
         in Ok (send [reservation_event, intent_event] db))"

section \<open>The commit before the venue request\<close>

definition begin_submission :: "uuid \<Rightarrow> uuid \<Rightarrow> instant \<Rightarrow> Store \<Rightarrow> Store tx" where
  "begin_submission i order_id now db =
     (if cs_state (control_state db) \<noteq> ''READY'' then Err (NewRiskDisabled (cs_state (control_state db)))
      else
      let P = (\<lambda>r. in_id r = i \<and> in_state r = IntentState.Prepared);
          Q = (\<lambda>r. or_id r = order_id \<and> or_intent_id r = i \<and> or_state r = OrderState.Prepared);
          A = (\<lambda>a. Some (sa_prepared_order_id a) = prepared_for i db \<and> sa_state a = ''PREPARED'')
      in if sql_count P (intents db) \<noteq> 1 \<or> sql_count Q (orders db) \<noteq> 1
         then Err (IdentityMismatch ''prepared intent/order pair changed before submission'')
         else if sql_count A (submission_attempts db) \<noteq> 1
         then Err (IdentityMismatch ''submission attempt was not PREPARED'')
         else
         let db = db\<lparr>intents := sql_update P (\<lambda>r. r\<lparr>in_state := IntentState.Submitting, in_updated_at := now\<rparr>) (intents db),
                    orders := sql_update Q (\<lambda>r. r\<lparr>or_state := OrderState.Submitting, or_updated_at := now\<rparr>) (orders db),
                    submission_attempts := sql_update A (\<lambda>a. a\<lparr>sa_state := ''SUBMITTING'',
                       sa_request_started_at := Some now, sa_updated_at := now\<rparr>) (submission_attempts db)\<rparr>
         in rbind (insert_transition order_id OrderState.Prepared OrderState.Submitting (JObj []) now db) (\<lambda>db.
            let (intent_event, db) = append_event ''intent.submitting'' ''intent'' (RUuid i)
                                       (JObj [(''state'', JStr ''SUBMITTING'')]) now db;
                (order_event, db) = append_event ''order.submitting'' ''order'' (RUuid order_id)
                                       (JObj [(''state'', JStr ''SUBMITTING'')]) now db
            in Ok (send [intent_event, order_event] db)))"

section \<open>Venue evidence and fills\<close>

definition validate_venue_order_evidence ::
  "dec_ops \<Rightarrow> decimal \<Rightarrow> OrderState \<Rightarrow> decimal \<Rightarrow> decimal \<Rightarrow> decimal option \<Rightarrow> unit tx" where
  "validate_venue_order_evidence D original state remaining filled filled_price =
     rbind (if original \<le> 0 \<or> remaining < 0 \<or> filled < 0 \<or> remaining > original \<or> filled > original then Ok True
            else rbind (or_panic (d_add D remaining filled)) (\<lambda>total. Ok (total > original))) (\<lambda>out_of_bounds.
     if out_of_bounds
     then Err (IdentityMismatch ''venue order quantities violate the persisted order bounds'')
     else if state \<notin> {OrderState.Live, OrderState.PartiallyFilled, OrderState.Filled, OrderState.Cancelled,
                      OrderState.Expired, OrderState.Rejected, OrderState.Unknown}
     then Err (IdentityMismatch ''venue evidence contains a local-only order state'')
     else if (state = OrderState.Filled \<and> remaining \<noteq> 0)
           \<or> (state = OrderState.Live \<and> remaining = 0)
           \<or> (state = OrderState.PartiallyFilled \<and> (remaining = 0 \<or> filled = 0))
           \<or> (state = OrderState.Rejected \<and> filled \<noteq> 0)
           \<or> (state = OrderState.Unknown \<and> (filled \<noteq> 0 \<or> remaining \<noteq> original))
     then Err (IdentityMismatch ''venue order state is inconsistent with reported quantities'')
     else if filled > 0
     then (case filled_price of
             None \<Rightarrow> Err (IdentityMismatch ''venue fill is missing its execution price'')
           | Some price \<Rightarrow> if price \<le> 0 \<or> price \<ge> 1
                           then Err (IdentityMismatch ''venue fill price must be between zero and one'')
                           else Ok ())
     else Ok ())"

definition fill_trade_id :: "(uuid \<Rightarrow> string) \<Rightarrow> uuid \<Rightarrow> string option \<Rightarrow> string list \<Rightarrow> string" where
  "fill_trade_id U order_id venue_order_id ids = (case ids of
     [] \<Rightarrow> ''submission:'' @ (case venue_order_id of None \<Rightarrow> U order_id | Some v \<Rightarrow> v)
   | [t] \<Rightarrow> t
   | _ \<Rightarrow> ''submission:'' @ join_with (CHR '','') ids)"

definition upsert_position :: "PositionRecord \<Rightarrow> PositionRecord list \<Rightarrow> PositionRecord list" where
  "upsert_position p rows =
     (if list_ex (\<lambda>r. ps_token_id r = ps_token_id p) rows
      then sql_update (\<lambda>r. ps_token_id r = ps_token_id p)
             (\<lambda>r. r\<lparr>ps_condition_id := ps_condition_id p, ps_mode := ps_mode p, ps_shares := ps_shares p,
                    ps_updated_at := ps_updated_at p\<rparr>) rows
      else rows @ [p])"

definition apply_matched_fill ::
  "dec_ops \<Rightarrow> (uuid \<Rightarrow> string) \<Rightarrow> OrderRecord \<Rightarrow> string option \<Rightarrow> decimal \<Rightarrow> decimal option \<Rightarrow> string list
     \<Rightarrow> uuid \<Rightarrow> instant \<Rightarrow> Store \<Rightarrow> (ExecutionEvent option \<times> Store) tx" where
  "apply_matched_fill D U order venue_order_id filled filled_price ids trade_id now db =
     (if filled \<le> 0 then Ok (None, db)
      else
      rbind (parse_stored_decimal D (or_price order)) (\<lambda>order_price.
      let trade_price = (case filled_price of Some p \<Rightarrow> p | None \<Rightarrow> order_price);
          trade = \<lparr>tr_id = trade_id, tr_order_id = or_id order, tr_mode = st_mode db,
                   tr_venue_trade_id = fill_trade_id U (or_id order) venue_order_id ids,
                   tr_price = d_norm D trade_price, tr_size = d_norm D filled, tr_status = Matched,
                   tr_created_at = now, tr_updated_at = now\<rparr>
      in if list_ex (\<lambda>t. tr_venue_trade_id t = tr_venue_trade_id trade) (trades db) then Ok (None, db)
         else
         rbind (foreign_key (has_order (or_id order) db)) (\<lambda>_.
         rbind (sql_insert (same_key tr_id) trade (trades db)) (\<lambda>rows.
         rbind (case sql_find (\<lambda>p. ps_token_id p = or_token_id order) (positions db) of
                  None \<Rightarrow> Ok 0 | Some p \<Rightarrow> parse_stored_decimal D (ps_shares p)) (\<lambda>current_position.
         rbind (or_panic (case or_side order of
                  Buy \<Rightarrow> d_add D current_position filled | Sell \<Rightarrow> d_sub D current_position filled)) (\<lambda>next_position.
         let db = db\<lparr>trades := rows,
                    positions := upsert_position
                      \<lparr>ps_token_id = or_token_id order, ps_condition_id = or_condition_id order, ps_mode = st_mode db,
                       ps_shares = d_norm D next_position, ps_updated_at = now\<rparr> (positions db)\<rparr>;
             (event, db) = append_event ''trade.matched'' ''trade'' (RUuid trade_id) (json_of_trade trade) now db
         in Ok (Some event, db)))))))"

fun option_list :: "'a option \<Rightarrow> 'a list" where
  "option_list None = []"
| "option_list (Some x) = [x]"

section \<open>The commit of the venue's answer\<close>

definition terminal_states :: "OrderState set" where
  "terminal_states = {OrderState.Filled, OrderState.Cancelled, OrderState.Expired, OrderState.Rejected}"

definition set_order_answer ::
  "dec_ops \<Rightarrow> OrderState \<Rightarrow> string option \<Rightarrow> decimal \<Rightarrow> instant \<Rightarrow> OrderRow \<Rightarrow> OrderRow" where
  "set_order_answer D state venue_order_id remaining now r =
     r\<lparr>or_state := state,
       or_venue_order_id := (case venue_order_id of None \<Rightarrow> or_venue_order_id r | Some v \<Rightarrow> Some v),
       or_remaining_quantity := d_norm D remaining, or_updated_at := now\<rparr>"

definition finish_submission ::
  "dec_ops \<Rightarrow> (uuid \<Rightarrow> string) \<Rightarrow> uuid \<Rightarrow> uuid \<Rightarrow> IntentState \<Rightarrow> OrderState \<Rightarrow> string option \<Rightarrow> string \<Rightarrow> decimal
     \<Rightarrow> decimal option \<Rightarrow> string list \<Rightarrow> json \<Rightarrow> uuid \<Rightarrow> instant \<Rightarrow> Store \<Rightarrow> Store tx" where
  "finish_submission D U i order_id intent_state order_state venue_order_id response_class filled filled_price ids
     evidence trade_id now db =
     (if intent_state \<notin> {IntentState.Submitted, IntentState.Unknown}
      then Err (IdentityMismatch ''invalid terminal submission intent state'')
      else
      let Q = (\<lambda>r. or_id r = order_id \<and> or_intent_id r = i \<and> or_state r = OrderState.Submitting);
          P = (\<lambda>r. in_id r = i \<and> in_state r = IntentState.Submitting)
      in
      rbind (ok_or (IdentityMismatch ''submitting order changed before response commit'')
               (sql_find Q (orders db))) (\<lambda>prior_order.
      rbind (parse_stored_decimal D (or_original_quantity prior_order)) (\<lambda>original.
      rbind (if order_state \<in> terminal_states then Ok 0
             else rbind (or_panic (d_sub D original filled)) (\<lambda>x. Ok (max x 0))) (\<lambda>remaining.
      rbind (validate_venue_order_evidence D original order_state remaining filled filled_price) (\<lambda>_.
      let intent_count = sql_count P (intents db);
          order_count = sql_count Q (orders db);
          db = db\<lparr>intents := sql_update P (\<lambda>r. r\<lparr>in_state := intent_state, in_updated_at := now\<rparr>) (intents db),
                  orders := sql_update Q (set_order_answer D order_state venue_order_id remaining now) (orders db)\<rparr>
      in
      rbind (if intent_state = IntentState.Submitted
             then apply_matched_fill D U (OrderRecord.truncate prior_order) venue_order_id filled filled_price ids trade_id now db
             else Ok (None, db)) (\<lambda>(trade_event, db).
      if intent_count \<noteq> 1 \<or> order_count \<noteq> 1
      then Err (IdentityMismatch ''submitting intent/order pair changed before response commit'')
      else
      let attempt_state = (if intent_state = IntentState.Unknown then ''UNKNOWN''
                           else if order_state = OrderState.Rejected then ''REJECTED'' else ''ACCEPTED'');
          prepared = prepared_for i db;
          db = db\<lparr>submission_attempts :=
                   sql_update (\<lambda>a. Some (sa_prepared_order_id a) = prepared \<and> sa_state a = ''SUBMITTING'')
                     (\<lambda>a. a\<lparr>sa_state := attempt_state, sa_response_class := Some response_class,
                            sa_response_json := Some evidence, sa_updated_at := now\<rparr>) (submission_attempts db)\<rparr>
      in
      rbind (insert_transition order_id OrderState.Submitting order_state evidence now db) (\<lambda>db.
      let (intent_event, db) = append_event (''intent.'' @ intent_state_debug intent_state) ''intent'' (RUuid i)
            (JObj [(''state'', JStr (intent_state_text intent_state)), (''response_class'', JStr response_class)]) now db;
          (order_event, db) = append_event (''order.'' @ order_state_debug order_state) ''order'' (RUuid order_id)
            (JObj [(''state'', JStr (order_state_text order_state)), (''venue_order_id'', jstr_opt venue_order_id),
                   (''evidence'', evidence)]) now db
      in Ok (send ([intent_event, order_event] @ option_list trade_event) db))))))))"

section \<open>Reading a prepared submission back\<close>

record PreparedSubmission =
  px_order_id :: uuid
  px_deterministic_order_id :: string
  px_normalized_json :: json
  px_signed_payload_json :: "string option"
  px_signer_address :: "string option"
  px_funder_address :: "string option"
  px_protocol_version :: nat
  px_sdk_version :: string

definition prepared_triples :: "uuid \<Rightarrow> Store \<Rightarrow> (OrderRow \<times> PreparedRow \<times> AttemptRow) list" where
  "prepared_triples i db =
     [(ord, p, a). ord \<leftarrow> orders db, p \<leftarrow> prepared_orders db, a \<leftarrow> submission_attempts db,
        pr_intent_id p = or_intent_id ord \<and> sa_prepared_order_id a = pr_id p
        \<and> or_intent_id ord = i \<and> or_state ord = OrderState.Prepared \<and> sa_state a = ''PREPARED'']"

definition prepared_submission :: "uuid \<Rightarrow> Store \<Rightarrow> PreparedSubmission tx" where
  "prepared_submission i db = (case prepared_triples i db of
     [] \<Rightarrow> Err NotFound
   | (ord, p, a) # _ \<Rightarrow>
       Ok \<lparr>px_order_id = or_id ord, px_deterministic_order_id = pr_deterministic_order_id p,
           px_normalized_json = pr_normalized_json p, px_signed_payload_json = pr_signed_payload_json p,
           px_signer_address = pr_signer_address p, px_funder_address = pr_funder_address p,
           px_protocol_version = pr_protocol_version p, px_sdk_version = pr_sdk_version p\<rparr>)"

end
