(* ===== verification/Recovery.thy ===== *)
theory Recovery
  imports Submission
begin

text \<open>
  Restart recovery in \<open>src/src/store.rs\<close>: submissions interrupted between the two commits become
  UNKNOWN, work before PREPARED goes back to RECEIVED with its reservation released, and an unknown
  submission is resolved from the venue's evidence.
\<close>

definition interrupted_reason :: json where
  "interrupted_reason = JObj [(''reason'', JStr ''process_interrupted_after_submitting_commit'')]"

text \<open>The three-way join of the query, in row order.\<close>

definition interrupted_rows :: "Store \<Rightarrow> (uuid \<times> uuid \<times> string) list" where
  "interrupted_rows db =
     [(or_id ord, or_intent_id ord, pr_deterministic_order_id p).
        ord \<leftarrow> orders db, r \<leftarrow> intents db, p \<leftarrow> prepared_orders db,
        in_id r = or_intent_id ord \<and> pr_intent_id p = or_intent_id ord
        \<and> (or_state ord = OrderState.Submitting \<or> in_state r = IntentState.Submitting)]"

definition recover_interrupted_row ::
  "instant \<Rightarrow> uuid \<times> uuid \<times> string \<Rightarrow> ExecutionEvent list \<times> Store \<Rightarrow> (ExecutionEvent list \<times> Store) tx" where
  "recover_interrupted_row now row acc = (case row of (order_id, i, det) \<Rightarrow> case acc of (evs, db) \<Rightarrow>
     let prepared = prepared_for i db;
         db = db\<lparr>orders := sql_update (\<lambda>r. or_id r = order_id)
                   (\<lambda>r. r\<lparr>or_state := OrderState.Unknown,
                          or_venue_order_id := (case or_venue_order_id r of None \<Rightarrow> Some det | Some v \<Rightarrow> Some v),
                          or_updated_at := now\<rparr>) (orders db),
                 intents := sql_update (\<lambda>r. in_id r = i)
                   (\<lambda>r. r\<lparr>in_state := IntentState.Unknown, in_updated_at := now\<rparr>) (intents db),
                 submission_attempts := sql_update
                   (\<lambda>a. Some (sa_prepared_order_id a) = prepared \<and> sa_state a = ''SUBMITTING'')
                   (\<lambda>a. a\<lparr>sa_state := ''UNKNOWN'', sa_response_class := Some ''PROCESS_INTERRUPTED'',
                          sa_updated_at := now\<rparr>) (submission_attempts db)\<rparr>
     in rbind (insert_transition order_id OrderState.Submitting OrderState.Unknown interrupted_reason now db) (\<lambda>db.
        let (e1, db) = append_event ''intent.unknown'' ''intent'' (RUuid i) interrupted_reason now db;
            (e2, db) = append_event ''order.unknown'' ''order'' (RUuid order_id) interrupted_reason now db
        in Ok (evs @ [e1, e2], db)))"

fun recover_interrupted_loop ::
  "instant \<Rightarrow> (uuid \<times> uuid \<times> string) list \<Rightarrow> ExecutionEvent list \<times> Store \<Rightarrow> (ExecutionEvent list \<times> Store) tx" where
  "recover_interrupted_loop now [] acc = Ok acc"
| "recover_interrupted_loop now (row # rows) acc =
     rbind (recover_interrupted_row now row acc) (\<lambda>acc. recover_interrupted_loop now rows acc)"

definition recover_interrupted_submissions :: "instant \<Rightarrow> Store \<Rightarrow> (nat \<times> Store) tx" where
  "recover_interrupted_submissions now db =
     (let rows = interrupted_rows db
      in rbind (recover_interrupted_loop now rows ([], db)) (\<lambda>(evs, db).
           Ok (length rows, send evs db)))"

section \<open>Work before submission\<close>

definition pre_submission_states :: "IntentState list" where
  "pre_submission_states = [IntentState.Received, IntentState.Validating, IntentState.Approved,
                            IntentState.Preparing, IntentState.Prepared]"

definition recover_pre_submission_row ::
  "(uuid \<Rightarrow> string) \<Rightarrow> instant \<Rightarrow> uuid \<times> IntentState \<Rightarrow> ExecutionEvent list \<times> Store \<Rightarrow> (ExecutionEvent list \<times> Store) tx" where
  "recover_pre_submission_row U now row acc = (case row of (i, state) \<Rightarrow> case acc of (evs, db) \<Rightarrow>
     if state = IntentState.Prepared
     then (if length (prepared_triples i db) \<noteq> 1
           then Err (IdentityMismatch (''prepared intent '' @ U i @
                  '' does not have exactly one prepared order and attempt''))
           else Ok (evs, db))
     else if state \<noteq> IntentState.Received
     then
       let R = (\<lambda>r. rv_intent_id r = i \<and> rv_state r = ''ACTIVE'');
           released = sql_count R (risk_reservations db);
           db = db\<lparr>risk_reservations := sql_update R (\<lambda>r. r\<lparr>rv_state := ''RELEASED'', rv_updated_at := now\<rparr>)
                                          (risk_reservations db)\<rparr>;
           (evs, db) = (if released > 0
              then let (e, db) = append_event ''risk.released'' ''risk_reservation'' (RUuid i)
                         (JObj [(''reason'', JStr ''process_interrupted_before_prepared_order'')]) now db
                   in (evs @ [e], db)
              else (evs, db));
           db = db\<lparr>intents := sql_update (\<lambda>r. in_id r = i \<and> in_state r = state)
                     (\<lambda>r. r\<lparr>in_state := IntentState.Received, in_updated_at := now\<rparr>) (intents db)\<rparr>;
           (e, db) = append_event ''intent.recovered_before_submission'' ''intent'' (RUuid i)
             (JObj [(''prior_state'', JStr (intent_state_text state)), (''new_state'', JStr ''RECEIVED''),
                    (''reason'', JStr ''no venue request had begun'')]) now db
       in Ok (evs @ [e], db)
     else Ok (evs, db))"

fun recover_pre_submission_loop ::
  "(uuid \<Rightarrow> string) \<Rightarrow> instant \<Rightarrow> (uuid \<times> IntentState) list \<Rightarrow> ExecutionEvent list \<times> Store \<Rightarrow> (ExecutionEvent list \<times> Store) tx" where
  "recover_pre_submission_loop U now [] acc = Ok acc"
| "recover_pre_submission_loop U now (row # rows) acc =
     rbind (recover_pre_submission_row U now row acc) (\<lambda>acc. recover_pre_submission_loop U now rows acc)"

definition pre_submission_rows :: "Store \<Rightarrow> (uuid \<times> IntentState) list" where
  "pre_submission_rows db =
     map (\<lambda>r. (in_id r, in_state r))
       (sort_key in_created_at (sort_key in_id (filter (\<lambda>r. in_state r \<in> set pre_submission_states) (intents db))))"

definition recover_pre_submission_work :: "(uuid \<Rightarrow> string) \<Rightarrow> instant \<Rightarrow> Store \<Rightarrow> (uuid list \<times> Store) tx" where
  "recover_pre_submission_work U now db =
     (let rows = pre_submission_rows db
      in rbind (recover_pre_submission_loop U now rows ([], db)) (\<lambda>(evs, db).
           Ok (map fst rows, send evs db)))"

section \<open>Unknown submissions\<close>

record UnknownSubmission =
  us_order_id :: uuid
  us_intent_id :: uuid
  us_deterministic_order_id :: string

definition unknown_submissions :: "Store \<Rightarrow> UnknownSubmission list" where
  "unknown_submissions db =
     [\<lparr>us_order_id = or_id ord, us_intent_id = or_intent_id ord,
       us_deterministic_order_id = pr_deterministic_order_id p\<rparr>.
        ord \<leftarrow> orders db, p \<leftarrow> prepared_orders db,
        pr_intent_id p = or_intent_id ord \<and> or_state ord = OrderState.Unknown]"

definition resolve_unknown_submission ::
  "dec_ops \<Rightarrow> (uuid \<Rightarrow> string) \<Rightarrow> UnknownSubmission \<Rightarrow> string \<Rightarrow> OrderState \<Rightarrow> decimal \<Rightarrow> decimal \<Rightarrow> decimal option
     \<Rightarrow> string list \<Rightarrow> json \<Rightarrow> uuid \<Rightarrow> instant \<Rightarrow> Store \<Rightarrow> Store tx" where
  "resolve_unknown_submission D U unknown venue_order_id state remaining filled filled_price ids evidence trade_id now db =
     (if state = OrderState.Unknown then Ok db
      else
      let order_id = us_order_id unknown; i = us_intent_id unknown;
          Q = (\<lambda>r. or_id r = order_id \<and> or_state r = OrderState.Unknown)
      in
      rbind (ok_or (IdentityMismatch ''unknown order changed during reconciliation'')
               (sql_find Q (orders db))) (\<lambda>prior_order.
      rbind (parse_stored_decimal D (or_original_quantity prior_order)) (\<lambda>original.
      rbind (validate_venue_order_evidence D original state remaining filled filled_price) (\<lambda>_.
      if sql_count Q (orders db) \<noteq> 1
      then Err (IdentityMismatch ''unknown order changed during reconciliation'')
      else
      let db = db\<lparr>orders := sql_update Q (set_order_answer D state (Some venue_order_id) remaining now) (orders db),
                 intents := sql_update (\<lambda>r. in_id r = i \<and> in_state r = IntentState.Unknown)
                   (\<lambda>r. r\<lparr>in_state := IntentState.Submitted, in_updated_at := now\<rparr>) (intents db)\<rparr>
      in
      rbind (apply_matched_fill D U (OrderRecord.truncate prior_order) (Some venue_order_id) filled filled_price ids
               trade_id now db) (\<lambda>(trade_event, db).
      let prepared = prepared_for i db;
          db = db\<lparr>submission_attempts := sql_update
                   (\<lambda>a. Some (sa_prepared_order_id a) = prepared \<and> sa_state a = ''UNKNOWN'')
                   (\<lambda>a. a\<lparr>sa_state := ''RESOLVED'', sa_response_class := Some ''RECONCILED'',
                          sa_response_json := Some evidence, sa_updated_at := now\<rparr>) (submission_attempts db)\<rparr>
      in
      rbind (insert_transition order_id OrderState.Unknown state evidence now db) (\<lambda>db.
      let (order_event, db) = append_event (''order.'' @ order_state_debug state) ''order'' (RUuid order_id)
            (JObj [(''state'', JStr (order_state_text state)), (''venue_order_id'', JStr venue_order_id),
                   (''reconciled_from'', JStr ''UNKNOWN''), (''evidence'', evidence)]) now db;
          (intent_event, db) = append_event ''intent.submitted'' ''intent'' (RUuid i)
            (JObj [(''state'', JStr ''SUBMITTED''), (''reconciled_from'', JStr ''UNKNOWN'')]) now db
      in Ok (send ([order_event, intent_event] @ option_list trade_event) db)))))))"

end
