(* ===== verification/OrderLifecycle.thy ===== *)
theory OrderLifecycle
  imports Recovery
begin

text \<open>
  Order state changes outside submission in \<open>src/src/store.rs\<close>: cancellation, reconciliation of an
  order with the venue's evidence, trade finality, position reconciliation, cancellation requests,
  and the reads of orders, trades and positions.
\<close>

section \<open>Order transitions\<close>

definition valid_order_transition :: "OrderState \<Rightarrow> OrderState \<Rightarrow> bool" where
  "valid_order_transition prior nxt \<longleftrightarrow>
     prior = nxt
     \<or> (prior \<in> {OrderState.Live, OrderState.PartiallyFilled} \<and> nxt = OrderState.CancelPending)
     \<or> (prior \<in> {OrderState.CancelPending, OrderState.Unknown}
        \<and> nxt \<in> {OrderState.Filled, OrderState.Cancelled, OrderState.Expired})"

primrec order_state_variant :: "OrderState \<Rightarrow> string" where
  "order_state_variant OrderState.Prepared = ''Prepared''"
| "order_state_variant OrderState.Submitting = ''Submitting''"
| "order_state_variant OrderState.Live = ''Live''"
| "order_state_variant OrderState.PartiallyFilled = ''PartiallyFilled''"
| "order_state_variant OrderState.Filled = ''Filled''"
| "order_state_variant OrderState.CancelPending = ''CancelPending''"
| "order_state_variant OrderState.Cancelled = ''Cancelled''"
| "order_state_variant OrderState.Expired = ''Expired''"
| "order_state_variant OrderState.Rejected = ''Rejected''"
| "order_state_variant OrderState.Unknown = ''Unknown''"

definition transition_order ::
  "uuid \<Rightarrow> OrderState \<Rightarrow> string option \<Rightarrow> json \<Rightarrow> instant \<Rightarrow> Store \<Rightarrow> (OrderRecord \<times> Store) tx" where
  "transition_order oid nxt venue_order_id evidence now db =
     rbind (ok_or NotFound (sql_find (\<lambda>r. or_id r = oid) (orders db))) (\<lambda>prior_row.
     let prior = or_state prior_row; i = or_intent_id prior_row
     in if nxt = OrderState.CancelPending \<and> prior \<in> terminal_states
        then Ok (OrderRecord.truncate prior_row, db)
        else if \<not> valid_order_transition prior nxt
        then Err (IdentityMismatch (''invalid order transition '' @ order_state_variant prior @ '' -> '' @ order_state_variant nxt))
        else
        let db = db\<lparr>orders := sql_update (\<lambda>r. or_id r = oid)
                     (\<lambda>r. r\<lparr>or_state := nxt,
                            or_venue_order_id := (case venue_order_id of None \<Rightarrow> or_venue_order_id r | Some v \<Rightarrow> Some v),
                            or_updated_at := now\<rparr>) (orders db)\<rparr>;
            db = (if prior = OrderState.Unknown \<and> nxt \<in> {OrderState.Filled, OrderState.Cancelled, OrderState.Expired}
                  then db\<lparr>intents := sql_update (\<lambda>r. in_id r = i \<and> in_state r = IntentState.Unknown)
                         (\<lambda>r. r\<lparr>in_state := IntentState.Submitted, in_updated_at := now\<rparr>) (intents db)\<rparr>
                  else db)
        in
        rbind (insert_transition oid prior nxt evidence now db) (\<lambda>db.
        rbind (ok_or (Database ''no rows returned'') (sql_find (\<lambda>r. or_id r = oid) (orders db))) (\<lambda>row.
        let (event, db) = append_event (''order.'' @ order_state_debug nxt) ''order'' (RUuid oid)
              (json_of_order (OrderRecord.truncate row)) now db
        in Ok (OrderRecord.truncate row, send [event] db))))"

definition cancel_prepared_order :: "uuid \<Rightarrow> json \<Rightarrow> instant \<Rightarrow> Store \<Rightarrow> (OrderRecord \<times> Store) tx" where
  "cancel_prepared_order oid evidence now db =
     rbind (ok_or NotFound (sql_find (\<lambda>r. or_id r = oid \<and> or_state r = OrderState.Prepared) (orders db))) (\<lambda>order.
     let i = or_intent_id order; prepared = prepared_for i db;
         db = db\<lparr>orders := sql_update (\<lambda>r. or_id r = oid)
                   (\<lambda>r. r\<lparr>or_state := OrderState.Cancelled, or_updated_at := now\<rparr>) (orders db),
                 intents := sql_update (\<lambda>r. in_id r = i \<and> in_state r = IntentState.Prepared)
                   (\<lambda>r. r\<lparr>in_state := IntentState.Rejected,
                          in_rejection_code := Some ''CANCELLED_BEFORE_SUBMISSION'',
                          in_rejection_message := Some ''cancelled before venue submission'',
                          in_updated_at := now\<rparr>) (intents db),
                 submission_attempts := sql_update
                   (\<lambda>a. Some (sa_prepared_order_id a) = prepared \<and> sa_state a = ''PREPARED'')
                   (\<lambda>a. a\<lparr>sa_state := ''CANCELLED'', sa_response_class := Some ''CANCELLED_BEFORE_SUBMISSION'',
                          sa_response_json := Some evidence, sa_updated_at := now\<rparr>) (submission_attempts db)\<rparr>
     in
     rbind (insert_transition oid OrderState.Prepared OrderState.Cancelled evidence now db) (\<lambda>db.
     rbind (ok_or (Database ''no rows returned'') (sql_find (\<lambda>r. or_id r = oid) (orders db))) (\<lambda>row.
     let (order_event, db) = append_event ''order.cancelled'' ''order'' (RUuid oid)
           (json_of_order (OrderRecord.truncate row)) now db;
         (intent_event, db) = append_event ''intent.rejected'' ''intent'' (RUuid i)
           (JObj [(''state'', JStr ''REJECTED''), (''reason_code'', JStr ''CANCELLED_BEFORE_SUBMISSION''),
                  (''order_id'', JUuid oid)]) now db
     in Ok (OrderRecord.truncate row, send [order_event, intent_event] db))))"

definition get_order :: "uuid \<Rightarrow> Store \<Rightarrow> OrderRecord tx" where
  "get_order oid db =
     rbind (ok_or NotFound (sql_find (\<lambda>r. or_id r = oid) (orders db))) (\<lambda>r. Ok (OrderRecord.truncate r))"

section \<open>Reconciliation of orders\<close>

definition reconciliation_orders :: "Store \<Rightarrow> OrderRecord list \<times> string set" where
  "reconciliation_orders db =
     (let known = map OrderRecord.truncate (filter (\<lambda>r. or_venue_order_id r \<noteq> None) (orders db));
          known_ids = set (List.map_filter or_venue_order_id known) \<union> set (map pr_deterministic_order_id (prepared_orders db))
      in (filter (\<lambda>r. or_state r \<in> {OrderState.Live, OrderState.PartiallyFilled, OrderState.CancelPending}) known, known_ids))"

definition reconcile_order_projection ::
  "dec_ops \<Rightarrow> (uuid \<Rightarrow> string) \<Rightarrow> uuid \<Rightarrow> OrderState \<Rightarrow> decimal \<Rightarrow> decimal \<Rightarrow> decimal option \<Rightarrow> string list \<Rightarrow> json
     \<Rightarrow> uuid \<Rightarrow> instant \<Rightarrow> Store \<Rightarrow> Store tx" where
  "reconcile_order_projection D U oid observed_state remaining total_filled filled_price ids evidence trade_id now db =
     rbind (ok_or NotFound (sql_find (\<lambda>r. or_id r = oid) (orders db))) (\<lambda>order.
     rbind (parse_stored_decimal D (or_original_quantity order)) (\<lambda>original.
     rbind (validate_venue_order_evidence D original observed_state remaining total_filled filled_price) (\<lambda>_.
     rbind (parse_stored_decimal D (or_remaining_quantity order)) (\<lambda>local_remaining.
     rbind (or_panic (d_sub D original local_remaining)) (\<lambda>diff.
     let local_filled = max diff 0 in
     if total_filled < local_filled
     then Err (IdentityMismatch (''venue fill quantity '' @ d_norm D total_filled @ '' regressed below local '' @ d_norm D local_filled))
     else
     rbind (or_panic (d_sub D total_filled local_filled)) (\<lambda>delta_fill.
     let next_state = (if or_state order = OrderState.CancelPending
                          \<and> observed_state \<in> {OrderState.Live, OrderState.PartiallyFilled}
                       then OrderState.CancelPending else observed_state) in
     if next_state = or_state order \<and> remaining = local_remaining \<and> delta_fill = 0 then Ok db
     else
     let db = db\<lparr>orders := sql_update (\<lambda>r. or_id r = oid)
                  (\<lambda>r. r\<lparr>or_state := next_state, or_remaining_quantity := d_norm D remaining, or_updated_at := now\<rparr>)
                  (orders db)\<rparr>
     in
     rbind (apply_matched_fill D U (OrderRecord.truncate order) (or_venue_order_id order) delta_fill filled_price ids
              trade_id now db) (\<lambda>(trade_event, db).
     rbind (insert_transition oid (or_state order) next_state evidence now db) (\<lambda>db.
     let (order_event, db) = append_event ''order.reconciled'' ''order'' (RUuid oid)
           (JObj [(''prior_state'', JStr (order_state_text (or_state order))),
                  (''new_state'', JStr (order_state_text next_state)), (''remaining_quantity'', JDec remaining),
                  (''delta_fill'', JDec delta_fill), (''evidence'', evidence)]) now db
     in Ok (send ([order_event] @ option_list trade_event) db)))))))))"

definition order_ids_for_venue_ids :: "string list \<Rightarrow> Store \<Rightarrow> uuid list" where
  "order_ids_for_venue_ids vids db =
     sorted_list_of_set (set (List.map_filter
       (\<lambda>v. map_option or_id (sql_find (\<lambda>r. or_venue_order_id r = Some v) (orders db))) vids))"

section \<open>Trade finality\<close>

definition trade_component_ids :: "string \<Rightarrow> string list" where
  "trade_component_ids t = (case strip_prefix ''submission:'' t of
     None \<Rightarrow> [t] | Some ids \<Rightarrow> split_on (CHR '','') ids)"

definition aggregate_trade_status :: "TradeState list \<Rightarrow> TradeState" where
  "aggregate_trade_status statuses =
     (if Failed \<in> set statuses then Failed
      else if Retrying \<in> set statuses then Retrying
      else if list_all (\<lambda>s. s = Confirmed) statuses then Confirmed
      else if list_all (\<lambda>s. s = Mined \<or> s = Confirmed) statuses then Mined
      else Matched)"

definition upsert_finality :: "FinalityRow \<Rightarrow> FinalityRow list \<Rightarrow> FinalityRow list" where
  "upsert_finality f rows =
     (if list_ex (\<lambda>r. vf_venue_trade_id r = vf_venue_trade_id f) rows
      then sql_update (\<lambda>r. vf_venue_trade_id r = vf_venue_trade_id f) (\<lambda>_. f) rows
      else rows @ [f])"

definition finality_status :: "string \<Rightarrow> Store \<Rightarrow> TradeState option" where
  "finality_status t db =
     map_option vf_status (sql_find (\<lambda>r. vf_venue_trade_id r = t) (venue_trade_finality db))"

definition record_venue_trade_finality ::
  "uuid \<Rightarrow> string \<Rightarrow> TradeState \<Rightarrow> json \<Rightarrow> instant \<Rightarrow> Store \<Rightarrow> (bool \<times> Store) tx" where
  "record_venue_trade_finality oid vtid status evidence now db =
     (case find (\<lambda>t. vtid \<in> set (trade_component_ids (tr_venue_trade_id t)))
             (sort_key tr_id (filter (\<lambda>t. tr_order_id t = oid) (trades db))) of
        None \<Rightarrow> Ok (False, db)
      | Some trade \<Rightarrow>
          let prior_status = finality_status vtid db
          in if prior_status = Some status then Ok (True, db)
             else
             let db = db\<lparr>venue_trade_finality := upsert_finality
                         \<lparr>vf_venue_trade_id = vtid, vf_trade_id = tr_id trade, vf_status = status,
                          vf_evidence_json = evidence, vf_updated_at = now\<rparr> (venue_trade_finality db)\<rparr>;
                 component_ids = trade_component_ids (tr_venue_trade_id trade);
                 component_statuses = List.map_filter (\<lambda>c. finality_status c db) component_ids;
                 aggregate_status = (if length component_statuses = length component_ids
                                     then aggregate_trade_status component_statuses else tr_status trade);
                 db = (if aggregate_status \<noteq> tr_status trade
                       then db\<lparr>trades := sql_update (\<lambda>t. tr_id t = tr_id trade)
                              (\<lambda>t. t\<lparr>tr_status := aggregate_status, tr_updated_at := now\<rparr>) (trades db)\<rparr>
                       else db);
                 (event, db) = append_event ''trade.finality_observed'' ''trade'' (RUuid (tr_id trade))
                   (JObj [(''venue_trade_id'', JStr vtid),
                          (''prior_status'', json_opt (\<lambda>s. JStr (trade_state_text s)) prior_status),
                          (''status'', JStr (trade_state_text status)),
                          (''aggregate_status'', JStr (trade_state_text aggregate_status)),
                          (''evidence'', evidence)]) now db
             in Ok (True, send [event] db))"

section \<open>Positions\<close>

definition position_json :: "string \<Rightarrow> string \<Rightarrow> decimal option \<Rightarrow> decimal \<Rightarrow> json" where
  "position_json condition token prior shares = JObj
     [(''condition_id'', JStr condition), (''token_id'', JStr token),
      (''prior_shares'', json_opt JDec prior), (''shares'', JDec shares)]"

fun current_positions :: "dec_ops \<Rightarrow> PositionRecord list \<Rightarrow> (string \<times> string \<times> decimal) list tx" where
  "current_positions D [] = Ok []"
| "current_positions D (p # ps) =
     rbind (parse_stored_decimal D (ps_shares p)) (\<lambda>shares.
     rbind (current_positions D ps) (\<lambda>rest. Ok ((ps_token_id p, ps_condition_id p, shares) # rest)))"

fun observed_position_loop ::
  "dec_ops \<Rightarrow> instant \<Rightarrow> (string \<times> string \<times> decimal) list \<Rightarrow> (string \<times> string \<times> decimal) list
     \<Rightarrow> string list \<Rightarrow> ExecutionEvent list \<times> Store \<Rightarrow> (string list \<times> ExecutionEvent list \<times> Store) tx" where
  "observed_position_loop D now current [] seen acc = Ok (seen, acc)"
| "observed_position_loop D now current ((condition, token, shares) # rest) seen (evs, db) =
     (if condition = [] \<or> token = [] \<or> shares < 0
      then Err (IdentityMismatch ''venue returned an invalid position'')
      else if token \<in> set seen
      then Err (IdentityMismatch (''venue returned duplicate position token '' @ token))
      else
      let prior = map_option snd (map_of current token)
      in if prior = Some shares then observed_position_loop D now current rest (token # seen) (evs, db)
         else
         let db = db\<lparr>positions := upsert_position
                    \<lparr>ps_token_id = token, ps_condition_id = condition, ps_mode = st_mode db,
                     ps_shares = d_norm D shares, ps_updated_at = now\<rparr> (positions db)\<rparr>;
             (e, db) = append_event ''position.reconciled'' ''position'' (RText token)
                         (position_json condition token prior shares) now db
         in observed_position_loop D now current rest (token # seen) (evs @ [e], db))"

fun vanished_position_loop ::
  "instant \<Rightarrow> string list \<Rightarrow> (string \<times> string \<times> decimal) list \<Rightarrow> ExecutionEvent list \<times> Store \<Rightarrow> ExecutionEvent list \<times> Store" where
  "vanished_position_loop now seen [] acc = acc"
| "vanished_position_loop now seen ((token, condition, prior) # rest) (evs, db) =
     (if token \<in> set seen \<or> prior = 0 then vanished_position_loop now seen rest (evs, db)
      else
      let db = db\<lparr>positions := sql_update (\<lambda>r. ps_token_id r = token)
                 (\<lambda>r. r\<lparr>ps_shares := ''0'', ps_updated_at := now\<rparr>) (positions db)\<rparr>;
          (e, db) = append_event ''position.reconciled'' ''position'' (RText token)
                      (position_json condition token (Some prior) 0) now db
      in vanished_position_loop now seen rest (evs @ [e], db))"

definition reconcile_venue_positions ::
  "dec_ops \<Rightarrow> (string \<times> string \<times> decimal) list \<Rightarrow> instant \<Rightarrow> Store \<Rightarrow> Store tx" where
  "reconcile_venue_positions D observed now db =
     rbind (current_positions D (positions db)) (\<lambda>current.
     rbind (observed_position_loop D now current observed [] ([], db)) (\<lambda>(seen, acc).
       let (evs, db) = vanished_position_loop now seen (sort_key fst current) acc
       in Ok (send evs db)))"

section \<open>Lists\<close>

definition list_orders :: "nat \<Rightarrow> Store \<Rightarrow> OrderRecord list" where
  "list_orders limit db = map OrderRecord.truncate (page or_created_at or_id (min limit 500) (orders db))"

definition list_orders_page ::
  "nat \<Rightarrow> OrderState option \<Rightarrow> string option \<Rightarrow> string option \<Rightarrow> (instant \<times> uuid) option \<Rightarrow> Store \<Rightarrow> OrderRecord list" where
  "list_orders_page limit st condition token cursor db =
     map OrderRecord.truncate (page or_created_at or_id (max 1 (min limit 500) + 1)
       (filter (\<lambda>r. (case st of None \<Rightarrow> True | Some s \<Rightarrow> or_state r = s)
                  \<and> (case condition of None \<Rightarrow> True | Some c \<Rightarrow> or_condition_id r = c)
                  \<and> (case token of None \<Rightarrow> True | Some t \<Rightarrow> or_token_id r = t)
                  \<and> after_cursor or_created_at or_id cursor r)
          (orders db)))"

definition list_trades :: "nat \<Rightarrow> Store \<Rightarrow> TradeRecord list" where
  "list_trades limit db = page tr_created_at tr_id (min limit 500) (trades db)"

definition list_trades_page ::
  "nat \<Rightarrow> TradeState option \<Rightarrow> string option \<Rightarrow> string option \<Rightarrow> (instant \<times> uuid) option \<Rightarrow> Store \<Rightarrow> TradeRecord list" where
  "list_trades_page limit st condition token cursor db =
     page tr_created_at tr_id (max 1 (min limit 500) + 1)
       [t. t \<leftarrow> trades db, ord \<leftarrow> orders db, or_id ord = tr_order_id t
          \<and> (case st of None \<Rightarrow> True | Some s \<Rightarrow> tr_status t = s)
          \<and> (case condition of None \<Rightarrow> True | Some c \<Rightarrow> or_condition_id ord = c)
          \<and> (case token of None \<Rightarrow> True | Some k \<Rightarrow> or_token_id ord = k)
          \<and> after_cursor tr_created_at tr_id cursor t]"

definition list_positions :: "Store \<Rightarrow> PositionRecord list" where
  "list_positions db = sort_key ps_token_id (positions db)"

section \<open>Cancellation requests\<close>

definition cancellable :: "OrderRow \<Rightarrow> bool" where
  "cancellable r \<longleftrightarrow> or_state r \<notin> terminal_states"

definition cancellation_targets :: "CancellationRequest \<Rightarrow> Store \<Rightarrow> uuid list" where
  "cancellation_targets request db =
     (case cn_order_id request of Some oid \<Rightarrow> [oid]
      | None \<Rightarrow> (case cn_intent_id request of
          Some i \<Rightarrow> map or_id (filter (\<lambda>r. or_intent_id r = i \<and> cancellable r) (orders db))
        | None \<Rightarrow> (case cn_condition_id request of
            Some c \<Rightarrow> map or_id (filter (\<lambda>r. or_condition_id r = c \<and> cancellable r) (orders db))
          | None \<Rightarrow> map or_id (filter cancellable (orders db)))))"

definition create_cancellation_inner ::
  "(json \<Rightarrow> string) \<Rightarrow> string \<Rightarrow> CancellationRequest \<Rightarrow> (string \<times> json) option \<Rightarrow> uuid \<Rightarrow> instant \<Rightarrow> Store
     \<Rightarrow> ((uuid \<times> uuid list) \<times> Store) tx" where
  "create_cancellation_inner H actor request idempotency cid now db =
     (let targets = cancellation_targets request db; tjson = JArr (map JUuid targets)
      in rbind (sql_insert (same_key cr_id)
           \<lparr>cr_id = cid, cr_actor_id = actor, cr_selector_json = json_of_cancellation request,
            cr_target_order_ids_json = tjson, cr_reason = cn_reason request, cr_state = ''PENDING'',
            cr_created_at = now, cr_updated_at = now\<rparr> (cancellation_requests db)) (\<lambda>rows.
         let db = db\<lparr>cancellation_requests := rows\<rparr>
         in rbind (case idempotency of None \<Rightarrow> Ok db
              | Some (key, request_body) \<Rightarrow>
                  insert_idempotency_record H actor key ''cancellation'' (RUuid cid) request_body 202
                    (JObj [(''id'', JUuid cid), (''target_order_ids'', tjson), (''mode'', JStr (mode_text (st_mode db)))])
                    now db) (\<lambda>db.
            let (event, db) = append_event ''cancellation.pending'' ''cancellation'' (RUuid cid)
                  (JObj [(''id'', JUuid cid), (''actor_id'', JStr actor), (''target_order_ids'', tjson),
                         (''reason'', JStr (cn_reason request)), (''state'', JStr ''PENDING''),
                         (''mode'', JStr (mode_text (st_mode db)))]) now db
            in Ok ((cid, targets), send [event] db))))"

definition create_cancellation ::
  "(json \<Rightarrow> string) \<Rightarrow> string \<Rightarrow> CancellationRequest \<Rightarrow> uuid \<Rightarrow> instant \<Rightarrow> Store \<Rightarrow> ((uuid \<times> uuid list) \<times> Store) tx" where
  "create_cancellation H actor request = create_cancellation_inner H actor request None"

definition create_cancellation_idempotent ::
  "(json \<Rightarrow> string) \<Rightarrow> string \<Rightarrow> string \<Rightarrow> CancellationRequest \<Rightarrow> uuid \<Rightarrow> instant \<Rightarrow> Store
     \<Rightarrow> ((uuid \<times> uuid list) \<times> Store) tx" where
  "create_cancellation_idempotent H actor key request =
     create_cancellation_inner H actor request (Some (key, json_of_cancellation request))"

definition finish_cancellation ::
  "uuid \<Rightarrow> uuid list \<Rightarrow> instant \<Rightarrow> Store \<Rightarrow> (CancellationRecord \<times> Store) tx" where
  "finish_cancellation cid failed now db =
     (let state = (if failed = [] then ''COMPLETE'' else ''RECONCILIATION_REQUIRED'');
          P = (\<lambda>r. cr_id r = cid \<and> cr_state r = ''PENDING'')
      in if sql_count P (cancellation_requests db) \<noteq> 1 then Err NotFound
         else
         let db = db\<lparr>cancellation_requests := sql_update P
                    (\<lambda>r. r\<lparr>cr_state := state, cr_updated_at := now\<rparr>) (cancellation_requests db)\<rparr>
         in rbind (ok_or (Database ''no rows returned'') (sql_find (\<lambda>r. cr_id r = cid) (cancellation_requests db))) (\<lambda>record.
            let (event, db) = append_event ''cancellation.completed'' ''cancellation'' (RUuid cid)
                  (JObj [(''id'', JUuid cid), (''state'', JStr state),
                         (''failed_order_ids'', JArr (map JUuid failed)), (''mode'', JStr (mode_text (st_mode db)))]) now db
            in Ok (record, send [event] db)))"

definition get_cancellation :: "uuid \<Rightarrow> Store \<Rightarrow> CancellationRecord tx" where
  "get_cancellation cid db = ok_or NotFound (sql_find (\<lambda>r. cr_id r = cid) (cancellation_requests db))"

definition pending_cancellations :: "Store \<Rightarrow> CancellationRecord list" where
  "pending_cancellations db =
     sort_key cr_created_at (sort_key cr_id (filter (\<lambda>r. cr_state r = ''PENDING'') (cancellation_requests db)))"

end
