(* ===== verification/Journal.thy ===== *)
theory Journal
  imports OrderLifecycle
begin

text \<open>
  The event journal, the reconciliation and backup records and the database identity of
  \<open>src/src/store.rs\<close>.  The files of a backup are outside the model: their outcome (checksum, size,
  paths, or the error) is an argument.  What every transaction does to the journal is proved in
  \<open>JournalFrame\<close>.
\<close>

section \<open>Events\<close>

definition replay_events :: "int \<Rightarrow> nat \<Rightarrow> Store \<Rightarrow> ExecutionEvent list" where
  "replay_events after limit db =
     take (min limit 10000) (sort_key ev_sequence (filter (\<lambda>e. ev_sequence e > after) (execution_events db)))"

fun sql_max :: "int list \<Rightarrow> int option" where
  "sql_max [] = None"
| "sql_max (x # xs) = Some (fold max xs x)"

fun sql_min :: "int list \<Rightarrow> int option" where
  "sql_min [] = None"
| "sql_min (x # xs) = Some (fold min xs x)"

definition coalesce :: "'a option \<Rightarrow> 'a \<Rightarrow> 'a" where
  "coalesce x d = (case x of None \<Rightarrow> d | Some y \<Rightarrow> y)"

definition event_sequence_bounds :: "Store \<Rightarrow> int option \<times> int option" where
  "event_sequence_bounds db =
     (sql_min (map ev_sequence (execution_events db)), sql_max (map ev_sequence (execution_events db)))"

definition i64_saturating_sub :: "int \<Rightarrow> int \<Rightarrow> int" where
  "i64_saturating_sub a b = max (- (2 ^ 63)) (min i64_max (a - b))"

definition prune_events :: "Store \<Rightarrow> (nat \<times> Store) tx" where
  "prune_events db =
     (if int (st_event_retention db) > i64_max
      then Err (IdentityMismatch ''event retention exceeds SQLite integer'')
      else
      let maximum = coalesce (sql_max (map ev_sequence (execution_events db))) 0;
          cutoff = i64_saturating_sub maximum (int (st_event_retention db));
          backed_up_through = coalesce (sql_max (List.map_filter bu_last_event_sequence
                                (filter (\<lambda>b. bu_state b = ''COMPLETE'') (backups db)))) 0
      in if cutoff \<le> 0 then Ok (0, db)
         else if st_mode db = Mode.Live \<and> backed_up_through < cutoff then Ok (0, db)
         else Ok (sql_count (\<lambda>e. ev_sequence e \<le> cutoff) (execution_events db),
                  db\<lparr>execution_events := filter (\<lambda>e. \<not> ev_sequence e \<le> cutoff) (execution_events db)\<rparr>))"

section \<open>Reconciliation records\<close>

definition start_reconciliation_inner ::
  "(json \<Rightarrow> string) \<Rightarrow> string \<Rightarrow> (string \<times> string \<times> json) option \<Rightarrow> uuid \<Rightarrow> instant \<Rightarrow> Store \<Rightarrow> (uuid \<times> Store) tx" where
  "start_reconciliation_inner H trigger idempotency rid now db =
     rbind (sql_insert (same_key rc_id)
              \<lparr>rc_id = rid, rc_trigger = trigger, rc_state = ''RUNNING'', rc_summary_json = JObj [],
               rc_started_at = now, rc_completed_at = None\<rparr> (reconciliation_runs db)) (\<lambda>rows.
     let db = db\<lparr>reconciliation_runs := rows\<rparr>
     in rbind (case idempotency of None \<Rightarrow> Ok db
          | Some (actor, key, request_body) \<Rightarrow>
              insert_idempotency_record H actor key ''reconciliation'' (RUuid rid) request_body 202
                (JObj [(''id'', JUuid rid), (''mode'', JStr (mode_text (st_mode db)))]) now db) (\<lambda>db.
        let (event, db) = append_event ''reconciliation.started'' ''reconciliation'' (RUuid rid)
              (JObj [(''trigger'', JStr trigger)]) now db
        in Ok (rid, send [event] db)))"

definition start_reconciliation :: "(json \<Rightarrow> string) \<Rightarrow> string \<Rightarrow> uuid \<Rightarrow> instant \<Rightarrow> Store \<Rightarrow> (uuid \<times> Store) tx" where
  "start_reconciliation H trigger = start_reconciliation_inner H trigger None"

definition start_reconciliation_idempotent ::
  "(json \<Rightarrow> string) \<Rightarrow> string \<Rightarrow> string \<Rightarrow> string \<Rightarrow> json \<Rightarrow> uuid \<Rightarrow> instant \<Rightarrow> Store \<Rightarrow> (uuid \<times> Store) tx" where
  "start_reconciliation_idempotent H actor key trigger request_body =
     start_reconciliation_inner H trigger (Some (actor, key, request_body))"

definition insert_finding :: "uuid \<Rightarrow> uuid \<Rightarrow> string \<Rightarrow> json \<Rightarrow> Store \<Rightarrow> Store tx" where
  "insert_finding fid rid code details db =
     rbind (foreign_key (list_ex (\<lambda>r. rc_id r = rid) (reconciliation_runs db))) (\<lambda>_.
     rbind (sql_insert (same_key fi_id)
              \<lparr>fi_id = fid, fi_reconciliation_id = rid, fi_severity = ''CRITICAL'', fi_code = code,
               fi_details_json = details, fi_resolved_at = None\<rparr> (reconciliation_findings db)) (\<lambda>rows.
       Ok (db\<lparr>reconciliation_findings := rows\<rparr>)))"

definition interrupted_run_summary :: json where
  "interrupted_run_summary = JObj [(''error'', JStr ''executor restarted before reconciliation completed'')]"

text \<open>The loop takes one fresh finding id per run.\<close>

fun fail_interrupted_loop ::
  "instant \<Rightarrow> (uuid \<times> uuid) list \<Rightarrow> ExecutionEvent list \<times> Store \<Rightarrow> (ExecutionEvent list \<times> Store) tx" where
  "fail_interrupted_loop now [] acc = Ok acc"
| "fail_interrupted_loop now ((rid, fid) # rest) (evs, db) =
     (let db = db\<lparr>reconciliation_runs := sql_update (\<lambda>r. rc_id r = rid \<and> rc_state r = ''RUNNING'')
                 (\<lambda>r. r\<lparr>rc_state := ''FAILED'', rc_summary_json := interrupted_run_summary,
                        rc_completed_at := Some now\<rparr>) (reconciliation_runs db)\<rparr>
      in rbind (insert_finding fid rid ''RECONCILIATION_INTERRUPTED'' interrupted_run_summary db) (\<lambda>db.
         let (e, db) = append_event ''reconciliation.failed'' ''reconciliation'' (RUuid rid) interrupted_run_summary now db
         in fail_interrupted_loop now rest (evs @ [e], db)))"

definition running_runs :: "Store \<Rightarrow> uuid list" where
  "running_runs db = map rc_id (sort_key rc_started_at (sort_key rc_id
     (filter (\<lambda>r. rc_state r = ''RUNNING'') (reconciliation_runs db))))"

definition fail_interrupted_reconciliations :: "(nat \<Rightarrow> uuid) \<Rightarrow> instant \<Rightarrow> Store \<Rightarrow> (nat \<times> Store) tx" where
  "fail_interrupted_reconciliations fresh now db =
     (let rows = running_runs db
      in rbind (fail_interrupted_loop now (zip rows (map fresh [0 ..< length rows])) ([], db)) (\<lambda>(evs, db).
           Ok (length rows, send evs db)))"

fun insert_findings :: "uuid \<Rightarrow> (json \<times> uuid) list \<Rightarrow> Store \<Rightarrow> Store tx" where
  "insert_findings rid [] db = Ok db"
| "insert_findings rid ((finding, fid) # rest) db =
     rbind (insert_finding fid rid ''RECONCILIATION_MISMATCH'' (JObj [(''message'', finding)]) db)
       (\<lambda>db. insert_findings rid rest db)"

definition finish_reconciliation :: "(nat \<Rightarrow> uuid) \<Rightarrow> uuid \<Rightarrow> json \<Rightarrow> instant \<Rightarrow> Store \<Rightarrow> Store tx" where
  "finish_reconciliation fresh rid summary now db =
     (let db = db\<lparr>reconciliation_runs := sql_update (\<lambda>r. rc_id r = rid)
                 (\<lambda>r. r\<lparr>rc_state := ''COMPLETE'', rc_summary_json := summary, rc_completed_at := Some now\<rparr>)
                 (reconciliation_runs db)\<rparr>
      in rbind (case jget summary ''critical_findings'' of
             Some (JArr findings) \<Rightarrow>
               let db = (if findings = []
                         then db\<lparr>reconciliation_findings := sql_update
                                (\<lambda>f. fi_severity f = ''CRITICAL'' \<and> fi_resolved_at f = None)
                                (\<lambda>f. f\<lparr>fi_resolved_at := Some now\<rparr>) (reconciliation_findings db)\<rparr>
                         else db)
               in insert_findings rid (zip findings (map fresh [0 ..< length findings])) db
           | _ \<Rightarrow> Ok db) (\<lambda>db.
         let (event, db) = append_event ''reconciliation.completed'' ''reconciliation'' (RUuid rid) summary now db
         in Ok (send [event] db)))"

definition fail_reconciliation :: "uuid \<Rightarrow> string \<Rightarrow> uuid \<Rightarrow> instant \<Rightarrow> Store \<Rightarrow> Store tx" where
  "fail_reconciliation rid error fid now db =
     (let summary = JObj [(''error'', JStr error)];
          db = db\<lparr>reconciliation_runs := sql_update (\<lambda>r. rc_id r = rid)
                 (\<lambda>r. r\<lparr>rc_state := ''FAILED'', rc_summary_json := summary, rc_completed_at := Some now\<rparr>)
                 (reconciliation_runs db)\<rparr>
      in rbind (insert_finding fid rid ''RECONCILIATION_FAILED'' summary db) (\<lambda>db.
         let (event, db) = append_event ''reconciliation.failed'' ''reconciliation'' (RUuid rid) summary now db
         in Ok (send [event] db)))"

definition get_reconciliation :: "uuid \<Rightarrow> Store \<Rightarrow> ReconciliationRecord tx" where
  "get_reconciliation rid db = ok_or NotFound (sql_find (\<lambda>r. rc_id r = rid) (reconciliation_runs db))"

definition unresolved_critical_findings :: "Store \<Rightarrow> nat" where
  "unresolved_critical_findings db =
     sql_count (\<lambda>f. fi_severity f = ''CRITICAL'' \<and> fi_resolved_at f = None) (reconciliation_findings db)"

definition latest_successful_reconciliation :: "Store \<Rightarrow> instant option" where
  "latest_successful_reconciliation db =
     sql_max (List.map_filter rc_completed_at (filter (\<lambda>r. rc_state r = ''COMPLETE'') (reconciliation_runs db)))"

section \<open>Backups\<close>

definition start_backup_inner ::
  "(json \<Rightarrow> string) \<Rightarrow> (string \<times> string \<times> json) option \<Rightarrow> uuid \<Rightarrow> instant \<Rightarrow> Store \<Rightarrow> (BackupRecord \<times> Store) tx" where
  "start_backup_inner H idempotency bid now db =
     (let row = \<lparr>bu_id = bid, bu_state = ''RUNNING'', bu_database_path = None, bu_manifest_path = None,
                 bu_checksum_sha256 = None, bu_last_event_sequence = None, bu_error = None,
                 bu_created_at = now, bu_updated_at = now\<rparr>;
          body = JObj [(''id'', JUuid bid), (''state'', JStr ''RUNNING''), (''mode'', JStr (mode_text (st_mode db)))]
      in rbind (sql_insert (same_key bu_id) row (backups db)) (\<lambda>rows.
         let db = db\<lparr>backups := rows\<rparr>
         in rbind (case idempotency of None \<Rightarrow> Ok db
              | Some (actor, key, request_body) \<Rightarrow>
                  insert_idempotency_record H actor key ''backup'' (RUuid bid) request_body 202 body now db) (\<lambda>db.
            let (event, db) = append_event ''backup.started'' ''backup'' (RUuid bid) body now db
            in Ok (row, send [event] db))))"

text \<open>What the file part of a backup produced.\<close>

record backup_files =
  bf_database_path :: string
  bf_manifest_path :: string
  bf_checksum :: string

definition complete_backup :: "uuid \<Rightarrow> backup_files \<Rightarrow> instant \<Rightarrow> Store \<Rightarrow> Store" where
  "complete_backup bid files now db =
     (let last_sequence = coalesce (sql_max (map ev_sequence (execution_events db))) 0;
          db = db\<lparr>backups := sql_update (\<lambda>b. bu_id b = bid)
                 (\<lambda>b. b\<lparr>bu_state := ''COMPLETE'', bu_database_path := Some (bf_database_path files),
                        bu_manifest_path := Some (bf_manifest_path files),
                        bu_checksum_sha256 := Some (bf_checksum files),
                        bu_last_event_sequence := Some last_sequence, bu_updated_at := now\<rparr>) (backups db)\<rparr>;
          (event, db) = append_event ''backup.completed'' ''backup'' (RUuid bid)
            (JObj [(''id'', JUuid bid), (''state'', JStr ''COMPLETE''), (''checksum_sha256'', JStr (bf_checksum files)),
                   (''last_event_sequence'', JInt last_sequence), (''mode'', JStr (mode_text (st_mode db)))]) now db
      in send [event] db)"

definition run_backup :: "uuid \<Rightarrow> (string, backup_files) res \<Rightarrow> instant \<Rightarrow> Store \<Rightarrow> (unit tx \<times> Store)" where
  "run_backup bid outcome now db =
     (case sql_find (\<lambda>b. bu_id b = bid \<and> bu_state b = ''RUNNING'') (backups db) of
        None \<Rightarrow> (Err NotFound, db)
      | Some _ \<Rightarrow>
          (case outcome of
             Panic \<Rightarrow> (Panic, db)
           | Ok files \<Rightarrow> (Ok (), complete_backup bid files now db)
           | Err error \<Rightarrow>
               let db = db\<lparr>backups := sql_update (\<lambda>b. bu_id b = bid)
                          (\<lambda>b. b\<lparr>bu_state := ''FAILED'', bu_error := Some error, bu_updated_at := now\<rparr>) (backups db)\<rparr>;
                   (event, db) = append_event ''backup.failed'' ''backup'' (RUuid bid)
                     (JObj [(''id'', JUuid bid), (''state'', JStr ''FAILED''), (''error'', JStr error)]) now db
               in (Err (Io error), send [event] db)))"

fun fail_backup_loop :: "instant \<Rightarrow> uuid list \<Rightarrow> ExecutionEvent list \<times> Store \<Rightarrow> ExecutionEvent list \<times> Store" where
  "fail_backup_loop now [] acc = acc"
| "fail_backup_loop now (bid # rest) (evs, db) =
     (let message = ''executor restarted before backup completed'';
          db = db\<lparr>backups := sql_update (\<lambda>b. bu_id b = bid \<and> bu_state b = ''RUNNING'')
                 (\<lambda>b. b\<lparr>bu_state := ''FAILED'', bu_error := Some message, bu_updated_at := now\<rparr>) (backups db)\<rparr>;
          (e, db) = append_event ''backup.failed'' ''backup'' (RUuid bid)
            (JObj [(''id'', JUuid bid), (''state'', JStr ''FAILED''), (''error'', JStr message)]) now db
      in fail_backup_loop now rest (evs @ [e], db))"

definition fail_interrupted_backups :: "instant \<Rightarrow> Store \<Rightarrow> nat \<times> Store" where
  "fail_interrupted_backups now db =
     (let ids = map bu_id (sort_key bu_created_at (sort_key bu_id (filter (\<lambda>b. bu_state b = ''RUNNING'') (backups db))));
          (evs, db) = fail_backup_loop now ids ([], db)
      in (length ids, send evs db))"

definition get_backup :: "uuid \<Rightarrow> Store \<Rightarrow> BackupRecord tx" where
  "get_backup bid db = ok_or NotFound (sql_find (\<lambda>b. bu_id b = bid) (backups db))"

section \<open>Identity\<close>

text \<open>The part of \<open>PolymarketConfig\<close> the database is bound to.\<close>

record venue_identity =
  vi_chain_id :: nat
  vi_expected_protocol :: nat
  vi_signer_address :: "string option"
  vi_funder_address :: "string option"

definition bind_identity :: "venue_identity \<Rightarrow> instant \<Rightarrow> Store \<Rightarrow> Store tx" where
  "bind_identity cfg now db =
     (case instance_metadata db of
        Some row \<Rightarrow>
          if im_mode row \<noteq> mode_text (st_mode db)
          then Err (IdentityMismatch (''mode is '' @ im_mode row @ '', requested '' @ mode_text (st_mode db)))
          else if int (vi_chain_id cfg) > i64_max
          then Err (IdentityMismatch ''configured chain ID exceeds SQLite integer'')
          else if im_chain_id row \<noteq> int (vi_chain_id cfg) \<or> im_protocol_version row \<noteq> int (vi_expected_protocol cfg)
          then Err (IdentityMismatch ''chain or protocol changed'')
          else if st_mode db = Mode.Live
               \<and> (im_signer_address row \<noteq> vi_signer_address cfg \<or> im_funder_address row \<noteq> vi_funder_address cfg)
          then Err (IdentityMismatch ''signer or funder changed'')
          else Ok db
      | None \<Rightarrow>
          if int (vi_chain_id cfg) > i64_max
          then Err (IdentityMismatch ''configured chain ID exceeds SQLite integer'')
          else Ok (db\<lparr>instance_metadata := Some
                 \<lparr>im_mode = mode_text (st_mode db), im_chain_id = int (vi_chain_id cfg),
                  im_protocol_version = int (vi_expected_protocol cfg),
                  im_signer_address = vi_signer_address cfg, im_funder_address = vi_funder_address cfg,
                  im_created_at = now\<rparr>\<rparr>))"

text \<open>The guard of \<open>Store::open\<close> against databases from before conservative exposure was recorded.\<close>

definition legacy_active_exposure :: "Store \<Rightarrow> nat" where
  "legacy_active_exposure db =
     sql_count (\<lambda>r. rv_state r = ''ACTIVE'' \<and> rv_quote_exposure r = ''0'') (risk_reservations db)
     + sql_count (\<lambda>r. order_is_open r \<and> or_quote_exposure r = ''0'') (orders db)"

definition open_store :: "venue_identity \<Rightarrow> instant \<Rightarrow> Store \<Rightarrow> Store tx" where
  "open_store cfg now db =
     (if legacy_active_exposure db > 0
      then Err (IdentityMismatch (''legacy active risk records do not contain conservative quote exposure; '' @
             ''reconcile and retire the development database before starting this version''))
      else bind_identity cfg now db)"

end
