(* ===== verification/CoordinatorState.thy ===== *)
theory CoordinatorState
  imports Journal
begin

text \<open>
  The state of the execution coordinator of \<open>src/src/execution.rs\<close> and the way it acts on it.  The
  coordinator is a sequence of interactions with its surroundings: transactions and reads of the store,
  calls of the venue under a deadline, readings of the clock.  The surroundings \<open>E\<close> answer the \<open>n\<close>-th
  interaction: \<open>su_before E n\<close> is what other tasks wrote to the store before it (the HTTP interface, the
  venue, other tasks of the coordinator), \<open>su_now\<close> and \<open>su_fresh\<close> the clock and the fresh ids, the other
  fields what the venue answers, \<open>None\<close> when the deadline of the call passes first.

  An operation returns a result and the new state; what was committed stays committed when a later step
  fails.  The gates of the coordinator are not part of the state: they only exclude interleavings of
  its tasks, and the theorems hold for every interleaving of transactions.
\<close>

type_synonym 'a vcall = "(VenueError, 'a) res option"

record surroundings =
  su_dec :: dec_ops
  su_hash :: "json \<Rightarrow> string"
  su_sha :: "string \<Rightarrow> string"
  su_uuid :: "uuid \<Rightarrow> string"
  su_show :: "decimal \<Rightarrow> string"
  su_policy :: RiskPolicy
  su_before :: "nat \<Rightarrow> Store \<Rightarrow> Store"
  su_now :: "nat \<Rightarrow> instant"
  su_fresh :: "nat \<Rightarrow> nat \<Rightarrow> uuid"
  su_market_rules :: "nat \<Rightarrow> MarketRules vcall"
  su_order_book :: "nat \<Rightarrow> OrderBook vcall"
  su_prepare :: "nat \<Rightarrow> PreparedVenueOrder vcall"
  su_submit :: "nat \<Rightarrow> VenueSubmission vcall"
  su_cancel :: "nat \<Rightarrow> VenueCancellation vcall"
  su_find_order :: "nat \<Rightarrow> ObservedVenueOrder option vcall"
  su_reconcile :: "nat \<Rightarrow> ReconciliationResult vcall"
  su_heartbeat :: "nat \<Rightarrow> unit vcall"
  su_requires_heartbeat :: bool
  su_reconciliation_required :: "nat \<Rightarrow> bool"
  su_checkpoint :: "nat \<Rightarrow> unit tx"

datatype venue_call =
    MarketRulesCall string string
  | OrderBookCall string
  | PrepareCall uuid
  | SubmitCall uuid uuid
  | CancelCall string
  | FindOrderCall string
  | ReconcileCall
  | HeartbeatCall

text \<open>
  \<open>co_calls\<close> counts the interactions, \<open>co_log\<close> lists the venue calls made, \<open>co_spawned\<close> the reasons of
  the protective cancellations handed to another task.
\<close>

record coordinator =
  co_store :: Store
  co_calls :: nat
  co_queue :: "uuid list"
  co_deferred :: "uuid list"
  co_slots :: nat
  co_healthy :: "instant option"
  co_spawned :: "string list"
  co_log :: "venue_call list"
  co_stopped :: bool

datatype CoordinatorError = StoreFailed StoreError | VenueFailed VenueError | JsonFailed string | QueueFull | Invalid string

fun coordinator_error_text :: "CoordinatorError \<Rightarrow> string" where
  "coordinator_error_text (StoreFailed e) = store_error_text e"
| "coordinator_error_text (VenueFailed e) = venue_error_text e"
| "coordinator_error_text (JsonFailed m) = m"
| "coordinator_error_text QueueFull = ''execution queue is full''"
| "coordinator_error_text (Invalid m) = ''invalid request: '' @ m"

type_synonym 'a co = "coordinator \<Rightarrow> (CoordinatorError, 'a) res \<times> coordinator"

section \<open>Sequencing\<close>

definition co_result :: "(CoordinatorError, 'a) res \<Rightarrow> 'a co" where
  "co_result r = (\<lambda>c. (r, c))"

abbreviation co_return :: "'a \<Rightarrow> 'a co" where
  "co_return x \<equiv> co_result (Ok x)"

abbreviation co_fail :: "CoordinatorError \<Rightarrow> 'a co" where
  "co_fail e \<equiv> co_result (Err e)"

definition co_bind :: "'a co \<Rightarrow> ('a \<Rightarrow> 'b co) \<Rightarrow> 'b co" where
  "co_bind m f = (\<lambda>c. case m c of
     (Ok x, c') \<Rightarrow> f x c' | (Err e, c') \<Rightarrow> (Err e, c') | (Panic, c') \<Rightarrow> (Panic, c'))"

abbreviation co_then :: "'a co \<Rightarrow> 'b co \<Rightarrow> 'b co" where
  "co_then m k \<equiv> co_bind m (\<lambda>_. k)"

text \<open>A failure as a value: \<open>if let Err(error) = ..\<close>, \<open>let _ = ..\<close>.\<close>

definition co_try :: "'a co \<Rightarrow> (CoordinatorError, 'a) res co" where
  "co_try m = (\<lambda>c. case m c of (Panic, c') \<Rightarrow> (Panic, c') | (r, c') \<Rightarrow> (Ok r, c'))"

definition co_when :: "bool \<Rightarrow> unit co \<Rightarrow> unit co" where
  "co_when b m = (if b then m else co_return ())"

definition co_ignore :: "'a co \<Rightarrow> unit co" where
  "co_ignore m = co_then (co_try m) (co_return ())"

section \<open>Interactions\<close>

definition tick :: "coordinator \<Rightarrow> coordinator" where
  "tick c = c\<lparr>co_calls := Suc (co_calls c)\<rparr>"

definition co_tx :: "surroundings \<Rightarrow> (nat \<Rightarrow> Store \<Rightarrow> ('a \<times> Store) tx) \<Rightarrow> 'a co" where
  "co_tx E f = (\<lambda>c. let n = co_calls c; db = su_before E n (co_store c) in
     case f n db of
       Ok (x, db') \<Rightarrow> (Ok x, tick (c\<lparr>co_store := db'\<rparr>))
     | Err e \<Rightarrow> (Err (StoreFailed e), tick (c\<lparr>co_store := db\<rparr>))
     | Panic \<Rightarrow> (Panic, tick (c\<lparr>co_store := db\<rparr>)))"

definition co_do :: "surroundings \<Rightarrow> (nat \<Rightarrow> Store \<Rightarrow> Store tx) \<Rightarrow> unit co" where
  "co_do E f = co_tx E (\<lambda>n db. rbind (f n db) (\<lambda>db. Ok ((), db)))"

definition co_read :: "surroundings \<Rightarrow> (Store \<Rightarrow> 'a tx) \<Rightarrow> 'a co" where
  "co_read E f = co_tx E (\<lambda>n db. rbind (f db) (\<lambda>x. Ok (x, db)))"

definition co_call :: "(nat \<Rightarrow> 'a vcall) \<Rightarrow> venue_call \<Rightarrow> 'a vcall co" where
  "co_call answer call = (\<lambda>c. let c' = tick (c\<lparr>co_log := co_log c @ [call]\<rparr>) in
     case answer (co_calls c) of Some Panic \<Rightarrow> (Panic, c') | a \<Rightarrow> (Ok a, c'))"

definition co_ask :: "(nat \<Rightarrow> 'a) \<Rightarrow> 'a co" where
  "co_ask f = (\<lambda>c. (Ok (f (co_calls c)), tick c))"

definition co_get :: "(coordinator \<Rightarrow> 'a) \<Rightarrow> 'a co" where
  "co_get f = (\<lambda>c. (Ok (f c), c))"

definition co_queue_up :: "uuid \<Rightarrow> unit co" where
  "co_queue_up i = (\<lambda>c. (Ok (), c\<lparr>co_queue := co_queue c @ [i]\<rparr>))"

definition co_set_deferred :: "uuid list \<Rightarrow> unit co" where
  "co_set_deferred ids = (\<lambda>c. (Ok (), c\<lparr>co_deferred := ids\<rparr>))"

definition co_set_healthy :: "instant \<Rightarrow> unit co" where
  "co_set_healthy now = (\<lambda>c. (Ok (), c\<lparr>co_healthy := Some now\<rparr>))"

definition co_spawn :: "string \<Rightarrow> unit co" where
  "co_spawn reason = (\<lambda>c. (Ok (), c\<lparr>co_spawned := co_spawned c @ [reason]\<rparr>))"

text \<open>A deadline that passed, where the code turns it into a venue error.\<close>

fun deadline :: "VenueError \<Rightarrow> 'a vcall \<Rightarrow> (VenueError, 'a) res" where
  "deadline e None = Err e"
| "deadline e (Some r) = r"

definition co_venue :: "(VenueError, 'a) res \<Rightarrow> 'a co" where
  "co_venue r = co_result (map_err VenueFailed r)"

section \<open>What holds along a run\<close>

text \<open>
  A relation between the state before and after that interactions keep and that composes is kept by
  every operation: the client's lemma is proved once for the combinators.
\<close>

definition kept :: "(coordinator \<Rightarrow> coordinator \<Rightarrow> bool) \<Rightarrow> 'a co \<Rightarrow> bool" where
  "kept R m \<longleftrightarrow> (\<forall>c. R c (snd (m c)))"

lemma keptD: "kept R m \<Longrightarrow> m c = (r, c') \<Longrightarrow> R c c'"
  by (metis kept_def snd_conv)

locale co_frame =
  fixes R :: "coordinator \<Rightarrow> coordinator \<Rightarrow> bool"
  assumes R_refl: "R c c" and R_trans: "R c c' \<Longrightarrow> R c' c'' \<Longrightarrow> R c c''"
begin

lemma kept_result: "kept R (co_result r)"
  by (simp add: kept_def co_result_def R_refl)

lemma kept_get: "kept R (co_get f)"
  by (simp add: kept_def co_get_def R_refl)

lemma kept_bind:
  assumes "kept R m" "\<And>x. kept R (f x)"
  shows "kept R (co_bind m f)"
  unfolding kept_def
proof
  fix c
  obtain r c' where m: "m c = (r, c')" by fastforce
  with assms(1) have 1: "R c c'" by (metis kept_def snd_conv)
  have 2: "R c' (snd (f x c'))" for x using assms(2) by (simp add: kept_def)
  show "R c (snd (co_bind m f c))"
    using 1 R_trans [OF 1 2] by (cases r) (simp_all add: co_bind_def m)
qed

lemma kept_try: "kept R m \<Longrightarrow> kept R (co_try m)"
  by (auto simp: kept_def co_try_def split: prod.splits res.splits) (metis snd_conv)+

lemma kept_when: "kept R m \<Longrightarrow> kept R (co_when b m)"
  by (simp add: co_when_def kept_result)

lemma kept_ignore: "kept R m \<Longrightarrow> kept R (co_ignore m)"
  by (simp add: co_ignore_def kept_bind kept_try kept_result)

lemma kept_venue: "kept R (co_venue r)"
  by (simp add: co_venue_def kept_result)

lemmas kept_intros = kept_result kept_get kept_bind kept_try kept_when kept_ignore kept_venue

end

end
