(* ===== verification/Coordinator.thy ===== *)
theory Coordinator
  imports CoordinatorState
begin

text \<open>
  \<open>src/src/execution.rs\<close>: the execution coordinator.  Health and freshness checks, reconciliation with
  the venue, cancellation, the processing of one intent from admission to the venue's answer, startup,
  resume, halt, shutdown and the ticks of its background tasks.  Metrics and log lines are left out.
\<close>

section \<open>Helpers\<close>

primrec intent_state_variant :: "IntentState \<Rightarrow> string" where
  "intent_state_variant IntentState.Received = ''Received''"
| "intent_state_variant IntentState.Validating = ''Validating''"
| "intent_state_variant IntentState.Rejected = ''Rejected''"
| "intent_state_variant IntentState.Approved = ''Approved''"
| "intent_state_variant IntentState.Preparing = ''Preparing''"
| "intent_state_variant IntentState.Prepared = ''Prepared''"
| "intent_state_variant IntentState.Submitting = ''Submitting''"
| "intent_state_variant IntentState.Submitted = ''Submitted''"
| "intent_state_variant IntentState.Unknown = ''Unknown''"

definition set_state :: "surroundings \<Rightarrow> string \<Rightarrow> ServiceState \<Rightarrow> string \<Rightarrow> unit co" where
  "set_state E actor nxt reason =
     co_do E (\<lambda>n. set_service_state (su_hash E) actor nxt reason (su_fresh E n 0) (su_fresh E n 1) (su_now E n))"

definition current_state :: "surroundings \<Rightarrow> ServiceState co" where
  "current_state E = co_read E (\<lambda>db. rbind (service_state db) (\<lambda>(s, _, _). Ok s))"

definition read_intent :: "surroundings \<Rightarrow> uuid \<Rightarrow> IntentRecord co" where
  "read_intent E i = co_read E (get_intent i)"

definition intent_to :: "surroundings \<Rightarrow> uuid \<Rightarrow> IntentState \<Rightarrow> IntentState \<Rightarrow> (string \<times> string) option \<Rightarrow> unit co" where
  "intent_to E i prior nxt rejection =
     co_then (co_tx E (\<lambda>n. transition_intent i prior nxt rejection (su_now E n))) (co_return ())"

definition decide :: "surroundings \<Rightarrow> uuid \<Rightarrow> string \<Rightarrow> string \<Rightarrow> unit co" where
  "decide E i code message = co_do E (\<lambda>n. record_risk_decision i False code (JObj [(''error'', JStr message)])
     (rp_version (su_policy E)) (su_fresh E n 0) (su_now E n))"

definition reject_received :: "surroundings \<Rightarrow> uuid \<Rightarrow> string \<Rightarrow> string \<Rightarrow> unit co" where
  "reject_received E i code message =
     intent_to E i IntentState.Received IntentState.Rejected (Some (code, message))"

definition reject_validating :: "surroundings \<Rightarrow> uuid \<Rightarrow> string \<Rightarrow> string \<Rightarrow> unit co" where
  "reject_validating E i code message =
     co_then (decide E i code message)
       (intent_to E i IntentState.Validating IntentState.Rejected (Some (code, message)))"

definition spawn_protective_cancellation :: "surroundings \<Rightarrow> string \<Rightarrow> unit co" where
  "spawn_protective_cancellation E reason = co_when (rp_cancel_on_halt (su_policy E)) (co_spawn reason)"

definition defer_recovery :: "uuid \<Rightarrow> unit co" where
  "defer_recovery i = co_bind (co_get co_deferred) (\<lambda>deferred.
     co_when (i \<notin> set deferred) (co_set_deferred (deferred @ [i])))"

section \<open>Queue and slots\<close>

definition enqueue :: "uuid \<Rightarrow> unit co" where
  "enqueue i = co_bind (co_get co_queue) (\<lambda>queue.
     if length queue < 100 then co_queue_up i else co_fail QueueFull)"

definition reserve_operation :: "unit co" where
  "reserve_operation = (\<lambda>c. if co_slots c = 0 then (Err QueueFull, c) else (Ok (), c\<lparr>co_slots := co_slots c - 1\<rparr>))"

definition enqueue_recovered :: "surroundings \<Rightarrow> uuid \<Rightarrow> unit co" where
  "enqueue_recovered E i = co_bind (read_intent E i) (\<lambda>intent.
     co_when (in_state intent \<in> {IntentState.Received, IntentState.Prepared}) (co_queue_up i))"

fun enqueue_all :: "surroundings \<Rightarrow> uuid list \<Rightarrow> unit co" where
  "enqueue_all E [] = co_return ()"
| "enqueue_all E (i # is) = co_then (enqueue_recovered E i) (enqueue_all E is)"

section \<open>Health and freshness\<close>

definition seconds_since :: "instant \<Rightarrow> instant \<Rightarrow> nat" where
  "seconds_since now t = nat (max 0 ((now - t) div 10 ^ 9))"

definition execution_health_failure :: "surroundings \<Rightarrow> string option co" where
  "execution_health_failure E =
     co_bind (co_read E (\<lambda>db. Ok (latest_successful_reconciliation db))) (\<lambda>reconciliation.
     co_bind (co_ask (su_now E)) (\<lambda>now.
     if (case reconciliation of None \<Rightarrow> True
         | Some completed_at \<Rightarrow> rp_max_reconciliation_age_seconds (su_policy E) < seconds_since now completed_at)
     then co_return (Some ''latest successful reconciliation is missing or stale'')
     else if \<not> su_requires_heartbeat E then co_return None
     else
     co_bind (co_get co_healthy) (\<lambda>healthy.
     co_return (if (case healthy of None \<Rightarrow> True
                    | Some observed_at \<Rightarrow> int (rp_max_user_stream_age_seconds (su_policy E)) * 10 ^ 9 < now - observed_at)
                then Some ''venue heartbeat is missing or stale'' else None))))"

definition supervised_heartbeat :: "surroundings \<Rightarrow> unit co" where
  "supervised_heartbeat E =
     co_bind (co_call (su_heartbeat E) HeartbeatCall) (\<lambda>answer.
     co_then (case answer of None \<Rightarrow> co_fail (Invalid ''venue heartbeat deadline exceeded'') | Some r \<Rightarrow> co_venue r)
       (co_bind (co_ask (su_now E)) co_set_healthy))"

type_synonym refusal = "string \<times> string"

definition check_market ::
  "RiskPolicy \<Rightarrow> OrderIntentRequest \<Rightarrow> MarketRules \<Rightarrow> instant \<Rightarrow> (refusal, unit) res" where
  "check_market policy request market now =
     (if mk_condition_id market \<noteq> rq_condition_id request \<or> mk_token_id market \<noteq> rq_token_id request
         \<or> mk_tick_size market \<le> 0 \<or> mk_tick_size market \<ge> 1 \<or> mk_minimum_order_size market \<le> 0
         \<or> mk_maker_fee_rate market < 0 \<or> mk_maker_fee_rate market > 1
         \<or> mk_taker_fee_rate market < 0 \<or> mk_taker_fee_rate market > 1
      then Err (''MARKET_RULES_INVALID'', ''venue market rules contain invalid identifiers, increments, or fees'')
      else if mk_observed_at market > now + 5 * 10 ^ 9
      then Err (''MARKET_METADATA_INVALID_TIME'', ''market metadata timestamp is in the future'')
      else if seconds_since now (mk_observed_at market) > rp_max_market_metadata_age_seconds policy
      then Err (''MARKET_METADATA_STALE'',
                ''market metadata is '' @ show_nat (seconds_since now (mk_observed_at market)) @ ''s old'')
      else Ok ())"

text \<open>\<open>levels.iter().all(..)\<close> stops at the first level that fails; a remainder by the tick may panic.\<close>

fun valid_levels :: "dec_ops \<Rightarrow> MarketRules \<Rightarrow> PriceLevel list \<Rightarrow> bool option" where
  "valid_levels D market [] = Some True"
| "valid_levels D market (level # levels) =
     (if pl_price level > 0 \<and> pl_price level < 1
      then do { remainder \<leftarrow> d_rem D (pl_price level) (mk_tick_size market);
                if remainder = 0 \<and> pl_size level > 0 then valid_levels D market levels else Some False }
      else Some False)"

definition crossed_book :: "OrderBook \<Rightarrow> bool" where
  "crossed_book book = (case (best_bid book, best_ask book) of (Some bid, Some ask) \<Rightarrow> bid \<ge> ask | _ \<Rightarrow> False)"

definition check_book ::
  "dec_ops \<Rightarrow> RiskPolicy \<Rightarrow> MarketRules \<Rightarrow> OrderBook \<Rightarrow> instant \<Rightarrow> (refusal, unit) res" where
  "check_book D policy market book now =
     (if bk_observed_at book > now + 5 * 10 ^ 9
      then Err (''ORDER_BOOK_INVALID_TIME'', ''order book timestamp is in the future'')
      else if seconds_since now (bk_observed_at book) > rp_max_order_book_age_seconds policy
      then Err (''ORDER_BOOK_STALE'', ''order book is '' @ show_nat (seconds_since now (bk_observed_at book)) @ ''s old'')
      else
      rbind (or_panic (valid_levels D market (bk_bids book))) (\<lambda>bids_ok.
      rbind (if bids_ok then or_panic (valid_levels D market (bk_asks book)) else Ok False) (\<lambda>levels_ok.
      if \<not> levels_ok \<or> crossed_book book \<or> (case bk_hash book of Some h \<Rightarrow> is_blank h | None \<Rightarrow> False)
      then Err (''ORDER_BOOK_INVALID'', ''order book failed structural consistency checks'')
      else Ok ())))"

definition check_increments ::
  "dec_ops \<Rightarrow> (decimal \<Rightarrow> string) \<Rightarrow> OrderIntentRequest \<Rightarrow> MarketRules \<Rightarrow> (refusal, unit) res" where
  "check_increments D shown request market =
     rbind (map_err (\<lambda>e. (''ORDER_INVALID_PRICE'', domain_error_text e)) (protection_price D request)) (\<lambda>price.
     rbind (or_panic (d_rem D price (mk_tick_size market))) (\<lambda>remainder.
     if remainder \<noteq> 0
     then Err (''ORDER_INVALID_TICK'', ''price must be a multiple of '' @ shown (mk_tick_size market))
     else
     rbind (map_err (\<lambda>e. (''ORDER_INVALID_QUANTITY'', domain_error_text e)) (quantity_decimal D request)) (\<lambda>quantity.
     rbind (if rq_side request = Buy \<and> is_immediate (rq_time_in_force request)
            then or_panic (d_div D quantity price) else Ok quantity) (\<lambda>shares.
     if shares < mk_minimum_order_size market
     then Err (''ORDER_BELOW_MINIMUM_SIZE'',
               ''share quantity '' @ shown shares @ '' is below '' @ shown (mk_minimum_order_size market))
     else Ok ()))))"

definition validate_freshness_and_increments ::
  "surroundings \<Rightarrow> OrderIntentRequest \<Rightarrow> MarketRules \<Rightarrow> OrderBook \<Rightarrow> instant \<Rightarrow> (refusal, unit) res" where
  "validate_freshness_and_increments E request market book now =
     rbind (check_market (su_policy E) request market now) (\<lambda>_.
     rbind (check_book (su_dec E) (su_policy E) market book now) (\<lambda>_.
       check_increments (su_dec E) (su_show E) request market))"

section \<open>Reconciliation\<close>

definition json_of_observed_order :: "ObservedVenueOrder \<Rightarrow> json" where
  "json_of_observed_order o' = JObj [(''venue_order_id'', JStr (ob_venue_order_id o')),
     (''state'', JStr (order_state_text (ob_state o'))), (''remaining_quantity'', JDec (ob_remaining_quantity o')),
     (''filled_quantity'', JDec (ob_filled_quantity o')), (''filled_price'', json_opt JDec (ob_filled_price o')),
     (''venue_trade_ids'', JArr (map JStr (ob_venue_trade_ids o'))), (''evidence'', ob_evidence o')]"

definition json_of_observed_trade :: "ObservedVenueTrade \<Rightarrow> json" where
  "json_of_observed_trade t = JObj [(''venue_trade_id'', JStr (ot_venue_trade_id t)),
     (''venue_order_ids'', JArr (map JStr (ot_venue_order_ids t))),
     (''status'', JStr (trade_state_text (ot_status t))), (''evidence'', ot_evidence t)]"

definition json_of_observed_position :: "ObservedVenuePosition \<Rightarrow> json" where
  "json_of_observed_position p = JObj [(''condition_id'', JStr (op_condition_id p)),
     (''token_id'', JStr (op_token_id p)), (''shares'', JDec (op_shares p)), (''evidence'', op_evidence p)]"

definition json_of_reconciliation :: "ReconciliationResult \<Rightarrow> json" where
  "json_of_reconciliation r = JObj [(''orders_observed'', JInt (int (rr_orders_observed r))),
     (''trades_observed'', JInt (int (rr_trades_observed r))),
     (''observed_orders'', JArr (map json_of_observed_order (rr_observed_orders r))),
     (''observed_trades'', JArr (map json_of_observed_trade (rr_observed_trades r))),
     (''observed_positions'', JArr (map json_of_observed_position (rr_observed_positions r))),
     (''critical_findings'', JArr (map JStr (rr_critical_findings r)))]"

definition find_venue_order :: "surroundings \<Rightarrow> string \<Rightarrow> ObservedVenueOrder option co" where
  "find_venue_order E vid =
     co_bind (co_call (su_find_order E) (FindOrderCall vid)) (\<lambda>answer. case answer of
       None \<Rightarrow> co_fail (Invalid (''venue order lookup timed out for '' @ vid))
     | Some r \<Rightarrow> co_venue r)"

text \<open>Orders at the venue without a local record: a finding each, and a protective cancellation.\<close>

fun unexpected_loop :: "surroundings \<Rightarrow> string list \<Rightarrow> string list \<Rightarrow> string list co" where
  "unexpected_loop E [] findings = co_return findings"
| "unexpected_loop E (vid # vids) findings =
     (let findings = findings @ [''unexpected venue order '' @ vid @ '' has no local journal record'']
      in if \<not> rp_cancel_on_halt (su_policy E) then unexpected_loop E vids findings
         else
         co_bind (co_call (su_cancel E) (CancelCall vid)) (\<lambda>answer.
           unexpected_loop E vids (findings @ (case answer of
              None \<Rightarrow> [''protective cancellation of unexpected venue order '' @ vid @ '' timed out'']
            | Some (Err e) \<Rightarrow> [''protective cancellation of unexpected venue order '' @ vid @ '' failed: '' @ venue_error_text e]
            | Some _ \<Rightarrow> []))))"

definition project_observed :: "surroundings \<Rightarrow> uuid \<Rightarrow> ObservedVenueOrder \<Rightarrow> unit co" where
  "project_observed E oid observed = co_do E (\<lambda>n. reconcile_order_projection (su_dec E) (su_uuid E) oid
     (ob_state observed) (ob_remaining_quantity observed) (ob_filled_quantity observed) (ob_filled_price observed)
     (ob_venue_trade_ids observed) (ob_evidence observed) (su_fresh E n 0) (su_now E n))"

fun local_order_loop ::
  "surroundings \<Rightarrow> (string \<rightharpoonup> ObservedVenueOrder) \<Rightarrow> OrderRecord list \<Rightarrow> string list \<Rightarrow> string list co" where
  "local_order_loop E observed_by_id [] findings = co_return findings"
| "local_order_loop E observed_by_id (ord # ords) findings =
     (case or_venue_order_id ord of
        None \<Rightarrow> co_result Panic
      | Some vid \<Rightarrow>
          co_bind (case observed_by_id vid of Some observed \<Rightarrow> co_return (Some observed)
                   | None \<Rightarrow> find_venue_order E vid) (\<lambda>found. case found of
            Some observed \<Rightarrow>
              if ob_state observed = OrderState.Unknown
              then local_order_loop E observed_by_id ords
                     (findings @ [''venue order '' @ vid @ '' has an unrecognized state''])
              else co_then (project_observed E (or_id ord) observed) (local_order_loop E observed_by_id ords findings)
          | None \<Rightarrow> local_order_loop E observed_by_id ords
              (findings @ [''local open order '' @ su_uuid E (or_id ord) @ '' ('' @ vid @ '') is missing at venue''])))"

definition resolve_observed :: "surroundings \<Rightarrow> UnknownSubmission \<Rightarrow> ObservedVenueOrder \<Rightarrow> unit co" where
  "resolve_observed E unknown observed = co_do E (\<lambda>n. resolve_unknown_submission (su_dec E) (su_uuid E) unknown
     (ob_venue_order_id observed) (ob_state observed) (ob_remaining_quantity observed) (ob_filled_quantity observed)
     (ob_filled_price observed) (ob_venue_trade_ids observed) (ob_evidence observed) (su_fresh E n 0) (su_now E n))"

fun unknown_loop :: "surroundings \<Rightarrow> UnknownSubmission list \<Rightarrow> string list \<Rightarrow> string list co" where
  "unknown_loop E [] findings = co_return findings"
| "unknown_loop E (unknown # rest) findings =
     co_bind (find_venue_order E (us_deterministic_order_id unknown)) (\<lambda>found.
     if (case found of Some observed \<Rightarrow> ob_state observed \<noteq> OrderState.Unknown | None \<Rightarrow> False)
     then co_then (resolve_observed E unknown (the found)) (unknown_loop E rest findings)
     else unknown_loop E rest (findings @ [''unresolved ambiguous order '' @ su_uuid E (us_order_id unknown)
            @ '' ('' @ us_deterministic_order_id unknown @ '')'']))"

fun trade_loop :: "surroundings \<Rightarrow> ObservedVenueTrade list \<Rightarrow> string list \<Rightarrow> string list co" where
  "trade_loop E [] findings = co_return findings"
| "trade_loop E (t # ts) findings =
     co_bind (co_read E (\<lambda>db. Ok (order_ids_for_venue_ids (ot_venue_order_ids t) db))) (\<lambda>ids. case ids of
       [] \<Rightarrow> trade_loop E ts (findings @ [''venue trade '' @ ot_venue_trade_id t @ '' has no local order''])
     | [oid] \<Rightarrow>
         co_bind (co_tx E (\<lambda>n. record_venue_trade_finality oid (ot_venue_trade_id t) (ot_status t) (ot_evidence t)
                    (su_now E n))) (\<lambda>known.
           trade_loop E ts (if known then findings
             else findings @ [''venue trade '' @ ot_venue_trade_id t @ '' is not linked to a local matched fill'']))
     | _ \<Rightarrow> trade_loop E ts (findings @ [''venue trade '' @ ot_venue_trade_id t @ '' maps to multiple local orders'']))"

definition unexpected_order_ids :: "ObservedVenueOrder list \<Rightarrow> string set \<Rightarrow> string list" where
  "unexpected_order_ids observed known = filter (\<lambda>v. v \<notin> known) (map ob_venue_order_id observed)"

definition apply_observations ::
  "surroundings \<Rightarrow> uuid \<Rightarrow> ReconciliationResult \<Rightarrow> OrderRecord list \<Rightarrow> string set \<Rightarrow> uuid co" where
  "apply_observations E rid result active known =
     co_bind (unexpected_loop E (unexpected_order_ids (rr_observed_orders result) known)
                (rr_critical_findings result)) (\<lambda>findings.
     co_bind (local_order_loop E
                (map_of (rev (map (\<lambda>o'. (ob_venue_order_id o', o')) (rr_observed_orders result)))) active findings) (\<lambda>findings.
     co_bind (co_read E (\<lambda>db. Ok (unknown_submissions db))) (\<lambda>unknowns.
     co_bind (unknown_loop E unknowns findings) (\<lambda>findings.
     co_bind (trade_loop E (rr_observed_trades result) findings) (\<lambda>findings.
     co_then (co_do E (\<lambda>n. reconcile_venue_positions (su_dec E)
                (map (\<lambda>p. (op_condition_id p, op_token_id p, op_shares p)) (rr_observed_positions result)) (su_now E n)))
     (co_then (co_do E (\<lambda>n. finish_reconciliation (su_fresh E n) rid
                (json_of_reconciliation (result\<lparr>rr_critical_findings := findings\<rparr>)) (su_now E n)))
     (co_then (co_tx E (\<lambda>n. prune_events))
     (co_then (co_when (findings \<noteq> [])
                (co_then (set_state E ''system'' Halted ''critical reconciliation finding'')
                   (spawn_protective_cancellation E ''critical reconciliation finding'')))
       (co_return rid)))))))))"

definition process_observations :: "surroundings \<Rightarrow> uuid \<Rightarrow> ReconciliationResult \<Rightarrow> uuid co" where
  "process_observations E rid result =
     co_bind (co_read E (\<lambda>db. Ok (reconciliation_orders db))) (\<lambda>(active, known).
       apply_observations E rid result active known)"

definition reconcile_started_inner :: "surroundings \<Rightarrow> uuid \<Rightarrow> uuid co" where
  "reconcile_started_inner E rid =
     co_bind (co_call (su_reconcile E) ReconcileCall) (\<lambda>answer.
     case deadline (Unavailable ''reconciliation deadline exceeded'') answer of
       Ok result \<Rightarrow> process_observations E rid result
     | Err e \<Rightarrow>
         co_then (co_do E (\<lambda>n. fail_reconciliation rid (venue_error_text e) (su_fresh E n 0) (su_now E n)))
         (co_then (set_state E ''system'' Halted ''reconciliation failed'')
         (co_then (spawn_protective_cancellation E ''reconciliation failed'')
            (co_fail (VenueFailed e))))
     | Panic \<Rightarrow> co_result Panic)"

definition close_failed_reconciliation :: "surroundings \<Rightarrow> uuid \<Rightarrow> CoordinatorError \<Rightarrow> unit co" where
  "close_failed_reconciliation E rid e =
     co_bind (co_try (co_read E (get_reconciliation rid))) (\<lambda>found.
     co_then (co_when (case found of Ok run \<Rightarrow> rc_state run = ''RUNNING'' | _ \<Rightarrow> False)
                (co_ignore (co_do E (\<lambda>n. fail_reconciliation rid (coordinator_error_text e) (su_fresh E n 0) (su_now E n)))))
     (co_bind (co_try (current_state E)) (\<lambda>state. case state of
        Ok s \<Rightarrow> if s = Halted then co_return ()
                else co_bind (co_try (set_state E ''system'' Halted ''reconciliation processing failed'')) (\<lambda>r.
                       co_when (is_ok r) (spawn_protective_cancellation E ''reconciliation processing failed''))
      | _ \<Rightarrow> co_return ())))"

definition reconcile_started :: "surroundings \<Rightarrow> uuid \<Rightarrow> uuid co" where
  "reconcile_started E rid =
     co_bind (co_try (reconcile_started_inner E rid)) (\<lambda>result. case result of
       Err e \<Rightarrow> co_then (close_failed_reconciliation E rid e) (co_fail e)
     | r \<Rightarrow> co_result r)"

definition reconcile :: "surroundings \<Rightarrow> string \<Rightarrow> uuid co" where
  "reconcile E trigger =
     co_bind (co_tx E (\<lambda>n. start_reconciliation (su_hash E) trigger (su_fresh E n 0) (su_now E n)))
       (reconcile_started E)"

definition admit_reconciliation :: "surroundings \<Rightarrow> string \<Rightarrow> string \<Rightarrow> string \<Rightarrow> uuid co" where
  "admit_reconciliation E actor key trigger =
     co_tx E (\<lambda>n. start_reconciliation_idempotent (su_hash E) actor key trigger (JObj []) (su_fresh E n 0) (su_now E n))"

section \<open>Cancellation\<close>

definition order_to :: "surroundings \<Rightarrow> uuid \<Rightarrow> OrderState \<Rightarrow> json \<Rightarrow> OrderRecord co" where
  "order_to E oid nxt evidence = co_tx E (\<lambda>n. transition_order oid nxt None evidence (su_now E n))"

definition cancel_at_venue :: "surroundings \<Rightarrow> uuid \<Rightarrow> string \<Rightarrow> bool co" where
  "cancel_at_venue E oid vid =
     co_bind (co_call (su_cancel E) (CancelCall vid)) (\<lambda>answer.
     case deadline (Ambiguous ''cancellation deadline exceeded'') answer of
       Ok cancellation \<Rightarrow>
         co_then (order_to E oid (vc_state cancellation) (vc_evidence cancellation)) (co_return True)
     | Err e \<Rightarrow> co_then (co_ignore (reconcile E ''cancellation_failure'')) (co_return False)
     | Panic \<Rightarrow> co_result Panic)"

text \<open>One target; the result says whether its cancellation needs no reconciliation.\<close>

definition cancel_order :: "surroundings \<Rightarrow> uuid \<Rightarrow> uuid \<Rightarrow> bool co" where
  "cancel_order E cid oid =
     co_bind (co_read E (get_order oid)) (\<lambda>ord.
     if or_state ord \<in> terminal_states then co_return True
     else if or_state ord = OrderState.Prepared \<and> or_venue_order_id ord = None
     then co_then (co_tx E (\<lambda>n. cancel_prepared_order oid
                     (JObj [(''cancellation_id'', JUuid cid), (''reason'', JStr ''cancelled_before_venue_submission'')])
                     (su_now E n))) (co_return True)
     else
     co_bind (if or_state ord \<noteq> OrderState.Unknown
              then co_bind (order_to E oid OrderState.CancelPending (JObj [(''cancellation_id'', JUuid cid)]))
                     (\<lambda>pending. co_return (or_state pending \<in> terminal_states))
              else co_return False) (\<lambda>settled.
     if settled then co_return True
     else case or_venue_order_id ord of
       Some vid \<Rightarrow> cancel_at_venue E oid vid
     | None \<Rightarrow> co_then (co_ignore (reconcile E ''cancellation_missing_venue_id'')) (co_return False)))"

fun cancellation_loop :: "surroundings \<Rightarrow> uuid \<Rightarrow> uuid list \<Rightarrow> uuid list \<Rightarrow> uuid list co" where
  "cancellation_loop E cid [] failed = co_return failed"
| "cancellation_loop E cid (oid # oids) failed =
     co_bind (cancel_order E cid oid) (\<lambda>done. cancellation_loop E cid oids (if done then failed else failed @ [oid]))"

definition execute_cancellation :: "surroundings \<Rightarrow> uuid \<Rightarrow> uuid list \<Rightarrow> unit co" where
  "execute_cancellation E cid targets =
     co_bind (cancellation_loop E cid targets []) (\<lambda>failed.
     co_then (co_tx E (\<lambda>n. finish_cancellation cid failed (su_now E n))) (co_return ()))"

definition check_cancellation :: "CancellationRequest \<Rightarrow> unit co" where
  "check_cancellation request = co_result (map_err (\<lambda>e. Invalid (domain_error_text e)) (validate_cancellation request))"

definition cancel_inner :: "surroundings \<Rightarrow> string \<Rightarrow> CancellationRequest \<Rightarrow> (uuid \<times> uuid list) co" where
  "cancel_inner E actor request =
     co_then (check_cancellation request)
       (co_bind (co_tx E (\<lambda>n. create_cancellation (su_hash E) actor request (su_fresh E n 0) (su_now E n)))
          (\<lambda>(cid, targets). co_then (execute_cancellation E cid targets) (co_return (cid, targets))))"

definition admit_cancellation ::
  "surroundings \<Rightarrow> string \<Rightarrow> string \<Rightarrow> CancellationRequest \<Rightarrow> (uuid \<times> uuid list) co" where
  "admit_cancellation E actor key request =
     co_then (check_cancellation request)
       (co_tx E (\<lambda>n. create_cancellation_idempotent (su_hash E) actor key request (su_fresh E n 0) (su_now E n)))"

definition cancel_all :: "string \<Rightarrow> CancellationRequest" where
  "cancel_all reason = \<lparr>cn_order_id = None, cn_intent_id = None, cn_condition_id = None,
     cn_all_open_orders = True, cn_reason = reason\<rparr>"

text \<open>The task that \<open>spawn_protective_cancellation\<close> hands over.\<close>

definition protective_cancellation :: "surroundings \<Rightarrow> string \<Rightarrow> unit co" where
  "protective_cancellation E reason =
     co_ignore (cancel_inner E ''system'' (cancel_all (''automatic_cancel_on_halt:'' @ reason)))"

section \<open>Halt and resume\<close>

definition cancel_on_halt_inner :: "surroundings \<Rightarrow> string \<Rightarrow> unit co" where
  "cancel_on_halt_inner E reason = co_when (rp_cancel_on_halt (su_policy E)) (protective_cancellation E reason)"

definition require_reason :: "string \<Rightarrow> unit co" where
  "require_reason reason = (if is_blank reason then co_fail (Invalid ''reason is required'') else co_return ())"

definition halt :: "surroundings \<Rightarrow> string \<Rightarrow> string \<Rightarrow> unit co" where
  "halt E actor reason =
     co_then (require_reason reason)
     (co_then (set_state E actor Halted reason) (cancel_on_halt_inner E reason))"

definition halt_idempotent :: "surroundings \<Rightarrow> string \<Rightarrow> string \<Rightarrow> string \<Rightarrow> unit co" where
  "halt_idempotent E actor key reason =
     co_then (require_reason reason)
     (co_then (co_do E (\<lambda>n db. set_service_state_idempotent (su_hash E) actor Halted reason key ''control.halt''
                 (JObj [(''reason'', JStr reason)])
                 (JObj [(''state'', JStr ''HALTED''), (''mode'', JStr (mode_text (st_mode db)))])
                 (su_fresh E n 0) (su_fresh E n 1) (su_now E n) db))
        (spawn_protective_cancellation E reason))"

definition halt_for_venue_error :: "surroundings \<Rightarrow> VenueError \<Rightarrow> string \<Rightarrow> unit co" where
  "halt_for_venue_error E e trigger =
     co_when (requires_halt e)
       (co_then (halt E ''system'' (venue_error_text e)) (co_ignore (reconcile E trigger)))"

text \<open>The checks of a resume; the result is the revision the service was halted at.\<close>

definition prepare_resume :: "surroundings \<Rightarrow> string \<Rightarrow> int co" where
  "prepare_resume E reason =
     co_then (require_reason reason)
     (co_bind (co_read E service_state_with_revision) (\<lambda>(state, _, _, revision).
     if state \<noteq> Halted then co_fail (Invalid ''resume requires the service to be halted'')
     else
     co_then (reconcile E ''pre_resume'')
     (co_then (supervised_heartbeat E)
     (co_bind (co_read E (\<lambda>db. Ok (unresolved_critical_findings db))) (\<lambda>open_findings.
     if open_findings > 0 then co_fail (Invalid ''unresolved critical reconciliation finding prevents resume'')
     else co_return revision)))))"

definition release_deferred :: "surroundings \<Rightarrow> unit co" where
  "release_deferred E = co_bind (co_get co_deferred) (\<lambda>recoverable.
     co_then (co_set_deferred []) (enqueue_all E recoverable))"

definition resume :: "surroundings \<Rightarrow> string \<Rightarrow> string \<Rightarrow> unit co" where
  "resume E actor reason =
     co_bind (prepare_resume E reason) (\<lambda>revision.
     co_then (co_do E (\<lambda>n. set_service_state_if_unchanged (su_hash E) actor Ready reason revision
                (su_fresh E n 0) (su_fresh E n 1) (su_now E n)))
       (release_deferred E))"

definition resume_idempotent :: "surroundings \<Rightarrow> string \<Rightarrow> string \<Rightarrow> string \<Rightarrow> unit co" where
  "resume_idempotent E actor key reason =
     co_bind (prepare_resume E reason) (\<lambda>revision.
     co_then (co_do E (\<lambda>n db. set_service_state_idempotent_if_unchanged (su_hash E) actor Ready reason key ''control.resume''
                 (JObj [(''reason'', JStr reason)])
                 (JObj [(''state'', JStr ''READY''), (''mode'', JStr (mode_text (st_mode db)))]) revision
                 (su_fresh E n 0) (su_fresh E n 1) (su_now E n) db))
       (release_deferred E))"

section \<open>Submission\<close>

definition finish ::
  "surroundings \<Rightarrow> uuid \<Rightarrow> uuid \<Rightarrow> IntentState \<Rightarrow> OrderState \<Rightarrow> string option \<Rightarrow> string \<Rightarrow> decimal \<Rightarrow> decimal option
     \<Rightarrow> string list \<Rightarrow> json \<Rightarrow> unit co" where
  "finish E i oid intent_state order_state vid class filled price ids evidence =
     co_do E (\<lambda>n. finish_submission (su_dec E) (su_uuid E) i oid intent_state order_state vid class filled price ids
        evidence (su_fresh E n 0) (su_now E n))"

definition record_answer ::
  "surroundings \<Rightarrow> uuid \<Rightarrow> uuid \<Rightarrow> PreparedVenueOrder \<Rightarrow> (VenueError, VenueSubmission) res \<Rightarrow> unit co" where
  "record_answer E i oid prepared answer = (case answer of
     Ok s \<Rightarrow> finish E i oid IntentState.Submitted (vs_state s) (Some (vs_venue_order_id s)) ''VENUE_RESPONSE''
               (vs_filled_quantity s) (vs_filled_price s) (vs_venue_trade_ids s) (vs_evidence s)
   | Err e \<Rightarrow>
       let evidence = JObj [(''error'', JStr (venue_error_text e))] in
       if is_ambiguous e
       then co_then (finish E i oid IntentState.Unknown OrderState.Unknown (Some (pv_deterministic_order_id prepared))
                       ''AMBIGUOUS'' 0 None [] evidence)
            (co_then (halt E ''system'' ''ambiguous venue submission'')
               (co_ignore (reconcile E ''ambiguous_submission'')))
       else co_then (finish E i oid IntentState.Submitted OrderState.Rejected None ''DEFINITIVE_REJECTION'' 0 None [] evidence)
            (co_when (requires_halt e)
               (co_then (halt E ''system'' (venue_error_text e)) (co_ignore (reconcile E ''venue_safety_halt''))))
   | Panic \<Rightarrow> co_result Panic)"

definition submit_prepared ::
  "surroundings \<Rightarrow> uuid \<Rightarrow> uuid \<Rightarrow> PreparedVenueOrder \<Rightarrow> unit co" where
  "submit_prepared E i oid prepared =
     co_bind (current_state E) (\<lambda>state.
     if state \<noteq> Ready
     then co_bind (read_intent E i) (\<lambda>intent. co_when (in_state intent = IntentState.Prepared) (defer_recovery i))
     else
     co_bind (co_try (co_do E (\<lambda>n. begin_submission i oid (su_now E n)))) (\<lambda>begun. case begun of
       Err (StoreFailed (NewRiskDisabled s)) \<Rightarrow> defer_recovery i
     | Err e \<Rightarrow> co_fail e
     | Panic \<Rightarrow> co_result Panic
     | Ok _ \<Rightarrow>
         co_bind (co_call (su_submit E) (SubmitCall i oid)) (\<lambda>answer.
           record_answer E i oid prepared
             (deadline (Ambiguous ''submission deadline exceeded after SUBMITTING commit'') answer))))"

section \<open>Processing an intent\<close>

definition prepare_order :: "surroundings \<Rightarrow> IntentRecord \<Rightarrow> OrderIntentRequest \<Rightarrow> MarketRules \<Rightarrow> unit co" where
  "prepare_order E intent request market =
     (let i = in_id intent in
      co_bind (co_call (su_prepare E) (PrepareCall i)) (\<lambda>answer. case answer of
        None \<Rightarrow> co_do E (\<lambda>n. reject_preparation i ''ORDER_PREPARATION_TIMEOUT'' ''order preparation deadline exceeded'' (su_now E n))
      | Some (Err e) \<Rightarrow>
          co_then (co_do E (\<lambda>n. reject_preparation i ''ORDER_PREPARATION_FAILED'' (venue_error_text e) (su_now E n)))
            (halt_for_venue_error E e ''order_preparation_safety_halt'')
      | Some Panic \<Rightarrow> co_result Panic
      | Some (Ok prepared) \<Rightarrow>
          co_bind (co_tx E (\<lambda>n. create_prepared_order (su_dec E) (su_sha E) intent request prepared
                     (rp_version (su_policy E)) (max (mk_maker_fee_rate market) (mk_taker_fee_rate market))
                     (su_fresh E n 0) (su_fresh E n 1) (su_fresh E n 2) (su_now E n))) (\<lambda>ord.
            submit_prepared E i (or_id ord) prepared)))"

definition approve_and_prepare ::
  "surroundings \<Rightarrow> IntentRecord \<Rightarrow> OrderIntentRequest \<Rightarrow> MarketRules \<Rightarrow> OrderBook \<Rightarrow> unit co" where
  "approve_and_prepare E intent request market book =
     (let i = in_id intent in
      co_bind (co_ask (su_now E)) (\<lambda>now.
      case validate_freshness_and_increments E request market book now of
        Err (code, message) \<Rightarrow> reject_validating E i code message
      | Panic \<Rightarrow> co_result Panic
      | Ok _ \<Rightarrow>
          co_bind (co_tx E (\<lambda>n. evaluate_and_reserve_risk (su_dec E) i request market book (su_policy E)
                     (su_fresh E n 0) (su_now E n))) (\<lambda>decision.
          co_when (rd_approved decision)
            (co_then (intent_to E i IntentState.Approved IntentState.Preparing None)
               (prepare_order E intent request market)))))"

definition validate_intent :: "surroundings \<Rightarrow> IntentRecord \<Rightarrow> OrderIntentRequest \<Rightarrow> unit co" where
  "validate_intent E intent request =
     (let i = in_id intent in
      co_bind (co_call (su_market_rules E) (MarketRulesCall (rq_condition_id request) (rq_token_id request))) (\<lambda>answer.
      case answer of
        None \<Rightarrow> reject_validating E i ''MARKET_VALIDATION_TIMEOUT'' ''market validation deadline exceeded''
      | Some (Err e) \<Rightarrow> co_then (reject_validating E i ''MARKET_VALIDATION_FAILED'' (venue_error_text e))
          (halt_for_venue_error E e ''market_validation_safety_halt'')
      | Some Panic \<Rightarrow> co_result Panic
      | Some (Ok market) \<Rightarrow>
          co_bind (co_call (su_order_book E) (OrderBookCall (rq_token_id request))) (\<lambda>answer. case answer of
            None \<Rightarrow> reject_validating E i ''ORDER_BOOK_TIMEOUT'' ''order book deadline exceeded''
          | Some (Err e) \<Rightarrow> co_then (reject_validating E i ''ORDER_BOOK_UNAVAILABLE'' (venue_error_text e))
              (halt_for_venue_error E e ''order_book_safety_halt'')
          | Some Panic \<Rightarrow> co_result Panic
          | Some (Ok book) \<Rightarrow> approve_and_prepare E intent request market book)))"

definition parse_request :: "IntentRecord \<Rightarrow> OrderIntentRequest co" where
  "parse_request intent = co_result (ok_or (JsonFailed ''invalid request'') (intent_request intent))"

definition process_received :: "surroundings \<Rightarrow> IntentRecord \<Rightarrow> unit co" where
  "process_received E intent =
     (let i = in_id intent in
      co_bind (parse_request intent) (\<lambda>request.
      co_then (intent_to E i IntentState.Received IntentState.Validating None)
      (co_bind (co_ask (su_now E)) (\<lambda>now.
      case validate_request (su_dec E) request now of
        Err e \<Rightarrow> co_then (decide E i ''ORDER_INVALID'' (domain_error_text e))
                   (intent_to E i IntentState.Validating IntentState.Rejected (Some (''ORDER_INVALID'', domain_error_text e)))
      | Panic \<Rightarrow> co_result Panic
      | Ok _ \<Rightarrow> validate_intent E intent request))))"

definition resubmit_prepared :: "surroundings \<Rightarrow> IntentRecord \<Rightarrow> unit co" where
  "resubmit_prepared E intent =
     (let i = in_id intent in
      co_bind (co_read E (prepared_submission i)) (\<lambda>persisted.
      co_then (parse_request intent)
        (submit_prepared E i (px_order_id persisted)
           \<lparr>pv_deterministic_order_id = px_deterministic_order_id persisted, pv_normalized_json = px_normalized_json persisted,
            pv_signed_payload_json = px_signed_payload_json persisted, pv_signer_address = px_signer_address persisted,
            pv_funder_address = px_funder_address persisted, pv_protocol_version = px_protocol_version persisted,
            pv_sdk_version = px_sdk_version persisted\<rparr>)))"

definition process_intent :: "surroundings \<Rightarrow> uuid \<Rightarrow> unit co" where
  "process_intent E i =
     co_bind (co_ask (su_reconciliation_required E)) (\<lambda>required.
     co_then (co_when required (co_ignore (reconcile E ''pre_intent_user_stream_event'')))
     (co_bind (execution_health_failure E) (\<lambda>failure. case failure of
       Some reason \<Rightarrow> co_then (halt E ''system'' reason) (reject_received E i ''EXECUTION_HEALTH_STALE'' reason)
     | None \<Rightarrow>
         co_bind (current_state E) (\<lambda>state.
         if state \<noteq> Ready
         then reject_received E i ''SERVICE_NOT_READY'' ''service is not ready for new risk''
         else
         co_bind (read_intent E i) (\<lambda>intent.
         if in_state intent = IntentState.Prepared then resubmit_prepared E intent
         else if in_state intent \<noteq> IntentState.Received
         then co_fail (Invalid (''intent '' @ su_uuid E i @ '' is not recoverable from state ''
                         @ intent_state_variant (in_state intent)))
         else process_received E intent)))))"

section \<open>Startup, shutdown and the background tasks\<close>

fun de_uuids :: "json list \<Rightarrow> uuid list option" where
  "de_uuids [] = Some []"
| "de_uuids (JUuid i # js) = map_option (Cons i) (de_uuids js)"
| "de_uuids (j # js) = None"

definition cancellation_targets_of :: "CancellationRecord \<Rightarrow> uuid list co" where
  "cancellation_targets_of cancellation = co_result (ok_or (JsonFailed ''invalid target list'')
     (case cr_target_order_ids_json cancellation of JArr js \<Rightarrow> de_uuids js | _ \<Rightarrow> None))"

fun pending_loop :: "surroundings \<Rightarrow> CancellationRecord list \<Rightarrow> unit co" where
  "pending_loop E [] = co_return ()"
| "pending_loop E (cancellation # rest) =
     co_bind (cancellation_targets_of cancellation) (\<lambda>targets.
     co_then (execute_cancellation E (cr_id cancellation) targets) (pending_loop E rest))"

text \<open>The state at startup, after a shutdown that did not complete has been turned into a halt.\<close>

definition startup_state :: "surroundings \<Rightarrow> ServiceState co" where
  "startup_state E =
     co_bind (current_state E) (\<lambda>state.
     if state = ShuttingDown
     then co_then (set_state E ''system'' Halted ''previous shutdown did not reach its durable completion marker'')
            (co_return Halted)
     else co_return state)"

definition startup_recovery :: "surroundings \<Rightarrow> uuid list co" where
  "startup_recovery E =
     co_then (co_tx E (\<lambda>n. fail_interrupted_reconciliations (su_fresh E n) (su_now E n)))
     (co_then (co_tx E (\<lambda>n db. Ok (fail_interrupted_backups (su_now E n) db)))
     (co_bind (co_tx E (\<lambda>n. recover_interrupted_submissions (su_now E n))) (\<lambda>interrupted.
     co_then (co_when (interrupted > 0)
                (set_state E ''system'' Halted ''interrupted submission requires positive venue reconciliation''))
        (co_tx E (\<lambda>n. recover_pre_submission_work (su_uuid E) (su_now E n))))))"

definition startup_cancellations :: "surroundings \<Rightarrow> ServiceState \<Rightarrow> unit co" where
  "startup_cancellations E prior =
     co_bind (co_read E (\<lambda>db. Ok (pending_cancellations db))) (\<lambda>pending.
     co_then (pending_loop E pending)
       (co_when (prior = Halted \<and> rp_cancel_on_halt (su_policy E))
          (co_then (cancel_inner E ''system'' (cancel_all ''startup_recovery_for_latched_halt'')) (co_return ()))))"

definition startup_heartbeat :: "surroundings \<Rightarrow> unit co" where
  "startup_heartbeat E =
     co_when (su_requires_heartbeat E)
       (co_bind (co_try (supervised_heartbeat E)) (\<lambda>r.
          co_when (\<not> is_ok r) (halt E ''system'' ''startup heartbeat failed'')))"

definition startup :: "surroundings \<Rightarrow> unit co" where
  "startup E =
     co_bind (startup_state E) (\<lambda>prior.
     co_then (co_when (prior \<noteq> Halted) (set_state E ''system'' Reconciling ''startup reconciliation''))
     (co_bind (startup_recovery E) (\<lambda>recoverable.
     co_then (startup_cancellations E prior)
     (co_then (reconcile E ''startup'')
     (co_then (startup_heartbeat E)
     (co_bind (current_state E) (\<lambda>state.
     if state = Halted then co_set_deferred recoverable
     else co_then (set_state E ''system'' Ready ''startup checks passed'') (enqueue_all E recoverable))))))))"

definition shutdown :: "surroundings \<Rightarrow> bool \<Rightarrow> unit co" where
  "shutdown E cancel_on_halt =
     co_then (set_state E ''system'' ShuttingDown ''signal received'')
     (co_then (co_when cancel_on_halt (co_then (cancel_inner E ''system'' (cancel_all ''graceful_shutdown'')) (co_return ())))
     (co_then (reconcile E ''shutdown'')
     (co_then (set_state E ''system'' Halted ''graceful shutdown completed; explicit resume is required'')
     (co_bind (co_ask (su_checkpoint E)) (\<lambda>checkpoint.
     co_then (co_result (map_err StoreFailed checkpoint))
       (\<lambda>c. (Ok (), c\<lparr>co_stopped := True\<rparr>)))))))"

text \<open>One turn of the worker, of the scheduled reconciliation and of the heartbeat task.\<close>

definition take_queued :: "uuid option co" where
  "take_queued = (\<lambda>c. case co_queue c of [] \<Rightarrow> (Ok None, c) | i # is \<Rightarrow> (Ok (Some i), c\<lparr>co_queue := is\<rparr>))"

definition worker_turn :: "surroundings \<Rightarrow> unit co" where
  "worker_turn E = co_bind take_queued (\<lambda>next_intent. case next_intent of
     None \<Rightarrow> co_return () | Some i \<Rightarrow> co_ignore (process_intent E i))"

definition reconciliation_turn :: "surroundings \<Rightarrow> unit co" where
  "reconciliation_turn E = co_ignore (reconcile E ''scheduled'')"

definition heartbeat_turn :: "surroundings \<Rightarrow> unit co" where
  "heartbeat_turn E =
     co_bind (co_call (su_heartbeat E) HeartbeatCall) (\<lambda>answer. case answer of
       Some (Ok _) \<Rightarrow>
         co_then (co_bind (co_ask (su_now E)) co_set_healthy)
           (co_bind (co_ask (su_reconciliation_required E)) (\<lambda>required.
              co_when required (co_ignore (reconcile E ''user_stream_event''))))
     | Some (Err e) \<Rightarrow>
         co_then (co_ignore (halt E ''system'' ''venue heartbeat failed'')) (co_ignore (reconcile E ''heartbeat_failure''))
     | Some Panic \<Rightarrow> co_result Panic
     | None \<Rightarrow>
         co_then (co_ignore (halt E ''system'' ''venue heartbeat deadline exceeded''))
           (co_ignore (reconcile E ''heartbeat_timeout'')))"

text \<open>An admitted cancellation or reconciliation, handed to a task of its own.\<close>

definition spawned_cancellation :: "surroundings \<Rightarrow> uuid \<Rightarrow> uuid list \<Rightarrow> unit co" where
  "spawned_cancellation E cid targets = co_ignore (execute_cancellation E cid targets)"

definition spawned_reconciliation :: "surroundings \<Rightarrow> uuid \<Rightarrow> unit co" where
  "spawned_reconciliation E rid = co_ignore (reconcile_started E rid)"

text \<open>Everything a task of the service asks of the coordinator.\<close>

datatype operation =
    Startup
  | Worker
  | ScheduledReconciliation
  | Heartbeat
  | Enqueue uuid
  | Cancel string CancellationRequest
  | AdmitCancellation string string CancellationRequest
  | RunCancellation uuid "uuid list"
  | Protect string
  | Reconcile string
  | AdmitReconciliation string string string
  | RunReconciliation uuid
  | Resume string string
  | ResumeIdempotent string string string
  | Halt string string
  | HaltIdempotent string string string
  | Shutdown bool

definition run_operation :: "surroundings \<Rightarrow> operation \<Rightarrow> unit co" where
  "run_operation E op = (case op of
     Startup \<Rightarrow> startup E
   | Worker \<Rightarrow> worker_turn E
   | ScheduledReconciliation \<Rightarrow> reconciliation_turn E
   | Heartbeat \<Rightarrow> heartbeat_turn E
   | Enqueue i \<Rightarrow> enqueue i
   | Cancel actor request \<Rightarrow> co_then (cancel_inner E actor request) (co_return ())
   | AdmitCancellation actor key request \<Rightarrow> co_then (admit_cancellation E actor key request) (co_return ())
   | RunCancellation cid targets \<Rightarrow> spawned_cancellation E cid targets
   | Protect reason \<Rightarrow> protective_cancellation E reason
   | Reconcile trigger \<Rightarrow> co_then (reconcile E trigger) (co_return ())
   | AdmitReconciliation actor key trigger \<Rightarrow> co_then (admit_reconciliation E actor key trigger) (co_return ())
   | RunReconciliation rid \<Rightarrow> spawned_reconciliation E rid
   | Resume actor reason \<Rightarrow> resume E actor reason
   | ResumeIdempotent actor key reason \<Rightarrow> resume_idempotent E actor key reason
   | Halt actor reason \<Rightarrow> halt E actor reason
   | HaltIdempotent actor key reason \<Rightarrow> halt_idempotent E actor key reason
   | Shutdown cancel \<Rightarrow> shutdown E cancel)"

fun run_operations :: "surroundings \<Rightarrow> operation list \<Rightarrow> coordinator \<Rightarrow> coordinator" where
  "run_operations E [] c = c"
| "run_operations E (op # ops) c = run_operations E ops (snd (run_operation E op c))"

end
