(* ===== verification/PaperLedger.thy ===== *)
theory PaperLedger
  imports Journal
begin

text \<open>
  The ledger of the paper venue in \<open>src/src/store.rs\<close>: the account and inventory of the simulator, its
  resting orders, market trades that fill them (\<open>apply_paper_trade_through\<close>), cancellation, and the
  queries the paper venue answers from.  Amounts are stored as decimal text and read back by every
  transaction.  The clock of an operation is read once; a trade-through takes one fresh trade id per
  order it may fill.
\<close>

section \<open>Configuration and values\<close>

record PaperPosition =
  pp_condition_id :: string
  pp_token_id :: string
  pp_shares :: string

record PaperConfig =
  pg_starting_quote_balance :: string
  pg_starting_positions :: "PaperPosition list"

definition json_of_paper_config :: "PaperConfig \<Rightarrow> json" where
  "json_of_paper_config c =
     JObj [(''starting_quote_balance'', JStr (pg_starting_quote_balance c)),
           (''starting_positions'', JArr (map (\<lambda>p. JObj [(''condition_id'', JStr (pp_condition_id p)),
              (''token_id'', JStr (pp_token_id p)), (''shares'', JStr (pp_shares p))]) (pg_starting_positions c)))]"

record PaperOrderCommit =
  pc_venue_order_id :: string
  pc_condition_id :: string
  pc_token_id :: string
  pc_side :: Side
  pc_state :: OrderState
  pc_price :: decimal
  pc_fee_rate :: decimal
  pc_original_quantity :: decimal
  pc_remaining_quantity :: decimal
  pc_filled_quantity :: decimal
  pc_filled_price :: "decimal option"
  pc_quote_amount :: decimal
  pc_fee_amount :: decimal
  pc_reserved_quote :: decimal
  pc_reserved_shares :: decimal
  pc_venue_trade_ids :: "string list"
  pc_evidence :: json

record PaperOrderSnapshot =
  pn_venue_order_id :: string
  pn_state :: OrderState
  pn_remaining_quantity :: decimal
  pn_filled_quantity :: decimal
  pn_filled_price :: "decimal option"
  pn_venue_trade_ids :: "string list"
  pn_evidence :: json

text \<open>The four running numbers of a ledger transaction: the account and the inventory of one token.\<close>

record ledger =
  lg_quote_balance :: decimal
  lg_reserved_quote :: decimal
  lg_shares :: decimal
  lg_reserved_shares :: decimal

section \<open>Reading and writing the ledger\<close>

definition load_paper_order :: "dec_ops \<Rightarrow> string \<Rightarrow> Store \<Rightarrow> PaperOrderSnapshot option tx" where
  "load_paper_order D vid db =
     (case sql_find (\<lambda>r. po_venue_order_id r = vid) (paper_venue_orders db) of
        None \<Rightarrow> Ok None
      | Some r \<Rightarrow>
          rbind (case po_filled_price r of None \<Rightarrow> Ok None
                 | Some raw \<Rightarrow> rbind (parse_stored_decimal D raw) (\<lambda>p. Ok (Some p))) (\<lambda>filled_price.
          rbind (parse_stored_decimal D (po_remaining_quantity r)) (\<lambda>remaining.
          rbind (parse_stored_decimal D (po_filled_quantity r)) (\<lambda>filled.
            Ok (Some \<lparr>pn_venue_order_id = po_venue_order_id r, pn_state = po_state r,
                      pn_remaining_quantity = remaining, pn_filled_quantity = filled,
                      pn_filled_price = filled_price, pn_venue_trade_ids = po_venue_trade_ids_json r,
                      pn_evidence = po_evidence_json r\<rparr>)))))"

definition load_ledger :: "dec_ops \<Rightarrow> string \<Rightarrow> Store \<Rightarrow> ledger tx" where
  "load_ledger D token db =
     rbind (ok_or (IdentityMismatch ''paper account is not initialized'') (paper_account db)) (\<lambda>account.
     rbind (parse_stored_decimal D (pa_quote_balance account)) (\<lambda>quote_balance.
     rbind (parse_stored_decimal D (pa_reserved_quote account)) (\<lambda>reserved_quote.
     rbind (case sql_find (\<lambda>r. pi_token_id r = token) (paper_inventory db) of
              None \<Rightarrow> Ok (0, 0)
            | Some r \<Rightarrow> rbind (parse_stored_decimal D (pi_shares r)) (\<lambda>shares.
                        rbind (parse_stored_decimal D (pi_reserved_shares r)) (\<lambda>reserved_shares.
                          Ok (shares, reserved_shares)))) (\<lambda>(shares, reserved_shares).
       Ok \<lparr>lg_quote_balance = quote_balance, lg_reserved_quote = reserved_quote,
           lg_shares = shares, lg_reserved_shares = reserved_shares\<rparr>))))"

definition upsert_inventory :: "PaperInventoryRow \<Rightarrow> PaperInventoryRow list \<Rightarrow> PaperInventoryRow list" where
  "upsert_inventory p rows =
     (if list_ex (\<lambda>r. pi_token_id r = pi_token_id p) rows
      then sql_update (\<lambda>r. pi_token_id r = pi_token_id p)
             (\<lambda>r. r\<lparr>pi_shares := pi_shares p, pi_reserved_shares := pi_reserved_shares p,
                    pi_updated_at := pi_updated_at p\<rparr>) rows
      else rows @ [p])"

definition save_ledger :: "dec_ops \<Rightarrow> string \<Rightarrow> ledger \<Rightarrow> instant \<Rightarrow> Store \<Rightarrow> Store" where
  "save_ledger D token l now db =
     db\<lparr>paper_account := map_option (\<lambda>a. a\<lparr>pa_quote_balance := d_norm D (lg_quote_balance l),
           pa_reserved_quote := d_norm D (lg_reserved_quote l), pa_updated_at := now\<rparr>) (paper_account db),
        paper_inventory := upsert_inventory
          \<lparr>pi_token_id = token, pi_shares = d_norm D (lg_shares l),
           pi_reserved_shares = d_norm D (lg_reserved_shares l), pi_updated_at = now\<rparr> (paper_inventory db)\<rparr>"

section \<open>Opening the account\<close>

fun insert_starting_positions ::
  "dec_ops \<Rightarrow> instant \<Rightarrow> PaperPosition list \<Rightarrow> Store \<Rightarrow> Store tx" where
  "insert_starting_positions D now [] db = Ok db"
| "insert_starting_positions D now (p # rest) db =
     rbind (ok_or (InvalidDecimal (pp_shares p)) (d_from_str_exact D (pp_shares p))) (\<lambda>(shares, _).
     if shares < 0 then Err (InvalidDecimal (pp_shares p))
     else if list_ex (\<lambda>r. pi_token_id r = pp_token_id p) (paper_inventory db)
     then Err (IdentityMismatch (''paper starting inventory contains duplicate token '' @ pp_token_id p))
     else
     rbind (sql_insert (same_key ps_token_id)
              \<lparr>ps_token_id = pp_token_id p, ps_condition_id = pp_condition_id p, ps_mode = st_mode db,
               ps_shares = d_norm D shares, ps_updated_at = now\<rparr> (positions db)) (\<lambda>rows.
       insert_starting_positions D now rest
         (db\<lparr>paper_inventory := paper_inventory db @
               [\<lparr>pi_token_id = pp_token_id p, pi_shares = d_norm D shares, pi_reserved_shares = ''0'',
                 pi_updated_at = now\<rparr>],
             positions := rows\<rparr>)))"

definition initialize_paper_account ::
  "dec_ops \<Rightarrow> (json \<Rightarrow> string) \<Rightarrow> PaperConfig \<Rightarrow> instant \<Rightarrow> Store \<Rightarrow> Store tx" where
  "initialize_paper_account D H config now db =
     (if st_mode db \<noteq> Paper
      then Err (IdentityMismatch ''paper simulator state cannot be used by a live database'')
      else
      let configuration_sha256 = H (json_of_paper_config config) in
      rbind (ok_or (InvalidDecimal (pg_starting_quote_balance config))
               (d_from_str_exact D (pg_starting_quote_balance config))) (\<lambda>(quote_balance, _).
      if quote_balance < 0 then Err (InvalidDecimal (pg_starting_quote_balance config))
      else (case paper_account db of
        Some existing \<Rightarrow>
          if pa_configuration_sha256 existing \<noteq> configuration_sha256
          then Err (IdentityMismatch ''paper starting balance/inventory differs from the database binding'')
          else Ok db
      | None \<Rightarrow>
          rbind (insert_starting_positions D now (pg_starting_positions config)
                   (db\<lparr>paper_account := Some \<lparr>pa_configuration_sha256 = configuration_sha256,
                         pa_quote_balance = d_norm D quote_balance, pa_reserved_quote = ''0'',
                         pa_created_at = now, pa_updated_at = now\<rparr>\<rparr>)) (\<lambda>db.
          let (event, db) = append_event ''paper.account_initialized'' ''paper_account'' (RText ''paper'')
                (JObj [(''mode'', JStr (mode_text (st_mode db))),
                       (''configuration_sha256'', JStr configuration_sha256),
                       (''quote_balance'', JDec quote_balance),
                       (''position_count'', JInt (int (length (pg_starting_positions config))))]) now db
          in Ok (send [event] db)))))"

section \<open>Committing an order\<close>

definition settle_commit :: "dec_ops \<Rightarrow> PaperOrderCommit \<Rightarrow> ledger \<Rightarrow> ledger tx" where
  "settle_commit D order l = (case pc_side order of
     Buy \<Rightarrow>
       rbind (or_panic (d_add D (pc_quote_amount order) (pc_fee_amount order))) (\<lambda>debit.
       rbind (or_panic (d_sub D (lg_quote_balance l) (lg_reserved_quote l))) (\<lambda>available.
       rbind (or_panic (d_add D debit (pc_reserved_quote order))) (\<lambda>needed.
       if available < needed then Err (IdentityMismatch ''paper quote balance is insufficient'')
       else or_panic (do {
         balance \<leftarrow> d_sub D (lg_quote_balance l) debit;
         reserved \<leftarrow> d_add D (lg_reserved_quote l) (pc_reserved_quote order);
         shares \<leftarrow> d_add D (lg_shares l) (pc_filled_quantity order);
         Some (l\<lparr>lg_quote_balance := balance, lg_reserved_quote := reserved, lg_shares := shares\<rparr>) }))))
   | Sell \<Rightarrow>
       rbind (or_panic (d_sub D (lg_shares l) (lg_reserved_shares l))) (\<lambda>available.
       rbind (or_panic (d_add D (pc_filled_quantity order) (pc_reserved_shares order))) (\<lambda>needed.
       if available < needed then Err (IdentityMismatch ''paper share balance is insufficient'')
       else or_panic (do {
         shares \<leftarrow> d_sub D (lg_shares l) (pc_filled_quantity order);
         reserved \<leftarrow> d_add D (lg_reserved_shares l) (pc_reserved_shares order);
         proceeds \<leftarrow> d_sub D (pc_quote_amount order) (pc_fee_amount order);
         balance \<leftarrow> d_add D (lg_quote_balance l) proceeds;
         Some (l\<lparr>lg_quote_balance := balance, lg_shares := shares, lg_reserved_shares := reserved\<rparr>) }))))"

definition paper_order_row :: "dec_ops \<Rightarrow> PaperOrderCommit \<Rightarrow> instant \<Rightarrow> PaperOrderRow" where
  "paper_order_row D order now =
     \<lparr>po_venue_order_id = pc_venue_order_id order, po_condition_id = pc_condition_id order,
      po_token_id = pc_token_id order, po_side = pc_side order, po_state = pc_state order,
      po_price = d_norm D (pc_price order), po_fee_rate = d_norm D (pc_fee_rate order),
      po_original_quantity = d_norm D (pc_original_quantity order),
      po_remaining_quantity = d_norm D (pc_remaining_quantity order),
      po_filled_quantity = d_norm D (pc_filled_quantity order),
      po_filled_price = map_option (d_norm D) (pc_filled_price order),
      po_quote_amount = d_norm D (pc_quote_amount order), po_fee_amount = d_norm D (pc_fee_amount order),
      po_reserved_quote = d_norm D (pc_reserved_quote order),
      po_reserved_shares = d_norm D (pc_reserved_shares order),
      po_venue_trade_ids_json = pc_venue_trade_ids order, po_evidence_json = pc_evidence order,
      po_created_at = now, po_updated_at = now\<rparr>"

definition commit_paper_order ::
  "dec_ops \<Rightarrow> PaperOrderCommit \<Rightarrow> instant \<Rightarrow> Store \<Rightarrow> (PaperOrderSnapshot \<times> Store) tx" where
  "commit_paper_order D order now db =
     (if st_mode db \<noteq> Paper then Err (IdentityMismatch ''paper order cannot be committed in live mode'')
      else
      rbind (load_paper_order D (pc_venue_order_id order) db) (\<lambda>found. case found of
        Some existing \<Rightarrow>
          if pn_evidence existing \<noteq> pc_evidence order
          then Err (IdentityMismatch ''paper deterministic order ID was reused with different evidence'')
          else Ok (existing, db)
      | None \<Rightarrow>
          rbind (load_ledger D (pc_token_id order) db) (\<lambda>l.
          rbind (settle_commit D order l) (\<lambda>l.
          let db = save_ledger D (pc_token_id order) l now db in
          rbind (sql_insert (same_key po_venue_order_id) (paper_order_row D order now) (paper_venue_orders db)) (\<lambda>rows.
          let (event, db) = append_event ''paper.venue_order_committed'' ''paper_order''
                (RText (pc_venue_order_id order))
                (JObj [(''mode'', JStr (mode_text (st_mode db))), (''venue_order_id'', JStr (pc_venue_order_id order)),
                       (''state'', JStr (order_state_text (pc_state order))),
                       (''filled_quantity'', JDec (pc_filled_quantity order)),
                       (''quote_amount'', JDec (pc_quote_amount order)), (''fee_amount'', JDec (pc_fee_amount order))])
                now (db\<lparr>paper_venue_orders := rows\<rparr>)
          in
          rbind (load_paper_order D (pc_venue_order_id order) db) (\<lambda>snapshot.
          rbind (ok_or NotFound snapshot) (\<lambda>snapshot. Ok (snapshot, send [event] db))))))))"

section \<open>Market trades\<close>

definition paper_active :: "PaperOrderRow \<Rightarrow> bool" where
  "paper_active r \<longleftrightarrow> po_state r \<in> {OrderState.Live, OrderState.PartiallyFilled}"

definition paper_crossed :: "Side \<Rightarrow> decimal \<Rightarrow> decimal \<Rightarrow> bool" where
  "paper_crossed side trade_price limit_price =
     (case side of Buy \<Rightarrow> trade_price < limit_price | Sell \<Rightarrow> trade_price > limit_price)"

text \<open>The release of an order's reservation and the movement of the account by one fill.\<close>

definition settle_fill ::
  "dec_ops \<Rightarrow> Side \<Rightarrow> decimal \<Rightarrow> decimal \<Rightarrow> decimal \<Rightarrow> decimal \<Rightarrow> decimal \<Rightarrow> decimal \<Rightarrow> decimal \<Rightarrow> ledger
     \<Rightarrow> (decimal \<times> decimal \<times> ledger) option" where
  "settle_fill D side fill limit_price fee_rate quote_amount fee_amount prior_rq prior_rs l = (case side of
     Buy \<Rightarrow> do {
       cost \<leftarrow> d_mul D fill limit_price;
       factor \<leftarrow> d_add D 1 fee_rate;
       released \<leftarrow> d_mul D cost factor;
       account_rq \<leftarrow> d_sub D (lg_reserved_quote l) released;
       debit \<leftarrow> d_add D quote_amount fee_amount;
       balance \<leftarrow> d_sub D (lg_quote_balance l) debit;
       shares \<leftarrow> d_add D (lg_shares l) fill;
       order_rq \<leftarrow> d_sub D prior_rq released;
       Some (max order_rq 0, prior_rs,
             l\<lparr>lg_quote_balance := balance, lg_reserved_quote := max account_rq 0, lg_shares := shares\<rparr>) }
   | Sell \<Rightarrow> do {
       account_rs \<leftarrow> d_sub D (lg_reserved_shares l) fill;
       shares \<leftarrow> d_sub D (lg_shares l) fill;
       proceeds \<leftarrow> d_sub D quote_amount fee_amount;
       balance \<leftarrow> d_add D (lg_quote_balance l) proceeds;
       order_rs \<leftarrow> d_sub D prior_rs fill;
       Some (prior_rq, max order_rs 0,
             l\<lparr>lg_quote_balance := balance, lg_shares := shares, lg_reserved_shares := max account_rs 0\<rparr>) })"

text \<open>The market trade under application.\<close>

record market_trade =
  mt_event_id :: string
  mt_token_id :: string
  mt_price :: decimal
  mt_size :: decimal
  mt_observed_at :: instant

definition trade_through_evidence :: "market_trade \<Rightarrow> decimal \<Rightarrow> json" where
  "trade_through_evidence t fill =
     JObj [(''paper'', JBool True), (''fill_model'', JStr ''strict_trade_through''),
           (''market_event_id'', JStr (mt_event_id t)), (''observed_at'', JTime (mt_observed_at t)),
           (''trade_price'', JDec (mt_price t)), (''trade_size'', JDec (mt_size t)),
           (''fill_quantity'', JDec fill)]"

text \<open>The projection of a fill onto the order of the pipeline that has this venue id, if any.\<close>

definition project_paper_fill ::
  "dec_ops \<Rightarrow> (uuid \<Rightarrow> string) \<Rightarrow> market_trade \<Rightarrow> string \<Rightarrow> string \<Rightarrow> OrderState \<Rightarrow> decimal \<Rightarrow> decimal \<Rightarrow> json
     \<Rightarrow> uuid \<Rightarrow> instant \<Rightarrow> Store \<Rightarrow> (ExecutionEvent list \<times> Store) tx" where
  "project_paper_fill D U t vid venue_trade_id state fill next_remaining evidence trade_id now db =
     (case sql_find (\<lambda>r. or_venue_order_id r = Some vid) (orders db) of
        None \<Rightarrow> Ok ([], db)
      | Some core \<Rightarrow>
          if or_state core \<notin> {OrderState.Live, OrderState.PartiallyFilled, OrderState.CancelPending} then Ok ([], db)
          else
          let next_state = (if or_state core = OrderState.CancelPending \<and> state \<noteq> OrderState.Filled
                            then OrderState.CancelPending else state);
              db = db\<lparr>orders := sql_update (\<lambda>r. or_id r = or_id core)
                      (\<lambda>r. r\<lparr>or_state := next_state, or_remaining_quantity := d_norm D next_remaining,
                             or_updated_at := now\<rparr>) (orders db)\<rparr>
          in
          rbind (apply_matched_fill D U (OrderRecord.truncate core) (Some vid) fill (Some (mt_price t))
                   [venue_trade_id] trade_id now db) (\<lambda>(trade_event, db).
          rbind (insert_transition (or_id core) (or_state core) next_state evidence now db) (\<lambda>db.
          let (event, db) = append_event ''order.paper_filled'' ''order'' (RUuid (or_id core))
                (JObj [(''state'', JStr (order_state_text next_state)), (''remaining_quantity'', JDec next_remaining),
                       (''fill_quantity'', JDec fill), (''market_event_id'', JStr (mt_event_id t))]) now db
          in Ok (option_list trade_event @ [event], db))))"

definition set_paper_fill ::
  "dec_ops \<Rightarrow> OrderState \<Rightarrow> decimal \<Rightarrow> decimal \<Rightarrow> decimal \<Rightarrow> decimal \<Rightarrow> decimal \<Rightarrow> decimal \<Rightarrow> decimal \<Rightarrow> string list
     \<Rightarrow> json \<Rightarrow> instant \<Rightarrow> PaperOrderRow \<Rightarrow> PaperOrderRow" where
  "set_paper_fill D state next_remaining next_filled average_price next_quote next_fee next_rq next_rs ids evidence now r =
     r\<lparr>po_state := state, po_remaining_quantity := d_norm D next_remaining,
       po_filled_quantity := d_norm D next_filled, po_filled_price := Some (d_norm D average_price),
       po_quote_amount := d_norm D next_quote, po_fee_amount := d_norm D next_fee,
       po_reserved_quote := d_norm D next_rq, po_reserved_shares := d_norm D next_rs,
       po_venue_trade_ids_json := ids, po_evidence_json := evidence, po_updated_at := now\<rparr>"

text \<open>One crossed order: the new amounts, the account, the order row and the projection.\<close>

definition fill_paper_order ::
  "dec_ops \<Rightarrow> (uuid \<Rightarrow> string) \<Rightarrow> market_trade \<Rightarrow> instant \<Rightarrow> PaperOrderRow \<Rightarrow> uuid \<Rightarrow> decimal \<Rightarrow> decimal \<Rightarrow> decimal
     \<Rightarrow> ledger \<Rightarrow> Store \<Rightarrow> (ExecutionEvent list \<times> ledger \<times> Store) tx" where
  "fill_paper_order D U t now row trade_id limit_price remaining fill l db =
     rbind (parse_stored_decimal D (po_fee_rate row)) (\<lambda>fee_rate.
     rbind (parse_stored_decimal D (po_filled_quantity row)) (\<lambda>prior_filled.
     rbind (parse_stored_decimal D (po_quote_amount row)) (\<lambda>prior_quote.
     rbind (parse_stored_decimal D (po_fee_amount row)) (\<lambda>prior_fee.
     rbind (parse_stored_decimal D (po_reserved_quote row)) (\<lambda>prior_rq.
     rbind (parse_stored_decimal D (po_reserved_shares row)) (\<lambda>prior_rs.
     rbind (or_panic (do {
       quote_amount \<leftarrow> d_mul D fill (mt_price t);
       fee_amount \<leftarrow> d_mul D quote_amount fee_rate;
       next_filled \<leftarrow> d_add D prior_filled fill;
       next_remaining \<leftarrow> d_sub D remaining fill;
       next_quote \<leftarrow> d_add D prior_quote quote_amount;
       next_fee \<leftarrow> d_add D prior_fee fee_amount;
       average_price \<leftarrow> d_div D next_quote next_filled;
       settled \<leftarrow> settle_fill D (po_side row) fill limit_price fee_rate quote_amount fee_amount prior_rq prior_rs l;
       Some (next_filled, next_remaining, next_quote, next_fee, average_price, settled) }))
       (\<lambda>(next_filled, next_remaining, next_quote, next_fee, average_price, next_rq, next_rs, l).
     if lg_quote_balance l < 0 \<or> lg_shares l < 0
     then Err (IdentityMismatch ''paper trade-through would overdraw the account'')
     else
     let state = (if next_remaining = 0 then OrderState.Filled else OrderState.PartiallyFilled);
         vid = po_venue_order_id row;
         venue_trade_id = ''paper:'' @ mt_event_id t @ '':'' @ vid;
         evidence = trade_through_evidence t fill;
         db = db\<lparr>paper_venue_orders := sql_update (\<lambda>r. po_venue_order_id r = vid)
                (set_paper_fill D state next_remaining next_filled average_price next_quote next_fee next_rq next_rs
                   (po_venue_trade_ids_json row @ [venue_trade_id]) evidence now) (paper_venue_orders db)\<rparr>
     in
     rbind (project_paper_fill D U t vid venue_trade_id state fill next_remaining evidence trade_id now db) (\<lambda>(events, db).
     let (event, db) = append_event ''paper.trade_through_fill'' ''paper_order'' (RText vid) evidence now db
     in Ok (events @ [event], l, db)))))))))"

fun trade_through_loop ::
  "dec_ops \<Rightarrow> (uuid \<Rightarrow> string) \<Rightarrow> market_trade \<Rightarrow> instant \<Rightarrow> (PaperOrderRow \<times> uuid) list
     \<Rightarrow> decimal \<times> nat \<times> ExecutionEvent list \<times> ledger \<times> Store
     \<Rightarrow> (nat \<times> ExecutionEvent list \<times> ledger \<times> Store) tx" where
  "trade_through_loop D U t now [] (market_remaining, count, evs, l, db) = Ok (count, evs, l, db)"
| "trade_through_loop D U t now ((row, trade_id) # rest) (market_remaining, count, evs, l, db) =
     (if market_remaining \<le> 0 then Ok (count, evs, l, db)
      else
      rbind (parse_stored_decimal D (po_price row)) (\<lambda>limit_price.
      if \<not> paper_crossed (po_side row) (mt_price t) limit_price
      then trade_through_loop D U t now rest (market_remaining, count, evs, l, db)
      else
      rbind (parse_stored_decimal D (po_remaining_quantity row)) (\<lambda>remaining.
      let fill = min remaining market_remaining in
      if fill \<le> 0 then trade_through_loop D U t now rest (market_remaining, count, evs, l, db)
      else
      rbind (fill_paper_order D U t now row trade_id limit_price remaining fill l db) (\<lambda>(events, l, db).
      rbind (or_panic (d_sub D market_remaining fill)) (\<lambda>market_remaining.
        trade_through_loop D U t now rest (market_remaining, count + 1, evs @ events, l, db))))))"

definition trade_through_rows :: "market_trade \<Rightarrow> Store \<Rightarrow> PaperOrderRow list" where
  "trade_through_rows t db = sort_key po_created_at (sort_key po_venue_order_id
     (filter (\<lambda>r. po_token_id r = mt_token_id t \<and> paper_active r \<and> po_created_at r \<le> mt_observed_at t)
       (paper_venue_orders db)))"

definition apply_paper_trade_through ::
  "dec_ops \<Rightarrow> (uuid \<Rightarrow> string) \<Rightarrow> market_trade \<Rightarrow> (nat \<Rightarrow> uuid) \<Rightarrow> instant \<Rightarrow> Store \<Rightarrow> (nat \<times> Store) tx" where
  "apply_paper_trade_through D U t fresh now db =
     (if st_mode db \<noteq> Paper then Err (IdentityMismatch ''paper market event cannot be applied in live mode'')
      else if mt_event_id t = [] \<or> mt_token_id t = [] \<or> mt_price t \<le> 0 \<or> mt_price t \<ge> 1 \<or> mt_size t \<le> 0
      then Err (IdentityMismatch ''paper market event contains invalid fields'')
      else if list_ex (\<lambda>e. pe_event_id e = mt_event_id t) (paper_market_events db) then Ok (0, db)
      else
      let db = db\<lparr>paper_market_events := paper_market_events db @
             [\<lparr>pe_event_id = mt_event_id t, pe_token_id = mt_token_id t, pe_price = d_norm D (mt_price t),
               pe_size = d_norm D (mt_size t), pe_observed_at = mt_observed_at t, pe_created_at = now\<rparr>]\<rparr>
      in
      rbind (load_ledger D (mt_token_id t) db) (\<lambda>l.
      let rows = trade_through_rows t db in
      rbind (trade_through_loop D U t now (zip rows (map fresh [0 ..< length rows])) (mt_size t, 0, [], l, db))
        (\<lambda>(count, evs, l, db).
      let (event, db) = append_event ''paper.market_trade_observed'' ''paper_market_event'' (RText (mt_event_id t))
            (JObj [(''token_id'', JStr (mt_token_id t)), (''price'', JDec (mt_price t)), (''size'', JDec (mt_size t)),
                   (''observed_at'', JTime (mt_observed_at t)), (''fill_count'', JInt (int count))])
            now (save_ledger D (mt_token_id t) l now db)
      in Ok (count, send (evs @ [event]) db))))"

section \<open>Cancellation\<close>

definition release_paper_order :: "dec_ops \<Rightarrow> PaperOrderRow \<Rightarrow> instant \<Rightarrow> Store \<Rightarrow> Store tx" where
  "release_paper_order D row now db =
     rbind (parse_stored_decimal D (po_reserved_quote row)) (\<lambda>released_quote.
     rbind (parse_stored_decimal D (po_reserved_shares row)) (\<lambda>released_shares.
     rbind (ok_or (Database ''no rows returned'') (paper_account db)) (\<lambda>account.
     rbind (parse_stored_decimal D (pa_reserved_quote account)) (\<lambda>current_quote.
     rbind (or_panic (d_sub D current_quote released_quote)) (\<lambda>next_quote.
     let db = db\<lparr>paper_account := Some (account\<lparr>pa_reserved_quote := d_norm D (max next_quote 0),
                                              pa_updated_at := now\<rparr>)\<rparr> in
     rbind (case sql_find (\<lambda>r. pi_token_id r = po_token_id row) (paper_inventory db) of
              None \<Rightarrow> Ok db
            | Some held \<Rightarrow>
                rbind (parse_stored_decimal D (pi_reserved_shares held)) (\<lambda>current_shares.
                rbind (or_panic (d_sub D current_shares released_shares)) (\<lambda>next_shares.
                  Ok (db\<lparr>paper_inventory := sql_update (\<lambda>r. pi_token_id r = po_token_id row)
                        (\<lambda>r. r\<lparr>pi_reserved_shares := d_norm D (max next_shares 0), pi_updated_at := now\<rparr>)
                        (paper_inventory db)\<rparr>)))) (\<lambda>db.
       Ok (db\<lparr>paper_venue_orders := sql_update (\<lambda>r. po_venue_order_id r = po_venue_order_id row)
              (\<lambda>r. r\<lparr>po_state := OrderState.Cancelled, po_remaining_quantity := ''0'', po_reserved_quote := ''0'',
                     po_reserved_shares := ''0'', po_updated_at := now\<rparr>) (paper_venue_orders db)\<rparr>)))))))"

definition cancel_paper_order ::
  "dec_ops \<Rightarrow> string \<Rightarrow> instant \<Rightarrow> Store \<Rightarrow> (PaperOrderSnapshot \<times> Store) tx" where
  "cancel_paper_order D vid now db =
     (if st_mode db \<noteq> Paper then Err (IdentityMismatch ''paper cancellation cannot run in live mode'')
      else
      rbind (ok_or NotFound (sql_find (\<lambda>r. po_venue_order_id r = vid) (paper_venue_orders db))) (\<lambda>row.
      rbind (if po_state row \<in> terminal_states then Ok db else release_paper_order D row now db) (\<lambda>db.
      rbind (load_paper_order D vid db) (\<lambda>found.
      rbind (ok_or NotFound found) (\<lambda>snapshot.
      let (event, db) = append_event ''paper.venue_order_cancelled'' ''paper_order'' (RText vid)
            (JObj [(''mode'', JStr (mode_text (st_mode db))), (''venue_order_id'', JStr vid),
                   (''state'', JStr (order_state_text (pn_state snapshot)))]) now db
      in Ok (snapshot, send [event] db))))))"

section \<open>Queries\<close>

definition paper_active_tokens :: "Store \<Rightarrow> string list" where
  "paper_active_tokens db = sort (remdups (map po_token_id (filter paper_active (paper_venue_orders db))))"

definition paper_condition :: "string \<Rightarrow> Store \<Rightarrow> string option" where
  "paper_condition token db = (case sql_find (\<lambda>p. ps_token_id p = token) (positions db) of
     Some p \<Rightarrow> Some (ps_condition_id p)
   | None \<Rightarrow> (case sort_key po_created_at (filter (\<lambda>r. po_token_id r = token) (paper_venue_orders db)) of
                [] \<Rightarrow> None | r # _ \<Rightarrow> Some (po_condition_id r)))"

fun paper_position_loop :: "dec_ops \<Rightarrow> Store \<Rightarrow> PaperInventoryRow list \<Rightarrow> (string \<times> string \<times> decimal) list tx" where
  "paper_position_loop D db [] = Ok []"
| "paper_position_loop D db (r # rows) =
     rbind (ok_or (IdentityMismatch ''paper inventory is missing its market condition'')
              (paper_condition (pi_token_id r) db)) (\<lambda>condition.
     rbind (parse_stored_decimal D (pi_shares r)) (\<lambda>shares.
     rbind (paper_position_loop D db rows) (\<lambda>rest. Ok ((condition, pi_token_id r, shares) # rest))))"

definition paper_venue_positions :: "dec_ops \<Rightarrow> Store \<Rightarrow> (string \<times> string \<times> decimal) list tx" where
  "paper_venue_positions D db = paper_position_loop D db (sort_key pi_token_id (paper_inventory db))"

definition find_paper_order :: "dec_ops \<Rightarrow> string \<Rightarrow> Store \<Rightarrow> PaperOrderSnapshot option tx" where
  "find_paper_order D vid db = load_paper_order D vid db"

definition paper_venue_counts :: "Store \<Rightarrow> nat \<times> nat" where
  "paper_venue_counts db = (length (paper_venue_orders db),
     sql_count (\<lambda>r. po_filled_quantity r \<noteq> ''0'') (paper_venue_orders db))"

fun paper_order_loop :: "dec_ops \<Rightarrow> Store \<Rightarrow> string list \<Rightarrow> PaperOrderSnapshot list tx" where
  "paper_order_loop D db [] = Ok []"
| "paper_order_loop D db (vid # vids) =
     rbind (find_paper_order D vid db) (\<lambda>found.
     rbind (paper_order_loop D db vids) (\<lambda>rest. Ok (option_list found @ rest)))"

definition list_paper_orders :: "dec_ops \<Rightarrow> Store \<Rightarrow> PaperOrderSnapshot list tx" where
  "list_paper_orders D db =
     paper_order_loop D db (map po_venue_order_id (sort_key po_created_at (paper_venue_orders db)))"

end
