(* ===== verification/Config.thy ===== *)
theory Config
  imports PaperLedger "HOL-Library.Word"
begin

text \<open>
  \<open>src/src/config.rs\<close>: the configuration and its validation.  TOML parsing (\<open>toml\<close> with the derived
  \<open>serde\<close> code), hexadecimal decoding (\<open>hex\<close>), the build feature and the environment are parameters.
  An error is the text that \<open>anyhow\<close> displays.  The lemmas state what a configuration that passes
  validation satisfies.
\<close>

type_synonym bytes = "8 word list"

section \<open>Data\<close>

text \<open>\<open>std::net\<close>: the addresses of the two listeners.\<close>

datatype IpAddr = V4 "8 word" "8 word" "8 word" "8 word" | V6 "128 word"

record SocketAddr =
  so_ip :: IpAddr
  so_port :: "16 word"

fun is_loopback :: "IpAddr \<Rightarrow> bool" where
  "is_loopback (V4 a b c d) \<longleftrightarrow> a = 127"
| "is_loopback (V6 w) \<longleftrightarrow> w = 1"

record ServerConfig =
  sv_bind :: SocketAddr
  sv_metrics_bind :: SocketAddr
  sv_max_body_bytes :: nat
  sv_request_timeout_ms :: nat
  sv_allow_non_loopback :: bool

record StorageConfig =
  sg_database_path :: string
  sg_backup_dir :: string
  sg_event_retention :: nat

record PolymarketConfig =
  pm_clob_url :: string
  pm_websocket_url :: string
  pm_data_api_url :: string
  pm_geoblock_url :: string
  pm_expected_protocol :: nat
  pm_chain_id :: nat
  pm_signer_address :: "string option"
  pm_funder_address :: "string option"
  pm_private_key_file :: "string option"
  pm_reconciliation_interval_seconds :: nat
  pm_geoblock_interval_seconds :: nat
  pm_heartbeat_interval_seconds :: nat

record AuthCredential =
  cd_actor_id :: string
  cd_token_sha256 :: string
  cd_scopes :: "string list"

record Config =
  cf_mode :: Mode
  cf_server :: ServerConfig
  cf_storage :: StorageConfig
  cf_paper :: PaperConfig
  cf_polymarket :: PolymarketConfig
  cf_auth :: "AuthCredential list"

section \<open>Defaults\<close>

definition default_bind :: SocketAddr where
  "default_bind = \<lparr>so_ip = V4 127 0 0 1, so_port = 8787\<rparr>"

definition default_metrics_bind :: SocketAddr where
  "default_metrics_bind = \<lparr>so_ip = V4 127 0 0 1, so_port = 9090\<rparr>"

definition default_server :: ServerConfig where
  "default_server = \<lparr>sv_bind = default_bind, sv_metrics_bind = default_metrics_bind,
     sv_max_body_bytes = 64 * 1024, sv_request_timeout_ms = 45000, sv_allow_non_loopback = False\<rparr>"

definition default_storage :: "string \<Rightarrow> StorageConfig" where
  "default_storage path = \<lparr>sg_database_path = path, sg_backup_dir = ''./data/backups'', sg_event_retention = 1000000\<rparr>"

definition default_paper :: PaperConfig where
  "default_paper = \<lparr>pg_starting_quote_balance = ''10000'', pg_starting_positions = []\<rparr>"

definition default_polymarket :: PolymarketConfig where
  "default_polymarket = \<lparr>
     pm_clob_url = ''https://clob.polymarket.com'',
     pm_websocket_url = ''wss://ws-subscriptions-clob.polymarket.com'',
     pm_data_api_url = ''https://data-api.polymarket.com'',
     pm_geoblock_url = ''https://polymarket.com/api/geoblock'',
     pm_expected_protocol = 2, pm_chain_id = 137,
     pm_signer_address = None, pm_funder_address = None, pm_private_key_file = None,
     pm_reconciliation_interval_seconds = 60, pm_geoblock_interval_seconds = 300,
     pm_heartbeat_interval_seconds = 5\<rparr>"

section \<open>Validation\<close>

fun validate_scopes :: "string list \<Rightarrow> (string, unit) res" where
  "validate_scopes [] = Ok ()"
| "validate_scopes (scope # scopes) =
     (if scope \<in> {''read'', ''submit'', ''cancel'', ''operate''} then validate_scopes scopes
      else Err (''unsupported auth scope '' @ scope))"

fun validate_credentials ::
  "(string \<Rightarrow> bytes option) \<Rightarrow> string set \<Rightarrow> bytes set \<Rightarrow> AuthCredential list \<Rightarrow> (string, unit) res" where
  "validate_credentials unhex actor_ids token_digests [] = Ok ()"
| "validate_credentials unhex actor_ids token_digests (credential # rest) =
     (if is_blank (cd_actor_id credential) then Err ''auth actor_id may not be empty''
      else if cd_actor_id credential \<in> actor_ids then Err ''auth actor_id values must be unique''
      else
      rbind (ok_or ''auth token_sha256 must be hexadecimal'' (unhex (cd_token_sha256 credential))) (\<lambda>digest.
      if length digest \<noteq> 32 then Err ''auth token_sha256 must contain a SHA-256 digest''
      else if digest \<in> token_digests then Err ''auth token digests must be unique''
      else if cd_scopes credential = [] then Err ''each auth credential requires at least one scope''
      else
      rbind (validate_scopes (cd_scopes credential)) (\<lambda>_.
      validate_credentials unhex (insert (cd_actor_id credential) actor_ids) (insert digest token_digests) rest)))"

definition validate_auth :: "(string \<Rightarrow> bytes option) \<Rightarrow> Config \<Rightarrow> (string, unit) res" where
  "validate_auth unhex c =
     (if cf_auth c = [] then Err ''at least one bearer credential is required''
      else validate_credentials unhex {} {} (cf_auth c))"

definition validate_runtime_bounds :: "Config \<Rightarrow> (string, unit) res" where
  "validate_runtime_bounds c =
     (if sv_max_body_bytes (cf_server c) = 0 \<or> sv_request_timeout_ms (cf_server c) = 0
      then Err ''server body and timeout bounds must be positive''
      else if sg_event_retention (cf_storage c) = 0 then Err ''storage.event_retention must be positive''
      else if pm_reconciliation_interval_seconds (cf_polymarket c) \<notin> {1 .. 60}
      then Err ''reconciliation_interval_seconds must be between 1 and 60''
      else if pm_geoblock_interval_seconds (cf_polymarket c) \<notin> {1 .. 300}
      then Err ''geoblock_interval_seconds must be between 1 and 300''
      else if pm_heartbeat_interval_seconds (cf_polymarket c) \<notin> {1 .. 5}
      then Err ''heartbeat_interval_seconds must be between 1 and 5''
      else Ok ())"

definition starts_with :: "string \<Rightarrow> string \<Rightarrow> bool" where
  "starts_with p s \<longleftrightarrow> strip_prefix p s \<noteq> None"

definition ascii_hexdigit :: "char \<Rightarrow> bool" where
  "ascii_hexdigit c \<longleftrightarrow> (let x = byte c in (48 \<le> x \<and> x \<le> 57) \<or> (65 \<le> x \<and> x \<le> 70) \<or> (97 \<le> x \<and> x \<le> 102))"

definition valid_evm_address :: "string \<Rightarrow> bool" where
  "valid_evm_address v \<longleftrightarrow> length v = 42 \<and> starts_with ''0x'' v
     \<and> list_all ascii_hexdigit (drop 2 v) \<and> list_ex (\<lambda>c. c \<noteq> CHR ''0'') (drop 2 v)"

fun validate_addresses :: "(string \<times> string option) list \<Rightarrow> (string, unit) res" where
  "validate_addresses [] = Ok ()"
| "validate_addresses ((name, None) # rest) = Err (''live mode requires '' @ name)"
| "validate_addresses ((name, Some address) # rest) =
     (if valid_evm_address address then validate_addresses rest
      else Err (name @ '' must be a nonzero 20-byte hexadecimal address''))"

definition validate_live :: "bool \<Rightarrow> (string \<Rightarrow> string option) \<Rightarrow> Config \<Rightarrow> (string, unit) res" where
  "validate_live live_feature env c =
     (if \<not> live_feature then Err ''live mode requires a binary built with the live feature''
      else if env ''ODDSFOX_ENABLE_LIVE_TRADING'' \<noteq> Some ''YES''
      then Err ''live mode requires ODDSFOX_ENABLE_LIVE_TRADING=YES''
      else
      rbind (validate_addresses [(''polymarket.signer_address'', pm_signer_address (cf_polymarket c)),
                                 (''polymarket.funder_address'', pm_funder_address (cf_polymarket c))]) (\<lambda>_.
      if list_ex (\<lambda>credential. list_all (\<lambda>b. b = CHR ''0'') (cd_token_sha256 credential)) (cf_auth c)
      then Err ''live mode refuses placeholder bearer-token digests''
      else if pm_chain_id (cf_polymarket c) \<noteq> 137 \<or> pm_expected_protocol (cf_polymarket c) \<noteq> 2
      then Err ''live mode supports only Polygon chain 137 and Polymarket protocol V2''
      else if \<not> starts_with ''https://'' (pm_clob_url (cf_polymarket c))
           \<or> \<not> starts_with ''https://'' (pm_data_api_url (cf_polymarket c))
           \<or> \<not> starts_with ''https://'' (pm_geoblock_url (cf_polymarket c))
           \<or> \<not> starts_with ''wss://'' (pm_websocket_url (cf_polymarket c))
      then Err ''live venue endpoints require HTTPS/WSS''
      else if pm_private_key_file (cf_polymarket c) = None
      then Err ''live mode requires polymarket.private_key_file''
      else if \<not> is_loopback (so_ip (sv_bind (cf_server c))) \<and> \<not> sv_allow_non_loopback (cf_server c)
      then Err ''live non-loopback HTTP bind requires server.allow_non_loopback=true''
      else if \<not> is_loopback (so_ip (sv_metrics_bind (cf_server c)))
      then Err ''live metrics listener must bind to loopback''
      else Ok ()))"

definition validate_config ::
  "(string \<Rightarrow> bytes option) \<Rightarrow> bool \<Rightarrow> (string \<Rightarrow> string option) \<Rightarrow> Config \<Rightarrow> (string, unit) res" where
  "validate_config unhex live_feature env c =
     rbind (validate_auth unhex c) (\<lambda>_.
     rbind (validate_runtime_bounds c) (\<lambda>_.
     if cf_mode c = Mode.Live then validate_live live_feature env c else Ok ()))"

definition load_config ::
  "(string \<Rightarrow> string option) \<Rightarrow> (string \<Rightarrow> Config option) \<Rightarrow> (string \<Rightarrow> bytes option) \<Rightarrow> bool \<Rightarrow> (string \<Rightarrow> string option)
     \<Rightarrow> string \<Rightarrow> Mode option \<Rightarrow> (string, Config) res" where
  "load_config read_file parse unhex live_feature env path mode_override =
     rbind (ok_or (''read configuration '' @ path) (read_file path)) (\<lambda>contents.
     rbind (ok_or ''parse strict TOML configuration'' (parse contents)) (\<lambda>c.
     let c = (case mode_override of None \<Rightarrow> c | Some m \<Rightarrow> c\<lparr>cf_mode := m\<rparr>)
     in rbind (validate_config unhex live_feature env c) (\<lambda>_. Ok c)))"

text \<open>The millisecond deadline of a request, and the form a configuration is printed in.\<close>

definition request_timeout :: "Config \<Rightarrow> nat" where
  "request_timeout c = sv_request_timeout_ms (cf_server c)"

definition json_of_config :: "(SocketAddr \<Rightarrow> string) \<Rightarrow> Config \<Rightarrow> json" where
  "json_of_config show_addr c = JObj
     [(''mode'', JStr (mode_text (cf_mode c))),
      (''bind'', JStr (show_addr (sv_bind (cf_server c)))),
      (''database_path'', JStr (sg_database_path (cf_storage c))),
      (''clob_url'', JStr (pm_clob_url (cf_polymarket c))),
      (''auth_actors'', JArr (map (\<lambda>entry. JStr (cd_actor_id entry)) (cf_auth c)))]"

definition token_digest :: "(bytes \<Rightarrow> string) \<Rightarrow> (string \<Rightarrow> bytes) \<Rightarrow> string \<Rightarrow> string" where
  "token_digest enhex sha token = enhex (sha token)"

section \<open>What validation accepts\<close>

definition sound_credential :: "(string \<Rightarrow> bytes option) \<Rightarrow> AuthCredential \<Rightarrow> bool" where
  "sound_credential unhex cr \<longleftrightarrow> \<not> is_blank (cd_actor_id cr)
     \<and> (\<exists>digest. unhex (cd_token_sha256 cr) = Some digest \<and> length digest = 32)
     \<and> cd_scopes cr \<noteq> [] \<and> set (cd_scopes cr) \<subseteq> {''read'', ''submit'', ''cancel'', ''operate''}"

definition sound_auth :: "(string \<Rightarrow> bytes option) \<Rightarrow> AuthCredential list \<Rightarrow> bool" where
  "sound_auth unhex crs \<longleftrightarrow> crs \<noteq> [] \<and> (\<forall>cr \<in> set crs. sound_credential unhex cr)
     \<and> distinct (map cd_actor_id crs) \<and> distinct (map (\<lambda>cr. unhex (cd_token_sha256 cr)) crs)"

definition sound_bounds :: "Config \<Rightarrow> bool" where
  "sound_bounds c \<longleftrightarrow> 0 < sv_max_body_bytes (cf_server c) \<and> 0 < sv_request_timeout_ms (cf_server c)
     \<and> 0 < sg_event_retention (cf_storage c)
     \<and> pm_reconciliation_interval_seconds (cf_polymarket c) \<in> {1 .. 60}
     \<and> pm_geoblock_interval_seconds (cf_polymarket c) \<in> {1 .. 300}
     \<and> pm_heartbeat_interval_seconds (cf_polymarket c) \<in> {1 .. 5}"

definition sound_live :: "Config \<Rightarrow> bool" where
  "sound_live c \<longleftrightarrow>
     (\<exists>signer funder key. pm_signer_address (cf_polymarket c) = Some signer \<and> valid_evm_address signer
        \<and> pm_funder_address (cf_polymarket c) = Some funder \<and> valid_evm_address funder
        \<and> pm_private_key_file (cf_polymarket c) = Some key)
     \<and> (\<forall>cr \<in> set (cf_auth c). \<exists>b \<in> set (cd_token_sha256 cr). b \<noteq> CHR ''0'')
     \<and> pm_chain_id (cf_polymarket c) = 137 \<and> pm_expected_protocol (cf_polymarket c) = 2
     \<and> (\<forall>url \<in> {pm_clob_url (cf_polymarket c), pm_data_api_url (cf_polymarket c), pm_geoblock_url (cf_polymarket c)}.
          \<exists>rest. url = ''https://'' @ rest)
     \<and> (\<exists>rest. pm_websocket_url (cf_polymarket c) = ''wss://'' @ rest)
     \<and> (is_loopback (so_ip (sv_bind (cf_server c))) \<or> sv_allow_non_loopback (cf_server c))
     \<and> is_loopback (so_ip (sv_metrics_bind (cf_server c)))"

lemma validate_scopes_Ok: "validate_scopes scopes = Ok () \<longleftrightarrow> set scopes \<subseteq> {''read'', ''submit'', ''cancel'', ''operate''}"
  by (induction scopes) auto

lemma validate_credentials_Ok:
  "validate_credentials unhex ids digests crs = Ok () \<longleftrightarrow>
     (\<forall>cr \<in> set crs. sound_credential unhex cr \<and> cd_actor_id cr \<notin> ids
        \<and> unhex (cd_token_sha256 cr) \<notin> Some ` digests)
     \<and> distinct (map cd_actor_id crs) \<and> distinct (map (\<lambda>cr. unhex (cd_token_sha256 cr)) crs)"
proof (induction crs arbitrary: ids digests)
  case (Cons cr crs)
  show ?case
  proof (cases "unhex (cd_token_sha256 cr)")
    case (Some digest)
    then show ?thesis
      by (simp add: Cons.IH validate_scopes_Ok sound_credential_def res_simps image_iff) auto
  qed (auto simp: sound_credential_def)
qed simp

lemma validate_auth_Ok: "validate_auth unhex c = Ok () \<longleftrightarrow> sound_auth unhex (cf_auth c)"
  by (simp add: validate_auth_def sound_auth_def validate_credentials_Ok)

lemma validate_runtime_bounds_Ok: "validate_runtime_bounds c = Ok () \<longleftrightarrow> sound_bounds c"
  by (auto simp: validate_runtime_bounds_def sound_bounds_def)

lemma starts_with_iff: "starts_with p s \<longleftrightarrow> (\<exists>rest. s = p @ rest)"
  by (auto simp: starts_with_def strip_prefix_Some_iff)

lemma validate_live_Ok:
  "validate_live live_feature env c = Ok () \<longleftrightarrow>
     live_feature \<and> env ''ODDSFOX_ENABLE_LIVE_TRADING'' = Some ''YES'' \<and> sound_live c"
proof -
  let ?p = "cf_polymarket c"
  have addr: "validate_addresses [(n, pm_signer_address ?p), (m, pm_funder_address ?p)] = Ok () \<longleftrightarrow>
      (\<exists>s f. pm_signer_address ?p = Some s \<and> valid_evm_address s \<and> pm_funder_address ?p = Some f \<and> valid_evm_address f)"
    for n m
    by (cases "pm_signer_address ?p"; cases "pm_funder_address ?p") auto
  show ?thesis
    unfolding validate_live_def sound_live_def
    by (simp add: res_simps addr starts_with_iff list_ex_iff list_all_iff) blast
qed

lemmas validate_simps = validate_config_def res_simps validate_auth_Ok validate_runtime_bounds_Ok validate_live_Ok

text \<open>
  C35. Validation accepts exactly the configurations that satisfy the declarative conditions: at least
  one credential, each with a non-blank actor, a 32-byte digest and supported scopes, no two with the
  same actor or the same decoded digest; positive and bounded limits; and in live mode the build
  feature, the opt-in variable, valid addresses, a key file, no placeholder digest, Polygon and
  protocol 2, TLS endpoints and loopback listeners.
\<close>

theorem validate_accepts_iff:
  "validate_config unhex live_feature env c = Ok () \<longleftrightarrow>
     sound_auth unhex (cf_auth c) \<and> sound_bounds c
     \<and> (cf_mode c = Mode.Live \<longrightarrow>
          live_feature \<and> env ''ODDSFOX_ENABLE_LIVE_TRADING'' = Some ''YES'' \<and> sound_live c)"
  by (simp add: validate_simps)

lemma load_config_Ok:
  assumes "load_config read_file parse unhex live_feature env path mode_override = Ok c"
  shows "validate_config unhex live_feature env c = Ok ()"
    and "mode_override = Some m \<Longrightarrow> cf_mode c = m"
  using assms by (auto simp: load_config_def res_simps Let_def)

text \<open>The printed form shows no digest: it is the same whatever the digests are.\<close>

lemma printed_config_hides_digests:
  "json_of_config show_addr (c\<lparr>cf_auth := map (\<lambda>cr. cr\<lparr>cd_token_sha256 := f cr\<rparr>) (cf_auth c)\<rparr>) = json_of_config show_addr c"
  by (simp add: json_of_config_def comp_def)

subsection \<open>An example\<close>

definition live_config :: Config where
  "live_config = \<lparr>cf_mode = Mode.Live, cf_server = default_server, cf_storage = default_storage ''db'',
     cf_paper = default_paper,
     cf_polymarket = default_polymarket\<lparr>pm_signer_address := Some (''0x'' @ replicate 40 (CHR ''a'')),
       pm_funder_address := Some (''0x'' @ replicate 40 (CHR ''b'')), pm_private_key_file := Some ''key''\<rparr>,
     cf_auth = [\<lparr>cd_actor_id = ''strategy'', cd_token_sha256 = ''ab'', cd_scopes = [''read'', ''submit'']\<rparr>,
                \<lparr>cd_actor_id = ''operator'', cd_token_sha256 = ''cd'', cd_scopes = [''operate'', ''cancel'']\<rparr>]\<rparr>"

definition sample_unhex :: "string \<Rightarrow> bytes option" where
  "sample_unhex s = (if s = ''ab'' then Some (replicate 32 171) else if s = ''cd'' then Some (replicate 32 205) else None)"

lemma live_config_sound:
  "sound_auth sample_unhex (cf_auth live_config)" "sound_bounds live_config" "sound_live live_config"
proof -
  have blank: "\<not> is_blank ''strategy''" "\<not> is_blank ''operator''" by code_simp+
  show "sound_auth sample_unhex (cf_auth live_config)"
    by (simp add: live_config_def sound_auth_def sound_credential_def sample_unhex_def blank)
  show "sound_bounds live_config"
    by (simp add: live_config_def sound_bounds_def default_server_def default_storage_def default_polymarket_def)
  have addresses: "valid_evm_address (''0x'' @ replicate 40 (CHR ''a''))" "valid_evm_address (''0x'' @ replicate 40 (CHR ''b''))"
    by code_simp+
  then show "sound_live live_config"
    by (simp add: sound_live_def live_config_def default_polymarket_def default_server_def default_bind_def default_metrics_bind_def)
qed

theorem validate_accepts_iff_witness:
  "validate_config sample_unhex True (\<lambda>_. Some ''YES'') live_config = Ok ()
   \<and> validate_config sample_unhex False (\<lambda>_. Some ''YES'') live_config \<noteq> Ok ()"
  using validate_accepts_iff [of sample_unhex _ "\<lambda>_. Some ''YES''" live_config] live_config_sound
  by (simp add: live_config_def)

end
