(* ===== verification/Auth.thy ===== *)
theory Auth
  imports Config
begin

text \<open>
  \<open>src/src/auth.rs\<close>: bearer authentication and the scopes of the HTTP interface.  SHA-256, hexadecimal
  decoding and its error text, and the reading of a header value as text (\<open>http\<close>) are parameters.  The
  lemmas identify the actor of a token under a validated configuration and the requests that pass.
\<close>

record Actor =
  ac_id :: string
  ac_scopes :: "string set"

definition has_scope :: "Actor \<Rightarrow> string \<Rightarrow> bool" where
  "has_scope actor scope \<longleftrightarrow> scope \<in> ac_scopes actor"

record Credential =
  ce_actor :: Actor
  ce_digest :: bytes

type_synonym AuthRegistry = "Credential list"

definition credential_actor :: "AuthCredential \<Rightarrow> Actor" where
  "credential_actor entry = \<lparr>ac_id = cd_actor_id entry, ac_scopes = set (cd_scopes entry)\<rparr>"

fun new_registry :: "(string \<Rightarrow> bytes option) \<Rightarrow> (string \<Rightarrow> string) \<Rightarrow> AuthCredential list \<Rightarrow> (string, AuthRegistry) res" where
  "new_registry unhex hex_error [] = Ok []"
| "new_registry unhex hex_error (entry # rest) =
     rbind (ok_or (hex_error (cd_token_sha256 entry)) (unhex (cd_token_sha256 entry))) (\<lambda>digest.
     if length digest \<noteq> 32 then Err ''token digest must be 32 bytes''
     else rbind (new_registry unhex hex_error rest) (\<lambda>credentials.
       Ok (\<lparr>ce_actor = credential_actor entry, ce_digest = digest\<rparr> # credentials)))"

text \<open>The loop compares every credential; the last match is kept.\<close>

fun authenticate_loop :: "bytes \<Rightarrow> Credential list \<Rightarrow> Actor option \<Rightarrow> Actor option" where
  "authenticate_loop digest [] authenticated = authenticated"
| "authenticate_loop digest (credential # rest) authenticated =
     authenticate_loop digest rest (if ce_digest credential = digest then Some (ce_actor credential) else authenticated)"

definition authenticate :: "(string \<Rightarrow> bytes) \<Rightarrow> AuthRegistry \<Rightarrow> string \<Rightarrow> Actor option" where
  "authenticate sha registry token = authenticate_loop (sha token) registry None"

datatype Method = GET | POST | OtherMethod string

definition required_scope :: "Method \<Rightarrow> string \<Rightarrow> string" where
  "required_scope method path =
     (if method = GET then ''read''
      else if path = ''/v1/intents'' then ''submit''
      else if path = ''/v1/cancellations'' then ''cancel''
      else ''operate'')"

record AuthFailure =
  af_status :: nat
  af_code :: string
  af_message :: string
  af_retryable :: bool
  af_correlation_id :: uuid
  af_details :: json

definition auth_unauthorized :: "uuid \<Rightarrow> AuthFailure" where
  "auth_unauthorized correlation =
     \<lparr>af_status = 401, af_code = ''AUTH_REQUIRED'', af_message = ''valid bearer authentication is required'',
      af_retryable = False, af_correlation_id = correlation, af_details = JObj []\<rparr>"

definition auth_forbidden :: "uuid \<Rightarrow> string \<Rightarrow> AuthFailure" where
  "auth_forbidden correlation scope =
     \<lparr>af_status = 403, af_code = ''AUTH_SCOPE_REQUIRED'', af_message = scope @ '' scope is required'',
      af_retryable = False, af_correlation_id = correlation, af_details = JObj [(''required_scope'', JStr scope)]\<rparr>"

text \<open>
  The middleware: the request is refused, or passed on with the actor attached.  The \<open>Authorization\<close>
  header is the raw bytes of its first value.
\<close>

definition require_auth ::
  "(string \<Rightarrow> bytes) \<Rightarrow> (string \<Rightarrow> string option) \<Rightarrow> AuthRegistry \<Rightarrow> uuid \<Rightarrow> Method \<Rightarrow> string \<Rightarrow> string option
     \<Rightarrow> (AuthFailure, Actor) res" where
  "require_auth sha header_text registry correlation method path authorization =
     rbind (ok_or (auth_unauthorized correlation) authorization) (\<lambda>value.
     rbind (ok_or (auth_unauthorized correlation) (header_text value)) (\<lambda>header.
     rbind (ok_or (auth_unauthorized correlation) (strip_prefix ''Bearer '' header)) (\<lambda>token.
     rbind (ok_or (auth_unauthorized correlation) (authenticate sha registry token)) (\<lambda>actor.
     if has_scope actor (required_scope method path) then Ok actor
     else Err (auth_forbidden correlation (required_scope method path))))))"

section \<open>Who a token is\<close>

lemma authenticate_loop_last:
  "authenticate_loop digest cs acc =
     (case find (\<lambda>c. ce_digest c = digest) (rev cs) of None \<Rightarrow> acc | Some c \<Rightarrow> Some (ce_actor c))"
proof (induction cs arbitrary: acc)
  case (Cons c cs)
  have "find P (xs @ [y]) = (case find P xs of Some x \<Rightarrow> Some x | None \<Rightarrow> if P y then Some y else None)" for P xs and y :: Credential
    by (induction xs) auto
  with Cons show ?case by (simp split: option.splits)
qed simp

lemma new_registry_Ok:
  "new_registry unhex hex_error crs = Ok registry \<longleftrightarrow>
     (\<forall>cr \<in> set crs. \<exists>digest. unhex (cd_token_sha256 cr) = Some digest \<and> length digest = 32)
     \<and> registry = map (\<lambda>cr. \<lparr>ce_actor = credential_actor cr, ce_digest = the (unhex (cd_token_sha256 cr))\<rparr>) crs"
  by (induction crs arbitrary: registry) (auto simp: res_simps)

lemma authenticate_distinct:
  assumes "distinct (map ce_digest registry)"
  shows "authenticate sha registry token = Some actor \<longleftrightarrow>
     (\<exists>c \<in> set registry. ce_digest c = sha token \<and> ce_actor c = actor)"
proof (cases "find (\<lambda>c. ce_digest c = sha token) (rev registry)")
  case None
  moreover from None have "\<forall>c \<in> set registry. ce_digest c \<noteq> sha token" by (simp add: find_None_iff)
  ultimately show ?thesis by (auto simp: authenticate_def authenticate_loop_last)
next
  case (Some c)
  then have c: "c \<in> set registry" "ce_digest c = sha token"
    using sql_find_SomeD [of "\<lambda>c. ce_digest c = sha token" "rev registry" c] by (simp_all add: sql_find_def)
  have same: "d = c" if "d \<in> set registry" "ce_digest d = sha token" for d
    using key_unique [OF assms that(1) c(1)] that(2) c(2) by simp
  have known: "authenticate sha registry token = Some (ce_actor c)"
    using Some by (simp add: authenticate_def authenticate_loop_last)
  show ?thesis
  proof
    assume "authenticate sha registry token = Some actor"
    with known c show "\<exists>c \<in> set registry. ce_digest c = sha token \<and> ce_actor c = actor" by auto
  next
    assume "\<exists>c \<in> set registry. ce_digest c = sha token \<and> ce_actor c = actor"
    then obtain d where "d \<in> set registry" "ce_digest d = sha token" "ce_actor d = actor" by blast
    with same [of d] known show "authenticate sha registry token = Some actor" by simp
  qed
qed

text \<open>The registry of a validated configuration.\<close>

lemma registry_of_valid:
  assumes "validate_config unhex live_feature env c = Ok ()"
  shows "\<exists>registry. new_registry unhex hex_error (cf_auth c) = Ok registry
     \<and> (\<forall>token actor. authenticate sha registry token = Some actor \<longleftrightarrow>
          (\<exists>cr \<in> set (cf_auth c). unhex (cd_token_sha256 cr) = Some (sha token) \<and> credential_actor cr = actor))
     \<and> inj_on ac_id (ce_actor ` set registry)"
proof -
  have "sound_auth unhex (cf_auth c)"
    using assms by (simp add: validate_config_def res_simps validate_auth_Ok)
  then have sound: "\<And>cr. cr \<in> set (cf_auth c) \<Longrightarrow> sound_credential unhex cr"
    and ids: "distinct (map cd_actor_id (cf_auth c))"
    and digests: "distinct (map (\<lambda>cr. unhex (cd_token_sha256 cr)) (cf_auth c))"
    by (auto simp: sound_auth_def)
  define registry where "registry = map (\<lambda>cr. \<lparr>ce_actor = credential_actor cr, ce_digest = the (unhex (cd_token_sha256 cr))\<rparr>) (cf_auth c)"
  have the_some: "unhex (cd_token_sha256 cr) = Some (the (unhex (cd_token_sha256 cr)))" if "cr \<in> set (cf_auth c)" for cr
    using sound [OF that] by (auto simp: sound_credential_def)
  have built: "new_registry unhex hex_error (cf_auth c) = Ok registry"
    using sound by (auto simp: new_registry_Ok registry_def sound_credential_def)
  have "distinct (map (\<lambda>cr. the (unhex (cd_token_sha256 cr))) (cf_auth c))"
    using digests the_some by (simp add: distinct_map inj_on_def) metis
  then have "distinct (map ce_digest registry)" by (simp add: registry_def comp_def)
  from authenticate_distinct [OF this] have who: "authenticate sha registry token = Some actor \<longleftrightarrow>
      (\<exists>cr \<in> set (cf_auth c). unhex (cd_token_sha256 cr) = Some (sha token) \<and> credential_actor cr = actor)" for token actor
    using the_some by (fastforce simp: registry_def)
  have "inj_on ac_id (ce_actor ` set registry)"
    using ids by (auto simp: registry_def inj_on_def distinct_map credential_actor_def)
  with built who show ?thesis by blast
qed

lemma valid_registry:
  assumes "validate_config unhex live_feature env c = Ok ()" "new_registry unhex hex_error (cf_auth c) = Ok registry"
  shows "authenticate sha registry token = Some actor \<longleftrightarrow>
     (\<exists>cr \<in> set (cf_auth c). unhex (cd_token_sha256 cr) = Some (sha token) \<and> credential_actor cr = actor)"
  using registry_of_valid [OF assms(1), of hex_error sha] assms(2) by auto

text \<open>
  C36. Under a validated configuration the registry is built, and a token authenticates exactly the
  actor of the one credential whose digest is the token's SHA-256: no token is two actors, and no
  token without a credential is anyone.
\<close>

theorem validated_tokens_identify_one_actor:
  assumes "validate_config unhex live_feature env c = Ok ()"
  shows "\<exists>registry. new_registry unhex hex_error (cf_auth c) = Ok registry
     \<and> (\<forall>token actor. authenticate sha registry token = Some actor \<longleftrightarrow>
          (\<exists>cr \<in> set (cf_auth c). unhex (cd_token_sha256 cr) = Some (sha token) \<and> credential_actor cr = actor))
     \<and> inj_on ac_id (ce_actor ` set registry)"
  using assms by (rule registry_of_valid)

theorem validated_tokens_identify_one_actor_witness:
  "\<exists>registry. new_registry sample_unhex id (cf_auth live_config) = Ok registry
     \<and> authenticate (\<lambda>_. replicate 32 205) registry ''token'' = Some \<lparr>ac_id = ''operator'', ac_scopes = {''operate'', ''cancel''}\<rparr>"
proof -
  have "validate_config sample_unhex True (\<lambda>_. Some ''YES'') live_config = Ok ()"
    using live_config_sound by (simp add: validate_simps)
  from validated_tokens_identify_one_actor [OF this, of id "\<lambda>_. replicate 32 205"]
  show ?thesis
    by (fastforce simp: live_config_def sample_unhex_def credential_actor_def)
qed

section \<open>Which requests pass\<close>

lemma require_auth_Ok:
  "require_auth sha header_text registry correlation method path authorization = Ok actor \<longleftrightarrow>
     (\<exists>value token. authorization = Some value \<and> header_text value = Some (''Bearer '' @ token)
        \<and> authenticate sha registry token = Some actor \<and> required_scope method path \<in> ac_scopes actor)"
  by (auto simp: require_auth_def res_simps strip_prefix_Some_iff has_scope_def)

lemma require_auth_status:
  "require_auth sha header_text registry correlation method path authorization = Err e \<Longrightarrow> af_status e \<in> {401, 403}"
  by (auto simp: require_auth_def rbind_eq_Err ok_or_eq_Err auth_unauthorized_def auth_forbidden_def split: if_split_asm)

lemma required_scope_cases:
  "required_scope method path = ''read'' \<longleftrightarrow> method = GET"
  "required_scope method path \<in> {''read'', ''submit'', ''cancel'', ''operate''}"
  by (auto simp: required_scope_def)

end
