(* ===== verification/ApiDocument.thy ===== *)
theory ApiDocument
  imports Prelude
begin

text \<open>
  The OpenAPI document of \<open>src/src/api.rs\<close>, built the way \<open>openapi_document\<close> builds it: one operation
  per row of a table, then request bodies and parameters written into the operations by path.  A
  lookup the source expects to succeed is \<open>Panic\<close> when it does not.
\<close>

type_synonym fields = "(string \<times> json) list"

definition put :: "string \<Rightarrow> json \<Rightarrow> fields \<Rightarrow> fields" where
  "put k v kvs = (if map_of kvs k = None then kvs @ [(k, v)] else map (\<lambda>(k', v'). (k', if k' = k then v else v')) kvs)"

definition obj :: "json \<Rightarrow> (unit, fields) res" where
  "obj v = (case v of JObj kvs \<Rightarrow> Ok kvs | _ \<Rightarrow> Panic)"

definition field :: "string \<Rightarrow> fields \<Rightarrow> (unit, fields) res" where
  "field k kvs = rbind (or_panic (map_of kvs k)) obj"

record operation_row =
  op_method :: string
  op_path :: string
  op_id :: string
  op_authenticated :: bool
  op_mutating :: bool

definition operations :: "operation_row list" where
  "operations = [
     \<lparr>op_method = ''get'', op_path = ''/health/live'', op_id = ''getLiveness'', op_authenticated = False, op_mutating = False\<rparr>,
     \<lparr>op_method = ''get'', op_path = ''/health/ready'', op_id = ''getReadiness'', op_authenticated = False, op_mutating = False\<rparr>,
     \<lparr>op_method = ''get'', op_path = ''/v1/openapi.json'', op_id = ''getOpenApi'', op_authenticated = False, op_mutating = False\<rparr>,
     \<lparr>op_method = ''post'', op_path = ''/v1/intents'', op_id = ''submitIntent'', op_authenticated = True, op_mutating = True\<rparr>,
     \<lparr>op_method = ''get'', op_path = ''/v1/intents'', op_id = ''listIntents'', op_authenticated = True, op_mutating = False\<rparr>,
     \<lparr>op_method = ''get'', op_path = ''/v1/intents/{intent_id}'', op_id = ''getIntent'', op_authenticated = True, op_mutating = False\<rparr>,
     \<lparr>op_method = ''get'', op_path = ''/v1/orders'', op_id = ''listOrders'', op_authenticated = True, op_mutating = False\<rparr>,
     \<lparr>op_method = ''get'', op_path = ''/v1/orders/{order_id}'', op_id = ''getOrder'', op_authenticated = True, op_mutating = False\<rparr>,
     \<lparr>op_method = ''get'', op_path = ''/v1/trades'', op_id = ''listTrades'', op_authenticated = True, op_mutating = False\<rparr>,
     \<lparr>op_method = ''get'', op_path = ''/v1/positions'', op_id = ''listPositions'', op_authenticated = True, op_mutating = False\<rparr>,
     \<lparr>op_method = ''post'', op_path = ''/v1/cancellations'', op_id = ''createCancellation'', op_authenticated = True, op_mutating = True\<rparr>,
     \<lparr>op_method = ''get'', op_path = ''/v1/cancellations/{cancellation_id}'', op_id = ''getCancellation'', op_authenticated = True, op_mutating = False\<rparr>,
     \<lparr>op_method = ''get'', op_path = ''/v1/control/state'', op_id = ''getControlState'', op_authenticated = True, op_mutating = False\<rparr>,
     \<lparr>op_method = ''post'', op_path = ''/v1/control/halt'', op_id = ''halt'', op_authenticated = True, op_mutating = True\<rparr>,
     \<lparr>op_method = ''post'', op_path = ''/v1/control/resume'', op_id = ''resume'', op_authenticated = True, op_mutating = True\<rparr>,
     \<lparr>op_method = ''post'', op_path = ''/v1/reconciliations'', op_id = ''createReconciliation'', op_authenticated = True, op_mutating = True\<rparr>,
     \<lparr>op_method = ''get'', op_path = ''/v1/reconciliations/{reconciliation_id}'', op_id = ''getReconciliation'', op_authenticated = True, op_mutating = False\<rparr>,
     \<lparr>op_method = ''get'', op_path = ''/v1/events'', op_id = ''streamEvents'', op_authenticated = True, op_mutating = False\<rparr>,
     \<lparr>op_method = ''post'', op_path = ''/v1/backups'', op_id = ''createBackup'', op_authenticated = True, op_mutating = True\<rparr>,
     \<lparr>op_method = ''get'', op_path = ''/v1/backups/{backup_id}'', op_id = ''getBackup'', op_authenticated = True, op_mutating = False\<rparr>]"

definition ref :: "string \<Rightarrow> json" where
  "ref target = JObj [(''$ref'', JStr target)]"

definition operation_item :: "operation_row \<Rightarrow> json" where
  "operation_item row =
     (let err = ref ''#/components/responses/Error'';
          operation = [
            (''operationId'', JStr (op_id row)),
            (''responses'', JObj [
              (if op_mutating row then ''202'' else ''200'', JObj [(''description'', JStr
                 (if op_mutating row then ''Durably accepted; venue acceptance is not implied'' else ''Successful response''))]),
              (''400'', err), (''401'', err), (''403'', err), (''409'', err), (''429'', err), (''503'', err)])];
          operation = (if op_authenticated row
                       then put ''security'' (JArr [JObj [(''bearerAuth'', JArr [])]]) operation else operation);
          operation = (if op_mutating row
                       then put ''parameters'' (JArr [JObj [
                              (''name'', JStr ''Idempotency-Key''), (''in'', JStr ''header''), (''required'', JBool True),
                              (''schema'', JObj [(''type'', JStr ''string''), (''minLength'', JInt 16), (''maxLength'', JInt 128)])]]) operation
                       else operation)
      in JObj operation)"

fun add_operations :: "operation_row list \<Rightarrow> fields \<Rightarrow> (unit, fields) res" where
  "add_operations [] paths = Ok paths"
| "add_operations (row # rows) paths =
     (let paths = (if map_of paths (op_path row) = None then put (op_path row) (JObj []) paths else paths)
      in rbind (field (op_path row) paths) (\<lambda>item.
         add_operations rows (put (op_path row) (JObj (put (op_method row) (operation_item row) item)) paths)))"

text \<open>\<open>paths[path][method][k] = v\<close>, panicking when the operation is missing.\<close>

definition set_on :: "string \<Rightarrow> string \<Rightarrow> string \<Rightarrow> json \<Rightarrow> fields \<Rightarrow> (unit, fields) res" where
  "set_on path method k v paths =
     rbind (field path paths) (\<lambda>item.
     rbind (field method item) (\<lambda>operation.
     Ok (put path (JObj (put method (JObj (put k v operation)) item)) paths)))"

fun set_on_all :: "(string \<times> string \<times> string \<times> json) list \<Rightarrow> fields \<Rightarrow> (unit, fields) res" where
  "set_on_all [] paths = Ok paths"
| "set_on_all ((path, method, k, v) # rest) paths = rbind (set_on path method k v paths) (set_on_all rest)"

definition request_body :: "string \<Rightarrow> json" where
  "request_body schema = JObj [(''required'', JBool True),
     (''content'', JObj [(''application/json'', JObj [(''schema'', ref schema)])])]"

definition pagination_parameters :: json where
  "pagination_parameters = JArr [
     JObj [(''name'', JStr ''limit''), (''in'', JStr ''query''), (''required'', JBool False),
       (''schema'', JObj [(''type'', JStr ''integer''), (''minimum'', JInt 1), (''maximum'', JInt 500), (''default'', JInt 100)])],
     JObj [(''name'', JStr ''cursor''), (''in'', JStr ''query''), (''required'', JBool False),
       (''schema'', JObj [(''type'', JStr ''string'')]), (''description'', JStr ''Opaque cursor returned by the previous page'')]]"

definition path_parameter :: "string \<Rightarrow> json" where
  "path_parameter parameter = JArr [JObj [(''name'', JStr parameter), (''in'', JStr ''path''), (''required'', JBool True),
     (''schema'', JObj [(''type'', JStr ''string''), (''format'', JStr ''uuid'')])]]"

definition annotations :: "(string \<times> string \<times> string \<times> json) list" where
  "annotations = [
     (''/v1/intents'', ''post'', ''requestBody'', request_body ''#/components/schemas/OrderIntentRequest''),
     (''/v1/cancellations'', ''post'', ''requestBody'', request_body ''#/components/schemas/CancellationRequest''),
     (''/v1/control/halt'', ''post'', ''requestBody'', request_body ''#/components/schemas/ReasonRequest''),
     (''/v1/control/resume'', ''post'', ''requestBody'', request_body ''#/components/schemas/ReasonRequest''),
     (''/v1/intents'', ''get'', ''parameters'', pagination_parameters),
     (''/v1/orders'', ''get'', ''parameters'', pagination_parameters),
     (''/v1/trades'', ''get'', ''parameters'', pagination_parameters),
     (''/v1/intents/{intent_id}'', ''get'', ''parameters'', path_parameter ''intent_id''),
     (''/v1/orders/{order_id}'', ''get'', ''parameters'', path_parameter ''order_id''),
     (''/v1/cancellations/{cancellation_id}'', ''get'', ''parameters'', path_parameter ''cancellation_id''),
     (''/v1/reconciliations/{reconciliation_id}'', ''get'', ''parameters'', path_parameter ''reconciliation_id''),
     (''/v1/backups/{backup_id}'', ''get'', ''parameters'', path_parameter ''backup_id'')]"

section \<open>Schemas\<close>

definition jstrs :: "string list \<Rightarrow> json" where
  "jstrs ss = JArr (map JStr ss)"

definition typed :: "string \<Rightarrow> fields \<Rightarrow> json" where
  "typed t rest = JObj ((''type'', JStr t) # rest)"

definition nullable :: "fields \<Rightarrow> json" where
  "nullable rest = JObj ((''type'', jstrs [''string'', ''null'']) # rest)"

definition decimal_pattern :: string where
  "decimal_pattern = ''^[0-9]+(?:'' @ [CHR 0x5C] @ ''.[0-9]{1,6})?$''"

definition order_schema :: json where
  "order_schema = JObj [(''type'', JStr ''object''), (''additionalProperties'', JBool False),
     (''required'', jstrs [''condition_id'', ''token_id'', ''side'', ''time_in_force'', ''quantity'']),
     (''properties'', JObj [
       (''condition_id'', typed ''string'' [(''maxLength'', JInt 128)]),
       (''token_id'', typed ''string'' [(''pattern'', JStr ''^[0-9]+$''), (''maxLength'', JInt 128)]),
       (''side'', typed ''string'' [(''enum'', jstrs [''BUY'', ''SELL''])]),
       (''time_in_force'', typed ''string'' [(''enum'', jstrs [''GTC'', ''GTD'', ''FOK'', ''FAK''])]),
       (''quantity'', ref ''#/components/schemas/Quantity''),
       (''limit_price'', JObj [(''oneOf'', JArr [ref ''#/components/schemas/DecimalString'', typed ''null'' []])]),
       (''worst_price'', JObj [(''oneOf'', JArr [ref ''#/components/schemas/DecimalString'', typed ''null'' []])]),
       (''expires_at'', nullable [(''format'', JStr ''date-time'')]),
       (''post_only'', typed ''boolean'' [(''default'', JBool False)]),
       (''client_context'', ref ''#/components/schemas/ClientContext'')])]"

definition reason_schema :: json where
  "reason_schema = typed ''string'' [(''minLength'', JInt 1), (''maxLength'', JInt 512)]"

definition schemas :: fields where
  "schemas = [
     (''DecimalString'', typed ''string'' [(''pattern'', JStr decimal_pattern)]),
     (''Quantity'', JObj [(''type'', JStr ''object''), (''additionalProperties'', JBool False), (''required'', jstrs [''unit'', ''value'']),
        (''properties'', JObj [(''unit'', typed ''string'' [(''enum'', jstrs [''shares'', ''quote''])]),
           (''value'', ref ''#/components/schemas/DecimalString'')])]),
     (''OrderIntentRequest'', order_schema),
     (''ClientContext'', JObj [(''type'', JStr ''object''), (''additionalProperties'', JBool False),
        (''properties'', JObj [(''strategy'', nullable []), (''strategy_order_id'', nullable []), (''correlation_id'', nullable [])])]),
     (''CancellationRequest'', JObj [(''type'', JStr ''object''), (''additionalProperties'', JBool False), (''required'', jstrs [''reason'']),
        (''properties'', JObj [(''order_id'', nullable [(''format'', JStr ''uuid'')]), (''intent_id'', nullable [(''format'', JStr ''uuid'')]),
           (''condition_id'', nullable []), (''all_open_orders'', typed ''boolean'' [(''default'', JBool False)]), (''reason'', reason_schema)])]),
     (''ReasonRequest'', JObj [(''type'', JStr ''object''), (''additionalProperties'', JBool False), (''required'', jstrs [''reason'']),
        (''properties'', JObj [(''reason'', reason_schema)])]),
     (''ErrorEnvelope'', JObj [(''type'', JStr ''object''), (''required'', jstrs [''error'']),
        (''properties'', JObj [(''error'', JObj [(''type'', JStr ''object''),
           (''required'', jstrs [''code'', ''message'', ''retryable'', ''correlation_id'', ''details'']),
           (''properties'', JObj [(''code'', typed ''string'' []), (''message'', typed ''string'' []), (''retryable'', typed ''boolean'' []),
              (''correlation_id'', typed ''string'' [(''format'', JStr ''uuid'')]), (''details'', typed ''object'' [])])])])])]"

definition openapi_paths :: "(unit, fields) res" where
  "openapi_paths = rbind (add_operations operations []) (set_on_all annotations)"

definition openapi_document :: "(unit, json) res" where
  "openapi_document = rbind openapi_paths (\<lambda>paths. Ok (JObj [
     (''openapi'', JStr ''3.1.0''),
     (''info'', JObj [(''title'', JStr ''OddsFox Execution API''), (''version'', JStr ''1.0.0''),
        (''description'', JStr ''Private, idempotent prediction-market execution control plane'')]),
     (''servers'', JArr [JObj [(''url'', JStr ''http://127.0.0.1:8787'')]]),
     (''paths'', JObj paths),
     (''components'', JObj [
        (''securitySchemes'', JObj [(''bearerAuth'', typed ''http'' [(''scheme'', JStr ''bearer'')])]),
        (''responses'', JObj [(''Error'', JObj [(''description'', JStr ''Stable error envelope''),
           (''content'', JObj [(''application/json'', JObj [(''schema'', ref ''#/components/schemas/ErrorEnvelope'')])])])]),
        (''schemas'', JObj schemas)])]))"

end
