(* ===== verification/Api.thy ===== *)
theory Api
  imports Coordinator Auth ApiDocument
begin

text \<open>
  \<open>src/src/api.rs\<close>: the HTTP interface.  A handler acts on the state of the service: the coordinator
  with its store, the admission limiter and the tasks it has spawned.  What the libraries do is a
  record of parameters: the text of a header value (\<open>http\<close>), the JSON parser with its error texts
  (\<open>serde_json\<close>), the text of a pagination cursor (\<open>base64\<close> of JSON), the rounding of \<open>f64\<close>, the
  status codes \<open>StatusCode::from_u16\<close> takes, and the endpoint \<open>axum\<close> resolves a request to on the
  route table.  The two mutation gates only exclude interleavings and are not part of the state.
  Metrics, tracing and the request-id layer are left out; a handler that the timeout layer drops is
  a prefix of the interactions modelled here.
\<close>

section \<open>Requests\<close>

text \<open>What the JSON parser reads, before repeated fields are refused; a text leaf is the value it prints.\<close>

datatype raw_json =
    RawNull
  | RawBool bool
  | RawInt int
  | RawFloat "rat option"
  | RawText json
  | RawArr "raw_json list"
  | RawObj "(string \<times> raw_json) list"

record IntentListQuery =
  iq_limit :: nat
  iq_state :: "IntentState option"
  iq_condition_id :: "string option"
  iq_created_after :: "instant option"
  iq_cursor :: "string option"

record OrderListQuery =
  oq_limit :: nat
  oq_state :: "OrderState option"
  oq_condition_id :: "string option"
  oq_token_id :: "string option"
  oq_cursor :: "string option"

record TradeListQuery =
  tq_limit :: nat
  tq_status :: "TradeState option"
  tq_condition_id :: "string option"
  tq_token_id :: "string option"
  tq_cursor :: "string option"

type_synonym ResourceCursor = "instant \<times> uuid"

text \<open>The routes, with what the path and query extractors read.\<close>

datatype endpoint =
    GetLiveness | GetReadiness | GetOpenapi
  | PostIntent | GetIntents IntentListQuery | GetIntent uuid
  | GetOrders OrderListQuery | GetOrder uuid
  | GetTrades TradeListQuery | GetPositions
  | PostCancellation | GetCancellation uuid
  | GetControlState | PostHalt | PostResume
  | PostReconciliation | GetReconciliation uuid
  | GetEvents
  | PostBackup | GetBackup uuid

text \<open>A header is the raw bytes of its first value; a body that cannot be read is the status of its refusal.\<close>

record http_request =
  hq_method :: Method
  hq_path :: string
  hq_authorization :: "string option"
  hq_idempotency_key :: "string option"
  hq_last_event_id :: "string option"
  hq_body :: "(nat, string) res"

record http_library =
  hl_header_text :: "string \<Rightarrow> string option"
  hl_parse_json :: "string \<Rightarrow> raw_json option"
  hl_json_error :: "string \<Rightarrow> string"
  hl_schema_error :: "json \<Rightarrow> string"
  hl_cursor_text :: "ResourceCursor \<Rightarrow> string"
  hl_cursor_of :: "string \<Rightarrow> ResourceCursor option"
  hl_round :: "rat \<Rightarrow> rat"
  hl_status_ok :: "nat \<Rightarrow> bool"
  hl_route :: "http_request \<Rightarrow> endpoint option"
  hl_sha :: "string \<Rightarrow> bytes"

section \<open>Errors\<close>

record ApiError =
  ae_status :: nat
  ae_code :: string
  ae_message :: string
  ae_retryable :: bool
  ae_retry_after_seconds :: "nat option"

definition api_error :: "nat \<Rightarrow> string \<Rightarrow> string \<Rightarrow> bool \<Rightarrow> ApiError" where
  "api_error status code message retryable =
     \<lparr>ae_status = status, ae_code = code, ae_message = message, ae_retryable = retryable, ae_retry_after_seconds = None\<rparr>"

definition with_retry_after :: "ApiError \<Rightarrow> nat \<Rightarrow> ApiError" where
  "with_retry_after e seconds = e\<lparr>ae_retry_after_seconds := Some seconds\<rparr>"

fun api_error_of_store :: "StoreError \<Rightarrow> ApiError" where
  "api_error_of_store NotFound = api_error 404 ''RESOURCE_NOT_FOUND'' (store_error_text NotFound) False"
| "api_error_of_store IdempotencyConflict =
     api_error 409 ''IDEMPOTENCY_KEY_CONFLICT'' (store_error_text IdempotencyConflict) False"
| "api_error_of_store (NewRiskDisabled m) =
     api_error 503 ''NEW_RISK_DISABLED'' (store_error_text (NewRiskDisabled m)) True"
| "api_error_of_store _ = api_error 500 ''INTERNAL_STORAGE_ERROR'' ''storage operation failed'' True"

fun api_error_of_coordinator :: "CoordinatorError \<Rightarrow> ApiError" where
  "api_error_of_coordinator QueueFull =
     with_retry_after (api_error 429 ''EXECUTION_QUEUE_FULL'' (coordinator_error_text QueueFull) True) 1"
| "api_error_of_coordinator (Invalid m) =
     api_error 400 ''REQUEST_INVALID'' (coordinator_error_text (Invalid m)) False"
| "api_error_of_coordinator e = api_error 503 ''EXECUTION_UNAVAILABLE'' (coordinator_error_text e) True"

text \<open>Transactions a handler runs on the store itself report the error of the store.\<close>

fun api_error_of_call :: "CoordinatorError \<Rightarrow> ApiError" where
  "api_error_of_call (StoreFailed e) = api_error_of_store e"
| "api_error_of_call e = api_error_of_coordinator e"

section \<open>The token bucket\<close>

text \<open>\<open>f64\<close> values are rationals, every operation rounded by \<open>R\<close>; a duration is in nanoseconds.\<close>

record TokenBucket =
  tk_tokens :: rat
  tk_rate :: rat
  tk_capacity :: rat
  tk_last :: instant

definition new_bucket :: "rat \<Rightarrow> rat \<Rightarrow> instant \<Rightarrow> TokenBucket" where
  "new_bucket rate capacity now = \<lparr>tk_tokens = capacity, tk_rate = rate, tk_capacity = capacity, tk_last = now\<rparr>"

definition secs_f64 :: "(rat \<Rightarrow> rat) \<Rightarrow> int \<Rightarrow> rat" where
  "secs_f64 R d = R (R (of_int (d div 10 ^ 9)) + R (of_int (d mod 10 ^ 9) / 10 ^ 9))"

definition take_token :: "(rat \<Rightarrow> rat) \<Rightarrow> instant \<Rightarrow> TokenBucket \<Rightarrow> bool \<times> TokenBucket" where
  "take_token R now b =
     (let elapsed = max 0 (now - tk_last b);
          tokens = min (R (tk_tokens b + R (secs_f64 R elapsed * tk_rate b))) (tk_capacity b);
          b = b\<lparr>tk_tokens := tokens, tk_last := now\<rparr>
      in if 1 \<le> tokens then (True, b\<lparr>tk_tokens := R (tokens - 1)\<rparr>) else (False, b))"

section \<open>The state of the service\<close>

datatype task = CancellationTask uuid "uuid list" | ReconciliationTask uuid | BackupTask uuid

record service =
  ap_coordinator :: coordinator
  ap_limiter :: TokenBucket
  ap_tasks :: "task list"

type_synonym 'a api = "service \<Rightarrow> (ApiError, 'a) res \<times> service"

definition ap_result :: "(ApiError, 'a) res \<Rightarrow> 'a api" where
  "ap_result r = (\<lambda>a. (r, a))"

abbreviation ap_return :: "'a \<Rightarrow> 'a api" where
  "ap_return x \<equiv> ap_result (Ok x)"

definition ap_bind :: "'a api \<Rightarrow> ('a \<Rightarrow> 'b api) \<Rightarrow> 'b api" where
  "ap_bind m f = (\<lambda>a. case m a of
     (Ok x, a') \<Rightarrow> f x a' | (Err e, a') \<Rightarrow> (Err e, a') | (Panic, a') \<Rightarrow> (Panic, a'))"

abbreviation ap_then :: "'a api \<Rightarrow> 'b api \<Rightarrow> 'b api" where
  "ap_then m k \<equiv> ap_bind m (\<lambda>_. k)"

definition ap_lift :: "(CoordinatorError \<Rightarrow> ApiError) \<Rightarrow> 'a co \<Rightarrow> 'a api" where
  "ap_lift h m = (\<lambda>a. case m (ap_coordinator a) of (r, c) \<Rightarrow> (map_err h r, a\<lparr>ap_coordinator := c\<rparr>))"

abbreviation ap_coord :: "'a co \<Rightarrow> 'a api" where
  "ap_coord \<equiv> ap_lift api_error_of_coordinator"

abbreviation ap_store :: "'a co \<Rightarrow> 'a api" where
  "ap_store \<equiv> ap_lift api_error_of_call"

definition ap_spawn :: "task \<Rightarrow> unit api" where
  "ap_spawn t = (\<lambda>a. (Ok (), a\<lparr>ap_tasks := ap_tasks a @ [t]\<rparr>))"

text \<open>The permit of an operation is given back when the handler returns early, and kept by the task otherwise.\<close>

definition release_slot :: "coordinator \<Rightarrow> coordinator" where
  "release_slot c = c\<lparr>co_slots := co_slots c + 1\<rparr>"

definition with_permit :: "'a api \<Rightarrow> 'a api" where
  "with_permit m = ap_then (ap_coord reserve_operation) (\<lambda>a. case m a of
     (Ok x, a') \<Rightarrow> (Ok x, a')
   | (r, a') \<Rightarrow> (r, a'\<lparr>ap_coordinator := release_slot (ap_coordinator a')\<rparr>))"

definition service_mode :: "Mode api" where
  "service_mode = ap_store (co_get (\<lambda>c. st_mode (co_store c)))"

section \<open>Responses\<close>

text \<open>
  An event stream is what the handler of \<open>/v1/events\<close> fixes when it answers: the position of its
  receiver in what the store broadcasts, the reset it starts with, the replayed events, and the
  watermark of the live part.
\<close>

record event_stream =
  es_position :: nat
  es_reset :: "string option"
  es_replay :: "ExecutionEvent list"
  es_watermark :: int

datatype body = JsonBody json | EventBody event_stream

record response =
  re_status :: nat
  re_body :: body
  re_retry_after :: "nat option"

definition json_response :: "nat \<Rightarrow> json \<Rightarrow> response" where
  "json_response status v = \<lparr>re_status = status, re_body = JsonBody v, re_retry_after = None\<rparr>"

abbreviation accepted :: "json \<Rightarrow> response" where
  "accepted \<equiv> json_response 202"

definition error_response :: "uuid \<Rightarrow> ApiError \<Rightarrow> response" where
  "error_response correlation e =
     \<lparr>re_status = ae_status e,
      re_body = JsonBody (JObj [(''error'', JObj
        [(''code'', JStr (ae_code e)), (''message'', JStr (ae_message e)), (''retryable'', JBool (ae_retryable e)),
         (''correlation_id'', JUuid correlation), (''details'', JObj [])])]),
      re_retry_after = ae_retry_after_seconds e\<rparr>"

definition auth_response :: "AuthFailure \<Rightarrow> response" where
  "auth_response f = json_response (af_status f) (JObj [(''error'', JObj
     [(''code'', JStr (af_code f)), (''message'', JStr (af_message f)), (''retryable'', JBool (af_retryable f)),
      (''correlation_id'', JUuid (af_correlation_id f)), (''details'', af_details f)])])"

definition json_of_position :: "PositionRecord \<Rightarrow> json" where
  "json_of_position r = JObj
     [(''token_id'', JStr (ps_token_id r)), (''condition_id'', JStr (ps_condition_id r)),
      (''mode'', JStr (mode_text (ps_mode r))), (''shares'', JStr (ps_shares r)), (''updated_at'', JTime (ps_updated_at r))]"

definition json_of_cancellation_record :: "CancellationRecord \<Rightarrow> json" where
  "json_of_cancellation_record r = JObj
     [(''id'', JUuid (cr_id r)), (''actor_id'', JStr (cr_actor_id r)), (''selector_json'', cr_selector_json r),
      (''target_order_ids_json'', cr_target_order_ids_json r), (''reason'', JStr (cr_reason r)),
      (''state'', JStr (cr_state r)), (''created_at'', JTime (cr_created_at r)), (''updated_at'', JTime (cr_updated_at r))]"

definition json_of_run :: "ReconciliationRecord \<Rightarrow> json" where
  "json_of_run r = JObj
     [(''id'', JUuid (rc_id r)), (''trigger'', JStr (rc_trigger r)), (''state'', JStr (rc_state r)),
      (''summary_json'', rc_summary_json r), (''started_at'', JTime (rc_started_at r)),
      (''completed_at'', json_opt JTime (rc_completed_at r))]"

definition json_of_backup :: "BackupRecord \<Rightarrow> json" where
  "json_of_backup r = JObj
     [(''id'', JUuid (bu_id r)), (''state'', JStr (bu_state r)), (''database_path'', jstr_opt (bu_database_path r)),
      (''manifest_path'', jstr_opt (bu_manifest_path r)), (''checksum_sha256'', jstr_opt (bu_checksum_sha256 r)),
      (''last_event_sequence'', json_opt JInt (bu_last_event_sequence r)), (''error'', jstr_opt (bu_error r)),
      (''created_at'', JTime (bu_created_at r)), (''updated_at'', JTime (bu_updated_at r))]"

section \<open>Strict JSON\<close>

fun unique_json :: "raw_json \<Rightarrow> json option"
  and unique_seq :: "raw_json list \<Rightarrow> json list \<Rightarrow> json option"
  and unique_map :: "(string \<times> raw_json) list \<Rightarrow> string set \<Rightarrow> (string \<times> json) list \<Rightarrow> json option" where
  "unique_json RawNull = Some JNull"
| "unique_json (RawBool b) = Some (JBool b)"
| "unique_json (RawInt n) = Some (JInt n)"
| "unique_json (RawFloat None) = None"
| "unique_json (RawFloat (Some x)) = Some (JDec x)"
| "unique_json (RawText v) = Some v"
| "unique_json (RawArr vs) = unique_seq vs []"
| "unique_json (RawObj kvs) = unique_map kvs {} []"
| "unique_seq [] acc = Some (JArr acc)"
| "unique_seq (v # vs) acc = (case unique_json v of None \<Rightarrow> None | Some j \<Rightarrow> unique_seq vs (acc @ [j]))"
| "unique_map [] keys acc = Some (JObj acc)"
| "unique_map ((k, v) # kvs) keys acc =
     (if k \<in> keys then None
      else case unique_json v of None \<Rightarrow> None | Some j \<Rightarrow> unique_map kvs (insert k keys) (acc @ [(k, j)]))"

definition strict_json :: "http_library \<Rightarrow> (json \<Rightarrow> 'a option) \<Rightarrow> (nat, string) res \<Rightarrow> 'a api" where
  "strict_json W decode body =
     ap_bind (ap_result (map_err (\<lambda>status. api_error status
        (if status = 413 then ''REQUEST_BODY_TOO_LARGE'' else ''REQUEST_BODY_INVALID'')
        ''request body could not be read'' False) body)) (\<lambda>text.
     ap_bind (ap_result (ok_or (api_error 400 ''REQUEST_JSON_INVALID'' (hl_json_error W text) False)
        (case hl_parse_json W text of None \<Rightarrow> None | Some raw \<Rightarrow> unique_json raw))) (\<lambda>v.
     ap_result (ok_or (api_error 422 ''REQUEST_SCHEMA_INVALID'' (hl_schema_error W v) False) (decode v))))"

fun de_opt_uuid :: "json option \<Rightarrow> uuid option option" where
  "de_opt_uuid None = Some None"
| "de_opt_uuid (Some JNull) = Some None"
| "de_opt_uuid (Some (JUuid u)) = Some (Some u)"
| "de_opt_uuid _ = None"

definition cancellation_of_json :: "json \<Rightarrow> CancellationRequest option" where
  "cancellation_of_json j =
     (if \<not> known_fields [''order_id'', ''intent_id'', ''condition_id'', ''all_open_orders'', ''reason''] j then None
      else do {
        ord \<leftarrow> de_opt_uuid (jget j ''order_id'');
        intent \<leftarrow> de_opt_uuid (jget j ''intent_id'');
        condition \<leftarrow> de_opt_string (jget j ''condition_id'');
        every \<leftarrow> de_bool_default (jget j ''all_open_orders'');
        reason \<leftarrow> de_string (jget j ''reason'');
        Some \<lparr>cn_order_id = ord, cn_intent_id = intent, cn_condition_id = condition,
              cn_all_open_orders = every, cn_reason = reason\<rparr> })"

definition reason_of_json :: "json \<Rightarrow> string option" where
  "reason_of_json j = (if \<not> known_fields [''reason''] j then None else de_string (jget j ''reason''))"

definition json_of_reason :: "string \<Rightarrow> json" where
  "json_of_reason reason = JObj [(''reason'', JStr reason)]"

section \<open>Checks of a request\<close>

definition idempotency_key :: "http_library \<Rightarrow> string option \<Rightarrow> (ApiError, string) res" where
  "idempotency_key W header =
     rbind (ok_or (api_error 400 ''IDEMPOTENCY_KEY_REQUIRED'' ''Idempotency-Key header is required'' False)
       (case header of None \<Rightarrow> None | Some value \<Rightarrow> hl_header_text W value)) (\<lambda>key.
     if length key \<notin> {16 .. 128} \<or> \<not> list_all (\<lambda>c. (33 \<le> byte c \<and> byte c \<le> 126) \<or> byte c = 32) key
     then Err (api_error 400 ''IDEMPOTENCY_KEY_INVALID''
       ''Idempotency-Key must contain 16 to 128 printable ASCII characters'' False)
     else Ok key)"

definition validate_reason :: "string \<Rightarrow> (ApiError, unit) res" where
  "validate_reason reason =
     (if is_blank reason \<or> length reason > 512
      then Err (api_error 400 ''REASON_INVALID'' ''reason must contain 1 to 512 characters'' False) else Ok ())"

definition validate_limit :: "nat \<Rightarrow> (ApiError, nat) res" where
  "validate_limit limit =
     (if limit \<notin> {1 .. 500}
      then Err (api_error 400 ''PAGINATION_LIMIT_INVALID'' ''pagination limit must be between 1 and 500'' False)
      else Ok limit)"

definition decode_cursor :: "http_library \<Rightarrow> string option \<Rightarrow> (ApiError, ResourceCursor option) res" where
  "decode_cursor W raw = (case raw of None \<Rightarrow> Ok None
   | Some text \<Rightarrow> rbind (ok_or (api_error 400 ''PAGINATION_CURSOR_INVALID'' ''pagination cursor is invalid'' False)
       (hl_cursor_of W text)) (\<lambda>cursor. Ok (Some cursor)))"

record 'a ListPage =
  lp_items :: "'a list"
  lp_next_cursor :: "string option"

text \<open>The query asked for one row more than the limit.\<close>

definition list_page :: "http_library \<Rightarrow> nat \<Rightarrow> ('a \<Rightarrow> ResourceCursor) \<Rightarrow> 'a list \<Rightarrow> 'a ListPage" where
  "list_page W limit cursor_for rows =
     (let items = take limit rows
      in \<lparr>lp_items = items,
          lp_next_cursor = (if length rows > limit then Some (hl_cursor_text W (cursor_for (last items))) else None)\<rparr>)"

definition json_of_page :: "('a \<Rightarrow> json) \<Rightarrow> 'a ListPage \<Rightarrow> json" where
  "json_of_page f p = JObj [(''items'', JArr (map f (lp_items p))), (''next_cursor'', jstr_opt (lp_next_cursor p))]"

definition enforce_admission_rate :: "http_library \<Rightarrow> surroundings \<Rightarrow> unit api" where
  "enforce_admission_rate W E = (\<lambda>a.
     let c = ap_coordinator a;
         (taken, bucket) = take_token (hl_round W) (su_now E (co_calls c)) (ap_limiter a);
         a = a\<lparr>ap_limiter := bucket, ap_coordinator := tick c\<rparr>
     in if taken then (Ok (), a)
        else (Err (with_retry_after (api_error 429 ''RATE_LIMITED'' ''mutation admission rate exceeded'' True) 1), a))"

definition replay_operation ::
  "http_library \<Rightarrow> surroundings \<Rightarrow> Actor \<Rightarrow> string \<Rightarrow> string \<Rightarrow> json \<Rightarrow> response option api" where
  "replay_operation W E actor key op body =
     ap_bind (ap_store (co_read E (idempotent_response (su_hash E) (ac_id actor) key op body))) (\<lambda>replay.
     case replay of None \<Rightarrow> ap_return None
     | Some r \<Rightarrow>
         if hl_status_ok W (ir_status r) then ap_return (Some (json_response (ir_status r) (ir_body r)))
         else ap_result (Err (api_error 500 ''INTERNAL_STORAGE_ERROR''
                ''stored idempotent response has an invalid status'' False)))"

section \<open>Mutations\<close>

definition reserve_queue :: "unit co" where
  "reserve_queue = co_bind (co_get co_queue) (\<lambda>queue. if length queue < 100 then co_return () else co_fail QueueFull)"

definition submit_intent ::
  "http_library \<Rightarrow> surroundings \<Rightarrow> Actor \<Rightarrow> string option \<Rightarrow> OrderIntentRequest \<Rightarrow> response api" where
  "submit_intent W E actor header request =
     ap_bind (ap_result (idempotency_key W header)) (\<lambda>key.
     ap_bind (ap_store (co_read E (replay_intent (su_hash E) (ac_id actor) key request))) (\<lambda>replay.
     case replay of Some record \<Rightarrow> ap_return (accepted (json_of_intent record))
     | None \<Rightarrow>
     ap_then (enforce_admission_rate W E)
     (ap_then (ap_coord reserve_queue)
     (ap_bind (ap_store (co_tx E (\<lambda>n. admit_intent (su_hash E) (ac_id actor) key request (su_fresh E n 0) (su_now E n))))
        (\<lambda>admission. case admission of
           Created record \<Rightarrow> ap_then (ap_coord (co_queue_up (in_id record))) (ap_return (accepted (json_of_intent record)))
         | Existing record \<Rightarrow> ap_return (accepted (json_of_intent record)))))))"

text \<open>
  The other mutations answer a replay from the stored response, pay one token, and run their
  operation, whose record of the response commits with its effect.
\<close>

definition mutation ::
  "http_library \<Rightarrow> surroundings \<Rightarrow> Actor \<Rightarrow> string \<Rightarrow> string \<Rightarrow> json \<Rightarrow> response api \<Rightarrow> response api" where
  "mutation W E actor key op body run =
     ap_bind (replay_operation W E actor key op body) (\<lambda>replay. case replay of
       Some r \<Rightarrow> ap_return r
     | None \<Rightarrow> ap_then (enforce_admission_rate W E) run)"

definition cancel ::
  "http_library \<Rightarrow> surroundings \<Rightarrow> Actor \<Rightarrow> string option \<Rightarrow> CancellationRequest \<Rightarrow> response api" where
  "cancel W E actor header request =
     ap_bind (ap_result (idempotency_key W header)) (\<lambda>key.
     mutation W E actor key ''cancellation'' (json_of_cancellation request)
       (with_permit
         (ap_bind (ap_coord (admit_cancellation E (ac_id actor) key request)) (\<lambda>(cid, targets).
          ap_bind service_mode (\<lambda>mode.
          ap_then (ap_spawn (CancellationTask cid targets))
            (ap_return (accepted (JObj [(''id'', JUuid cid), (''target_order_ids'', JArr (map JUuid targets)),
               (''mode'', JStr (mode_text mode))]))))))))"

definition post_halt :: "http_library \<Rightarrow> surroundings \<Rightarrow> Actor \<Rightarrow> string option \<Rightarrow> string \<Rightarrow> response api" where
  "post_halt W E actor header reason =
     ap_bind (ap_result (idempotency_key W header)) (\<lambda>key.
     ap_then (ap_result (validate_reason reason))
     (mutation W E actor key ''control.halt'' (json_of_reason reason)
       (ap_then (ap_coord (halt_idempotent E (ac_id actor) key reason))
         (ap_bind service_mode (\<lambda>mode.
          ap_return (accepted (JObj [(''state'', JStr ''HALTED''), (''mode'', JStr (mode_text mode))])))))))"

definition post_resume :: "http_library \<Rightarrow> surroundings \<Rightarrow> Actor \<Rightarrow> string option \<Rightarrow> string \<Rightarrow> response api" where
  "post_resume W E actor header reason =
     ap_bind (ap_result (idempotency_key W header)) (\<lambda>key.
     ap_then (ap_result (validate_reason reason))
     (mutation W E actor key ''control.resume'' (json_of_reason reason)
       (ap_then (ap_coord (resume_idempotent E (ac_id actor) key reason))
         (ap_bind service_mode (\<lambda>mode.
          ap_return (accepted (JObj [(''state'', JStr ''READY''), (''mode'', JStr (mode_text mode))])))))))"

definition post_reconcile :: "http_library \<Rightarrow> surroundings \<Rightarrow> Actor \<Rightarrow> string option \<Rightarrow> response api" where
  "post_reconcile W E actor header =
     ap_bind (ap_result (idempotency_key W header)) (\<lambda>key.
     mutation W E actor key ''reconciliation'' (JObj [])
       (with_permit
         (ap_bind (ap_coord (admit_reconciliation E (ac_id actor) key ''operator'')) (\<lambda>rid.
          ap_bind service_mode (\<lambda>mode.
          ap_then (ap_spawn (ReconciliationTask rid))
            (ap_return (accepted (JObj [(''id'', JUuid rid), (''mode'', JStr (mode_text mode))]))))))))"

definition create_backup :: "http_library \<Rightarrow> surroundings \<Rightarrow> Actor \<Rightarrow> string option \<Rightarrow> response api" where
  "create_backup W E actor header =
     ap_bind (ap_result (idempotency_key W header)) (\<lambda>key.
     mutation W E actor key ''backup'' (JObj [])
       (with_permit
         (ap_bind (ap_store (co_tx E (\<lambda>n. start_backup_inner (su_hash E) (Some (ac_id actor, key, JObj []))
              (su_fresh E n 0) (su_now E n)))) (\<lambda>backup.
          ap_bind service_mode (\<lambda>mode.
          ap_then (ap_spawn (BackupTask (bu_id backup)))
            (ap_return (accepted (JObj [(''id'', JUuid (bu_id backup)), (''state'', JStr ''RUNNING''),
               (''mode'', JStr (mode_text mode))]))))))))"

text \<open>A spawned task, with what the file part of a backup produces; its permit is given back at the end.\<close>

definition backup_task :: "surroundings \<Rightarrow> (nat \<Rightarrow> (string, backup_files) res) \<Rightarrow> uuid \<Rightarrow> coordinator \<Rightarrow> coordinator" where
  "backup_task E files bid c =
     (let n = co_calls c
      in tick (c\<lparr>co_store := snd (run_backup bid (files n) (su_now E n) (su_before E n (co_store c)))\<rparr>))"

definition run_task :: "surroundings \<Rightarrow> (nat \<Rightarrow> (string, backup_files) res) \<Rightarrow> task \<Rightarrow> coordinator \<Rightarrow> coordinator" where
  "run_task E files t c = release_slot (case t of
     CancellationTask cid targets \<Rightarrow> snd (spawned_cancellation E cid targets c)
   | ReconciliationTask rid \<Rightarrow> snd (spawned_reconciliation E rid c)
   | BackupTask bid \<Rightarrow> backup_task E files bid c)"

section \<open>Reads\<close>

definition get_liveness :: "response api" where
  "get_liveness = ap_return (json_response 200 (JObj [(''status'', JStr ''live'')]))"

definition get_openapi :: "response api" where
  "get_openapi = (\<lambda>a. case openapi_document of Ok v \<Rightarrow> (Ok (json_response 200 v), a) | _ \<Rightarrow> (Panic, a))"

definition get_readiness :: "surroundings \<Rightarrow> response api" where
  "get_readiness E = ap_bind (ap_store (co_try (co_read E service_state))) (\<lambda>r. ap_return (case r of
     Ok (Ready, _, _) \<Rightarrow> json_response 200 (JObj [(''status'', JStr ''ready'')])
   | _ \<Rightarrow> json_response 503 (JObj [(''status'', JStr ''not_ready'')])))"

definition control_state_response :: "surroundings \<Rightarrow> response api" where
  "control_state_response E = ap_bind (ap_store (co_read E service_state)) (\<lambda>(state, reason, updated_at).
     ap_bind service_mode (\<lambda>mode.
     ap_return (json_response 200 (JObj [(''state'', JStr (service_state_text state)), (''reason'', JStr reason),
       (''updated_at'', JTime updated_at), (''mode'', JStr (mode_text mode))]))))"

definition get_resource :: "surroundings \<Rightarrow> ('a \<Rightarrow> json) \<Rightarrow> (Store \<Rightarrow> 'a tx) \<Rightarrow> response api" where
  "get_resource E f query = ap_bind (ap_store (co_read E query)) (\<lambda>x. ap_return (json_response 200 (f x)))"

definition list_resources ::
  "http_library \<Rightarrow> surroundings \<Rightarrow> nat \<Rightarrow> string option \<Rightarrow> ('a \<Rightarrow> ResourceCursor) \<Rightarrow> ('a \<Rightarrow> json)
     \<Rightarrow> (nat \<Rightarrow> ResourceCursor option \<Rightarrow> Store \<Rightarrow> 'a list) \<Rightarrow> response api" where
  "list_resources W E requested cursor cursor_for f query =
     ap_bind (ap_result (validate_limit requested)) (\<lambda>limit.
     ap_bind (ap_result (decode_cursor W cursor)) (\<lambda>after.
     ap_bind (ap_store (co_read E (\<lambda>db. Ok (query limit after db)))) (\<lambda>rows.
     ap_return (json_response 200 (json_of_page f (list_page W limit cursor_for rows))))))"

definition list_intents_response :: "http_library \<Rightarrow> surroundings \<Rightarrow> IntentListQuery \<Rightarrow> response api" where
  "list_intents_response W E q = list_resources W E (iq_limit q) (iq_cursor q)
     (\<lambda>r. (in_created_at r, in_id r)) json_of_intent
     (\<lambda>limit. list_intents_page limit (iq_state q) (iq_condition_id q) (iq_created_after q))"

definition list_orders_response :: "http_library \<Rightarrow> surroundings \<Rightarrow> OrderListQuery \<Rightarrow> response api" where
  "list_orders_response W E q = list_resources W E (oq_limit q) (oq_cursor q)
     (\<lambda>r. (or_created_at r, or_id r)) json_of_order
     (\<lambda>limit. list_orders_page limit (oq_state q) (oq_condition_id q) (oq_token_id q))"

definition list_trades_response :: "http_library \<Rightarrow> surroundings \<Rightarrow> TradeListQuery \<Rightarrow> response api" where
  "list_trades_response W E q = list_resources W E (tq_limit q) (tq_cursor q)
     (\<lambda>r. (tr_created_at r, tr_id r)) json_of_trade
     (\<lambda>limit. list_trades_page limit (tq_status q) (tq_condition_id q) (tq_token_id q))"

section \<open>The event stream\<close>

text \<open>\<open>str::parse\<close> of an \<open>i64\<close>.\<close>

fun digits_value :: "string \<Rightarrow> int \<Rightarrow> int option" where
  "digits_value [] acc = Some acc"
| "digits_value (c # s) acc = (if ascii_digit c then digits_value s (acc * 10 + int (byte c - 48)) else None)"

definition unsigned_value :: "string \<Rightarrow> int option" where
  "unsigned_value s = (if s = [] then None else digits_value s 0)"

definition parse_i64 :: "string \<Rightarrow> int option" where
  "parse_i64 s =
     (let v = (case s of [] \<Rightarrow> None
        | c # rest \<Rightarrow> if c = CHR ''-'' then map_option uminus (unsigned_value rest)
                      else if c = CHR ''+'' then unsigned_value rest else unsigned_value s)
      in case v of None \<Rightarrow> None | Some n \<Rightarrow> if - (2 ^ 63) \<le> n \<and> n \<le> i64_max then Some n else None)"

definition event_cursor_outside_retention :: "int \<Rightarrow> int option \<Rightarrow> int option \<Rightarrow> bool" where
  "event_cursor_outside_retention after minimum maximum \<longleftrightarrow> after > 0
     \<and> ((case minimum of None \<Rightarrow> False | Some m \<Rightarrow> after < i64_saturating_sub m 1)
        \<or> (case maximum of None \<Rightarrow> True | Some m \<Rightarrow> after > m))"

definition event_replay_truncated :: "bool \<Rightarrow> int option \<Rightarrow> int \<Rightarrow> bool" where
  "event_replay_truncated outside maximum watermark \<longleftrightarrow>
     \<not> outside \<and> (case maximum of None \<Rightarrow> False | Some m \<Rightarrow> watermark < m)"

definition last_event_id :: "http_library \<Rightarrow> string option \<Rightarrow> (ApiError, int) res" where
  "last_event_id W header = (case header of None \<Rightarrow> Ok 0
   | Some value \<Rightarrow> ok_or (api_error 400 ''INVALID_EVENT_CURSOR'' ''Last-Event-ID must be a non-negative integer'' False)
       (case hl_header_text W value of None \<Rightarrow> None
        | Some text \<Rightarrow> (case parse_i64 text of None \<Rightarrow> None | Some n \<Rightarrow> if n \<ge> 0 then Some n else None)))"

text \<open>The part of the handler after the bounds and the replay were read.\<close>

definition plan_stream ::
  "nat \<Rightarrow> int \<Rightarrow> int option \<times> int option \<Rightarrow> ExecutionEvent list \<Rightarrow> event_stream" where
  "plan_stream position after bounds replay =
     (let maximum = snd bounds;
          outside = event_cursor_outside_retention after (fst bounds) maximum;
          replay_watermark = (if replay = [] then after else ev_sequence (last replay));
          truncated = event_replay_truncated outside maximum replay_watermark;
          reset_reason = (if outside then Some ''cursor_outside_retention''
                          else if truncated then Some ''replay_limit_exceeded'' else None)
      in \<lparr>es_position = position, es_reset = reset_reason,
          es_replay = (if truncated then [] else replay),
          es_watermark = (if reset_reason \<noteq> None then coalesce maximum after else replay_watermark)\<rparr>)"

definition get_events :: "http_library \<Rightarrow> surroundings \<Rightarrow> string option \<Rightarrow> response api" where
  "get_events W E header =
     ap_bind (ap_store (co_read E (\<lambda>db. Ok (length (st_sent db))))) (\<lambda>position.
     ap_bind (ap_result (last_event_id W header)) (\<lambda>after.
     ap_bind (ap_store (co_read E (\<lambda>db. Ok (event_sequence_bounds db)))) (\<lambda>bounds.
     ap_bind (if event_cursor_outside_retention after (fst bounds) (snd bounds) then ap_return []
              else ap_store (co_read E (\<lambda>db. Ok (replay_events after 10000 db)))) (\<lambda>replay.
     ap_return \<lparr>re_status = 200, re_body = EventBody (plan_stream position after bounds replay), re_retry_after = None\<rparr>))))"

text \<open>What the client receives: \<open>Lagged\<close> is the receiver's report that it was overtaken.\<close>

datatype received = Received ExecutionEvent | Lagged

datatype sse_item = SseReset string | SseEvent ExecutionEvent

definition live_item :: "int \<Rightarrow> received \<Rightarrow> sse_item option" where
  "live_item watermark r = (case r of
     Received e \<Rightarrow> if ev_sequence e > watermark then Some (SseEvent e) else None
   | Lagged \<Rightarrow> Some (SseReset ''client_lagged''))"

definition stream_items :: "event_stream \<Rightarrow> received list \<Rightarrow> sse_item list" where
  "stream_items s live =
     (case es_reset s of None \<Rightarrow> [] | Some reason \<Rightarrow> [SseReset reason])
     @ map SseEvent (es_replay s) @ List.map_filter (live_item (es_watermark s)) live"

fun json_of_resource :: "resource \<Rightarrow> json" where
  "json_of_resource (RUuid u) = JUuid u"
| "json_of_resource (RText s) = JStr s"

text \<open>The id, the event name and the data of one item.\<close>

fun sse_event :: "sse_item \<Rightarrow> int option \<times> string \<times> json" where
  "sse_event (SseReset reason) =
     (None, ''reset'', JObj [(''reason'', JStr reason), (''action'', JStr ''query_resources'')])"
| "sse_event (SseEvent e) =
     (Some (ev_sequence e), ev_type e, JObj
       [(''sequence'', JInt (ev_sequence e)), (''mode'', JStr (mode_text (ev_mode e))),
        (''resource_type'', JStr (ev_resource_type e)), (''resource_id'', json_of_resource (ev_resource_id e)),
        (''created_at'', JTime (ev_created_at e)), (''payload'', ev_payload e)])"

section \<open>The router\<close>

fun endpoint_route :: "endpoint \<Rightarrow> Method \<times> string" where
  "endpoint_route GetLiveness = (GET, ''/health/live'')"
| "endpoint_route GetReadiness = (GET, ''/health/ready'')"
| "endpoint_route GetOpenapi = (GET, ''/v1/openapi.json'')"
| "endpoint_route PostIntent = (POST, ''/v1/intents'')"
| "endpoint_route (GetIntents q) = (GET, ''/v1/intents'')"
| "endpoint_route (GetIntent i) = (GET, ''/v1/intents/{intent_id}'')"
| "endpoint_route (GetOrders q2) = (GET, ''/v1/orders'')"
| "endpoint_route (GetOrder i) = (GET, ''/v1/orders/{order_id}'')"
| "endpoint_route (GetTrades q3) = (GET, ''/v1/trades'')"
| "endpoint_route GetPositions = (GET, ''/v1/positions'')"
| "endpoint_route PostCancellation = (POST, ''/v1/cancellations'')"
| "endpoint_route (GetCancellation i) = (GET, ''/v1/cancellations/{cancellation_id}'')"
| "endpoint_route GetControlState = (GET, ''/v1/control/state'')"
| "endpoint_route PostHalt = (POST, ''/v1/control/halt'')"
| "endpoint_route PostResume = (POST, ''/v1/control/resume'')"
| "endpoint_route PostReconciliation = (POST, ''/v1/reconciliations'')"
| "endpoint_route (GetReconciliation i) = (GET, ''/v1/reconciliations/{reconciliation_id}'')"
| "endpoint_route GetEvents = (GET, ''/v1/events'')"
| "endpoint_route PostBackup = (POST, ''/v1/backups'')"
| "endpoint_route (GetBackup i) = (GET, ''/v1/backups/{backup_id}'')"

definition is_public :: "endpoint \<Rightarrow> bool" where
  "is_public ep \<longleftrightarrow> ep \<in> {GetLiveness, GetReadiness, GetOpenapi}"

definition handle :: "http_library \<Rightarrow> surroundings \<Rightarrow> endpoint \<Rightarrow> Actor \<Rightarrow> http_request \<Rightarrow> response api" where
  "handle W E ep actor rq = (case ep of
     GetLiveness \<Rightarrow> get_liveness
   | GetReadiness \<Rightarrow> get_readiness E
   | GetOpenapi \<Rightarrow> get_openapi
   | PostIntent \<Rightarrow> ap_bind (strict_json W request_of_json (hq_body rq)) (submit_intent W E actor (hq_idempotency_key rq))
   | GetIntents q \<Rightarrow> list_intents_response W E q
   | GetIntent i \<Rightarrow> get_resource E json_of_intent (get_intent i)
   | GetOrders q \<Rightarrow> list_orders_response W E q
   | GetOrder i \<Rightarrow> get_resource E json_of_order (get_order i)
   | GetTrades q \<Rightarrow> list_trades_response W E q
   | GetPositions \<Rightarrow> get_resource E (\<lambda>rs. JArr (map json_of_position rs)) (\<lambda>db. Ok (list_positions db))
   | PostCancellation \<Rightarrow> ap_bind (strict_json W cancellation_of_json (hq_body rq)) (cancel W E actor (hq_idempotency_key rq))
   | GetCancellation i \<Rightarrow> get_resource E json_of_cancellation_record (get_cancellation i)
   | GetControlState \<Rightarrow> control_state_response E
   | PostHalt \<Rightarrow> ap_bind (strict_json W reason_of_json (hq_body rq)) (post_halt W E actor (hq_idempotency_key rq))
   | PostResume \<Rightarrow> ap_bind (strict_json W reason_of_json (hq_body rq)) (post_resume W E actor (hq_idempotency_key rq))
   | PostReconciliation \<Rightarrow> post_reconcile W E actor (hq_idempotency_key rq)
   | GetReconciliation i \<Rightarrow> get_resource E json_of_run (get_reconciliation i)
   | GetEvents \<Rightarrow> get_events W E (hq_last_event_id rq)
   | PostBackup \<Rightarrow> create_backup W E actor (hq_idempotency_key rq)
   | GetBackup i \<Rightarrow> get_resource E json_of_backup (get_backup i))"

text \<open>
  One request: the middleware of the protected routes, then the handler, an error turned into its
  envelope.  \<open>None\<close> is what the router answers itself, or the task of the connection panicking.
\<close>

definition answer :: "uuid \<Rightarrow> (ApiError, response) res \<Rightarrow> response option" where
  "answer correlation r = (case r of Ok x \<Rightarrow> Some x | Err e \<Rightarrow> Some (error_response correlation e) | Panic \<Rightarrow> None)"

definition no_actor :: Actor where
  "no_actor = \<lparr>ac_id = [], ac_scopes = {}\<rparr>"

definition serve :: "http_library \<Rightarrow> surroundings \<Rightarrow> AuthRegistry \<Rightarrow> uuid \<Rightarrow> http_request \<Rightarrow> service \<Rightarrow> response option \<times> service" where
  "serve W E registry correlation rq a = (case hl_route W rq of
     None \<Rightarrow> (None, a)
   | Some ep \<Rightarrow>
       if is_public ep
       then (case handle W E ep no_actor rq a of (r, a') \<Rightarrow> (answer correlation r, a'))
       else (case require_auth (hl_sha W) (hl_header_text W) registry correlation (hq_method rq) (hq_path rq) (hq_authorization rq) of
               Ok actor \<Rightarrow> (case handle W E ep actor rq a of (r, a') \<Rightarrow> (answer correlation r, a'))
             | Err failure \<Rightarrow> (Some (auth_response failure), a)
             | Panic \<Rightarrow> (None, a)))"

end
