(* ===== verification/PipelineTables.thy ===== *)
theory PipelineTables
  imports PaperLedger
begin

text \<open>
  What each transaction of the journal does to the four tables an order passes through (intents,
  prepared orders, submission attempts, orders): an elimination rule per transaction that changes
  them, and that they are untouched for every other one.
\<close>

section \<open>What each transaction does to the pipeline tables\<close>

text \<open>The four tables an order passes through.\<close>

definition same_pipeline :: "Store \<Rightarrow> Store \<Rightarrow> bool" where
  "same_pipeline db db' \<longleftrightarrow> intents db' = intents db \<and> orders db' = orders db
     \<and> prepared_orders db' = prepared_orders db \<and> submission_attempts db' = submission_attempts db"

lemma same_pipeline_refl [simp]: "same_pipeline db db"
  by (simp add: same_pipeline_def)

lemma same_pipeline_trans: "same_pipeline a b \<Longrightarrow> same_pipeline b c \<Longrightarrow> same_pipeline a c"
  by (simp add: same_pipeline_def)

lemma transition_intentE:
  assumes "transition_intent i e n rej now db = Ok (rec, db')"
  obtains f where "sql_count (\<lambda>r. in_id r = i \<and> in_state r = e) (intents db) = 1"
    "intents db' = sql_update (\<lambda>r. in_id r = i \<and> in_state r = e) f (intents db)"
    "\<And>r. in_id (f r) = in_id r" "\<And>r. in_state (f r) = n"
    "orders db' = orders db" "prepared_orders db' = prepared_orders db"
    "submission_attempts db' = submission_attempts db"
proof -
  let ?f = "\<lambda>r. r\<lparr>in_state := n, in_rejection_code := map_option fst rej,
              in_rejection_message := map_option snd rej, in_updated_at := now\<rparr>"
  show ?thesis
    by (rule that [of ?f]) (use assms in \<open>auto simp: transition_intent_def Let_def res_simps append_event_eq\<close>)
qed

lemma record_risk_decision_keeps:
  assumes "record_risk_decision i ap code ob pv did now db = Ok db'"
  shows "same_pipeline db db'"
  using assms by (auto simp: record_risk_decision_def res_simps same_pipeline_def dest!: insert_decision_Ok(1))

lemma evaluate_and_reserveE:
  assumes "evaluate_and_reserve_risk D i request market book policy did now db = Ok (d, db')"
  obtains f n where "n = (if rd_approved d then IntentState.Approved else IntentState.Rejected)"
    "sql_count (\<lambda>r. in_id r = i \<and> in_state r = IntentState.Validating) (intents db) = 1"
    "intents db' = sql_update (\<lambda>r. in_id r = i \<and> in_state r = IntentState.Validating) f (intents db)"
    "\<And>r. in_id (f r) = in_id r" "\<And>r. in_state (f r) = n"
    "orders db' = orders db" "prepared_orders db' = prepared_orders db"
    "submission_attempts db' = submission_attempts db"
proof (cases "rd_approved d")
  case True
  show ?thesis
    using assms True
    by (rule approvedE) (rule that [where f = "\<lambda>r. r\<lparr>in_state := IntentState.Approved, in_rejection_code := None,
          in_rejection_message := None, in_policy_version := Some (rd_policy_version d), in_updated_at := now\<rparr>"
          and n = IntentState.Approved], use True in simp_all)
next
  case False
  let ?f = "\<lambda>r. r\<lparr>in_state := IntentState.Rejected, in_rejection_code := Some (rd_reason_code d),
       in_rejection_message := Some (rd_message d), in_policy_version := Some (rd_policy_version d), in_updated_at := now\<rparr>"
  from assms False obtain e1 db1 e2 where
    1: "insert_decision did i (rd_approved d) (rd_reason_code d) (rd_observed d) (rd_policy_version d) now db = Ok (e1, db1)"
    and 2: "sql_count (\<lambda>r. in_id r = i \<and> in_state r = IntentState.Validating) (intents db1) = 1"
    and 3: "db' = send [e1, e2] (log_event e2 (db1\<lparr>intents :=
       sql_update (\<lambda>r. in_id r = i \<and> in_state r = IntentState.Validating) ?f (intents db1)\<rparr>))"
    unfolding evaluate_and_reserve_risk_def by (auto simp: res_simps Let_def append_event_eq)
  from insert_decision_Ok(1) [OF 1] obtain rows where "db1 = log_event e1 (db\<lparr>risk_decisions := rows\<rparr>)" ..
  with 2 3 False show ?thesis by (intro that [of IntentState.Rejected ?f]) auto
qed

lemma create_prepared_orderE:
  assumes "create_prepared_order D S intent request prepared pv fee pid aid oid now db = Ok (order, db')"
  obtains p a ord f where "pr_id p = pid" "pr_intent_id p = in_id intent"
    "sa_prepared_order_id a = pid" "sa_state a = ''PREPARED''"
    "or_id ord = oid" "or_intent_id ord = in_id intent" "or_state ord = OrderState.Prepared"
    "pid \<notin> pr_id ` set (prepared_orders db)" "oid \<notin> or_id ` set (orders db)"
    "prepared_orders db' = prepared_orders db @ [p]" "submission_attempts db' = submission_attempts db @ [a]"
    "orders db' = orders db @ [ord]"
    "sql_count (\<lambda>r. in_id r = in_id intent \<and> in_state r = IntentState.Preparing) (intents db) = 1"
    "intents db' = sql_update (\<lambda>r. in_id r = in_id intent \<and> in_state r = IntentState.Preparing) f (intents db)"
    "\<And>r. in_id (f r) = in_id r" "\<And>r. in_state (f r) = IntentState.Prepared"
proof -
  have x: "or_id (OrderRecord.extend x y) = or_id x" "or_intent_id (OrderRecord.extend x y) = or_intent_id x"
    "or_state (OrderRecord.extend x y) = or_state x" for x y
    by (simp_all add: OrderRecord.extend_def)
  from assms show ?thesis
    unfolding create_prepared_order_def Let_def insert_order_def
    apply (clarsimp simp: res_simps append_event_eq)
    apply (rule that [where f = "\<lambda>r. r\<lparr>in_state := IntentState.Prepared, in_updated_at := now\<rparr>"])
    by (auto simp: x list_ex_iff same_key_def)
qed

lemma reject_preparationE:
  assumes "reject_preparation i code msg now db = Ok db'"
  obtains f where "sql_count (\<lambda>r. in_id r = i \<and> in_state r = IntentState.Preparing) (intents db) = 1"
    "intents db' = sql_update (\<lambda>r. in_id r = i \<and> in_state r = IntentState.Preparing) f (intents db)"
    "\<And>r. in_id (f r) = in_id r" "\<And>r. in_state (f r) = IntentState.Rejected"
    "orders db' = orders db" "prepared_orders db' = prepared_orders db"
    "submission_attempts db' = submission_attempts db"
  by (rule that [of "\<lambda>r. r\<lparr>in_state := IntentState.Rejected, in_rejection_code := Some code,
           in_rejection_message := Some msg, in_updated_at := now\<rparr>"])
     (use assms in \<open>auto simp: reject_preparation_def Let_def append_event_eq split: if_split_asm\<close>)

lemma begin_submissionE:
  assumes "begin_submission i oid now db = Ok db'"
  obtains f g h A where "cs_state (control_state db) = ''READY''"
    "sql_count (\<lambda>r. in_id r = i \<and> in_state r = IntentState.Prepared) (intents db) = 1"
    "sql_count (\<lambda>r. or_id r = oid \<and> or_intent_id r = i \<and> or_state r = OrderState.Prepared) (orders db) = 1"
    "intents db' = sql_update (\<lambda>r. in_id r = i \<and> in_state r = IntentState.Prepared) f (intents db)"
    "\<And>r. in_id (f r) = in_id r" "\<And>r. in_state (f r) = IntentState.Submitting"
    "orders db' = sql_update (\<lambda>r. or_id r = oid \<and> or_intent_id r = i \<and> or_state r = OrderState.Prepared) g (orders db)"
    "\<And>r. or_id (g r) = or_id r" "\<And>r. or_intent_id (g r) = or_intent_id r" "\<And>r. or_state (g r) = OrderState.Submitting"
    "prepared_orders db' = prepared_orders db"
    "submission_attempts db' = sql_update A h (submission_attempts db)"
    "\<And>a. sa_prepared_order_id (h a) = sa_prepared_order_id a"
    "control_state db' = control_state db"
  by (rule that [of "\<lambda>r. r\<lparr>in_state := IntentState.Submitting, in_updated_at := now\<rparr>"
         "\<lambda>r. r\<lparr>or_state := OrderState.Submitting, or_updated_at := now\<rparr>"
         "\<lambda>a. Some (sa_prepared_order_id a) = prepared_for i db \<and> sa_state a = ''PREPARED''"
         "\<lambda>a. a\<lparr>sa_state := ''SUBMITTING'', sa_request_started_at := Some now, sa_updated_at := now\<rparr>"])
     (use assms in \<open>auto simp: begin_submission_def Let_def append_event_eq res_simps split: if_split_asm\<close>)

lemma apply_matched_fill_keeps:
  assumes "apply_matched_fill D U ord v filled fp ids tid now db = Ok (e, db')"
  shows "same_pipeline db db'" "control_state db' = control_state db" "risk_reservations db' = risk_reservations db"
  using assms
  by (auto simp: apply_matched_fill_def Let_def append_event_eq res_simps same_pipeline_def split: if_split_asm)

lemma evidence_state:
  assumes "validate_venue_order_evidence D orig st rem fil fp = Ok u"
  shows "st \<notin> {OrderState.Prepared, OrderState.Submitting, OrderState.CancelPending}"
  using assms by (auto simp: validate_venue_order_evidence_def res_simps split: if_split_asm)

lemma set_order_answer_fields [simp]:
  shows "or_id (set_order_answer D st v rem now r) = or_id r"
    and "or_intent_id (set_order_answer D st v rem now r) = or_intent_id r"
    and "or_state (set_order_answer D st v rem now r) = st"
  by (simp_all add: set_order_answer_def)

lemma finish_submissionE:
  assumes "finish_submission D U i oid ist ost v rc filled fp ids ev tid now db = Ok db'"
  obtains f g h A where "ist \<in> {IntentState.Submitted, IntentState.Unknown}"
    "ost \<notin> {OrderState.Prepared, OrderState.Submitting, OrderState.CancelPending}"
    "sql_count (\<lambda>r. in_id r = i \<and> in_state r = IntentState.Submitting) (intents db) = 1"
    "sql_count (\<lambda>r. or_id r = oid \<and> or_intent_id r = i \<and> or_state r = OrderState.Submitting) (orders db) = 1"
    "intents db' = sql_update (\<lambda>r. in_id r = i \<and> in_state r = IntentState.Submitting) f (intents db)"
    "\<And>r. in_id (f r) = in_id r" "\<And>r. in_state (f r) = ist"
    "orders db' = sql_update (\<lambda>r. or_id r = oid \<and> or_intent_id r = i \<and> or_state r = OrderState.Submitting) g (orders db)"
    "\<And>r. or_id (g r) = or_id r" "\<And>r. or_intent_id (g r) = or_intent_id r" "\<And>r. or_state (g r) = ost"
    "prepared_orders db' = prepared_orders db"
    "submission_attempts db' = sql_update A h (submission_attempts db)"
    "\<And>a. sa_prepared_order_id (h a) = sa_prepared_order_id a"
    "control_state db' = control_state db"
proof -
  define f where "f = (\<lambda>r::IntentRow. r\<lparr>in_state := ist, in_updated_at := now\<rparr>)"
  define db0 where "db0 rem = db\<lparr>intents := sql_update (\<lambda>r. in_id r = i \<and> in_state r = IntentState.Submitting) f (intents db),
       orders := sql_update (\<lambda>r. or_id r = oid \<and> or_intent_id r = i \<and> or_state r = OrderState.Submitting)
               (set_order_answer D ost v rem now) (orders db)\<rparr>" for rem
  define att where "att = (if ist = IntentState.Unknown then ''UNKNOWN''
                           else if ost = OrderState.Rejected then ''REJECTED'' else ''ACCEPTED'')"
  define fill where "fill prior rem = (if ist = IntentState.Submitted
      then apply_matched_fill D U (OrderRecord.truncate prior) v filled fp ids tid now (db0 rem)
      else Ok (None, db0 rem))" for prior :: OrderRow and rem
  from assms obtain prior :: OrderRow and orig rem u te db1 es e1 e2 tr where
    st: "ist \<in> {IntentState.Submitted, IntentState.Unknown}"
    and ev: "validate_venue_order_evidence D orig ost rem filled fp = Ok u"
    and cnt: "sql_count (\<lambda>r. in_id r = i \<and> in_state r = IntentState.Submitting) (intents db) = 1"
      "sql_count (\<lambda>r. or_id r = oid \<and> or_intent_id r = i \<and> or_state r = OrderState.Submitting) (orders db) = 1"
    and fill: "fill prior rem = Ok (te, db1)"
    and db': "db' = send es (log_event e2 (log_event e1 (db1\<lparr>submission_attempts :=
        sql_update (\<lambda>a. Some (sa_prepared_order_id a) = prepared_for i db1 \<and> sa_state a = ''SUBMITTING'')
          (\<lambda>a. a\<lparr>sa_state := att, sa_response_class := Some rc, sa_response_json := Some ev, sa_updated_at := now\<rparr>)
          (submission_attempts db1), order_transitions := tr\<rparr>)))"
    unfolding finish_submission_def Let_def f_def [symmetric] att_def [symmetric] db0_def [symmetric] fill_def [symmetric]
    by (auto simp: res_simps append_event_eq)
  from fill have "same_pipeline (db0 rem) db1" "control_state db1 = control_state db"
    by (auto simp: fill_def db0_def split: if_split_asm dest: apply_matched_fill_keeps)
  with db' show ?thesis
    by (intro that [OF st evidence_state [OF ev] cnt, where f = f and g = "set_order_answer D ost v rem now"
          and A = "\<lambda>a. Some (sa_prepared_order_id a) = prepared_for i db1 \<and> sa_state a = ''SUBMITTING''"
          and h = "\<lambda>a. a\<lparr>sa_state := att, sa_response_class := Some rc, sa_response_json := Some ev, sa_updated_at := now\<rparr>"])
       (auto simp: same_pipeline_def f_def db0_def)
qed

lemma resolve_unknown_submissionE:
  assumes "resolve_unknown_submission D U un v st rem filled fp ids ev tid now db = Ok db'"
  obtains (nothing) "st = OrderState.Unknown" "db' = db"
  | (resolved) f g h A where "st \<notin> {OrderState.Prepared, OrderState.Submitting, OrderState.CancelPending, OrderState.Unknown}"
    "intents db' = sql_update (\<lambda>r. in_id r = us_intent_id un \<and> in_state r = IntentState.Unknown) f (intents db)"
    "\<And>r. in_id (f r) = in_id r" "\<And>r. in_state (f r) = IntentState.Submitted"
    "orders db' = sql_update (\<lambda>r. or_id r = us_order_id un \<and> or_state r = OrderState.Unknown) g (orders db)"
    "\<And>r. or_id (g r) = or_id r" "\<And>r. or_intent_id (g r) = or_intent_id r" "\<And>r. or_state (g r) = st"
    "prepared_orders db' = prepared_orders db"
    "submission_attempts db' = sql_update A h (submission_attempts db)"
    "\<And>a. sa_prepared_order_id (h a) = sa_prepared_order_id a"
proof (cases "st = OrderState.Unknown")
  case True
  with assms have "db' = db" by (simp add: resolve_unknown_submission_def)
  with True show ?thesis by (rule nothing)
next
  case False
  define f where "f = (\<lambda>r::IntentRow. r\<lparr>in_state := IntentState.Submitted, in_updated_at := now\<rparr>)"
  define db0 where "db0 = db\<lparr>orders := sql_update (\<lambda>r. or_id r = us_order_id un \<and> or_state r = OrderState.Unknown)
               (set_order_answer D st (Some v) rem now) (orders db),
       intents := sql_update (\<lambda>r. in_id r = us_intent_id un \<and> in_state r = IntentState.Unknown) f (intents db)\<rparr>"
  from assms False obtain prior :: OrderRow and orig u te db1 es e1 e2 tr where
    ev: "validate_venue_order_evidence D orig st rem filled fp = Ok u"
    and fill: "apply_matched_fill D U (OrderRecord.truncate prior) (Some v) filled fp ids tid now db0 = Ok (te, db1)"
    and db': "db' = send es (log_event e2 (log_event e1 (db1\<lparr>submission_attempts :=
        sql_update (\<lambda>a. Some (sa_prepared_order_id a) = prepared_for (us_intent_id un) db1 \<and> sa_state a = ''UNKNOWN'')
          (\<lambda>a. a\<lparr>sa_state := ''RESOLVED'', sa_response_class := Some ''RECONCILED'', sa_response_json := Some ev, sa_updated_at := now\<rparr>)
          (submission_attempts db1), order_transitions := tr\<rparr>)))"
    unfolding resolve_unknown_submission_def Let_def f_def [symmetric] db0_def [symmetric]
    by (auto simp: res_simps append_event_eq)
  show ?thesis
    using evidence_state [OF ev] False db' apply_matched_fill_keeps(1) [OF fill]
    by (intro resolved [where f = f and g = "set_order_answer D st (Some v) rem now"
          and A = "\<lambda>a. Some (sa_prepared_order_id a) = prepared_for (us_intent_id un) db1 \<and> sa_state a = ''UNKNOWN''"
          and h = "\<lambda>a. a\<lparr>sa_state := ''RESOLVED'', sa_response_class := Some ''RECONCILED'',
                     sa_response_json := Some ev, sa_updated_at := now\<rparr>"])
       (auto simp: same_pipeline_def db0_def f_def)
qed

lemma transition_orderE:
  assumes "transition_order oid n v ev now db = Ok (ord, db')"
  obtains (nothing) "db' = db"
  | (changed) prior f g P where "sql_find (\<lambda>r. or_id r = oid) (orders db) = Some prior"
    "valid_order_transition (or_state prior) n"
    "intents db' = sql_update P f (intents db)"
    "\<And>r. P r \<Longrightarrow> in_state r = IntentState.Unknown"
    "\<And>r. in_id (f r) = in_id r" "\<And>r. in_state (f r) = IntentState.Submitted"
    "orders db' = sql_update (\<lambda>r. or_id r = oid) g (orders db)"
    "\<And>r. or_id (g r) = or_id r" "\<And>r. or_intent_id (g r) = or_intent_id r" "\<And>r. or_state (g r) = n"
    "prepared_orders db' = prepared_orders db" "submission_attempts db' = submission_attempts db"
proof -
  from assms obtain prior where p: "sql_find (\<lambda>r. or_id r = oid) (orders db) = Some prior"
    by (auto simp: transition_order_def res_simps)
  let ?c = "or_state prior = OrderState.Unknown \<and> n \<in> {OrderState.Filled, OrderState.Cancelled, OrderState.Expired}"
  have none: "sql_update (\<lambda>_. False) f rows = rows" for f and rows :: "IntentRow list"
    by (simp add: sql_update_def)
  show ?thesis
  proof (cases "n = OrderState.CancelPending \<and> or_state prior \<in> terminal_states")
    case True
    with assms p have "db' = db" by (auto simp: transition_order_def)
    then show ?thesis by (rule nothing)
  next
    case False
    show ?thesis
      by (rule changed [OF p, where P = "\<lambda>r. ?c \<and> in_id r = or_intent_id prior \<and> in_state r = IntentState.Unknown"
             and f = "\<lambda>r. r\<lparr>in_state := IntentState.Submitted, in_updated_at := now\<rparr>"
             and g = "\<lambda>r. r\<lparr>or_state := n, or_venue_order_id := (case v of None \<Rightarrow> or_venue_order_id r | Some v \<Rightarrow> Some v),
                            or_updated_at := now\<rparr>"])
         (use assms p False in \<open>auto simp: transition_order_def Let_def res_simps append_event_eq none split: if_split_asm\<close>)
  qed
qed

lemma cancel_prepared_orderE:
  assumes "cancel_prepared_order oid ev now db = Ok (ord, db')"
  obtains prior f g h A where "sql_find (\<lambda>r. or_id r = oid \<and> or_state r = OrderState.Prepared) (orders db) = Some prior"
    "intents db' = sql_update (\<lambda>r. in_id r = or_intent_id prior \<and> in_state r = IntentState.Prepared) f (intents db)"
    "\<And>r. in_id (f r) = in_id r" "\<And>r. in_state (f r) = IntentState.Rejected"
    "orders db' = sql_update (\<lambda>r. or_id r = oid) g (orders db)"
    "\<And>r. or_id (g r) = or_id r" "\<And>r. or_intent_id (g r) = or_intent_id r" "\<And>r. or_state (g r) = OrderState.Cancelled"
    "prepared_orders db' = prepared_orders db"
    "submission_attempts db' = sql_update A h (submission_attempts db)"
    "\<And>a. sa_prepared_order_id (h a) = sa_prepared_order_id a"
proof -
  from assms obtain prior where p: "sql_find (\<lambda>r. or_id r = oid \<and> or_state r = OrderState.Prepared) (orders db) = Some prior"
    by (auto simp: cancel_prepared_order_def res_simps)
  show ?thesis
    by (rule that [OF p, where f = "\<lambda>r. r\<lparr>in_state := IntentState.Rejected,
              in_rejection_code := Some ''CANCELLED_BEFORE_SUBMISSION'',
              in_rejection_message := Some ''cancelled before venue submission'', in_updated_at := now\<rparr>"
           and g = "\<lambda>r. r\<lparr>or_state := OrderState.Cancelled, or_updated_at := now\<rparr>"
           and A = "\<lambda>a. Some (sa_prepared_order_id a) = prepared_for (or_intent_id prior) db \<and> sa_state a = ''PREPARED''"
           and h = "\<lambda>a. a\<lparr>sa_state := ''CANCELLED'', sa_response_class := Some ''CANCELLED_BEFORE_SUBMISSION'',
                          sa_response_json := Some ev, sa_updated_at := now\<rparr>"])
       (use assms p in \<open>auto simp: cancel_prepared_order_def Let_def res_simps append_event_eq\<close>)
qed

lemma reconcile_order_projectionE:
  assumes "reconcile_order_projection D U oid st rem tot fp ids ev tid now db = Ok db'"
  obtains (nothing) "db' = db"
  | (changed) prior n g where "sql_find (\<lambda>r. or_id r = oid) (orders db) = Some prior"
    "n \<notin> {OrderState.Prepared, OrderState.Submitting}"
    "n = OrderState.CancelPending \<longrightarrow> or_state prior = OrderState.CancelPending"
    "intents db' = intents db"
    "orders db' = sql_update (\<lambda>r. or_id r = oid) g (orders db)"
    "\<And>r. or_id (g r) = or_id r" "\<And>r. or_intent_id (g r) = or_intent_id r" "\<And>r. or_state (g r) = n"
    "prepared_orders db' = prepared_orders db" "submission_attempts db' = submission_attempts db"
proof -
  from assms obtain prior orig u where p: "sql_find (\<lambda>r. or_id r = oid) (orders db) = Some prior"
    and ev: "validate_venue_order_evidence D orig st rem tot fp = Ok u"
    by (auto simp: reconcile_order_projection_def res_simps)
  define n where "n = (if or_state prior = OrderState.CancelPending \<and> st \<in> {OrderState.Live, OrderState.PartiallyFilled}
       then OrderState.CancelPending else st)"
  define g where "g = (\<lambda>r::OrderRow. r\<lparr>or_state := n, or_remaining_quantity := d_norm D rem, or_updated_at := now\<rparr>)"
  define db0 where "db0 = db\<lparr>orders := sql_update (\<lambda>r. or_id r = oid) g (orders db)\<rparr>"
  have "db' = db \<or> (\<exists>delta te db1 es e tr. apply_matched_fill D U (OrderRecord.truncate prior) (or_venue_order_id prior)
           delta fp ids tid now db0 = Ok (te, db1)
        \<and> db' = send es (log_event e (db1\<lparr>order_transitions := tr\<rparr>)))"
    using assms p
    unfolding reconcile_order_projection_def Let_def
    apply (simp only: ok_or.simps rbind.simps n_def [symmetric] g_def [symmetric] db0_def [symmetric])
    apply (erule rbind_OkE, erule rbind_OkE, erule rbind_OkE, erule rbind_OkE)
    apply (erule if_ErrE, erule rbind_OkE)
    apply (simp split: if_split_asm)
    apply (erule rbind_OkE)
    apply (clarsimp simp: res_simps append_event_eq)
    apply blast
    done
  then show ?thesis
  proof (elim disjE exE conjE)
    assume "db' = db" then show ?thesis by (rule nothing)
  next
    fix delta te db1 es e tr
    assume fill: "apply_matched_fill D U (OrderRecord.truncate prior) (or_venue_order_id prior) delta fp ids tid now db0 = Ok (te, db1)"
      and db': "db' = send es (log_event e (db1\<lparr>order_transitions := tr\<rparr>))"
    show ?thesis
      using evidence_state [OF ev] db' apply_matched_fill_keeps(1) [OF fill]
      by (intro changed [OF p, where n = n and g = g]) (auto simp: same_pipeline_def db0_def g_def n_def)
  qed
qed

text \<open>Transactions that do not touch the pipeline tables.\<close>

lemma set_service_state_keeps:
  "set_service_state_inner H actor nxt reason idem expected aid cid now db = Ok db' \<Longrightarrow> same_pipeline db db'"
  by (auto simp: same_pipeline_def dest: set_service_state_innerD)

lemma record_venue_trade_finality_keeps:
  "record_venue_trade_finality oid vtid st ev now db = Ok (b, db') \<Longrightarrow> same_pipeline db db'"
  by (auto simp: record_venue_trade_finality_def same_pipeline_def Let_def append_event_eq
      split: option.splits if_split_asm)

lemma observed_position_loop_keeps:
  "observed_position_loop D now current obs seen acc = Ok (seen', evs', db') \<Longrightarrow> same_pipeline (snd acc) db'"
proof (induction obs arbitrary: seen acc)
  case (Cons x rest)
  obtain condition token shares where x: "x = (condition, token, shares)" by (cases x)
  obtain evs db where acc: "acc = (evs, db)" by (cases acc)
  from Cons.prems show ?case
    unfolding x acc
    by (auto simp: Let_def append_event_eq same_pipeline_def split: if_split_asm
          dest!: Cons.IH [unfolded same_pipeline_def])
qed simp

lemma vanished_position_loop_keeps:
  "same_pipeline (snd acc) (snd (vanished_position_loop now seen rows acc))"
  by (induction now seen rows acc rule: vanished_position_loop.induct)
     (auto simp: Let_def append_event_eq same_pipeline_def)

lemma reconcile_venue_positions_keeps:
  assumes "reconcile_venue_positions D obs now db = Ok db'"
  shows "same_pipeline db db'"
proof -
  from assms obtain cur seen evs db1 where l: "observed_position_loop D now cur obs [] ([], db) = Ok (seen, evs, db1)"
    and db': "db' = send (fst (vanished_position_loop now seen (sort_key fst cur) (evs, db1)))
       (snd (vanished_position_loop now seen (sort_key fst cur) (evs, db1)))"
    by (auto simp: reconcile_venue_positions_def res_simps Let_def case_prod_beta)
  from observed_position_loop_keeps [OF l] vanished_position_loop_keeps [of "(evs, db1)" now seen "sort_key fst cur"]
  show ?thesis by (simp add: db' same_pipeline_def)
qed

lemma create_cancellation_keeps:
  "create_cancellation_inner H actor request idem cid now db = Ok (x, db') \<Longrightarrow> same_pipeline db db'"
  by (auto simp: create_cancellation_inner_def Let_def res_simps append_event_eq same_pipeline_def split: option.splits)

lemma finish_cancellation_keeps:
  "finish_cancellation cid failed now db = Ok (x, db') \<Longrightarrow> same_pipeline db db'"
  by (auto simp: finish_cancellation_def Let_def res_simps append_event_eq same_pipeline_def split: if_split_asm)

lemma prune_events_keeps: "prune_events db = Ok (n, db') \<Longrightarrow> same_pipeline db db'"
  by (auto simp: prune_events_def Let_def same_pipeline_def split: if_split_asm)

lemma record_idempotent_response_keeps:
  "record_idempotent_response H a k op rid body st resp now db = Ok db' \<Longrightarrow> same_pipeline db db'"
  by (auto simp: record_idempotent_response_def Let_def res_simps same_pipeline_def split: if_split_asm)

lemma start_reconciliation_keeps:
  "start_reconciliation_inner H trigger idem rid now db = Ok (x, db') \<Longrightarrow> same_pipeline db db'"
  by (auto simp: start_reconciliation_inner_def Let_def res_simps append_event_eq same_pipeline_def split: option.splits)

lemma insert_finding_keeps: "insert_finding fid rid code det db = Ok db' \<Longrightarrow> same_pipeline db db'"
  by (auto simp: insert_finding_def res_simps same_pipeline_def)

lemma insert_findings_keeps: "insert_findings rid fs db = Ok db' \<Longrightarrow> same_pipeline db db'"
  by (induction rid fs db rule: insert_findings.induct)
     (auto simp: res_simps dest!: insert_finding_keeps intro: same_pipeline_trans)

lemma finish_reconciliation_keeps:
  assumes "finish_reconciliation fresh rid summary now db = Ok db'"
  shows "same_pipeline db db'"
proof -
  let ?db = "db\<lparr>reconciliation_runs := sql_update (\<lambda>r. rc_id r = rid)
                 (\<lambda>r. r\<lparr>rc_state := ''COMPLETE'', rc_summary_json := summary, rc_completed_at := Some now\<rparr>)
                 (reconciliation_runs db)\<rparr>"
  have "\<exists>db1. same_pipeline ?db db1 \<and> same_pipeline db1 db'"
    using assms unfolding finish_reconciliation_def Let_def
    apply (elim rbind_OkE)
    subgoal for db1
      by (intro exI [of _ db1])
         (auto simp: append_event_eq same_pipeline_def split: option.splits json.splits if_split_asm
            dest!: insert_findings_keeps)
    done
  then show ?thesis by (auto simp: same_pipeline_def)
qed

lemma fail_reconciliation_keeps:
  "fail_reconciliation rid err fid now db = Ok db' \<Longrightarrow> same_pipeline db db'"
  by (auto simp: fail_reconciliation_def Let_def res_simps append_event_eq same_pipeline_def dest!: insert_finding_keeps)

lemma fail_interrupted_loop_keeps:
  "fail_interrupted_loop now rows acc = Ok (evs', db') \<Longrightarrow> same_pipeline (snd acc) db'"
proof (induction rows arbitrary: acc)
  case (Cons x rest)
  obtain rid fid where x: "x = (rid, fid)" by (cases x)
  obtain evs db where acc: "acc = (evs, db)" by (cases acc)
  from Cons.prems show ?case
    unfolding x acc
    by (auto simp: Let_def append_event_eq same_pipeline_def res_simps
          dest!: Cons.IH [unfolded same_pipeline_def] insert_finding_keeps [unfolded same_pipeline_def])
qed simp

lemma fail_interrupted_reconciliations_keeps:
  "fail_interrupted_reconciliations fresh now db = Ok (n, db') \<Longrightarrow> same_pipeline db db'"
  by (auto simp: fail_interrupted_reconciliations_def Let_def res_simps same_pipeline_def
      dest!: fail_interrupted_loop_keeps)

lemma start_backup_keeps: "start_backup_inner H idem bid now db = Ok (x, db') \<Longrightarrow> same_pipeline db db'"
  by (auto simp: start_backup_inner_def Let_def res_simps append_event_eq same_pipeline_def split: option.splits)

lemma run_backup_keeps: "same_pipeline db (snd (run_backup bid outcome now db))"
  by (auto simp: run_backup_def complete_backup_def Let_def append_event_eq same_pipeline_def
      split: option.splits res.splits)

lemma fail_backup_loop_keeps: "same_pipeline (snd acc) (snd (fail_backup_loop now ids acc))"
  by (induction now ids acc rule: fail_backup_loop.induct)
     (auto simp: Let_def append_event_eq same_pipeline_def)

lemma fail_interrupted_backups_keeps: "same_pipeline db (snd (fail_interrupted_backups now db))"
  using fail_backup_loop_keeps [of "([], db)"]
  by (auto simp: fail_interrupted_backups_def Let_def case_prod_beta same_pipeline_def)

subsection \<open>The paper ledger\<close>

lemma insert_starting_positions_keeps: "insert_starting_positions D now ps db = Ok db' \<Longrightarrow> same_pipeline db db'"
proof (induction ps arbitrary: db)
  case (Cons p ps)
  from Cons.prems show ?case
    by (auto simp: res_simps same_pipeline_def split: if_split_asm dest!: Cons.IH)
qed simp

lemma initialize_paper_account_keeps:
  assumes "initialize_paper_account D H config now db = Ok db'"
  shows "same_pipeline db db'"
  using assms
  by (auto simp: initialize_paper_account_def Let_def res_simps append_event_eq same_pipeline_def
        split: if_split_asm option.splits dest!: insert_starting_positions_keeps)

lemma commit_paper_order_keeps:
  assumes "commit_paper_order D c now db = Ok (snap, db')"
  shows "same_pipeline db db'"
proof -
  from assms obtain found where "load_paper_order D (pc_venue_order_id c) db = Ok found"
    by (auto simp: commit_paper_order_def res_simps)
  with assms show ?thesis
    by (cases found) (auto simp: commit_paper_order_def Let_def res_simps append_event_eq same_pipeline_def save_ledger_def
        split: if_split_asm)
qed

lemma release_paper_order_keeps: "release_paper_order D row now db = Ok db' \<Longrightarrow> same_pipeline db db'"
  by (cases "sql_find (\<lambda>r. pi_token_id r = po_token_id row) (paper_inventory db)")
     (clarsimp simp: release_paper_order_def Let_def rbind_eq_Ok same_pipeline_def)+

lemma cancel_paper_order_keeps:
  assumes "cancel_paper_order D vid now db = Ok (snap, db')"
  shows "same_pipeline db db'"
  using assms
  by (clarsimp simp: cancel_paper_order_def Let_def rbind_eq_Ok append_event_eq split: if_split_asm)
     (auto simp: same_pipeline_def dest!: release_paper_order_keeps)

text \<open>
  A market trade moves the orders it fills among the states of an order that is at the venue, and
  changes nothing else of the pipeline.
\<close>

definition order_projected :: "OrderRow \<Rightarrow> OrderRow \<Rightarrow> bool" where
  "order_projected a b \<longleftrightarrow> or_id b = or_id a \<and> or_intent_id b = or_intent_id a
     \<and> (or_state b = or_state a
        \<or> {or_state a, or_state b} \<inter> {OrderState.Prepared, OrderState.Submitting} = {})"

definition orders_projected :: "Store \<Rightarrow> Store \<Rightarrow> bool" where
  "orders_projected db db' \<longleftrightarrow> intents db' = intents db \<and> prepared_orders db' = prepared_orders db
     \<and> submission_attempts db' = submission_attempts db \<and> list_all2 order_projected (orders db) (orders db')"

lemma order_projected_refl [simp]: "order_projected a a"
  by (simp add: order_projected_def)

lemma order_projected_trans: "order_projected a b \<Longrightarrow> order_projected b c \<Longrightarrow> order_projected a c"
  by (auto simp: order_projected_def)

lemma orders_projected_same: "same_pipeline db db' \<Longrightarrow> orders_projected db db'"
  by (simp add: orders_projected_def same_pipeline_def list.rel_refl)

lemma orders_projected_trans:
  assumes "orders_projected a b" "orders_projected b c"
  shows "orders_projected a c"
proof -
  have "list_all2 order_projected (orders a) (orders b)" "list_all2 order_projected (orders b) (orders c)"
    using assms by (simp_all add: orders_projected_def)
  then have "list_all2 order_projected (orders a) (orders c)"
    by (rule list_all2_trans [rotated]) (erule (1) order_projected_trans)
  with assms show ?thesis by (simp add: orders_projected_def)
qed

lemma orders_projected_update:
  assumes "\<And>r. r \<in> set (orders db) \<Longrightarrow> P r \<Longrightarrow> order_projected r (f r)"
  shows "orders_projected db (db\<lparr>orders := sql_update P f (orders db)\<rparr>)"
  using assms by (simp add: orders_projected_def sql_update_def list_all2_conv_all_nth)

lemma project_paper_fill_projects:
  assumes dist: "distinct (map or_id (orders db))"
    and run: "project_paper_fill D U t vid vtid st fill rem ev tid now db = Ok (es, db')"
    and st: "st \<in> {OrderState.Filled, OrderState.PartiallyFilled}"
  shows "orders_projected db db'"
proof (cases "sql_find (\<lambda>r. or_venue_order_id r = Some vid) (orders db)")
  case (Some core)
  show ?thesis
  proof (cases "or_state core \<in> {OrderState.Live, OrderState.PartiallyFilled, OrderState.CancelPending}")
    case True
    let ?n = "if or_state core = OrderState.CancelPending \<and> st \<noteq> OrderState.Filled then OrderState.CancelPending else st"
    let ?db = "db\<lparr>orders := sql_update (\<lambda>r. or_id r = or_id core) (\<lambda>r. r\<lparr>or_state := ?n,
        or_remaining_quantity := d_norm D rem, or_updated_at := now\<rparr>) (orders db)\<rparr>"
    have core: "core \<in> set (orders db)" using Some by (auto dest: sql_find_SomeD)
    have "orders_projected db ?db"
    proof (rule orders_projected_update)
      fix r assume "r \<in> set (orders db)" "or_id r = or_id core"
      then have "r = core" using key_unique [OF dist _ core] by blast
      with True st show "order_projected r (r\<lparr>or_state := ?n, or_remaining_quantity := d_norm D rem, or_updated_at := now\<rparr>)"
        by (auto simp: order_projected_def)
    qed
    moreover from run Some True obtain te db1 where
      "apply_matched_fill D U (OrderRecord.truncate core) (Some vid) fill (Some (mt_price t)) [vtid] tid now ?db = Ok (te, db1)"
      "same_pipeline db1 db'"
      unfolding project_paper_fill_def same_pipeline_def
      by (clarsimp simp: Let_def res_simps append_event_eq simp del: insert_iff)
    ultimately show ?thesis
      by (meson apply_matched_fill_keeps(1) orders_projected_same orders_projected_trans)
  qed (use run Some in \<open>auto simp: project_paper_fill_def orders_projected_same\<close>)
qed (use run in \<open>auto simp: project_paper_fill_def orders_projected_same\<close>)

lemma map_or_id_projected: "orders_projected db db' \<Longrightarrow> map or_id (orders db') = map or_id (orders db)"
  by (auto simp: orders_projected_def order_projected_def list_all2_conv_all_nth intro: nth_equalityI)

lemma orders_projected_log [simp]: "orders_projected db (log_event e db') \<longleftrightarrow> orders_projected db db'"
  by (simp add: orders_projected_def)

lemma orders_projected_send [simp]: "orders_projected db (send es db') \<longleftrightarrow> orders_projected db db'"
  by (simp add: orders_projected_def)

lemma orders_projected_save [simp]: "orders_projected db (save_ledger D token l now db') \<longleftrightarrow> orders_projected db db'"
  by (simp add: orders_projected_def save_ledger_def)

lemma fill_paper_order_projects:
  assumes dist: "distinct (map or_id (orders db))"
    and run: "fill_paper_order D U t now row tid lp rem fill l db = Ok (es, l', db')"
  shows "orders_projected db db'"
proof -
  have P: "orders_projected db db1"
    if "project_paper_fill D U t vid vtid (if c then OrderState.Filled else OrderState.PartiallyFilled) fill nr ev tid now
        (db\<lparr>paper_venue_orders := rows\<rparr>) = Ok (es1, db1)" for vid vtid c nr ev rows es1 db1
    using project_paper_fill_projects [OF _ that] dist by (simp add: orders_projected_def)
  from run show ?thesis
    by (clarsimp simp: fill_paper_order_def rbind_eq_Ok if_Err_eq_Ok Let_def append_event_eq) (erule P)
qed

lemma trade_through_loop_projects:
  "trade_through_loop D U t now work (m, n, evs, l, db) = Ok (n', evs', l', db')
    \<Longrightarrow> distinct (map or_id (orders db)) \<Longrightarrow> orders_projected db db'"
proof (induction work arbitrary: m n evs l db)
  case (Cons w work)
  obtain row tid where w: "w = (row, tid)" by (cases w)
  from Cons.prems(1) consider "db' = db"
    | "\<exists>m' n0 evs0 l0. trade_through_loop D U t now work (m', n0, evs0, l0, db) = Ok (n', evs', l', db')"
    | lp rem fill es l1 db1 where "fill_paper_order D U t now row tid lp rem fill l db = Ok (es, l1, db1)"
        "\<exists>m' n0 evs0. trade_through_loop D U t now work (m', n0, evs0, l1, db1) = Ok (n', evs', l', db')"
    by (auto simp: w res_simps Let_def split: if_split_asm) blast
  then show ?case
  proof cases
    case 3
    note p = fill_paper_order_projects [OF Cons.prems(2) 3(1)]
    have "distinct (map or_id (orders db1))" using map_or_id_projected [OF p] Cons.prems(2) by simp
    with 3(2) Cons.IH p show ?thesis by (meson orders_projected_trans)
  qed (use Cons.IH Cons.prems(2) in \<open>auto simp: orders_projected_same\<close>)
qed (simp add: orders_projected_same)

lemma apply_paper_trade_through_projects:
  assumes run: "apply_paper_trade_through D U t fresh now db = Ok (n, db')" and dist: "distinct (map or_id (orders db))"
  shows "orders_projected db db'"
proof -
  have P: "orders_projected db db2"
    if "trade_through_loop D U t now work (m, k, evs, l, db\<lparr>paper_market_events := rows\<rparr>) = Ok (n', evs', l', db2)"
    for work m k evs l rows n' evs' l' db2
    using trade_through_loop_projects [OF that] dist by (simp add: orders_projected_def)
  from run show ?thesis
    unfolding apply_paper_trade_through_def rbind_eq_Ok Let_def append_event_eq
    by (auto simp: rbind_eq_Ok orders_projected_same split: prod.splits if_split_asm dest!: P)
qed

end
