(* ===== verification/Pipeline.thy ===== *)
theory Pipeline
  imports PipelineTables
begin

text \<open>
  The transactions of the journal as one transition system: the step relation of all writes, with the
  intent transitions and the order reconciliation restricted to the calls \<open>src/src/execution.rs\<close>
  makes, and the invariant that ties the pipeline tables together.
\<close>

section \<open>The step relation\<close>

text \<open>The intent transitions of \<open>process_intent_inner\<close>, \<open>reject_received\<close> and \<open>reject_validating\<close>.\<close>

definition coordinator_transition :: "IntentState \<Rightarrow> IntentState \<Rightarrow> bool" where
  "coordinator_transition e n \<longleftrightarrow>
     (e, n) \<in> {(IntentState.Received, IntentState.Validating), (IntentState.Received, IntentState.Rejected),
               (IntentState.Validating, IntentState.Rejected), (IntentState.Approved, IntentState.Preparing)}"

text \<open>
  One committed write.  \<open>reconcile_started_inner\<close> reconciles only orders it read as LIVE,
  PARTIALLY_FILLED or CANCEL_PENDING, and no order goes back to PREPARED or SUBMITTING: the premise
  of \<open>reconcile\<close> is what remains true of the order when the transaction runs.
\<close>

inductive store_step :: "dec_ops \<Rightarrow> (json \<Rightarrow> string) \<Rightarrow> (string \<Rightarrow> string) \<Rightarrow> (uuid \<Rightarrow> string) \<Rightarrow> Store \<Rightarrow> Store \<Rightarrow> bool"
  for D H S U where
  admit: "admit_intent H a k request fresh now db = Ok (x, db') \<Longrightarrow> store_step D H S U db db'"
| idempotent: "record_idempotent_response H a k op rid body st resp now db = Ok db' \<Longrightarrow> store_step D H S U db db'"
| control: "set_service_state_inner H actor nxt reason idem expected aid cid now db = Ok db' \<Longrightarrow> store_step D H S U db db'"
| intent: "transition_intent i e n rej now db = Ok (r, db') \<Longrightarrow> coordinator_transition e n \<Longrightarrow> store_step D H S U db db'"
| decision: "record_risk_decision i ap code ob pv did now db = Ok db' \<Longrightarrow> store_step D H S U db db'"
| reserve: "evaluate_and_reserve_risk D i request market book policy did now db = Ok (d, db') \<Longrightarrow> store_step D H S U db db'"
| prepare: "create_prepared_order D S intent request prepared pv fee pid aid oid now db = Ok (ord, db') \<Longrightarrow> store_step D H S U db db'"
| reject: "reject_preparation i code msg now db = Ok db' \<Longrightarrow> store_step D H S U db db'"
| start: "begin_submission i oid now db = Ok db' \<Longrightarrow> store_step D H S U db db'"
| finish: "finish_submission D U i oid ist ost v rc filled fp ids ev tid now db = Ok db' \<Longrightarrow> store_step D H S U db db'"
| recover_interrupted: "recover_interrupted_submissions now db = Ok (m, db') \<Longrightarrow> store_step D H S U db db'"
| recover_pre: "recover_pre_submission_work U now db = Ok (is, db') \<Longrightarrow> store_step D H S U db db'"
| resolve: "resolve_unknown_submission D U un v st rem filled fp ids ev tid now db = Ok db' \<Longrightarrow> store_step D H S U db db'"
| order: "transition_order oid n v ev now db = Ok (ord, db') \<Longrightarrow> store_step D H S U db db'"
| cancel_prepared: "cancel_prepared_order oid ev now db = Ok (ord, db') \<Longrightarrow> store_step D H S U db db'"
| reconcile: "reconcile_order_projection D U oid st rem tot fp ids ev tid now db = Ok db'
     \<Longrightarrow> \<forall>r \<in> set (orders db). or_id r = oid \<longrightarrow> or_state r \<notin> {OrderState.Prepared, OrderState.Submitting}
     \<Longrightarrow> store_step D H S U db db'"
| finality: "record_venue_trade_finality oid vtid ts ev now db = Ok (b, db') \<Longrightarrow> store_step D H S U db db'"
| positions: "reconcile_venue_positions D obs now db = Ok db' \<Longrightarrow> store_step D H S U db db'"
| cancellation: "create_cancellation_inner H actor creq cidem cid now db = Ok (y, db') \<Longrightarrow> store_step D H S U db db'"
| cancelled: "finish_cancellation cid failed now db = Ok (z, db') \<Longrightarrow> store_step D H S U db db'"
| reconciliation: "start_reconciliation_inner H trigger ridem rid now db = Ok (w, db') \<Longrightarrow> store_step D H S U db db'"
| reconciled: "finish_reconciliation fresh_of rid summary now db = Ok db' \<Longrightarrow> store_step D H S U db db'"
| reconciliation_failed: "fail_reconciliation rid err fid now db = Ok db' \<Longrightarrow> store_step D H S U db db'"
| reconciliation_interrupted: "fail_interrupted_reconciliations fresh_of now db = Ok (m, db') \<Longrightarrow> store_step D H S U db db'"
| backup: "start_backup_inner H bidem bid now db = Ok (b', db') \<Longrightarrow> store_step D H S U db db'"
| backup_run: "run_backup bid outcome now db = (o', db') \<Longrightarrow> store_step D H S U db db'"
| backup_interrupted: "fail_interrupted_backups now db = (m, db') \<Longrightarrow> store_step D H S U db db'"
| prune: "prune_events db = Ok (m, db') \<Longrightarrow> store_step D H S U db db'"
| paper_account: "initialize_paper_account D H pconfig now db = Ok db' \<Longrightarrow> store_step D H S U db db'"
| paper_commit: "commit_paper_order D pc now db = Ok (snap, db') \<Longrightarrow> store_step D H S U db db'"
| paper_cancel: "cancel_paper_order D vid now db = Ok (snap, db') \<Longrightarrow> store_step D H S U db db'"
| paper_trade: "apply_paper_trade_through D U t fresh_of now db = Ok (m, db') \<Longrightarrow> store_step D H S U db db'"
| identity: "bind_identity cfg now db = Ok db' \<Longrightarrow> store_step D H S U db db'"

section \<open>The invariant\<close>

definition submitted_states :: "IntentState set" where
  "submitted_states = {IntentState.Submitting, IntentState.Submitted, IntentState.Unknown}"

text \<open>How the state of an intent and the state of its order go together.\<close>

definition linked :: "IntentState \<Rightarrow> OrderState \<Rightarrow> bool" where
  "linked s t \<longleftrightarrow> s \<in> {IntentState.Prepared, IntentState.Rejected} \<union> submitted_states
     \<and> (s = IntentState.Prepared \<longleftrightarrow> t = OrderState.Prepared)
     \<and> (s = IntentState.Submitting \<longleftrightarrow> t = OrderState.Submitting)"

definition pipeline_ok :: "Store \<Rightarrow> bool" where
  "pipeline_ok db \<longleftrightarrow>
     distinct (map in_id (intents db)) \<and> distinct (map or_id (orders db))
     \<and> distinct (map pr_id (prepared_orders db)) \<and> distinct (map or_intent_id (orders db))
     \<and> map pr_intent_id (prepared_orders db) = map or_intent_id (orders db)
     \<and> map sa_prepared_order_id (submission_attempts db) = map pr_id (prepared_orders db)
     \<and> (\<forall>ord \<in> set (orders db). \<exists>r \<in> set (intents db). in_id r = or_intent_id ord \<and> linked (in_state r) (or_state ord))"

lemma pipeline_ok_same: "pipeline_ok db \<Longrightarrow> same_pipeline db db' \<Longrightarrow> pipeline_ok db'"
  by (simp add: pipeline_ok_def same_pipeline_def)

lemma pipeline_ok_link:
  assumes "pipeline_ok db" "r \<in> set (intents db)" "ord \<in> set (orders db)" "in_id r = or_intent_id ord"
  shows "linked (in_state r) (or_state ord)"
proof -
  from assms obtain r' where "r' \<in> set (intents db)" "in_id r' = or_intent_id ord" "linked (in_state r') (or_state ord)"
    by (auto simp: pipeline_ok_def)
  moreover have "r' = r"
    using assms calculation by (intro key_unique [of in_id "intents db"]) (auto simp: pipeline_ok_def)
  ultimately show ?thesis by simp
qed

lemma pipeline_ok_order_unique:
  assumes "pipeline_ok db" "x \<in> set (orders db)" "y \<in> set (orders db)" "or_intent_id x = or_intent_id y"
  shows "x = y"
  using assms by (intro key_unique [of or_intent_id "orders db"]) (auto simp: pipeline_ok_def)

text \<open>The shape of every transaction that only updates rows: the links have to be re-established.\<close>

lemma pipeline_ok_update:
  assumes ok: "pipeline_ok db"
    and i: "intents db' = sql_update P f (intents db)" "\<And>r. in_id (f r) = in_id r"
    and od: "orders db' = sql_update Q g (orders db)" "\<And>r. or_id (g r) = or_id r" "\<And>r. or_intent_id (g r) = or_intent_id r"
    and p: "prepared_orders db' = prepared_orders db"
    and a: "map sa_prepared_order_id (submission_attempts db') = map sa_prepared_order_id (submission_attempts db)"
    and link: "\<And>r ord. r \<in> set (intents db) \<Longrightarrow> ord \<in> set (orders db) \<Longrightarrow> in_id r = or_intent_id ord
       \<Longrightarrow> linked (in_state r) (or_state ord)
       \<Longrightarrow> linked (in_state (if P r then f r else r)) (or_state (if Q ord then g ord else ord))"
  shows "pipeline_ok db'"
proof -
  have m: "map in_id (intents db') = map in_id (intents db)" "map or_id (orders db') = map or_id (orders db)"
    "map or_intent_id (orders db') = map or_intent_id (orders db)"
    using i od by (simp_all add: map_sql_update)
  have "\<exists>r \<in> set (intents db'). in_id r = or_intent_id ord \<and> linked (in_state r) (or_state ord)"
    if "ord \<in> set (orders db')" for ord
  proof -
    from that od obtain ord0 where ord0: "ord0 \<in> set (orders db)" "ord = (if Q ord0 then g ord0 else ord0)"
      by (auto elim: in_sql_updateE)
    with ok obtain r0 where r0: "r0 \<in> set (intents db)" "in_id r0 = or_intent_id ord0" "linked (in_state r0) (or_state ord0)"
      by (auto simp: pipeline_ok_def)
    have "(if P r0 then f r0 else r0) \<in> set (intents db')"
      using i r0 by (auto simp: set_sql_update)
    moreover have "in_id (if P r0 then f r0 else r0) = or_intent_id ord"
      using ord0 r0 i od by simp
    ultimately show ?thesis
      using link [OF r0(1) ord0(1) r0(2,3)] ord0(2) by blast
  qed
  with ok m p a show ?thesis by (simp add: pipeline_ok_def)
qed

lemma map_attempts_update:
  assumes "\<And>a. sa_prepared_order_id (h a) = sa_prepared_order_id a"
  shows "map sa_prepared_order_id (sql_update A h rows) = map sa_prepared_order_id rows"
  using assms by (simp add: map_sql_update)


lemma pipeline_ok_intents:
  assumes "pipeline_ok db" "intents db' = sql_update P f (intents db)" "\<And>r. in_id (f r) = in_id r"
    and "orders db' = orders db" "prepared_orders db' = prepared_orders db" "submission_attempts db' = submission_attempts db"
    and "\<And>r t. P r \<Longrightarrow> linked (in_state r) t \<Longrightarrow> linked (in_state (f r)) t"
  shows "pipeline_ok db'"
proof (rule pipeline_ok_update [OF assms(1-3)])
  show "orders db' = sql_update (\<lambda>_. False) id (orders db)" by (simp add: assms(4) sql_update_def)
qed (use assms in auto)

lemma pipeline_ok_admit:
  assumes ok: "pipeline_ok db" and a: "admit_intent H a k request fresh now db = Ok (x, db')"
  shows "pipeline_ok db'"
proof (cases x)
  case (Existing rc)
  with a have "db' = db"
    by (auto simp: admit_intent_def admit_new_def Let_def res_simps append_event_eq split: option.splits if_split_asm)
  with ok show ?thesis by simp
next
  case (Created rc)
  with a have a: "admit_intent H a k request fresh now db = Ok (Created rc, db')" by simp
  then show ?thesis
  proof (rule admit_createdE, goal_cases)
    case (1 event)
    have "orders db' = orders db" "prepared_orders db' = prepared_orders db" "submission_attempts db' = submission_attempts db"
      by (subst 1(9); simp)+
    moreover have "fresh \<notin> in_id ` set (intents db)"
      using 1(3,6) by (auto simp: list_ex_iff intent_conflict_def)
    ultimately show ?case
      using ok 1(3,4) by (auto simp: pipeline_ok_def)
  qed
qed

lemma pipeline_ok_intent:
  assumes "pipeline_ok db" "transition_intent i e n rej now db = Ok (r, db')" "coordinator_transition e n"
  shows "pipeline_ok db'"
  using assms(2)
proof (rule transition_intentE, goal_cases)
  case (1 f)
  show ?case
    by (rule pipeline_ok_intents [OF assms(1) 1(2,3,5,6,7)])
       (use 1(4) assms(3) in \<open>auto simp: coordinator_transition_def linked_def submitted_states_def\<close>)
qed

lemma pipeline_ok_reserve:
  assumes "pipeline_ok db" "evaluate_and_reserve_risk D i request market book policy did now db = Ok (d, db')"
  shows "pipeline_ok db'"
  using assms(2)
proof (rule evaluate_and_reserveE, goal_cases)
  case (1 f n)
  show ?case
    by (rule pipeline_ok_intents [OF assms(1) 1(3,4,6,7,8)]) (auto simp: linked_def submitted_states_def)
qed

lemma pipeline_ok_reject:
  assumes "pipeline_ok db" "reject_preparation i code msg now db = Ok db'"
  shows "pipeline_ok db'"
  using assms(2)
proof (rule reject_preparationE, goal_cases)
  case (1 f)
  show ?case
    by (rule pipeline_ok_intents [OF assms(1) 1(2,3,5,6,7)]) (auto simp: linked_def submitted_states_def)
qed

lemma sql_count_1_ex: "sql_count P rows = 1 \<Longrightarrow> \<exists>r \<in> set rows. P r"
  using sql_count_pos_iff [of P rows] by auto

lemma pipeline_ok_prepare:
  assumes ok: "pipeline_ok db"
    and c: "create_prepared_order D S intent request prepared pv fee pid aid oid now db = Ok (order, db')"
  shows "pipeline_ok db'"
  using c
proof (rule create_prepared_orderE, goal_cases)
  case (1 p a ord f)
  let ?i = "in_id intent"
  obtain r0 where r0: "r0 \<in> set (intents db)" "in_id r0 = ?i" "in_state r0 = IntentState.Preparing"
    using sql_count_1_ex [OF 1(13)] by auto
  have fresh: "or_intent_id x \<noteq> ?i" if "x \<in> set (orders db)" for x
    using pipeline_ok_link [OF ok r0(1) that] r0 by (auto simp: linked_def submitted_states_def)
  have m: "map in_id (intents db') = map in_id (intents db)" using 1(14,15) by (simp add: map_sql_update)
  have "f r0 \<in> set (intents db')" using 1(14) r0 by (auto simp: set_sql_update)
  then have new: "\<exists>r \<in> set (intents db'). in_id r = ?i \<and> linked (in_state r) OrderState.Prepared"
    by (rule rev_bexI) (simp add: 1 r0 linked_def submitted_states_def)
  have old: "\<exists>r \<in> set (intents db'). in_id r = or_intent_id x \<and> linked (in_state r) (or_state x)"
    if x: "x \<in> set (orders db)" for x
  proof -
    from ok x obtain r where r: "r \<in> set (intents db)" "in_id r = or_intent_id x" "linked (in_state r) (or_state x)"
      by (auto simp: pipeline_ok_def)
    with fresh [OF x] 1(14) have "r \<in> set (intents db')" by (force simp: set_sql_update)
    with r show ?thesis by blast
  qed
  have links: "\<forall>x \<in> set (orders db'). \<exists>r \<in> set (intents db'). in_id r = or_intent_id x \<and> linked (in_state r) (or_state x)"
    using new old 1(6,7,12) by auto
  have i: "?i \<notin> or_intent_id ` set (orders db)" by (rule notI, elim imageE, drule fresh, simp)
  show ?case
    using ok links i m 1(1-3,5,6,8-12) unfolding pipeline_ok_def by simp
qed

lemma pipeline_ok_begin:
  assumes ok: "pipeline_ok db" and c: "begin_submission i oid now db = Ok db'"
  shows "pipeline_ok db'"
  using c
proof (rule begin_submissionE, goal_cases)
  case (1 f g h A)
  obtain o0 where o0: "o0 \<in> set (orders db)" "or_id o0 = oid" "or_intent_id o0 = i"
    using sql_count_1_ex [OF 1(3)] by auto
  show ?case
  proof (rule pipeline_ok_update [OF ok 1(4,5,7,8,9,11)])
    fix r :: IntentRow and ord :: OrderRow
    assume "r \<in> set (intents db)" "ord \<in> set (orders db)" "in_id r = or_intent_id ord" "linked (in_state r) (or_state ord)"
    moreover have "or_intent_id ord = i \<Longrightarrow> ord = o0"
      using pipeline_ok_order_unique [OF ok _ o0(1)] calculation o0 by auto
    ultimately show "linked (in_state (if in_id r = i \<and> in_state r = IntentState.Prepared then f r else r))
        (or_state (if or_id ord = oid \<and> or_intent_id ord = i \<and> or_state ord = OrderState.Prepared then g ord else ord))"
      using 1(6,10) o0 by (auto simp: linked_def submitted_states_def)
  qed (use 1 in \<open>simp add: map_attempts_update\<close>)
qed

lemma pipeline_ok_finish:
  assumes ok: "pipeline_ok db" and c: "finish_submission D U i oid ist ost v rc filled fp ids ev tid now db = Ok db'"
  shows "pipeline_ok db'"
  using c
proof (rule finish_submissionE, goal_cases)
  case (1 f g h A)
  obtain o0 where o0: "o0 \<in> set (orders db)" "or_id o0 = oid" "or_intent_id o0 = i"
    using sql_count_1_ex [OF 1(4)] by auto
  show ?case
  proof (rule pipeline_ok_update [OF ok 1(5,6,8,9,10,12)])
    fix r :: IntentRow and ord :: OrderRow
    assume "r \<in> set (intents db)" "ord \<in> set (orders db)" "in_id r = or_intent_id ord" "linked (in_state r) (or_state ord)"
    moreover have "or_intent_id ord = i \<Longrightarrow> ord = o0"
      using pipeline_ok_order_unique [OF ok _ o0(1)] calculation o0 by auto
    ultimately show "linked (in_state (if in_id r = i \<and> in_state r = IntentState.Submitting then f r else r))
        (or_state (if or_id ord = oid \<and> or_intent_id ord = i \<and> or_state ord = OrderState.Submitting then g ord else ord))"
      using 1(1,2,7,11) o0 by (auto simp: linked_def submitted_states_def)
  qed (use 1 in \<open>simp add: map_attempts_update\<close>)
qed

lemma pipeline_ok_resolve:
  assumes ok: "pipeline_ok db" and c: "resolve_unknown_submission D U un v st rem filled fp ids ev tid now db = Ok db'"
  shows "pipeline_ok db'"
  using c
proof (cases rule: resolve_unknown_submissionE)
  case nothing
  with ok show ?thesis by simp
next
  case (resolved f g h A)
  show ?thesis
    by (rule pipeline_ok_update [OF ok resolved(2,3,5,6,7,9)])
       (use resolved in \<open>auto simp: linked_def submitted_states_def map_attempts_update\<close>)
qed

lemma pipeline_ok_order:
  assumes ok: "pipeline_ok db" and c: "transition_order oid n v ev now db = Ok (ord, db')"
  shows "pipeline_ok db'"
  using c
proof (cases rule: transition_orderE)
  case nothing
  with ok show ?thesis by simp
next
  case (changed prior f g P)
  from changed(1) have prior: "prior \<in> set (orders db)" "or_id prior = oid" by (auto dest: sql_find_SomeD)
  have uniq: "x = prior" if "x \<in> set (orders db)" "or_id x = oid" for x
    using ok that prior by (intro key_unique [of or_id "orders db"]) (auto simp: pipeline_ok_def)
  show ?thesis
  proof (rule pipeline_ok_update [OF ok changed(3,5,7,8,9,11)])
    fix r :: IntentRow and x :: OrderRow
    assume x: "x \<in> set (orders db)" and l: "linked (in_state r) (or_state x)"
    show "linked (in_state (if P r then f r else r)) (or_state (if or_id x = oid then g x else x))"
      using changed(2,4,6,10) uniq [OF x] l
      by (auto simp: linked_def submitted_states_def valid_order_transition_def)
  qed (simp add: changed)
qed

lemma pipeline_ok_cancel_prepared:
  assumes ok: "pipeline_ok db" and c: "cancel_prepared_order oid ev now db = Ok (ord, db')"
  shows "pipeline_ok db'"
  using c
proof (rule cancel_prepared_orderE, goal_cases)
  case (1 prior f g h A)
  from 1(1) have prior: "prior \<in> set (orders db)" "or_id prior = oid" "or_state prior = OrderState.Prepared"
    by (auto dest: sql_find_SomeD)
  have uniq: "x = prior" if "x \<in> set (orders db)" "or_id x = oid" for x
    using ok that prior by (intro key_unique [of or_id "orders db"]) (auto simp: pipeline_ok_def)
  have uniq': "x = prior" if "x \<in> set (orders db)" "or_intent_id x = or_intent_id prior" for x
    using pipeline_ok_order_unique [OF ok that(1) prior(1)] that by simp
  show ?case
  proof (rule pipeline_ok_update [OF ok 1(2,3,5,6,7,9)])
    fix r :: IntentRow and x :: OrderRow
    assume x: "x \<in> set (orders db)" "in_id r = or_intent_id x" and l: "linked (in_state r) (or_state x)"
    show "linked (in_state (if in_id r = or_intent_id prior \<and> in_state r = IntentState.Prepared then f r else r))
        (or_state (if or_id x = oid then g x else x))"
      using 1(4,8) uniq [OF x(1)] uniq' [OF x(1)] l prior x(2)
      by (auto simp: linked_def submitted_states_def)
  qed (use 1 in \<open>simp add: map_attempts_update\<close>)
qed

lemma pipeline_ok_reconcile:
  assumes ok: "pipeline_ok db" and c: "reconcile_order_projection D U oid st rem tot fp ids ev tid now db = Ok db'"
    and active: "\<forall>r \<in> set (orders db). or_id r = oid \<longrightarrow> or_state r \<notin> {OrderState.Prepared, OrderState.Submitting}"
  shows "pipeline_ok db'"
  using c
proof (cases rule: reconcile_order_projectionE)
  case nothing
  with ok show ?thesis by simp
next
  case (changed prior n g)
  have i: "intents db' = sql_update (\<lambda>_. False) id (intents db)" by (simp add: changed sql_update_def)
  show ?thesis
    by (rule pipeline_ok_update [OF ok i _ changed(5,6,7,9)])
       (use changed active in \<open>auto simp: linked_def submitted_states_def\<close>)
qed


lemma pipeline_ok_projected:
  assumes "pipeline_ok db" "orders_projected db db'"
  shows "pipeline_ok db'"
proof -
  have all: "list_all2 order_projected (orders db) (orders db')" using assms(2) by (simp add: orders_projected_def)
  have "map or_intent_id (orders db') = map or_intent_id (orders db)"
    using all by (auto simp: order_projected_def list_all2_conv_all_nth intro: nth_equalityI)
  moreover have "\<exists>r \<in> set (intents db). in_id r = or_intent_id b \<and> linked (in_state r) (or_state b)"
    if "b \<in> set (orders db')" for b
  proof -
    from that all obtain a where a: "a \<in> set (orders db)" "order_projected a b"
      by (metis in_set_conv_nth list_all2_conv_all_nth)
    with assms(1) obtain r where "r \<in> set (intents db)" "in_id r = or_intent_id a" "linked (in_state r) (or_state a)"
      by (auto simp: pipeline_ok_def)
    with a(2) show ?thesis by (auto simp: order_projected_def linked_def submitted_states_def)
  qed
  ultimately show ?thesis
    using assms map_or_id_projected [OF assms(2)] by (simp add: pipeline_ok_def orders_projected_def)
qed

lemma pipeline_ok_paper_trade:
  assumes "pipeline_ok db" "apply_paper_trade_through D U t fresh now db = Ok (n, db')"
  shows "pipeline_ok db'"
  using pipeline_ok_projected [OF assms(1) apply_paper_trade_through_projects [OF assms(2)]] assms(1)
  by (simp add: pipeline_ok_def)

text \<open>One row of the restart recovery, then its loop: ids and links of intents and orders do not move.\<close>

definition order_keys :: "Store \<Rightarrow> (uuid \<times> uuid) list" where
  "order_keys db = map (\<lambda>r. (or_id r, or_intent_id r)) (orders db)"

lemma recover_interrupted_rowE:
  assumes "recover_interrupted_row now (oid, i, det) (evs, db) = Ok (evs', db')"
  obtains f g h A where
    "intents db' = sql_update (\<lambda>r. in_id r = i) f (intents db)"
    "\<And>r. in_id (f r) = in_id r" "\<And>r. in_state (f r) = IntentState.Unknown"
    "orders db' = sql_update (\<lambda>r. or_id r = oid) g (orders db)"
    "\<And>r. or_id (g r) = or_id r" "\<And>r. or_intent_id (g r) = or_intent_id r" "\<And>r. or_state (g r) = OrderState.Unknown"
    "prepared_orders db' = prepared_orders db"
    "submission_attempts db' = sql_update A h (submission_attempts db)"
    "\<And>a. sa_prepared_order_id (h a) = sa_prepared_order_id a"
    "risk_reservations db' = risk_reservations db"
  by (rule that [where f = "\<lambda>r. r\<lparr>in_state := IntentState.Unknown, in_updated_at := now\<rparr>"
        and g = "\<lambda>r. r\<lparr>or_state := OrderState.Unknown,
             or_venue_order_id := (case or_venue_order_id r of None \<Rightarrow> Some det | Some v \<Rightarrow> Some v), or_updated_at := now\<rparr>"
        and A = "\<lambda>a. Some (sa_prepared_order_id a) = prepared_for i db \<and> sa_state a = ''SUBMITTING''"
        and h = "\<lambda>a. a\<lparr>sa_state := ''UNKNOWN'', sa_response_class := Some ''PROCESS_INTERRUPTED'', sa_updated_at := now\<rparr>"])
     (use assms in \<open>auto simp: recover_interrupted_row_def Let_def res_simps append_event_eq\<close>)

lemma recover_interrupted_row_ok:
  assumes ok: "pipeline_ok db" and r: "recover_interrupted_row now (oid, i, det) (evs, db) = Ok (evs', db')"
    and key: "(oid, i) \<in> set (order_keys db)"
  shows "pipeline_ok db'" and "order_keys db' = order_keys db"
    and "\<And>r'. r' \<in> set (orders db') \<Longrightarrow> or_state r' = OrderState.Submitting
           \<Longrightarrow> r' \<in> set (orders db) \<and> or_id r' \<noteq> oid"
proof -
  obtain f g h A where 1:
    "intents db' = sql_update (\<lambda>r. in_id r = i) f (intents db)"
    "\<And>r. in_id (f r) = in_id r" "\<And>r. in_state (f r) = IntentState.Unknown"
    "orders db' = sql_update (\<lambda>r. or_id r = oid) g (orders db)"
    "\<And>r. or_id (g r) = or_id r" "\<And>r. or_intent_id (g r) = or_intent_id r" "\<And>r. or_state (g r) = OrderState.Unknown"
    "prepared_orders db' = prepared_orders db"
    "submission_attempts db' = sql_update A h (submission_attempts db)"
    "\<And>a. sa_prepared_order_id (h a) = sa_prepared_order_id a"
    using r by (rule recover_interrupted_rowE) (rule that)
  obtain o0 where o0: "o0 \<in> set (orders db)" "or_id o0 = oid" "or_intent_id o0 = i"
    using key by (auto simp: order_keys_def)
  show "pipeline_ok db'"
  proof (rule pipeline_ok_update [OF ok 1(1,2,4,5,6,8)])
    fix r :: IntentRow and x :: OrderRow
    assume x: "x \<in> set (orders db)" "in_id r = or_intent_id x" and l: "linked (in_state r) (or_state x)"
    have "or_id x = oid \<longleftrightarrow> or_intent_id x = i"
      using pipeline_ok_order_unique [OF ok x(1) o0(1)] o0 ok x(1)
      by (auto simp: pipeline_ok_def dest: key_unique [of or_id "orders db" x o0])
    then show "linked (in_state (if in_id r = i then f r else r)) (or_state (if or_id x = oid then g x else x))"
      using l x(2) 1(3,7) by (auto simp: linked_def submitted_states_def)
  qed (use 1 in \<open>simp add: map_attempts_update\<close>)
  show "order_keys db' = order_keys db"
    unfolding order_keys_def 1(4) by (rule map_sql_update) (simp add: 1)
  show "r' \<in> set (orders db) \<and> or_id r' \<noteq> oid"
    if "r' \<in> set (orders db')" "or_state r' = OrderState.Submitting" for r'
    using that 1(4,7) by (auto simp: set_sql_update split: if_split_asm)
qed

lemma recover_interrupted_loop_ok:
  assumes "recover_interrupted_loop now rows acc = Ok (evs', db')" "pipeline_ok (snd acc)"
    and "\<forall>(oid, i, det) \<in> set rows. (oid, i) \<in> set (order_keys (snd acc))"
  shows "pipeline_ok db' \<and> order_keys db' = order_keys (snd acc)
    \<and> (\<forall>r \<in> set (orders db'). or_state r = OrderState.Submitting
         \<longrightarrow> r \<in> set (orders (snd acc)) \<and> or_id r \<notin> fst ` set rows)"
  using assms
proof (induction rows arbitrary: acc)
  case (Cons row rows)
  obtain oid i det where row: "row = (oid, i, det)" by (cases row)
  obtain evs db where acc: "acc = (evs, db)" by (cases acc)
  from Cons.prems(1) obtain evs1 db1 where r: "recover_interrupted_row now (oid, i, det) (evs, db) = Ok (evs1, db1)"
    and rest: "recover_interrupted_loop now rows (evs1, db1) = Ok (evs', db')"
    by (auto simp: row acc elim!: rbind_OkE)
  from Cons.prems(2,3) have ok: "pipeline_ok db" and key: "(oid, i) \<in> set (order_keys db)" by (auto simp: acc row)
  note one = recover_interrupted_row_ok [OF ok r key]
  have "\<forall>(oid, i, det) \<in> set rows. (oid, i) \<in> set (order_keys db1)"
    using Cons.prems(3) one(2) by (auto simp: acc)
  with Cons.IH [OF rest] one(1) have ih: "pipeline_ok db' \<and> order_keys db' = order_keys db1
    \<and> (\<forall>r \<in> set (orders db'). or_state r = OrderState.Submitting
         \<longrightarrow> r \<in> set (orders db1) \<and> or_id r \<notin> fst ` set rows)" by simp
  then show ?case
    using one(2) one(3) by (fastforce simp: acc row)
qed simp

lemma interrupted_rows_keys: "\<forall>(oid, i, det) \<in> set (interrupted_rows db). (oid, i) \<in> set (order_keys db)"
  by (auto simp: interrupted_rows_def order_keys_def)

lemma recover_interrupted_ok:
  assumes ok: "pipeline_ok db" and r: "recover_interrupted_submissions now db = Ok (n, db')"
  shows "pipeline_ok db'" and "\<forall>x \<in> set (orders db'). or_state x \<noteq> OrderState.Submitting"
    and "order_keys db' = order_keys db"
proof -
  from r obtain evs db1 where l: "recover_interrupted_loop now (interrupted_rows db) ([], db) = Ok (evs, db1)"
    and db': "db' = send evs db1"
    by (auto simp: recover_interrupted_submissions_def Let_def elim!: rbind_OkE)
  from recover_interrupted_loop_ok [OF l] ok interrupted_rows_keys [of db]
  have 1: "pipeline_ok db1" "order_keys db1 = order_keys db"
    "\<forall>x \<in> set (orders db1). or_state x = OrderState.Submitting
         \<longrightarrow> x \<in> set (orders db) \<and> or_id x \<notin> fst ` set (interrupted_rows db)" by auto
  show "pipeline_ok db'" using 1(1) by (simp add: db' pipeline_ok_def)
  show "order_keys db' = order_keys db" using 1(2) by (simp add: db' order_keys_def)
  have "or_id x \<in> fst ` set (interrupted_rows db)"
    if x: "x \<in> set (orders db)" "or_state x = OrderState.Submitting" for x
  proof -
    from ok x(1) obtain r where r: "r \<in> set (intents db)" "in_id r = or_intent_id x" by (auto simp: pipeline_ok_def)
    from x(1) have "or_intent_id x \<in> set (map or_intent_id (orders db))" by simp
    with ok have "or_intent_id x \<in> set (map pr_intent_id (prepared_orders db))" by (simp add: pipeline_ok_def)
    then obtain p where "p \<in> set (prepared_orders db)" "pr_intent_id p = or_intent_id x" by auto
    with x r have "(or_id x, or_intent_id x, pr_deterministic_order_id p) \<in> set (interrupted_rows db)"
      by (auto simp: interrupted_rows_def)
    then show ?thesis by force
  qed
  with 1(3) show "\<forall>x \<in> set (orders db'). or_state x \<noteq> OrderState.Submitting" by (auto simp: db')
qed


lemma recover_pre_rowE:
  assumes "recover_pre_submission_row U now (i, state) (evs, db) = Ok (evs', db')"
  obtains (nothing) "db' = db" "evs' = evs"
  | (released) f where "state \<notin> {IntentState.Prepared, IntentState.Received}"
    "intents db' = sql_update (\<lambda>r. in_id r = i \<and> in_state r = state) f (intents db)"
    "\<And>r. in_id (f r) = in_id r" "\<And>r. in_state (f r) = IntentState.Received"
    "orders db' = orders db" "prepared_orders db' = prepared_orders db"
    "submission_attempts db' = submission_attempts db"
    "risk_reservations db' = sql_update (\<lambda>r. rv_intent_id r = i \<and> rv_state r = ''ACTIVE'')
       (\<lambda>r. r\<lparr>rv_state := ''RELEASED'', rv_updated_at := now\<rparr>) (risk_reservations db)"
proof (cases "state \<in> {IntentState.Prepared, IntentState.Received}")
  case True
  with assms have "db' = db" "evs' = evs"
    by (auto simp: recover_pre_submission_row_def split: if_split_asm)
  then show ?thesis by (rule nothing)
next
  case False
  show ?thesis
    by (rule released [OF False, where f = "\<lambda>r. r\<lparr>in_state := IntentState.Received, in_updated_at := now\<rparr>"])
       (use assms False in \<open>auto simp: recover_pre_submission_row_def Let_def append_event_eq split: if_split_asm\<close>)
qed

lemma recover_pre_loop_ok:
  assumes "recover_pre_submission_loop U now rows acc = Ok (evs', db')" "pipeline_ok (snd acc)"
    and "\<forall>(i, st) \<in> set rows. st \<in> set pre_submission_states"
  shows "pipeline_ok db'"
  using assms
proof (induction rows arbitrary: acc)
  case (Cons row rows)
  obtain i st where row: "row = (i, st)" by (cases row)
  obtain evs db where acc: "acc = (evs, db)" by (cases acc)
  from Cons.prems(1) obtain evs1 db1 where r: "recover_pre_submission_row U now (i, st) (evs, db) = Ok (evs1, db1)"
    and rest: "recover_pre_submission_loop U now rows (evs1, db1) = Ok (evs', db')"
    by (auto simp: row acc elim!: rbind_OkE)
  have ok: "pipeline_ok db" using Cons.prems(2) by (simp add: acc)
  have st: "st \<in> set pre_submission_states" using Cons.prems(3) by (simp add: row)
  from r have "pipeline_ok db1"
  proof (cases rule: recover_pre_rowE)
    case nothing then show ?thesis using ok by simp
  next
    case (released f)
    show ?thesis
      by (rule pipeline_ok_intents [OF ok released(2,3,5,6,7)])
         (use released(1) st in \<open>auto simp: linked_def submitted_states_def pre_submission_states_def\<close>)
  qed
  with Cons.IH [OF rest] Cons.prems(3) show ?case by simp
qed simp

lemma pre_submission_rows_states: "\<forall>(i, st) \<in> set (pre_submission_rows db). st \<in> set pre_submission_states"
  by (auto simp: pre_submission_rows_def)

lemma pipeline_ok_recover_pre:
  assumes "pipeline_ok db" "recover_pre_submission_work U now db = Ok (is, db')"
  shows "pipeline_ok db'"
proof -
  from assms(2) obtain evs db1 where l: "recover_pre_submission_loop U now (pre_submission_rows db) ([], db) = Ok (evs, db1)"
    and db': "db' = send evs db1"
    by (auto simp: recover_pre_submission_work_def Let_def elim!: rbind_OkE)
  from recover_pre_loop_ok [OF l] assms(1) pre_submission_rows_states show ?thesis
    by (simp add: db' pipeline_ok_def)
qed

lemma bind_identity_keeps: "bind_identity cfg now db = Ok db' \<Longrightarrow> same_pipeline db db'"
  by (auto simp: bind_identity_def same_pipeline_def split: option.splits if_split_asm)

lemmas step_keeps =
  record_idempotent_response_keeps set_service_state_keeps record_risk_decision_keeps
  record_venue_trade_finality_keeps reconcile_venue_positions_keeps create_cancellation_keeps
  finish_cancellation_keeps start_reconciliation_keeps finish_reconciliation_keeps
  fail_reconciliation_keeps fail_interrupted_reconciliations_keeps start_backup_keeps
  prune_events_keeps bind_identity_keeps initialize_paper_account_keeps commit_paper_order_keeps
  cancel_paper_order_keeps

lemma run_backup_keeps': "run_backup bid outcome now db = (x, db') \<Longrightarrow> same_pipeline db db'"
  using run_backup_keeps [of db bid outcome now] by simp

lemma fail_interrupted_backups_keeps': "fail_interrupted_backups now db = (x, db') \<Longrightarrow> same_pipeline db db'"
  using fail_interrupted_backups_keeps [of db now] by simp

lemmas ok_steps =
  pipeline_ok_admit pipeline_ok_intent pipeline_ok_reserve pipeline_ok_prepare pipeline_ok_reject
  pipeline_ok_begin pipeline_ok_finish recover_interrupted_ok(1) pipeline_ok_recover_pre pipeline_ok_resolve
  pipeline_ok_order pipeline_ok_cancel_prepared pipeline_ok_reconcile pipeline_ok_paper_trade

lemmas keep_steps = step_keeps run_backup_keeps' fail_interrupted_backups_keeps'

lemma step_pipeline_ok:
  assumes "pipeline_ok db" "store_step D H S U db db'"
  shows "pipeline_ok db'"
  using assms(2)
  by (cases rule: store_step.cases)
     (((rule ok_steps [OF assms(1)], assumption, assumption) | (rule ok_steps [OF assms(1)], assumption)
       | (rule pipeline_ok_same [OF assms(1)], rule keep_steps, assumption))+)


section \<open>Reachable stores\<close>

definition fresh_store :: "Store \<Rightarrow> bool" where
  "fresh_store db \<longleftrightarrow> (\<exists>m retention now. db = new_store m retention now)"

interpretation pipeline: invariant_system fresh_store "store_step D H S U" pipeline_ok for D H S U
proof unfold_locales
  show "pipeline_ok db" if "fresh_store db" for db
    using that by (auto simp: fresh_store_def new_store_def pipeline_ok_def)
  show "pipeline_ok db'" if "pipeline_ok db" "store_step D H S U db db'" for db db'
    using that by (rule step_pipeline_ok)
qed

end
