(* ===== verification/PipelineSafety.thy ===== *)
theory PipelineSafety
  imports Pipeline
begin

text \<open>
  What follows from the invariant of the pipeline: every intent follows one state machine, an intent
  is submitted at most once, restart recovery leaves nothing half submitted and keeps every order that
  may be at the venue counted as exposure.
\<close>

section \<open>The intent state machine\<close>

inductive intent_flow :: "IntentState \<Rightarrow> IntentState \<Rightarrow> bool" where
  "intent_flow s s"
| "intent_flow IntentState.Received IntentState.Validating"
| "intent_flow IntentState.Received IntentState.Rejected"
| "intent_flow IntentState.Validating IntentState.Approved"
| "intent_flow IntentState.Validating IntentState.Rejected"
| "intent_flow IntentState.Validating IntentState.Received"
| "intent_flow IntentState.Approved IntentState.Preparing"
| "intent_flow IntentState.Approved IntentState.Received"
| "intent_flow IntentState.Preparing IntentState.Prepared"
| "intent_flow IntentState.Preparing IntentState.Rejected"
| "intent_flow IntentState.Preparing IntentState.Received"
| "intent_flow IntentState.Prepared IntentState.Submitting"
| "intent_flow IntentState.Prepared IntentState.Rejected"
| "intent_flow IntentState.Submitting IntentState.Submitted"
| "intent_flow IntentState.Submitting IntentState.Unknown"
| "intent_flow IntentState.Unknown IntentState.Submitted"

inductive_cases intent_flow_submittedE: "intent_flow IntentState.Submitted s"
inductive_cases intent_flow_submittingE: "intent_flow IntentState.Submitting s"
inductive_cases intent_flow_unknownE: "intent_flow IntentState.Unknown s"
inductive_cases intent_flow_rejectedE: "intent_flow IntentState.Rejected s"

definition follows :: "(IntentState \<Rightarrow> IntentState \<Rightarrow> bool) \<Rightarrow> Store \<Rightarrow> Store \<Rightarrow> bool" where
  "follows R db db' \<longleftrightarrow>
     (\<forall>r \<in> set (intents db). \<exists>r' \<in> set (intents db'). in_id r' = in_id r \<and> R (in_state r) (in_state r'))"

lemma follows_same: "same_pipeline db db' \<Longrightarrow> follows intent_flow db db'"
  by (auto simp: follows_def same_pipeline_def intro: intent_flow.intros(1))

lemma follows_intents: "intents db' = intents db @ new \<Longrightarrow> follows intent_flow db db'"
  by (auto simp: follows_def intro: intent_flow.intros(1))

lemma follows_update:
  assumes "intents db' = sql_update P f (intents db)" "\<And>r. in_id (f r) = in_id r"
    and "\<And>r. r \<in> set (intents db) \<Longrightarrow> P r \<Longrightarrow> intent_flow (in_state r) (in_state (f r))"
  shows "follows intent_flow db db'"
  unfolding follows_def
proof
  fix r assume r: "r \<in> set (intents db)"
  then have "(if P r then f r else r) \<in> set (intents db')" by (auto simp: assms(1) set_sql_update)
  then show "\<exists>r' \<in> set (intents db'). in_id r' = in_id r \<and> intent_flow (in_state r) (in_state r')"
    by (rule rev_bexI) (use assms(2,3) r in \<open>auto intro: intent_flow.intros(1)\<close>)
qed

lemma follows_admit:
  assumes "admit_intent H a k request fresh now db = Ok (x, db')"
  shows "follows intent_flow db db'"
proof (cases x)
  case (Existing rc)
  with assms have "db' = db"
    by (auto simp: admit_intent_def admit_new_def Let_def res_simps append_event_eq split: option.splits if_split_asm)
  then show ?thesis by (simp add: follows_same)
next
  case (Created rc)
  with assms have a: "admit_intent H a k request fresh now db = Ok (Created rc, db')" by simp
  then show ?thesis
    by (rule admit_createdE) (erule follows_intents)
qed

lemma follows_recover_interrupted:
  assumes ok: "pipeline_ok db" and r: "recover_interrupted_submissions now db = Ok (n, db')"
  shows "follows intent_flow db db'"
proof -
  have loop: "\<forall>r \<in> set (intents (snd acc)). \<exists>r' \<in> set (intents db1). in_id r' = in_id r
      \<and> (in_state r' = in_state r \<or> in_state r' = IntentState.Unknown \<and> in_id r \<in> (\<lambda>row. fst (snd row)) ` set rows)"
    if "recover_interrupted_loop now rows acc = Ok (evs', db1)" for rows acc evs' db1
    using that
  proof (induction rows arbitrary: acc)
    case (Cons row rows)
    obtain oid i det where row: "row = (oid, i, det)" by (cases row)
    obtain evs db where acc: "acc = (evs, db)" by (cases acc)
    from Cons.prems obtain evs1 db2 where r: "recover_interrupted_row now (oid, i, det) (evs, db) = Ok (evs1, db2)"
      and rest: "recover_interrupted_loop now rows (evs1, db2) = Ok (evs', db1)"
      by (auto simp: row acc elim!: rbind_OkE)
    from r obtain f where f: "intents db2 = sql_update (\<lambda>r. in_id r = i) f (intents db)"
      "\<And>r. in_id (f r) = in_id r" "\<And>r. in_state (f r) = IntentState.Unknown"
      by (rule recover_interrupted_rowE) (rule that)
    show ?case
    proof
      fix r assume "r \<in> set (intents (snd acc))"
      then have "(if in_id r = i then f r else r) \<in> set (intents db2)"
        by (auto simp: acc f(1) set_sql_update)
      from bspec [OF Cons.IH [OF rest, unfolded snd_conv] this] obtain r' where r': "r' \<in> set (intents db1)"
        "in_id r' = in_id (if in_id r = i then f r else r)"
        "in_state r' = in_state (if in_id r = i then f r else r) \<or> in_state r' = IntentState.Unknown
           \<and> in_id (if in_id r = i then f r else r) \<in> (\<lambda>row. fst (snd row)) ` set rows" by blast
      from r'(1) show "\<exists>r' \<in> set (intents db1). in_id r' = in_id r
         \<and> (in_state r' = in_state r \<or> in_state r' = IntentState.Unknown \<and> in_id r \<in> (\<lambda>row. fst (snd row)) ` set (row # rows))"
        by (rule rev_bexI) (use r'(2,3) in \<open>auto simp: f row split: if_split_asm\<close>)
    qed
  qed auto
  from r obtain evs db1 where l: "recover_interrupted_loop now (interrupted_rows db) ([], db) = Ok (evs, db1)"
    and db': "db' = send evs db1"
    by (auto simp: recover_interrupted_submissions_def Let_def elim!: rbind_OkE)
  have sub: "in_state r = IntentState.Submitting"
    if r: "r \<in> set (intents db)" "in_id r \<in> (\<lambda>row. fst (snd row)) ` set (interrupted_rows db)" for r
  proof -
    from r(2) obtain x r1 where x: "x \<in> set (orders db)" "r1 \<in> set (intents db)" "in_id r1 = or_intent_id x"
      "in_id r = or_intent_id x" "or_state x = OrderState.Submitting \<or> in_state r1 = IntentState.Submitting"
      by (auto simp: interrupted_rows_def)
    then have "r1 = r"
      using r ok by (intro key_unique [of in_id "intents db"]) (auto simp: pipeline_ok_def)
    with pipeline_ok_link [OF ok r(1) x(1) x(4)] x(5) show ?thesis by (auto simp: linked_def)
  qed
  from loop [OF l] show ?thesis
    unfolding follows_def db' by (fastforce dest: sub intro: intent_flow.intros)
qed

lemma follows_recover_pre:
  assumes r: "recover_pre_submission_work U now db = Ok (is, db')"
  shows "follows intent_flow db db'"
proof -
  have loop: "\<forall>r \<in> set (intents (snd acc)). \<exists>r' \<in> set (intents db1). in_id r' = in_id r
      \<and> (in_state r' = in_state r \<or> in_state r' = IntentState.Received
          \<and> in_state r \<in> {IntentState.Validating, IntentState.Approved, IntentState.Preparing})"
    if "recover_pre_submission_loop U now rows acc = Ok (evs', db1)"
       "\<forall>(i, st) \<in> set rows. st \<in> set pre_submission_states" for rows acc evs' db1
    using that
  proof (induction rows arbitrary: acc)
    case (Cons row rows)
    obtain i st where row: "row = (i, st)" by (cases row)
    obtain evs db where acc: "acc = (evs, db)" by (cases acc)
    from Cons.prems(1) obtain evs1 db2 where r: "recover_pre_submission_row U now (i, st) (evs, db) = Ok (evs1, db2)"
      and rest: "recover_pre_submission_loop U now rows (evs1, db2) = Ok (evs', db1)"
      by (auto simp: row acc elim!: rbind_OkE)
    have st: "st \<in> set pre_submission_states" and rows: "\<forall>(i, st) \<in> set rows. st \<in> set pre_submission_states"
      using Cons.prems(2) by (simp_all add: row)
    note ih = Cons.IH [OF rest rows, unfolded snd_conv]
    from r show ?case
    proof (cases rule: recover_pre_rowE)
      case nothing
      then show ?thesis using ih by (simp add: acc)
    next
      case (released f)
      show ?thesis
      proof
        fix r assume "r \<in> set (intents (snd acc))"
        then have "(if in_id r = i \<and> in_state r = st then f r else r) \<in> set (intents db2)"
          by (auto simp: acc released(2) set_sql_update)
        from bspec [OF ih this] obtain r' where r': "r' \<in> set (intents db1)"
          "in_id r' = in_id (if in_id r = i \<and> in_state r = st then f r else r)"
          "in_state r' = in_state (if in_id r = i \<and> in_state r = st then f r else r) \<or> in_state r' = IntentState.Received
             \<and> in_state (if in_id r = i \<and> in_state r = st then f r else r)
                 \<in> {IntentState.Validating, IntentState.Approved, IntentState.Preparing}" by blast
        from r'(1) show "\<exists>r' \<in> set (intents db1). in_id r' = in_id r
          \<and> (in_state r' = in_state r \<or> in_state r' = IntentState.Received
             \<and> in_state r \<in> {IntentState.Validating, IntentState.Approved, IntentState.Preparing})"
          by (rule rev_bexI)
             (use r'(2,3) released(1,3,4) st in \<open>auto simp: pre_submission_states_def split: if_split_asm\<close>)
      qed
    qed
  qed auto
  from r obtain evs db1 where l: "recover_pre_submission_loop U now (pre_submission_rows db) ([], db) = Ok (evs, db1)"
    and db': "db' = send evs db1"
    by (auto simp: recover_pre_submission_work_def Let_def elim!: rbind_OkE)
  from loop [OF l pre_submission_rows_states] show ?thesis
    unfolding follows_def db' by (fastforce intro: intent_flow.intros)
qed

lemma follows_intent:
  assumes "transition_intent i e n rej now db = Ok (r, db')" "coordinator_transition e n"
  shows "follows intent_flow db db'"
  using assms(1)
proof (rule transition_intentE, goal_cases)
  case (1 f)
  show ?case
    by (rule follows_update [OF 1(2,3)]) (use 1(4) assms(2) in \<open>auto simp: coordinator_transition_def intro: intent_flow.intros\<close>)
qed

lemma follows_reserve:
  assumes "evaluate_and_reserve_risk D i request market book policy did now db = Ok (d, db')"
  shows "follows intent_flow db db'"
  using assms
proof (rule evaluate_and_reserveE, goal_cases)
  case (1 f n)
  show ?case
    by (rule follows_update [OF 1(3,4)]) (use 1(1,5) in \<open>auto intro: intent_flow.intros\<close>)
qed

lemma follows_prepare:
  assumes "create_prepared_order D S intent request prepared pv fee pid aid oid now db = Ok (order, db')"
  shows "follows intent_flow db db'"
  using assms
proof (rule create_prepared_orderE, goal_cases)
  case (1 p a ord f)
  show ?case
    by (rule follows_update [OF 1(14,15)]) (use 1(16) in \<open>auto intro: intent_flow.intros\<close>)
qed

lemma follows_reject:
  assumes "reject_preparation i code msg now db = Ok db'"
  shows "follows intent_flow db db'"
  using assms
proof (rule reject_preparationE, goal_cases)
  case (1 f)
  show ?case
    by (rule follows_update [OF 1(2,3)]) (use 1(4) in \<open>auto intro: intent_flow.intros\<close>)
qed

lemma follows_begin:
  assumes "begin_submission i oid now db = Ok db'"
  shows "follows intent_flow db db'"
  using assms
proof (rule begin_submissionE, goal_cases)
  case (1 f g h A)
  show ?case
    by (rule follows_update [OF 1(4,5)]) (use 1(6) in \<open>auto intro: intent_flow.intros\<close>)
qed

lemma follows_finish:
  assumes "finish_submission D U i oid ist ost v rc filled fp ids ev tid now db = Ok db'"
  shows "follows intent_flow db db'"
  using assms
proof (rule finish_submissionE, goal_cases)
  case (1 f g h A)
  show ?case
    by (rule follows_update [OF 1(5,6)]) (use 1(1,7) in \<open>auto intro: intent_flow.intros\<close>)
qed

lemma follows_resolve:
  assumes "resolve_unknown_submission D U un v st rem filled fp ids ev tid now db = Ok db'"
  shows "follows intent_flow db db'"
  using assms
proof (cases rule: resolve_unknown_submissionE)
  case nothing
  then show ?thesis by (simp add: follows_same)
next
  case (resolved f g h A)
  show ?thesis
    by (rule follows_update [OF resolved(2,3)]) (use resolved(4) in \<open>auto intro: intent_flow.intros\<close>)
qed

lemma follows_order:
  assumes "transition_order oid n v ev now db = Ok (ord, db')"
  shows "follows intent_flow db db'"
  using assms
proof (cases rule: transition_orderE)
  case nothing
  then show ?thesis by (simp add: follows_same)
next
  case (changed prior f g P)
  show ?thesis
    by (rule follows_update [OF changed(3,5)]) (use changed(4,6) in \<open>auto dest: changed(4) intro: intent_flow.intros\<close>)
qed

lemma follows_cancel_prepared:
  assumes "cancel_prepared_order oid ev now db = Ok (ord, db')"
  shows "follows intent_flow db db'"
  using assms
proof (rule cancel_prepared_orderE, goal_cases)
  case (1 prior f g h A)
  show ?case
    by (rule follows_update [OF 1(2,3)]) (use 1(4) in \<open>auto intro: intent_flow.intros\<close>)
qed

lemma follows_reconcile:
  assumes "reconcile_order_projection D U oid st rem tot fp ids ev tid now db = Ok db'"
  shows "follows intent_flow db db'"
  using assms
proof (cases rule: reconcile_order_projectionE)
  case (changed prior n g)
  then show ?thesis by (intro follows_intents [where new = "[]"]) simp
qed (simp add: follows_same)

lemma follows_paper_trade:
  assumes "pipeline_ok db" "apply_paper_trade_through D U t fresh now db = Ok (n, db')"
  shows "follows intent_flow db db'"
  using apply_paper_trade_through_projects [OF assms(2)] assms(1)
  by (intro follows_intents [where new = "[]"]) (simp add: pipeline_ok_def orders_projected_def)

lemmas flow_steps =
  follows_admit follows_intent follows_reserve follows_prepare follows_reject follows_begin follows_finish
  follows_recover_pre follows_resolve follows_order follows_cancel_prepared follows_reconcile

lemma step_follows:
  assumes "pipeline_ok db" "store_step D H S U db db'"
  shows "follows intent_flow db db'"
  using assms(2)
  by (cases rule: store_step.cases)
     (((rule flow_steps, assumption, assumption) | (rule flow_steps, assumption)
       | (rule follows_recover_interrupted [OF assms(1)], assumption)
       | (rule follows_paper_trade [OF assms(1)], assumption)
       | (rule follows_same, rule keep_steps, assumption))+)


section \<open>Exactly once\<close>

text \<open>An intent whose submission has begun.\<close>

definition submission_begun :: "uuid \<Rightarrow> Store \<Rightarrow> bool" where
  "submission_begun i db \<longleftrightarrow> (\<exists>r \<in> set (intents db). in_id r = i \<and> in_state r \<in> submitted_states)"

lemma submission_begun_step:
  assumes "pipeline_ok db" "store_step D H S U db db'" "submission_begun i db"
  shows "submission_begun i db'"
proof -
  from assms(3) obtain r where r: "r \<in> set (intents db)" "in_id r = i" "in_state r \<in> submitted_states"
    by (auto simp: submission_begun_def)
  with step_follows [OF assms(1,2)] obtain r' where r': "r' \<in> set (intents db')" "in_id r' = i"
    "intent_flow (in_state r) (in_state r')" by (force simp: follows_def)
  from r'(3) r(3) have "in_state r' \<in> submitted_states"
    by (auto simp: submitted_states_def elim: intent_flow_submittedE intent_flow_submittingE intent_flow_unknownE)
  with r' show ?thesis by (auto simp: submission_begun_def)
qed

lemma begin_marks_begun:
  assumes "begin_submission i oid now db = Ok db'"
  shows "submission_begun i db'"
  using assms
proof (rule begin_submissionE, goal_cases)
  case (1 f g h A)
  obtain r where "r \<in> set (intents db)" "in_id r = i" "in_state r = IntentState.Prepared"
    using sql_count_1_ex [OF 1(2)] by auto
  then have "f r \<in> set (intents db')" "in_id (f r) = i" using 1(4,5) by (auto simp: set_sql_update)
  with 1(6) show ?case by (auto simp: submission_begun_def submitted_states_def)
qed

lemma begin_refused_once_begun:
  assumes "pipeline_ok db" "submission_begun i db"
  shows "\<not> is_ok (begin_submission i oid now db)"
proof
  assume "is_ok (begin_submission i oid now db)"
  then obtain db' where b: "begin_submission i oid now db = Ok db'" by (auto simp: is_ok_iff)
  then have "sql_count (\<lambda>r. in_id r = i \<and> in_state r = IntentState.Prepared) (intents db) = 1"
    by (rule begin_submissionE)
  then obtain r where r: "r \<in> set (intents db)" "in_id r = i" "in_state r = IntentState.Prepared"
    by (blast dest: sql_count_1_ex)
  from assms(2) obtain r' where r': "r' \<in> set (intents db)" "in_id r' = i" "in_state r' \<in> submitted_states"
    by (auto simp: submission_begun_def)
  have "r = r'"
    using assms(1) r r' by (intro key_unique [of in_id "intents db"]) (auto simp: pipeline_ok_def)
  with r r' show False by (simp add: submitted_states_def)
qed

text \<open>
  C13. At most one venue submission per intent: in every store reachable from a fresh database, once the
  commit that precedes the venue request has succeeded for an intent, no later commit of that kind
  succeeds for it, for any order id, after any further sequence of writes, including restart
  recovery, reconciliation and cancellation.
\<close>

theorem submitted_at_most_once:
  assumes "fresh_store db0" "(store_step D H S U)\<^sup>*\<^sup>* db0 db"
    and "begin_submission i oid now db = Ok db1" "(store_step D H S U)\<^sup>*\<^sup>* db1 db2"
  shows "\<not> is_ok (begin_submission i oid' now' db2)"
proof -
  have ok: "pipeline_ok db" using assms(1,2) by (rule pipeline.reachable_inv)
  have ok1: "pipeline_ok db1" using step_pipeline_ok [OF ok store_step.start [OF assms(3)]] .
  have ok2: "pipeline_ok db2" using assms(4) ok1 by (rule pipeline.steps_inv)
  have "submission_begun i db2"
    by (rule pipeline.stable [where P = "submission_begun i", OF submission_begun_step assms(4) ok1 begin_marks_begun [OF assms(3)]])
  with ok2 show ?thesis by (rule begin_refused_once_begun)
qed

text \<open>
  C11. One order per intent: in every reachable store an intent has at most one prepared payload and at
  most one order, and a prepared payload has exactly one submission attempt, so a venue can never be
  sent a second, differently built order for the same intent.
\<close>

theorem one_order_per_intent:
  assumes "fresh_store db0" "(store_step D H S U)\<^sup>*\<^sup>* db0 db"
  shows "sql_count (\<lambda>p. pr_intent_id p = i) (prepared_orders db) \<le> 1
    \<and> sql_count (\<lambda>r. or_intent_id r = i) (orders db) \<le> 1
    \<and> map sa_prepared_order_id (submission_attempts db) = map pr_id (prepared_orders db)
    \<and> distinct (map sa_prepared_order_id (submission_attempts db))"
proof -
  have ok: "pipeline_ok db" using assms by (rule pipeline.reachable_inv)
  have "distinct (map pr_intent_id (prepared_orders db))" "distinct (map or_intent_id (orders db))"
    using ok by (simp_all add: pipeline_ok_def)
  then show ?thesis
    using ok sql_count_key_le_1 [of pr_intent_id "prepared_orders db" i "\<lambda>_. True"]
      sql_count_key_le_1 [of or_intent_id "orders db" i "\<lambda>_. True"]
    by (simp add: pipeline_ok_def)
qed


section \<open>Restart recovery\<close>

lemma has_order_ids: "has_order oid db \<longleftrightarrow> oid \<in> set (map or_id (orders db))"
  by (auto simp: has_order_def list_ex_iff)

lemma recover_interrupted_row_total:
  assumes "(oid, i) \<in> set (order_keys db)"
  shows "is_ok (recover_interrupted_row now (oid, i, det) (evs, db))"
proof -
  have "has_order oid (db\<lparr>orders := sql_update (\<lambda>r. or_id r = oid)
         (\<lambda>r. r\<lparr>or_state := OrderState.Unknown,
              or_venue_order_id := (case or_venue_order_id r of None \<Rightarrow> Some det | Some v \<Rightarrow> Some v),
              or_updated_at := now\<rparr>) (orders db), intents := x, submission_attempts := y\<rparr>)" for x y
    using assms by (simp add: has_order_ids map_sql_update del: set_map) (auto simp: order_keys_def)
  then show ?thesis
    by (simp add: recover_interrupted_row_def Let_def insert_transition_def foreign_key_def append_event_eq)
qed

lemma recover_interrupted_loop_total:
  assumes "pipeline_ok (snd acc)" "\<forall>(oid, i, det) \<in> set rows. (oid, i) \<in> set (order_keys (snd acc))"
  shows "is_ok (recover_interrupted_loop now rows acc)"
  using assms
proof (induction rows arbitrary: acc)
  case (Cons row rows)
  obtain oid i det where row: "row = (oid, i, det)" by (cases row)
  obtain evs db where acc: "acc = (evs, db)" by (cases acc)
  from Cons.prems have ok: "pipeline_ok db" and key: "(oid, i) \<in> set (order_keys db)" by (auto simp: acc row)
  from recover_interrupted_row_total [OF key, of now det evs] obtain evs1 db1
    where r: "recover_interrupted_row now (oid, i, det) (evs, db) = Ok (evs1, db1)"
    by (auto simp: is_ok_iff)
  note one = recover_interrupted_row_ok [OF ok r key]
  have "is_ok (recover_interrupted_loop now rows (evs1, db1))"
    by (rule Cons.IH) (use Cons.prems(2) one in \<open>auto simp: acc\<close>)
  then show ?case by (simp add: row acc r)
qed simp

text \<open>What the risk snapshot reads of the orders does not move while open orders become UNKNOWN.\<close>

lemma open_exposure_update:
  assumes "\<And>r. P r \<Longrightarrow> r \<in> set rows \<Longrightarrow> order_is_open r" "\<And>r. P r \<Longrightarrow> order_is_open (g r)"
    "\<And>r. P r \<Longrightarrow> order_exposure (g r) = order_exposure r"
  shows "map order_exposure (filter order_is_open (sql_update P g rows)) = map order_exposure (filter order_is_open rows)"
  using assms by (induction rows) auto


lemma recover_interrupted_row_exposure:
  assumes r: "recover_interrupted_row now (oid, i, det) (evs, db) = Ok (evs', db')"
    and op: "\<forall>x \<in> set (orders db). or_id x = oid \<longrightarrow> order_is_open x"
  shows "map order_exposure (open_orders db') = map order_exposure (open_orders db)"
    and "\<forall>x' \<in> set (orders db'). order_is_open x' \<or> x' \<in> set (orders db)"
    and "risk_reservations db' = risk_reservations db" "positions db' = positions db" "trades db' = trades db"
proof -
  let ?g = "\<lambda>r. r\<lparr>or_state := OrderState.Unknown,
              or_venue_order_id := (case or_venue_order_id r of None \<Rightarrow> Some det | Some v \<Rightarrow> Some v),
              or_updated_at := now\<rparr>"
  have o: "orders db' = sql_update (\<lambda>r. or_id r = oid) ?g (orders db)"
    and rest: "risk_reservations db' = risk_reservations db \<and> positions db' = positions db \<and> trades db' = trades db"
    using r by (auto simp: recover_interrupted_row_def Let_def res_simps append_event_eq)
  have g: "order_is_open (?g x)" "order_exposure (?g x) = order_exposure x" for x
    by (simp_all add: order_is_open_def open_states_def order_exposure_def)
  show "map order_exposure (open_orders db') = map order_exposure (open_orders db)"
    unfolding open_orders_def o by (rule open_exposure_update) (use op g in auto)
  show "\<forall>x' \<in> set (orders db'). order_is_open x' \<or> x' \<in> set (orders db)"
    using g(1) by (auto simp: o set_sql_update)
  show "risk_reservations db' = risk_reservations db" "positions db' = positions db" "trades db' = trades db"
    using rest by simp_all
qed

lemma recover_interrupted_loop_exposure:
  assumes "recover_interrupted_loop now rows acc = Ok (evs', db')"
    and "\<forall>x \<in> set (orders (snd acc)). or_id x \<in> fst ` set rows \<longrightarrow> order_is_open x"
  shows "map order_exposure (open_orders db') = map order_exposure (open_orders (snd acc))
    \<and> risk_reservations db' = risk_reservations (snd acc) \<and> positions db' = positions (snd acc)
    \<and> trades db' = trades (snd acc)"
  using assms
proof (induction rows arbitrary: acc)
  case (Cons row rows)
  obtain oid i det where row: "row = (oid, i, det)" by (cases row)
  obtain evs db where acc: "acc = (evs, db)" by (cases acc)
  from Cons.prems(1) obtain evs1 db1 where r: "recover_interrupted_row now (oid, i, det) (evs, db) = Ok (evs1, db1)"
    and rest: "recover_interrupted_loop now rows (evs1, db1) = Ok (evs', db')"
    by (auto simp: row acc elim!: rbind_OkE)
  have op: "\<forall>x \<in> set (orders db). or_id x = oid \<longrightarrow> order_is_open x"
    using Cons.prems(2) by (auto simp: acc row)
  note one = recover_interrupted_row_exposure [OF r op]
  have "\<forall>x \<in> set (orders (snd (evs1, db1))). or_id x \<in> fst ` set rows \<longrightarrow> order_is_open x"
    using one(2) Cons.prems(2) by (fastforce simp: acc)
  from Cons.IH [OF rest this] one show ?case by (simp add: acc)
qed simp

text \<open>
  Restart recovery of interrupted submissions always succeeds on a reachable store.  Afterwards no
  order is left SUBMITTING: each is UNKNOWN and waits for the venue's evidence.  Nothing is resubmitted
  and no exposure is dropped: every risk snapshot taken afterwards equals the one taken before.
\<close>

theorem recovery_keeps_exposure:
  assumes "fresh_store db0" "(store_step D H S U)\<^sup>*\<^sup>* db0 db"
  shows "\<exists>n db'. recover_interrupted_submissions now db = Ok (n, db')
    \<and> (\<forall>r \<in> set (orders db'). or_state r \<noteq> OrderState.Submitting)
    \<and> map or_id (orders db') = map or_id (orders db)
    \<and> risk_snapshot D c t now' db' = risk_snapshot D c t now' db"
proof -
  have ok: "pipeline_ok db" using assms by (rule pipeline.reachable_inv)
  have "is_ok (recover_interrupted_loop now (interrupted_rows db) ([], db))"
    by (rule recover_interrupted_loop_total) (use ok interrupted_rows_keys [of db] in auto)
  then obtain evs db1 where l: "recover_interrupted_loop now (interrupted_rows db) ([], db) = Ok (evs, db1)"
    by (auto simp: is_ok_iff)
  then have r: "recover_interrupted_submissions now db = Ok (length (interrupted_rows db), send evs db1)"
    by (simp add: recover_interrupted_submissions_def Let_def)
  have "order_is_open x" if x: "x \<in> set (orders db)" "or_id x \<in> fst ` set (interrupted_rows db)" for x
  proof -
    from x(2) obtain y r where y: "y \<in> set (orders db)" "r \<in> set (intents db)" "or_id y = or_id x"
      "in_id r = or_intent_id y" "or_state y = OrderState.Submitting \<or> in_state r = IntentState.Submitting"
      by (auto simp: interrupted_rows_def)
    then have "y = x" using ok x(1) by (intro key_unique [of or_id "orders db"]) (auto simp: pipeline_ok_def)
    with pipeline_ok_link [OF ok y(2,1,4)] y(5) show ?thesis by (auto simp: linked_def order_is_open_def open_states_def)
  qed
  with recover_interrupted_loop_exposure [OF l]
  have "map order_exposure (open_orders db1) = map order_exposure (open_orders db)
    \<and> risk_reservations db1 = risk_reservations db \<and> positions db1 = positions db \<and> trades db1 = trades db"
    by simp
  then have "risk_snapshot D c t now' (send evs db1) = risk_snapshot D c t now' db"
    by (simp add: risk_snapshot_def risk_snapshot_in_transaction_def open_orders_def active_reservations_def)
  moreover have "map fst (order_keys (send evs db1)) = map fst (order_keys db)"
    using recover_interrupted_ok(3) [OF ok r] by simp
  ultimately show ?thesis
    using r recover_interrupted_ok(2) [OF ok r] by (auto simp: order_keys_def comp_def)
qed

lemma recover_pre_loop_reservations:
  assumes "recover_pre_submission_loop U now rows acc = Ok (evs', db')"
  shows "map rv_intent_id (risk_reservations db') = map rv_intent_id (risk_reservations (snd acc))"
  using assms
proof (induction rows arbitrary: acc)
  case (Cons row rows)
  obtain i st where row: "row = (i, st)" by (cases row)
  obtain evs db where acc: "acc = (evs, db)" by (cases acc)
  from Cons.prems obtain evs1 db1 where r: "recover_pre_submission_row U now (i, st) (evs, db) = Ok (evs1, db1)"
    and rest: "recover_pre_submission_loop U now rows (evs1, db1) = Ok (evs', db')"
    by (auto simp: row acc elim!: rbind_OkE)
  from r have "map rv_intent_id (risk_reservations db1) = map rv_intent_id (risk_reservations db)"
    by (cases rule: recover_pre_rowE) (simp_all add: map_sql_update)
  with Cons.IH [OF rest] show ?case by (simp add: acc)
qed simp

lemma transition_intent_reservations:
  "transition_intent i e n rej now db = Ok (r, db') \<Longrightarrow> risk_reservations db' = risk_reservations db \<and> has_intent i db'"
  by (auto simp: transition_intent_def Let_def res_simps append_event_eq has_intent_def list_ex_iff dest!: sql_find_SomeD)

text \<open>
  An intent that was approved before a crash cannot be approved again.  Recovery releases its
  reservation but the row keeps the primary key, so when the intent is validated again and the policy
  approves it, inserting the new reservation violates the key: the evaluation ends with a database
  error, although the recovery is documented to allow a second evaluation.
\<close>

theorem recovered_intent_cannot_be_approved:
  assumes "row \<in> set (risk_reservations db)" "rv_intent_id row = i"
    and "recover_pre_submission_work U now db = Ok (recovered, db1)"
    and "transition_intent i IntentState.Received IntentState.Validating None now1 db1 = Ok (r, db2)"
    and "risk_snapshot_in_transaction D (rq_condition_id request) (rq_token_id request) now2 db2 = Ok s"
    and "evaluate D policy request market book s = Some d" "rd_approved d" "dec_exact D"
  shows "evaluate_and_reserve_risk D i request market book policy did now2 db2
           = Err (Database ''UNIQUE constraint failed'')"
proof -
  from assms(3) obtain evs db0 where l: "recover_pre_submission_loop U now (pre_submission_rows db) ([], db) = Ok (evs, db0)"
    and db1: "db1 = send evs db0"
    by (auto simp: recover_pre_submission_work_def Let_def elim!: rbind_OkE)
  have "i \<in> set (map rv_intent_id (risk_reservations db))" using assms(1,2) by auto
  then have i: "i \<in> set (map rv_intent_id (risk_reservations db2))" and h: "has_intent i db2"
    using recover_pre_loop_reservations [OF l] transition_intent_reservations [OF assms(4)] by (simp_all add: db1)
  from evaluate_approves [OF assms(8,6)] assms(7) obtain quantity price shares quote where
    q: "quantity_decimal D request = Ok quantity" "protection_price D request = Ok price"
       "conservative_exposure D request market quantity price = Some (Some (shares, quote))"
    by (auto simp: policy_allows_def)
  have ins: "sql_insert (same_key rv_intent_id) rr (risk_reservations db2) = Err (Database ''UNIQUE constraint failed'')"
    if "rv_intent_id rr = i" for rr
    using i that by (auto intro!: reservations_t.insert_rejects_used_key)
  show ?thesis
  proof (cases "insert_decision did i (rd_approved d) (rd_reason_code d) (rd_observed d) (rd_policy_version d) now2 db2")
    case (Ok x)
    obtain e3 db3 where x: "x = (e3, db3)" by (cases x)
    from Ok x insert_decision_Ok(1) have "risk_reservations db3 = risk_reservations db2" "has_intent i db3"
      using h by (fastforce simp: has_intent_def)+
    then show ?thesis
      using Ok x assms(5-7) q ins
      by (simp add: evaluate_and_reserve_risk_def reserve_exposure_def foreign_key_def Let_def)
  next
    case (Err e)
    then have "e = Database ''UNIQUE constraint failed''"
      using h by (auto simp: insert_decision_def foreign_key_def sql_insert_def split: if_split_asm)
    with Err assms(5-7) show ?thesis by (simp add: evaluate_and_reserve_risk_def)
  next
    case Panic
    then show ?thesis using h by (auto simp: insert_decision_def foreign_key_def sql_insert_def split: if_split_asm)
  qed
qed


end
