(* ===== verification/ControlFrame.thy ===== *)
theory ControlFrame
  imports PipelineSafety
begin

text \<open>
  The control row is changed by the transactions of the service state only: every other transaction
  of the journal leaves it as it is.
\<close>

definition same_control :: "Store \<Rightarrow> Store \<Rightarrow> bool" where
  "same_control db db' \<longleftrightarrow> control_state db' = control_state db"

lemma same_control_trans: "same_control a b \<Longrightarrow> same_control b c \<Longrightarrow> same_control a c"
  by (simp add: same_control_def)

lemma control_admit: "admit_intent H a k request fresh now db = Ok (x, db') \<Longrightarrow> same_control db db'"
  by (auto simp: admit_intent_def admit_new_def insert_idempotency_record_def Let_def res_simps append_event_eq same_control_def
      split: option.splits if_split_asm)

lemma control_idempotent: "record_idempotent_response H a k op rid body st resp now db = Ok db' \<Longrightarrow> same_control db db'"
  by (auto simp: record_idempotent_response_def Let_def res_simps same_control_def split: if_split_asm)

lemma control_intent: "transition_intent i e n rej now db = Ok (r, db') \<Longrightarrow> same_control db db'"
  by (auto simp: transition_intent_def Let_def res_simps append_event_eq same_control_def split: if_split_asm option.splits)

lemma control_insert_decision: "insert_decision did i ap code ob pv now db = Ok (e, db') \<Longrightarrow> same_control db db'"
  by (auto simp: insert_decision_def Let_def res_simps append_event_eq same_control_def split: if_split_asm)

lemma control_decision: "record_risk_decision i ap code ob pv did now db = Ok db' \<Longrightarrow> same_control db db'"
  by (auto simp: record_risk_decision_def Let_def res_simps append_event_eq same_control_def split: if_split_asm
      dest!: control_insert_decision [unfolded same_control_def])

lemma control_transition: "insert_transition oid p n ev now db = Ok db' \<Longrightarrow> same_control db db'"
  by (auto simp: res_simps same_control_def)

lemma control_fill:
  "apply_matched_fill D U ord vid delta fp ids tid now db = Ok (te, db') \<Longrightarrow> same_control db db'"
  by (simp add: same_control_def apply_matched_fill_keeps)

lemma control_reserve_exposure: "reserve_exposure D i request market policy now db = Ok (e, db') \<Longrightarrow> same_control db db'"
  by (erule reserve_exposureE) (simp add: same_control_def)

lemma control_reserve: "evaluate_and_reserve_risk D i request market book policy did now db = Ok (d, db') \<Longrightarrow> same_control db db'"
  by (auto simp: evaluate_and_reserve_risk_def Let_def res_simps append_event_eq same_control_def split: if_split_asm
      dest!: control_insert_decision [unfolded same_control_def] control_reserve_exposure [unfolded same_control_def])

lemma control_prepare:
  "create_prepared_order D S intent request prepared pv fee pid aid oid now db = Ok (ord, db') \<Longrightarrow> same_control db db'"
  by (auto simp: create_prepared_order_def insert_order_def Let_def res_simps append_event_eq same_control_def split: if_split_asm)

lemma control_reject: "reject_preparation i code msg now db = Ok db' \<Longrightarrow> same_control db db'"
  by (auto simp: reject_preparation_def Let_def res_simps append_event_eq same_control_def split: if_split_asm)

lemma control_begin: "begin_submission i oid now db = Ok db' \<Longrightarrow> same_control db db'"
  by (erule begin_submissionE) (simp add: same_control_def)

lemma control_finish:
  "finish_submission D U i oid ist ost v rc filled fp ids ev tid now db = Ok db' \<Longrightarrow> same_control db db'"
  by (erule finish_submissionE) (simp add: same_control_def)

lemma control_resolve:
  "resolve_unknown_submission D U un v st rem filled fp ids ev tid now db = Ok db' \<Longrightarrow> same_control db db'"
  by (auto simp: resolve_unknown_submission_def Let_def res_simps append_event_eq same_control_def split: if_split_asm dest!: control_fill [unfolded same_control_def])

lemma control_order: "transition_order oid n v ev now db = Ok (ord, db') \<Longrightarrow> same_control db db'"
  by (auto simp: transition_order_def Let_def res_simps append_event_eq same_control_def split: if_split_asm)

lemma control_cancel_prepared: "cancel_prepared_order oid ev now db = Ok (ord, db') \<Longrightarrow> same_control db db'"
  by (auto simp: cancel_prepared_order_def Let_def res_simps append_event_eq same_control_def split: if_split_asm)

lemma control_reconcile:
  "reconcile_order_projection D U oid st rem tot fp ids ev tid now db = Ok db' \<Longrightarrow> same_control db db'"
  by (auto simp: reconcile_order_projection_def Let_def res_simps append_event_eq same_control_def split: if_split_asm dest!: control_fill [unfolded same_control_def])

lemma control_interrupted_loop: "recover_interrupted_loop now rows acc = Ok (evs, db') \<Longrightarrow> same_control (snd acc) db'"
proof (induction rows arbitrary: acc)
  case (Cons row rows)
  from Cons.prems obtain acc' where 1: "recover_interrupted_row now row acc = Ok acc'"
    and 2: "recover_interrupted_loop now rows acc' = Ok (evs, db')" by (auto simp: res_simps)
  from 1 have "same_control (snd acc) (snd acc')"
    by (auto simp: recover_interrupted_row_def Let_def res_simps append_event_eq same_control_def split: prod.splits)
  with Cons.IH [OF 2] show ?case by (rule same_control_trans [rotated])
qed (simp add: same_control_def)

lemma control_recover_interrupted: "recover_interrupted_submissions now db = Ok (m, db') \<Longrightarrow> same_control db db'"
  by (auto simp: recover_interrupted_submissions_def Let_def res_simps same_control_def
      dest!: control_interrupted_loop [unfolded same_control_def])

lemma control_recover_loop: "recover_pre_submission_loop U now rows acc = Ok (evs, db') \<Longrightarrow> same_control (snd acc) db'"
proof (induction rows arbitrary: acc)
  case (Cons row rows)
  from Cons.prems obtain acc' where 1: "recover_pre_submission_row U now row acc = Ok acc'"
    and 2: "recover_pre_submission_loop U now rows acc' = Ok (evs, db')" by (auto simp: res_simps)
  from 1 have "same_control (snd acc) (snd acc')"
    by (auto simp: recover_pre_submission_row_def Let_def append_event_eq same_control_def split: prod.splits if_split_asm)
  with Cons.IH [OF 2] show ?case by (rule same_control_trans [rotated])
qed (simp add: same_control_def)

lemma control_recover_pre: "recover_pre_submission_work U now db = Ok (is, db') \<Longrightarrow> same_control db db'"
  by (auto simp: recover_pre_submission_work_def Let_def res_simps same_control_def
      dest!: control_recover_loop [unfolded same_control_def])

lemma control_finality: "record_venue_trade_finality oid vtid st ev now db = Ok (b, db') \<Longrightarrow> same_control db db'"
  by (auto simp: record_venue_trade_finality_def same_control_def Let_def append_event_eq
      split: option.splits if_split_asm)

lemma control_observed_loop:
  "observed_position_loop D now current obs seen acc = Ok (seen', evs', db') \<Longrightarrow> same_control (snd acc) db'"
proof (induction obs arbitrary: seen acc)
  case (Cons x rest)
  obtain condition token shares where x: "x = (condition, token, shares)" by (cases x)
  obtain evs db where acc: "acc = (evs, db)" by (cases acc)
  from Cons.prems show ?case
    unfolding x acc
    by (auto simp: Let_def append_event_eq same_control_def split: if_split_asm
          dest!: Cons.IH [unfolded same_control_def])
qed (simp add: same_control_def)

lemma control_vanished_loop: "same_control (snd acc) (snd (vanished_position_loop now seen rows acc))"
  by (induction now seen rows acc rule: vanished_position_loop.induct)
     (auto simp: Let_def append_event_eq same_control_def)

lemma control_positions:
  assumes "reconcile_venue_positions D obs now db = Ok db'"
  shows "same_control db db'"
proof -
  from assms obtain cur seen evs db1 where l: "observed_position_loop D now cur obs [] ([], db) = Ok (seen, evs, db1)"
    and db': "db' = send (fst (vanished_position_loop now seen (sort_key fst cur) (evs, db1)))
       (snd (vanished_position_loop now seen (sort_key fst cur) (evs, db1)))"
    by (auto simp: reconcile_venue_positions_def res_simps Let_def case_prod_beta)
  from control_observed_loop [OF l] control_vanished_loop [of "(evs, db1)" now seen "sort_key fst cur"]
  show ?thesis by (simp add: db' same_control_def)
qed

lemma control_cancellation: "create_cancellation_inner H actor request idem cid now db = Ok (x, db') \<Longrightarrow> same_control db db'"
  by (auto simp: create_cancellation_inner_def Let_def res_simps append_event_eq same_control_def split: option.splits)

lemma control_cancelled: "finish_cancellation cid failed now db = Ok (x, db') \<Longrightarrow> same_control db db'"
  by (auto simp: finish_cancellation_def Let_def res_simps append_event_eq same_control_def split: if_split_asm)

lemma control_prune: "prune_events db = Ok (n, db') \<Longrightarrow> same_control db db'"
  by (auto simp: prune_events_def Let_def same_control_def split: if_split_asm)

lemma control_start_reconciliation: "start_reconciliation_inner H trigger idem rid now db = Ok (x, db') \<Longrightarrow> same_control db db'"
  by (auto simp: start_reconciliation_inner_def Let_def res_simps append_event_eq same_control_def split: option.splits)

lemma control_finding: "insert_finding fid rid code det db = Ok db' \<Longrightarrow> same_control db db'"
  by (auto simp: insert_finding_def res_simps same_control_def)

lemma control_findings: "insert_findings rid fs db = Ok db' \<Longrightarrow> same_control db db'"
  by (induction rid fs db rule: insert_findings.induct)
     (auto simp: res_simps same_control_def dest!: control_finding [unfolded same_control_def])

lemma control_reconciled:
  assumes "finish_reconciliation fresh rid summary now db = Ok db'"
  shows "same_control db db'"
proof -
  have "\<exists>db1. same_control db db1 \<and> same_control db1 db'"
    using assms unfolding finish_reconciliation_def Let_def
    apply (elim rbind_OkE)
    subgoal for db1
      by (intro exI [of _ db1])
         (auto simp: append_event_eq same_control_def split: option.splits json.splits if_split_asm
            dest!: control_findings [unfolded same_control_def])
    done
  then show ?thesis by (auto intro: same_control_trans)
qed

lemma control_reconciliation_failed: "fail_reconciliation rid err fid now db = Ok db' \<Longrightarrow> same_control db db'"
  by (auto simp: fail_reconciliation_def Let_def res_simps append_event_eq same_control_def
      dest!: control_finding [unfolded same_control_def])

lemma control_fail_loop: "fail_interrupted_loop now rows acc = Ok (evs', db') \<Longrightarrow> same_control (snd acc) db'"
proof (induction rows arbitrary: acc)
  case (Cons x rest)
  obtain rid fid where x: "x = (rid, fid)" by (cases x)
  obtain evs db where acc: "acc = (evs, db)" by (cases acc)
  from Cons.prems show ?case
    unfolding x acc
    by (auto simp: Let_def append_event_eq same_control_def res_simps
          dest!: Cons.IH [unfolded same_control_def] control_finding [unfolded same_control_def])
qed (simp add: same_control_def)

lemma control_reconciliation_interrupted:
  "fail_interrupted_reconciliations fresh now db = Ok (n, db') \<Longrightarrow> same_control db db'"
  by (auto simp: fail_interrupted_reconciliations_def Let_def res_simps same_control_def
      dest!: control_fail_loop [unfolded same_control_def])

lemma control_start_backup: "start_backup_inner H idem bid now db = Ok (x, db') \<Longrightarrow> same_control db db'"
  by (auto simp: start_backup_inner_def Let_def res_simps append_event_eq same_control_def split: option.splits)

lemma control_run_backup: "run_backup bid outcome now db = (x, db') \<Longrightarrow> same_control db db'"
  by (auto simp: run_backup_def complete_backup_def Let_def append_event_eq same_control_def
      split: option.splits res.splits)

lemma control_backup_loop: "same_control (snd acc) (snd (fail_backup_loop now ids acc))"
  by (induction now ids acc rule: fail_backup_loop.induct)
     (auto simp: Let_def append_event_eq same_control_def)

lemma control_backup_interrupted: "fail_interrupted_backups now db = (x, db') \<Longrightarrow> same_control db db'"
  using control_backup_loop [of "([], db)"]
  by (auto simp: fail_interrupted_backups_def Let_def case_prod_beta same_control_def)

section \<open>The paper ledger\<close>

lemma control_starting_positions: "insert_starting_positions D now ps db = Ok db' \<Longrightarrow> same_control db db'"
proof (induction ps arbitrary: db)
  case (Cons p ps)
  from Cons.prems show ?case
    by (auto simp: res_simps same_control_def split: if_split_asm dest!: Cons.IH [unfolded same_control_def])
qed (simp add: same_control_def)

lemma control_paper_account: "initialize_paper_account D H config now db = Ok db' \<Longrightarrow> same_control db db'"
  by (auto simp: initialize_paper_account_def Let_def res_simps append_event_eq same_control_def
        split: if_split_asm option.splits dest!: control_starting_positions [unfolded same_control_def])

lemma control_paper_commit:
  assumes "commit_paper_order D c now db = Ok (snap, db')"
  shows "same_control db db'"
proof -
  from assms obtain found where "load_paper_order D (pc_venue_order_id c) db = Ok found"
    by (auto simp: commit_paper_order_def res_simps)
  with assms show ?thesis
    by (cases found) (auto simp: commit_paper_order_def Let_def res_simps append_event_eq same_control_def save_ledger_def
        split: if_split_asm)
qed

lemma control_release_paper: "release_paper_order D row now db = Ok db' \<Longrightarrow> same_control db db'"
  by (cases "sql_find (\<lambda>r. pi_token_id r = po_token_id row) (paper_inventory db)")
     (clarsimp simp: release_paper_order_def Let_def rbind_eq_Ok same_control_def)+

lemma control_paper_cancel: "cancel_paper_order D vid now db = Ok (snap, db') \<Longrightarrow> same_control db db'"
  by (clarsimp simp: cancel_paper_order_def Let_def rbind_eq_Ok append_event_eq split: if_split_asm)
     (auto simp: same_control_def dest!: control_release_paper [unfolded same_control_def])

lemma control_paper_fill:
  "project_paper_fill D U t vid vtid st fill rem ev tid now db = Ok (es, db') \<Longrightarrow> same_control db db'"
  by (auto simp: project_paper_fill_def Let_def res_simps append_event_eq same_control_def split: option.splits if_split_asm
      dest!: control_fill [unfolded same_control_def])

lemma control_fill_paper: "fill_paper_order D U t now row tid lp rem fill l db = Ok (es, l', db') \<Longrightarrow> same_control db db'"
  by (clarsimp simp: fill_paper_order_def rbind_eq_Ok if_Err_eq_Ok Let_def append_event_eq save_ledger_def same_control_def)
     (drule control_paper_fill, simp add: same_control_def)

lemma control_trade_loop:
  "trade_through_loop D U t now work (m, n, evs, l, db) = Ok (n', evs', l', db') \<Longrightarrow> same_control db db'"
proof (induction work arbitrary: m n evs l db)
  case (Cons w work)
  obtain row tid where w: "w = (row, tid)" by (cases w)
  from Cons.prems(1) consider "db' = db"
    | "\<exists>m' n0 evs0 l0. trade_through_loop D U t now work (m', n0, evs0, l0, db) = Ok (n', evs', l', db')"
    | lp rem fill es l1 db1 where "fill_paper_order D U t now row tid lp rem fill l db = Ok (es, l1, db1)"
        "\<exists>m' n0 evs0. trade_through_loop D U t now work (m', n0, evs0, l1, db1) = Ok (n', evs', l', db')"
    by (auto simp: w res_simps Let_def split: if_split_asm) blast
  then show ?case
    by cases (use Cons.IH in \<open>auto simp: same_control_def dest!: control_fill_paper [unfolded same_control_def]\<close>)
qed (simp add: same_control_def)

lemma control_paper_trade: "apply_paper_trade_through D U t fresh now db = Ok (n, db') \<Longrightarrow> same_control db db'"
  unfolding apply_paper_trade_through_def rbind_eq_Ok Let_def append_event_eq
  by (auto simp: rbind_eq_Ok same_control_def save_ledger_def split: prod.splits if_split_asm dest!: control_trade_loop [unfolded same_control_def])

lemma control_identity: "bind_identity cfg now db = Ok db' \<Longrightarrow> same_control db db'"
  by (auto simp: bind_identity_def same_control_def split: option.splits if_split_asm)

lemmas control_keeps =
  control_admit control_idempotent control_intent control_decision control_reserve control_prepare control_reject
  control_begin control_finish control_recover_interrupted control_recover_pre control_resolve control_order
  control_cancel_prepared control_reconcile control_finality control_positions control_cancellation control_cancelled
  control_start_reconciliation control_reconciled control_reconciliation_failed control_reconciliation_interrupted
  control_start_backup control_run_backup control_backup_interrupted control_prune control_paper_account
  control_paper_commit control_paper_cancel control_paper_trade control_identity

lemma step_control:
  assumes "store_step D H S U db db'"
  shows "same_control db db' \<or> control_step H db db'"
  using assms
proof (cases rule: store_step.cases)
  case control
  then have "control_step H db db'" unfolding control_step_def by blast
  then show ?thesis ..
qed ((rule disjI1, erule control_keeps)+)

end
