(* ===== verification/CoordinatorFrame.thy ===== *)
theory CoordinatorFrame
  imports Coordinator ControlFrame
begin

text \<open>
  What every operation of the coordinator keeps, whatever the relation between the state before and
  after is: the lemmas are proved once in locales whose laws speak about one interaction, one venue
  call and the commit that precedes a submission.  \<open>co_ops\<close> covers what only reads, writes the journal
  or halts the service; \<open>co_tasks\<close> adds the reconciliation and the submission; \<open>co_service\<close> adds the
  changes of the service state away from HALTED.
\<close>

abbreviation co_step :: "surroundings \<Rightarrow> Store \<Rightarrow> Store \<Rightarrow> bool" where
  "co_step E \<equiv> store_step (su_dec E) (su_hash E) (su_sha E) (su_uuid E)"

definition halted :: "Store \<Rightarrow> bool" where
  "halted db \<longleftrightarrow> cs_state (control_state db) = ''HALTED''"

text \<open>A committed transaction that does not take the service out of HALTED.\<close>

definition halting_step :: "surroundings \<Rightarrow> Store \<Rightarrow> Store \<Rightarrow> bool" where
  "halting_step E db db' \<longleftrightarrow> co_step E db db' \<and> (halted db \<longrightarrow> halted db')"

lemma halting_keep: "co_step E db db' \<Longrightarrow> same_control db db' \<Longrightarrow> halting_step E db db'"
  by (simp add: halting_step_def halted_def same_control_def)

lemma halting_halt:
  "set_service_state_inner (su_hash E) actor Halted reason idem expected aid cid now db = Ok db' \<Longrightarrow> halting_step E db db'"
  by (auto simp: halting_step_def halted_def service_state_text_def dest: set_service_state_innerD(2) intro: store_step.control)

fun submitted_intent :: "venue_call \<Rightarrow> uuid option" where
  "submitted_intent (SubmitCall i oid) = Some i"
| "submitted_intent _ = None"

text \<open>The operations that take the service out of HALTED, or through another state on its way to HALTED.\<close>

fun may_resume :: "operation \<Rightarrow> bool" where
  "may_resume (Resume actor reason) = True"
| "may_resume (ResumeIdempotent actor key reason) = True"
| "may_resume (Shutdown cancel) = True"
| "may_resume _ = False"

abbreviation begin_and_call ::
  "surroundings \<Rightarrow> uuid \<Rightarrow> uuid \<Rightarrow> (VenueSubmission vcall \<Rightarrow> unit co) \<Rightarrow> (CoordinatorError \<Rightarrow> unit co) \<Rightarrow> unit co" where
  "begin_and_call E i oid k h \<equiv> co_bind (co_try (co_do E (\<lambda>n. begin_submission i oid (su_now E n)))) (\<lambda>begun. case begun of
     Ok _ \<Rightarrow> co_bind (co_call (su_submit E) (SubmitCall i oid)) k | Err e \<Rightarrow> h e | Panic \<Rightarrow> co_result Panic)"

lemma tick_fields [simp]: "co_store (tick c) = co_store c" "co_log (tick c) = co_log c"
  by (simp_all add: tick_def)

section \<open>Reads, journal writes and halts\<close>

locale co_ops = co_frame R for R +
  fixes E :: surroundings
  assumes journal_step: "co_log c' = co_log c \<Longrightarrow> db = su_before E n (co_store c)
      \<Longrightarrow> co_store c' = db \<or> halting_step E db (co_store c') \<Longrightarrow> R c c'"
    and call_step: "co_store c' = co_store c \<Longrightarrow> co_log c' = co_log c @ [call] \<Longrightarrow> submitted_intent call = None \<Longrightarrow> R c c'"
    and field_step: "co_store c' = co_store c \<Longrightarrow> co_log c' = co_log c \<Longrightarrow> R c c'"
begin

lemma kept_tx:
  assumes f: "\<And>n db x db'. f n db = Ok (x, db') \<Longrightarrow> halting_step E db db'"
  shows "kept R (co_tx E f)"
  unfolding kept_def
proof
  fix c :: coordinator
  let ?n = "co_calls c" and ?db = "su_before E (co_calls c) (co_store c)"
  show "R c (snd (co_tx E f c))"
    using f [of ?n ?db]
    by (intro journal_step [of _ _ ?db ?n]) (auto simp: co_tx_def Let_def split: res.splits)
qed

lemma kept_do:
  assumes "\<And>n db db'. f n db = Ok db' \<Longrightarrow> halting_step E db db'"
  shows "kept R (co_do E f)"
  unfolding co_do_def by (rule kept_tx) (auto simp: res_simps intro: assms)

lemma kept_read: "kept R (co_read E f)"
  unfolding kept_def
proof
  fix c :: coordinator
  show "R c (snd (co_read E f c))"
    by (intro journal_step [of _ _ "su_before E (co_calls c) (co_store c)" "co_calls c"])
       (auto simp: co_read_def co_tx_def Let_def res_simps split: res.splits elim!: rbind_OkE)
qed

lemma kept_call: "submitted_intent call = None \<Longrightarrow> kept R (co_call answer call)"
  unfolding kept_def
  by (intro allI call_step [where call = call]) (auto simp: co_call_def Let_def split: option.splits res.splits)

lemma kept_ask: "kept R (co_ask f)"
  by (simp add: kept_def co_ask_def field_step)

lemma kept_fields:
  "kept R (co_queue_up i)" "kept R (co_set_deferred ids)"
  "kept R (co_set_healthy now)" "kept R (co_spawn reason)"
  "kept R reserve_operation" "kept R take_queued"
  by (auto simp: kept_def co_queue_up_def co_set_deferred_def co_set_healthy_def co_spawn_def reserve_operation_def
      take_queued_def intro!: field_step split: list.splits)

lemmas kept_rules = kept_intros kept_read kept_ask kept_fields

lemma kept_set_halted: "kept R (set_state E actor Halted reason)"
  unfolding set_state_def set_service_state_def by (rule kept_do) (erule halting_halt)

lemma kept_intent_to:
  assumes "coordinator_transition prior nxt"
  shows "kept R (intent_to E i prior nxt rejection)"
  unfolding intent_to_def
  by (intro kept_bind kept_tx kept_result) (rule halting_keep, erule store_step.intent [OF _ assms], erule control_keeps)

lemma kept_decide: "kept R (decide E i code message)"
  unfolding decide_def by (rule kept_do) (rule halting_keep, erule store_step.decision, erule control_keeps)

lemma kept_reject_received: "kept R (reject_received E i code message)"
  unfolding reject_received_def by (rule kept_intent_to) (simp add: coordinator_transition_def)

lemma kept_reject_validating: "kept R (reject_validating E i code message)"
  unfolding reject_validating_def
  by (intro kept_bind kept_decide kept_intent_to) (simp add: coordinator_transition_def)

lemma kept_reads:
  "kept R (current_state E)" "kept R (read_intent E i)"
  by (simp_all add: current_state_def read_intent_def kept_read)

lemma kept_spawn_protective: "kept R (spawn_protective_cancellation E reason)"
  unfolding spawn_protective_cancellation_def by (intro kept_rules)

lemma kept_defer: "kept R (defer_recovery i)"
  unfolding defer_recovery_def by (intro kept_rules)

lemma kept_enqueue_recovered: "kept R (enqueue_recovered E i)"
  unfolding enqueue_recovered_def by (intro kept_rules kept_reads)

lemma kept_enqueue_all: "kept R (enqueue_all E is)"
  by (induction "is") (auto intro!: kept_rules kept_enqueue_recovered)

lemma kept_health: "kept R (execution_health_failure E)"
  unfolding execution_health_failure_def by (intro kept_bind kept_read kept_ask) (auto intro!: kept_rules)

lemma kept_supervised_heartbeat: "kept R (supervised_heartbeat E)"
  unfolding supervised_heartbeat_def
  by (intro kept_bind kept_call kept_ask) (auto intro!: kept_rules split: option.split)

lemma kept_find: "kept R (find_venue_order E vid)"
  unfolding find_venue_order_def by (intro kept_bind kept_call) (auto intro!: kept_rules split: option.split)

lemma kept_unexpected_loop: "kept R (unexpected_loop E vids findings)"
proof (induction vids arbitrary: findings)
  case (Cons vid vids)
  then show ?case by (auto simp: Let_def intro!: kept_bind kept_call)
qed (simp add: kept_result)

lemma kept_local_order_loop:
  assumes "\<And>oid observed. oid \<in> or_id ` set ords \<Longrightarrow> kept R (project_observed E oid observed)"
  shows "kept R (local_order_loop E obs ords findings)"
  using assms
proof (induction ords arbitrary: findings)
  case (Cons ord ords)
  then show ?case by (auto intro!: kept_bind kept_result kept_find split: option.split)
qed (simp add: kept_result)

lemma kept_unknown_loop: "kept R (unknown_loop E unknowns findings)"
proof (induction unknowns arbitrary: findings)
  case (Cons u unknowns)
  have "kept R (resolve_observed E u observed)" for observed
    unfolding resolve_observed_def by (rule kept_do) (rule halting_keep, erule store_step.resolve, erule control_keeps)
  with Cons show ?case by (auto intro!: kept_bind kept_find)
qed (simp add: kept_result)

lemma kept_trade_loop: "kept R (trade_loop E ts findings)"
proof (induction ts arbitrary: findings)
  case (Cons t ts)
  have "kept R (co_tx E (\<lambda>n. record_venue_trade_finality oid (ot_venue_trade_id t) (ot_status t)
      (ot_evidence t) (su_now E n)))" for oid
    by (rule kept_tx) (rule halting_keep, erule store_step.finality, erule control_keeps)
  with Cons show ?case by (auto intro!: kept_bind kept_read split: list.split)
qed (simp add: kept_result)

lemma kept_apply_observations:
  assumes "\<And>oid observed. oid \<in> or_id ` set active \<Longrightarrow> kept R (project_observed E oid observed)"
  shows "kept R (apply_observations E rid result active known)"
proof -
  have positions: "kept R (co_do E (\<lambda>n. reconcile_venue_positions (su_dec E) obs (su_now E n)))" for obs
    by (rule kept_do) (rule halting_keep, erule store_step.positions, erule control_keeps)
  have complete: "kept R (co_do E (\<lambda>n. finish_reconciliation (su_fresh E n) rid summary (su_now E n)))" for summary
    by (rule kept_do) (rule halting_keep, erule store_step.reconciled, erule control_keeps)
  have prune: "kept R (co_tx E (\<lambda>n. prune_events))"
    by (rule kept_tx) (rule halting_keep, erule store_step.prune, erule control_keeps)
  show ?thesis
    unfolding apply_observations_def
    by (intro kept_bind kept_unexpected_loop kept_local_order_loop kept_read kept_unknown_loop kept_trade_loop
        positions complete prune kept_when kept_set_halted kept_spawn_protective kept_result assms)
qed

lemma kept_fail_reconciliation: "kept R (co_do E (\<lambda>n. fail_reconciliation rid msg (su_fresh E n 0) (su_now E n)))"
  by (rule kept_do) (rule halting_keep, erule store_step.reconciliation_failed, erule control_keeps)

end

section \<open>Reconciliation, halts and submission\<close>

locale co_tasks = co_ops +
  assumes process_kept: "kept R (process_observations E rid result)"
    and begin_kept: "(\<And>answer. kept R (k answer)) \<Longrightarrow> (\<And>e. kept R (h e)) \<Longrightarrow> kept R (begin_and_call E i oid k h)"
begin

lemma kept_reconcile_started: "kept R (reconcile_started E rid)"
proof -
  have "kept R (reconcile_started_inner E rid)"
    unfolding reconcile_started_inner_def
    by (intro kept_bind kept_call)
       (auto intro!: kept_bind process_kept kept_fail_reconciliation kept_set_halted kept_spawn_protective
          kept_result split: res.split)
  moreover have "kept R (close_failed_reconciliation E rid e)" for e
    unfolding close_failed_reconciliation_def
    by (intro kept_bind kept_try kept_read kept_when kept_ignore kept_fail_reconciliation kept_reads)
       (auto intro!: kept_bind kept_try kept_set_halted kept_when kept_spawn_protective kept_result split: res.split)
  ultimately show ?thesis
    unfolding reconcile_started_def by (auto intro!: kept_bind kept_try kept_result split: res.split)
qed

lemma kept_reconcile: "kept R (reconcile E trigger)"
  unfolding reconcile_def start_reconciliation_def
  by (intro kept_bind kept_reconcile_started kept_tx) (rule halting_keep, erule store_step.reconciliation, erule control_keeps)

lemma kept_order_to: "kept R (order_to E oid nxt evidence)"
  unfolding order_to_def by (rule kept_tx) (rule halting_keep, erule store_step.order, erule control_keeps)

lemma kept_cancel_at_venue: "kept R (cancel_at_venue E oid vid)"
  unfolding cancel_at_venue_def
  by (intro kept_bind kept_call)
     (auto intro!: kept_bind kept_order_to kept_ignore kept_reconcile kept_result split: res.split)

lemma kept_cancel_order: "kept R (cancel_order E cid oid)"
proof -
  have "kept R (co_tx E (\<lambda>n. cancel_prepared_order oid evidence (su_now E n)))" for evidence
    by (rule kept_tx) (rule halting_keep, erule store_step.cancel_prepared, erule control_keeps)
  then show ?thesis
    unfolding cancel_order_def
    by (auto intro!: kept_bind kept_read kept_order_to kept_cancel_at_venue kept_ignore kept_reconcile
        kept_result split: option.split)
qed

lemma kept_cancellation_loop: "kept R (cancellation_loop E cid oids failed)"
  by (induction oids arbitrary: failed) (auto intro!: kept_bind kept_cancel_order kept_result)

lemma kept_execute_cancellation: "kept R (execute_cancellation E cid targets)"
  unfolding execute_cancellation_def
  by (intro kept_bind kept_cancellation_loop kept_tx kept_result) (rule halting_keep, erule store_step.cancelled, erule control_keeps)

lemma kept_cancel_inner: "kept R (cancel_inner E actor request)"
proof -
  have "kept R (co_tx E (\<lambda>n. create_cancellation (su_hash E) actor request (su_fresh E n 0) (su_now E n)))"
    unfolding create_cancellation_def by (rule kept_tx) (rule halting_keep, erule store_step.cancellation, erule control_keeps)
  then show ?thesis
    unfolding cancel_inner_def check_cancellation_def
    by (auto intro!: kept_bind kept_execute_cancellation kept_result split: prod.split)
qed

lemma kept_admit_cancellation: "kept R (admit_cancellation E actor key request)"
  unfolding admit_cancellation_def check_cancellation_def create_cancellation_idempotent_def
  by (intro kept_bind kept_result kept_tx) (rule halting_keep, erule store_step.cancellation, erule control_keeps)

lemma kept_admit_reconciliation: "kept R (admit_reconciliation E actor key trigger)"
  unfolding admit_reconciliation_def start_reconciliation_idempotent_def
  by (rule kept_tx) (rule halting_keep, erule store_step.reconciliation, erule control_keeps)

lemma kept_protective: "kept R (protective_cancellation E reason)"
  unfolding protective_cancellation_def by (intro kept_ignore kept_cancel_inner)

lemma kept_require_reason: "kept R (require_reason reason)"
  unfolding require_reason_def by (auto intro: kept_result)

lemma kept_halt: "kept R (halt E actor reason)"
  unfolding halt_def cancel_on_halt_inner_def
  by (intro kept_bind kept_require_reason kept_set_halted kept_when kept_protective)

lemma kept_halt_idempotent: "kept R (halt_idempotent E actor key reason)"
  unfolding halt_idempotent_def set_service_state_idempotent_def
  by (intro kept_bind kept_require_reason kept_do kept_spawn_protective) (erule halting_halt)

lemma kept_halt_for_venue_error: "kept R (halt_for_venue_error E e trigger)"
  unfolding halt_for_venue_error_def by (intro kept_when kept_bind kept_halt kept_ignore kept_reconcile)

lemma kept_prepare_resume: "kept R (prepare_resume E reason)"
  unfolding prepare_resume_def
  by (auto intro!: kept_bind kept_require_reason kept_read kept_reconcile kept_supervised_heartbeat kept_result
      split: prod.split)

lemma kept_release_deferred: "kept R (release_deferred E)"
  unfolding release_deferred_def by (intro kept_rules kept_enqueue_all)

lemma kept_finish: "kept R (finish E i oid ist ost vid class filled price ids evidence)"
  unfolding finish_def by (rule kept_do) (rule halting_keep, erule store_step.finish, erule control_keeps)

lemma kept_record_answer: "kept R (record_answer E i oid prepared answer)"
  unfolding record_answer_def
  by (auto simp: Let_def intro!: kept_bind kept_finish kept_halt kept_ignore kept_reconcile kept_when
      kept_result split: res.split)

lemma kept_submit_prepared: "kept R (submit_prepared E i oid prepared)"
proof -
  let ?h = "\<lambda>e. case e of StoreFailed (NewRiskDisabled s) \<Rightarrow> defer_recovery i | _ \<Rightarrow> co_fail e"
  let ?k = "\<lambda>answer. record_answer E i oid prepared
      (deadline (Ambiguous ''submission deadline exceeded after SUBMITTING commit'') answer)"
  have eq: "(case begun of Err (StoreFailed (NewRiskDisabled s)) \<Rightarrow> defer_recovery i | Err e \<Rightarrow> co_fail e
      | Panic \<Rightarrow> co_result Panic | Ok _ \<Rightarrow> co_bind (co_call (su_submit E) (SubmitCall i oid)) ?k)
    = (case begun of Ok _ \<Rightarrow> co_bind (co_call (su_submit E) (SubmitCall i oid)) ?k | Err e \<Rightarrow> ?h e | Panic \<Rightarrow> co_result Panic)"
    for begun :: "(CoordinatorError, unit) res"
    by (cases begun) (auto split: CoordinatorError.split StoreError.split)
  have h: "kept R (?h e)" for e
    by (auto intro!: kept_defer kept_result split: CoordinatorError.split StoreError.split)
  have deferred: "kept R (co_bind (read_intent E i) (\<lambda>intent.
      co_when (in_state intent = IntentState.Prepared) (defer_recovery i)))"
    by (intro kept_bind kept_reads kept_when kept_defer)
  show ?thesis
    unfolding submit_prepared_def eq
    by (intro kept_bind kept_reads) (auto intro!: deferred begin_kept kept_record_answer h)
qed

lemma kept_prepare_order: "kept R (prepare_order E intent request market)"
proof -
  have reject: "kept R (co_do E (\<lambda>n. reject_preparation (in_id intent) code msg (su_now E n)))" for code msg
    by (rule kept_do) (rule halting_keep, erule store_step.reject, erule control_keeps)
  have create: "kept R (co_tx E (\<lambda>n. create_prepared_order (su_dec E) (su_sha E) intent request prepared
      pv fee (su_fresh E n 0) (su_fresh E n 1) (su_fresh E n 2) (su_now E n)))" for prepared pv fee
    by (rule kept_tx) (rule halting_keep, erule store_step.prepare, erule control_keeps)
  show ?thesis
    unfolding prepare_order_def Let_def
    by (intro kept_bind kept_call)
       (auto intro!: kept_bind reject create [unfolded One_nat_def] kept_halt_for_venue_error kept_submit_prepared kept_result
          split: option.split res.split)
qed

lemma kept_approve_and_prepare: "kept R (approve_and_prepare E intent request market book)"
proof -
  have reserve: "kept R (co_tx E (\<lambda>n. evaluate_and_reserve_risk (su_dec E) (in_id intent) request market book
      (su_policy E) (su_fresh E n 0) (su_now E n)))"
    by (rule kept_tx) (rule halting_keep, erule store_step.reserve, erule control_keeps)
  have start: "kept R (intent_to E (in_id intent) IntentState.Approved IntentState.Preparing None)"
    by (rule kept_intent_to) (simp add: coordinator_transition_def)
  show ?thesis
    unfolding approve_and_prepare_def Let_def
    by (intro kept_bind kept_ask)
       (auto intro!: kept_bind reserve start kept_when kept_prepare_order kept_reject_validating kept_result
          split: res.split prod.split)
qed

lemma kept_validate_intent: "kept R (validate_intent E intent request)"
  unfolding validate_intent_def Let_def
  by (intro kept_bind kept_call)
     (auto intro!: kept_bind kept_call kept_reject_validating kept_halt_for_venue_error kept_approve_and_prepare
        kept_result split: option.split res.split)

lemma kept_process_received: "kept R (process_received E intent)"
proof -
  have 1: "kept R (intent_to E i IntentState.Received IntentState.Validating None)" for i
    by (rule kept_intent_to) (simp add: coordinator_transition_def)
  have 2: "kept R (intent_to E i IntentState.Validating IntentState.Rejected rejection)" for i rejection
    by (rule kept_intent_to) (simp add: coordinator_transition_def)
  show ?thesis
    unfolding process_received_def parse_request_def Let_def
    by (intro kept_bind 1 kept_result kept_ask)
       (auto intro!: kept_bind 2 kept_decide kept_validate_intent kept_result split: res.split)
qed

lemma kept_resubmit_prepared: "kept R (resubmit_prepared E intent)"
  unfolding resubmit_prepared_def parse_request_def Let_def
  by (intro kept_bind kept_read kept_result kept_submit_prepared)

lemma kept_process_intent: "kept R (process_intent E i)"
  unfolding process_intent_def
  by (intro kept_bind kept_ask kept_when kept_ignore kept_reconcile kept_health)
     (auto intro!: kept_bind kept_halt kept_reject_received kept_reads kept_resubmit_prepared kept_process_received
        kept_result split: option.split)

lemma kept_pending_loop: "kept R (pending_loop E cancellations)"
  by (induction cancellations)
     (auto simp: cancellation_targets_of_def intro!: kept_bind kept_execute_cancellation kept_result)

lemma kept_startup_recovery: "kept R (startup_recovery E)"
proof -
  have 1: "kept R (co_tx E (\<lambda>n. fail_interrupted_reconciliations (su_fresh E n) (su_now E n)))"
    by (rule kept_tx) (rule halting_keep, erule store_step.reconciliation_interrupted, erule control_keeps)
  have 2: "kept R (co_tx E (\<lambda>n db. Ok (fail_interrupted_backups (su_now E n) db)))"
    by (rule kept_tx) (rule halting_keep, simp add: store_step.backup_interrupted, simp add: control_backup_interrupted)
  have 3: "kept R (co_tx E (\<lambda>n. recover_interrupted_submissions (su_now E n)))"
    by (rule kept_tx) (rule halting_keep, erule store_step.recover_interrupted, erule control_keeps)
  have 4: "kept R (co_tx E (\<lambda>n. recover_pre_submission_work (su_uuid E) (su_now E n)))"
    by (rule kept_tx) (rule halting_keep, erule store_step.recover_pre, erule control_keeps)
  show ?thesis
    unfolding startup_recovery_def by (intro kept_bind 1 2 3 4 kept_when kept_set_halted)
qed

lemma kept_heartbeat_turn: "kept R (heartbeat_turn E)"
  unfolding heartbeat_turn_def
  by (intro kept_bind kept_call)
     (auto intro!: kept_bind kept_ask kept_fields kept_when kept_ignore kept_reconcile kept_halt kept_result
        split: option.split res.split)

lemma kept_worker_turn: "kept R (worker_turn E)"
  unfolding worker_turn_def
  by (auto intro!: kept_bind kept_fields kept_ignore kept_process_intent kept_result split: option.split)

lemma kept_enqueue: "kept R (enqueue i)"
  unfolding enqueue_def by (auto intro!: kept_bind kept_get kept_fields kept_result)

lemma kept_reconciliation_turn: "kept R (reconciliation_turn E)"
  unfolding reconciliation_turn_def by (intro kept_ignore kept_reconcile)

lemma kept_task:
  assumes "op \<noteq> Startup" "\<not> may_resume op"
  shows "kept R (run_operation E op)"
  using assms
  by (cases op)
     (simp_all add: run_operation_def spawned_cancellation_def spawned_reconciliation_def kept_worker_turn
        kept_reconciliation_turn kept_heartbeat_turn kept_enqueue kept_cancel_inner
        kept_admit_cancellation kept_execute_cancellation kept_protective kept_reconcile kept_admit_reconciliation
        kept_reconcile_started kept_halt kept_halt_idempotent kept_bind kept_result kept_ignore)

end

section \<open>Startup, resume and shutdown\<close>

locale co_service = co_tasks +
  assumes control_step: "co_log c' = co_log c \<Longrightarrow> db = su_before E n (co_store c) \<Longrightarrow> co_step E db (co_store c') \<Longrightarrow> R c c'"
begin

lemma kept_any_do:
  assumes f: "\<And>n db db'. f n db = Ok db' \<Longrightarrow> co_step E db db'"
  shows "kept R (co_do E f)"
  unfolding kept_def
proof
  fix c :: coordinator
  let ?n = "co_calls c" and ?db = "su_before E (co_calls c) (co_store c)"
  show "R c (snd (co_do E f c))"
  proof (cases "f ?n ?db")
    case (Ok db')
    with f show ?thesis
      by (intro control_step [of _ _ ?db ?n]) (auto simp: co_do_def co_tx_def Let_def)
  qed (auto simp: co_do_def co_tx_def Let_def intro!: journal_step [of _ _ ?db ?n])
qed

lemma kept_set_any: "kept R (set_state E actor nxt reason)"
  unfolding set_state_def set_service_state_def by (rule kept_any_do) (erule store_step.control)

lemma kept_resume: "kept R (resume E actor reason)"
  unfolding resume_def set_service_state_if_unchanged_def
  by (intro kept_bind kept_prepare_resume kept_any_do kept_release_deferred) (erule store_step.control)

lemma kept_resume_idempotent: "kept R (resume_idempotent E actor key reason)"
  unfolding resume_idempotent_def set_service_state_idempotent_if_unchanged_def
  by (intro kept_bind kept_prepare_resume kept_any_do kept_release_deferred) (erule store_step.control)

lemma kept_startup: "kept R (startup E)"
proof -
  have 1: "kept R (startup_state E)"
    unfolding startup_state_def by (auto intro!: kept_bind kept_reads kept_set_any kept_result)
  have 2: "kept R (startup_cancellations E prior)" for prior
    unfolding startup_cancellations_def
    by (intro kept_bind kept_read kept_pending_loop kept_when kept_cancel_inner kept_result)
  have 3: "kept R (startup_heartbeat E)"
    unfolding startup_heartbeat_def
    by (intro kept_when kept_bind kept_try kept_supervised_heartbeat kept_halt)
  show ?thesis
    unfolding startup_def
    by (intro kept_bind 1 2 3 kept_when kept_set_any kept_startup_recovery kept_reconcile kept_reads)
       (auto intro!: kept_bind kept_fields kept_set_any kept_enqueue_all)
qed

lemma kept_shutdown: "kept R (shutdown E b)"
proof -
  have stop: "kept R (\<lambda>c. (Ok (), c\<lparr>co_stopped := True\<rparr>))"
    by (simp add: kept_def field_step)
  show ?thesis
    unfolding shutdown_def
    by (intro kept_bind kept_set_any kept_when kept_cancel_inner kept_result kept_reconcile kept_ask stop)
qed

lemma kept_run_operation: "kept R (run_operation E op)"
proof (cases "op \<noteq> Startup \<and> \<not> may_resume op")
  case True
  then show ?thesis by (intro kept_task) auto
next
  case False
  then show ?thesis
    by (cases op) (simp_all add: run_operation_def kept_startup kept_resume kept_resume_idempotent kept_shutdown)
qed

lemma run_operations_kept: "R c (run_operations E ops c)"
proof (induction ops arbitrary: c)
  case Nil
  then show ?case by (simp add: R_refl)
next
  case (Cons op ops)
  have "R c (snd (run_operation E op c))" using kept_run_operation by (simp add: kept_def)
  from R_trans [OF this Cons.IH] show ?case by simp
qed

end

end
