(* ===== verification/ApiFrame.thy ===== *)
theory ApiFrame
  imports Api CoordinatorFrame
begin

text \<open>
  The HTTP interface in the frame of the coordinator: what interactions with the store keep, every
  handler keeps, so the properties of the coordinator extend to a service that answers requests, runs
  the tasks its handlers spawned and takes the turns of its background tasks.
\<close>

definition akept :: "(coordinator \<Rightarrow> coordinator \<Rightarrow> bool) \<Rightarrow> 'a api \<Rightarrow> bool" where
  "akept R m \<longleftrightarrow> (\<forall>a. R (ap_coordinator a) (ap_coordinator (snd (m a))))"

section \<open>The service\<close>

datatype service_event = Request uuid http_request | Turn operation | RunTask nat

definition service_step ::
  "http_library \<Rightarrow> surroundings \<Rightarrow> (nat \<Rightarrow> (string, backup_files) res) \<Rightarrow> AuthRegistry \<Rightarrow> service_event \<Rightarrow> service \<Rightarrow> service" where
  "service_step W E files registry ev a = (case ev of
     Request correlation rq \<Rightarrow> snd (serve W E registry correlation rq a)
   | Turn op \<Rightarrow> a\<lparr>ap_coordinator := snd (run_operation E op (ap_coordinator a))\<rparr>
   | RunTask i \<Rightarrow>
       if i < length (ap_tasks a)
       then a\<lparr>ap_coordinator := run_task E files (ap_tasks a ! i) (ap_coordinator a),
              ap_tasks := take i (ap_tasks a) @ drop (Suc i) (ap_tasks a)\<rparr>
       else a)"

fun run_service ::
  "http_library \<Rightarrow> surroundings \<Rightarrow> (nat \<Rightarrow> (string, backup_files) res) \<Rightarrow> AuthRegistry \<Rightarrow> service_event list \<Rightarrow> service \<Rightarrow> service" where
  "run_service W E files registry [] a = a"
| "run_service W E files registry (ev # evs) a = run_service W E files registry evs (service_step W E files registry ev a)"

text \<open>The events that may take the service out of HALTED.\<close>

definition may_release :: "http_library \<Rightarrow> service_event \<Rightarrow> bool" where
  "may_release W ev \<longleftrightarrow> (case ev of
     Request correlation rq \<Rightarrow> hl_route W rq = Some PostResume
   | Turn op \<Rightarrow> may_resume op
   | RunTask i \<Rightarrow> False)"

section \<open>Handlers keep what interactions keep\<close>

context co_frame
begin

lemma akept_result: "akept R (ap_result r)"
  by (simp add: akept_def ap_result_def R_refl)

lemma akept_bind:
  assumes "akept R m" "\<And>x. akept R (f x)"
  shows "akept R (ap_bind m f)"
  unfolding akept_def
proof
  fix a :: service
  obtain r a' where m: "m a = (r, a')" by fastforce
  with assms(1) have 1: "R (ap_coordinator a) (ap_coordinator a')" by (metis akept_def snd_conv)
  have 2: "R (ap_coordinator a') (ap_coordinator (snd (f x a')))" for x using assms(2) by (simp add: akept_def)
  show "R (ap_coordinator a) (ap_coordinator (snd (ap_bind m f a)))"
    using 1 R_trans [OF 1 2] by (cases r) (simp_all add: ap_bind_def m)
qed

lemma akept_lift: "kept R m \<Longrightarrow> akept R (ap_lift h m)"
  by (auto simp: akept_def kept_def ap_lift_def split: prod.split) (metis snd_conv)

lemma akept_spawn: "akept R (ap_spawn t)"
  by (simp add: akept_def ap_spawn_def R_refl)

lemma akept_openapi: "akept R get_openapi"
  by (auto simp: akept_def get_openapi_def R_refl split: res.split)

lemmas akept_intros = akept_result akept_bind akept_lift akept_spawn

end

locale http_tasks = co_tasks R E for R E
begin

lemma akept_rate: "akept R (enforce_admission_rate W E)"
  by (auto simp: akept_def enforce_admission_rate_def Let_def intro!: field_step split: prod.split)

lemma akept_permit:
  assumes "akept R m"
  shows "akept R (with_permit m)"
  unfolding with_permit_def
proof (intro akept_bind akept_lift kept_fields)
  show "akept R (\<lambda>a. case m a of (Ok x, a') \<Rightarrow> (Ok x, a')
     | (r, a') \<Rightarrow> (r, a'\<lparr>ap_coordinator := release_slot (ap_coordinator a')\<rparr>))"
    unfolding akept_def
  proof
    fix a :: service
    obtain r a' where m: "m a = (r, a')" by fastforce
    with assms have 1: "R (ap_coordinator a) (ap_coordinator a')" by (metis akept_def snd_conv)
    have 2: "R (ap_coordinator a') (release_slot (ap_coordinator a'))" by (rule field_step) (simp_all add: release_slot_def)
    show "R (ap_coordinator a) (ap_coordinator (snd (case m a of (Ok x, a') \<Rightarrow> (Ok x, a')
       | (r, a') \<Rightarrow> (r, a'\<lparr>ap_coordinator := release_slot (ap_coordinator a')\<rparr>))))"
      using 1 R_trans [OF 1 2] by (cases r) (simp_all add: m)
  qed
qed

lemma akept_read: "akept R (ap_lift h (co_read E f))"
  by (intro akept_lift kept_read)

lemma akept_mode: "akept R service_mode"
  unfolding service_mode_def by (intro akept_lift kept_get)

lemma akept_mutation:
  assumes "akept R m"
  shows "akept R (mutation W E actor key op body m)"
  unfolding mutation_def replay_operation_def
  by (auto intro!: akept_bind akept_read akept_result akept_rate assms split: option.split)

lemma akept_strict: "akept R (strict_json W decode body)"
  unfolding strict_json_def by (intro akept_bind akept_result)

lemma kept_admit_intent: "kept R (co_tx E (\<lambda>n. admit_intent (su_hash E) actor key request (su_fresh E n 0) (su_now E n)))"
  by (rule kept_tx) (rule halting_keep, erule store_step.admit, erule control_keeps)

lemma kept_start_backup: "kept R (co_tx E (\<lambda>n. start_backup_inner (su_hash E) idem (su_fresh E n 0) (su_now E n)))"
  by (rule kept_tx) (rule halting_keep, erule store_step.backup, erule control_keeps)

lemma kept_reserve_queue: "kept R reserve_queue"
  unfolding reserve_queue_def by (auto intro!: kept_bind kept_get kept_result)

lemma akept_submit_intent: "akept R (submit_intent W E actor header request)"
  unfolding submit_intent_def
  by (intro akept_bind akept_result akept_read)
     (auto intro!: akept_bind akept_rate akept_lift kept_reserve_queue kept_admit_intent kept_fields akept_result
        split: option.split Admission.split)

lemma akept_backup: "akept R (create_backup W E actor header)"
  unfolding create_backup_def
  by (intro akept_bind akept_result akept_mutation akept_permit akept_lift kept_start_backup akept_mode akept_spawn)

lemma akept_list: "akept R (list_resources W E requested cursor cursor_for f query)"
  unfolding list_resources_def by (intro akept_bind akept_result akept_read)

lemma akept_get: "akept R (get_resource E f query)"
  unfolding get_resource_def by (intro akept_bind akept_result akept_read)

lemma akept_readiness: "akept R (get_readiness E)"
  unfolding get_readiness_def by (intro akept_bind akept_lift kept_try kept_read akept_result)

lemma akept_control_state: "akept R (control_state_response E)"
  unfolding control_state_response_def by (auto intro!: akept_bind akept_read akept_mode akept_result)

lemma akept_events: "akept R (get_events W E header)"
  unfolding get_events_def by (intro akept_bind akept_read akept_result) (auto intro!: akept_read akept_result)

lemma kept_backup_task: "R c (backup_task E files bid c)"
proof -
  let ?n = "co_calls c"
  let ?db = "su_before E ?n (co_store c)"
  obtain r db' where run: "run_backup bid (files ?n) (su_now E ?n) ?db = (r, db')" by fastforce
  then have "halting_step E ?db db'" by (intro halting_keep store_step.backup_run) (auto dest: control_keeps)
  then show ?thesis
    by (intro journal_step [of _ _ ?db ?n]) (simp_all add: backup_task_def Let_def run)
qed

lemmas akept_reads = akept_result akept_openapi akept_list akept_get akept_readiness akept_control_state akept_events
  akept_submit_intent akept_backup akept_strict

lemma akept_cancel: "akept R (cancel W E actor header request)"
  unfolding cancel_def
  by (intro akept_bind akept_result akept_mutation akept_permit akept_lift kept_admit_cancellation)
     (auto intro!: akept_bind akept_mode akept_spawn akept_result)

lemma akept_halt: "akept R (post_halt W E actor header reason)"
  unfolding post_halt_def
  by (intro akept_bind akept_result akept_mutation akept_lift kept_halt_idempotent akept_mode)

lemma akept_reconcile: "akept R (post_reconcile W E actor header)"
  unfolding post_reconcile_def
  by (intro akept_bind akept_result akept_mutation akept_permit akept_lift kept_admit_reconciliation akept_mode akept_spawn)

lemma akept_handle:
  assumes "ep \<noteq> PostResume"
  shows "akept R (handle W E ep actor rq)"
  using assms
  by (cases ep)
     (simp_all add: handle_def get_liveness_def list_intents_response_def list_orders_response_def list_trades_response_def
        akept_reads akept_bind akept_cancel akept_halt akept_reconcile)

lemma akept_serve:
  assumes "hl_route W rq \<noteq> Some PostResume"
  shows "R (ap_coordinator a) (ap_coordinator (snd (serve W E registry correlation rq a)))"
proof -
  have "R (ap_coordinator a) (ap_coordinator (snd (handle W E ep actor rq a)))" if "hl_route W rq = Some ep" for ep actor
    using akept_handle [of ep W actor rq] assms that by (auto simp: akept_def)
  then show ?thesis
    by (auto simp: serve_def R_refl split: option.split res.split prod.split) (metis snd_conv)+
qed

lemma kept_run_task: "R c (run_task E files t c)"
proof -
  have released: "R c (release_slot c')" if "R c c'" for c'
    using that by (rule R_trans) (rule field_step, simp_all add: release_slot_def)
  have "kept R (spawned_cancellation E cid targets)" "kept R (spawned_reconciliation E rid)" for cid targets rid
    unfolding spawned_cancellation_def spawned_reconciliation_def
    by (intro kept_ignore kept_execute_cancellation kept_reconcile_started)+
  then show ?thesis
    by (cases t) (auto simp: run_task_def kept_def kept_backup_task intro!: released)
qed

end

locale http_service = http_tasks R E + co_service R E for R E
begin

lemma akept_resume: "akept R (post_resume W E actor header reason)"
  unfolding post_resume_def
  by (intro akept_bind akept_result akept_mutation akept_lift kept_resume_idempotent akept_mode)

lemma akept_any_handle: "akept R (handle W E ep actor rq)"
  using akept_handle [of ep] akept_bind [OF akept_strict akept_resume]
  by (cases "ep = PostResume") (simp_all add: handle_def)

lemma kept_service_step: "R (ap_coordinator a) (ap_coordinator (service_step W E files registry ev a))"
proof (cases ev)
  case (Request correlation rq)
  have "R (ap_coordinator a) (ap_coordinator (snd (handle W E ep actor rq a)))" for ep actor
    using akept_any_handle [of W ep actor rq] by (simp add: akept_def)
  then show ?thesis
    by (auto simp: service_step_def Request serve_def R_refl split: option.split res.split prod.split) (metis snd_conv)+
next
  case (Turn op)
  then show ?thesis using kept_run_operation [of op] by (simp add: service_step_def kept_def)
qed (simp add: service_step_def kept_run_task R_refl)

lemma kept_run_service: "R (ap_coordinator a) (ap_coordinator (run_service W E files registry evs a))"
  by (induction evs arbitrary: a) (auto intro: R_refl R_trans kept_service_step)

end

end
