(* ===== verification/PaperBooks.thy ===== *)
theory PaperBooks
  imports PaperLedger
begin

text \<open>
  The books of the paper venue balance.  The account stores what its resting orders reserve only as a
  running number; here that number is the sum of the reservations of the orders, and neither the
  account nor an inventory row is ever reserved beyond what it holds.
\<close>

section \<open>Stored numbers\<close>

definition parses :: "dec_ops \<Rightarrow> string \<Rightarrow> bool" where
  "parses D raw \<longleftrightarrow> d_from_str D raw \<noteq> None"

definition dec_zero :: "dec_ops \<Rightarrow> bool" where
  "dec_zero D \<longleftrightarrow> d_from_str D ''0'' = Some 0"

lemma dec_rat_zero: "dec_zero dec_rat"
  by (simp add: dec_zero_def dec_rat_def read_rat_def read_decimal_def read_nat_def ascii_digit_def byte_def)

lemma parse_stored_Ok [simp]: "parse_stored_decimal D raw = Ok x \<longleftrightarrow> parses D raw \<and> x = stored D raw"
  by (auto simp: parse_stored_decimal_Ok parses_def stored_def)

lemma parses_norm [simp]: "dec_text D \<Longrightarrow> parses D (d_norm D x)"
  by (simp add: parses_def)

lemma stored_norm [simp]: "dec_text D \<Longrightarrow> stored D (d_norm D x) = x"
  by (simp add: stored_def)

lemma parses_zero [simp]: "dec_zero D \<Longrightarrow> parses D ''0''"
  by (simp add: parses_def dec_zero_def)

lemma stored_zero [simp]: "dec_zero D \<Longrightarrow> stored D ''0'' = 0"
  by (simp add: stored_def dec_zero_def)

lemma sum_list_sql_update:
  fixes f :: "'r \<Rightarrow> 'a::ab_group_add"
  assumes "distinct (map key rows)" "row \<in> set rows"
  shows "(\<Sum>r \<leftarrow> sql_update (\<lambda>r. key r = key row) g rows. f r) = (\<Sum>r \<leftarrow> rows. f r) - f row + f (g row)"
  using assms
proof (induction rows)
  case (Cons a rows)
  show ?case
  proof (cases "key a = key row")
    case True
    with Cons.prems have a: "a = row" and rest: "\<forall>r \<in> set rows. key r \<noteq> key row"
      by (auto simp: image_iff)
    from rest have "sql_update (\<lambda>r. key r = key row) g rows = rows"
      by (auto simp: sql_update_def intro: map_idI)
    with a show ?thesis by simp
  next
    case False
    with Cons show ?thesis by auto
  qed
qed simp

lemma sql_find_update_key:
  assumes "distinct (map key rows)" "row \<in> set rows" "key row = k" "\<And>r. key (g r) = key r"
  shows "sql_find (\<lambda>r. key r = k) (sql_update (\<lambda>r. key r = k) g rows) = Some (g row)"
  using assms by (induction rows) (force simp: image_iff)+

section \<open>The invariant\<close>

definition order_balanced :: "dec_ops \<Rightarrow> PaperOrderRow \<Rightarrow> bool" where
  "order_balanced D r \<longleftrightarrow>
     list_all (parses D) [po_price r, po_fee_rate r, po_remaining_quantity r, po_filled_quantity r,
       po_quote_amount r, po_fee_amount r, po_reserved_quote r, po_reserved_shares r]
     \<and> 0 \<le> stored D (po_price r) \<and> 0 \<le> stored D (po_fee_rate r) \<and> stored D (po_fee_rate r) \<le> 1
     \<and> 0 \<le> stored D (po_remaining_quantity r)
     \<and> (paper_active r \<or> stored D (po_remaining_quantity r) = 0)
     \<and> stored D (po_reserved_quote r) =
         (case po_side r of Buy \<Rightarrow> stored D (po_remaining_quantity r) * stored D (po_price r) * (1 + stored D (po_fee_rate r))
                          | Sell \<Rightarrow> 0)
     \<and> stored D (po_reserved_shares r) =
         (case po_side r of Buy \<Rightarrow> 0 | Sell \<Rightarrow> stored D (po_remaining_quantity r))"

definition reserved_quotes :: "dec_ops \<Rightarrow> PaperOrderRow list \<Rightarrow> decimal" where
  "reserved_quotes D rows = (\<Sum>r \<leftarrow> rows. stored D (po_reserved_quote r))"

definition reserved_shares :: "dec_ops \<Rightarrow> string \<Rightarrow> PaperOrderRow list \<Rightarrow> decimal" where
  "reserved_shares D token rows = (\<Sum>r \<leftarrow> rows. if po_token_id r = token then stored D (po_reserved_shares r) else 0)"

definition rows_balanced :: "dec_ops \<Rightarrow> PaperOrderRow list \<Rightarrow> bool" where
  "rows_balanced D rows \<longleftrightarrow> distinct (map po_venue_order_id rows) \<and> list_all (order_balanced D) rows"

definition account_balanced :: "dec_ops \<Rightarrow> PaperOrderRow list \<Rightarrow> PaperAccountRow \<Rightarrow> bool" where
  "account_balanced D rows a \<longleftrightarrow> parses D (pa_quote_balance a) \<and> parses D (pa_reserved_quote a)
     \<and> stored D (pa_reserved_quote a) = reserved_quotes D rows
     \<and> stored D (pa_reserved_quote a) \<le> stored D (pa_quote_balance a)"

definition holding_balanced :: "dec_ops \<Rightarrow> PaperOrderRow list \<Rightarrow> PaperInventoryRow \<Rightarrow> bool" where
  "holding_balanced D rows v \<longleftrightarrow> parses D (pi_shares v) \<and> parses D (pi_reserved_shares v)
     \<and> stored D (pi_reserved_shares v) = reserved_shares D (pi_token_id v) rows
     \<and> stored D (pi_reserved_shares v) \<le> stored D (pi_shares v)"

definition books_balance :: "dec_ops \<Rightarrow> Store \<Rightarrow> bool" where
  "books_balance D db \<longleftrightarrow>
     rows_balanced D (paper_venue_orders db)
     \<and> distinct (map pi_token_id (paper_inventory db))
     \<and> list_all (\<lambda>r. po_token_id r \<in> pi_token_id ` set (paper_inventory db)) (paper_venue_orders db)
     \<and> list_all (holding_balanced D (paper_venue_orders db)) (paper_inventory db)
     \<and> (case paper_account db of
          None \<Rightarrow> paper_venue_orders db = [] \<and> paper_inventory db = []
        | Some a \<Rightarrow> account_balanced D (paper_venue_orders db) a)"

lemma books_balance_same:
  assumes "paper_account db' = paper_account db" "paper_inventory db' = paper_inventory db"
    "paper_venue_orders db' = paper_venue_orders db"
  shows "books_balance D db' \<longleftrightarrow> books_balance D db"
  unfolding books_balance_def assms by (rule refl)

text \<open>The same of the numbers of a running transaction.\<close>

definition ledger_balanced :: "dec_ops \<Rightarrow> string \<Rightarrow> PaperOrderRow list \<Rightarrow> ledger \<Rightarrow> bool" where
  "ledger_balanced D token rows l \<longleftrightarrow>
     lg_reserved_quote l = reserved_quotes D rows \<and> lg_reserved_quote l \<le> lg_quote_balance l
     \<and> lg_reserved_shares l = reserved_shares D token rows \<and> lg_reserved_shares l \<le> lg_shares l"

lemma reserved_sums [simp]:
  shows "reserved_quotes D [] = 0" "reserved_shares D token [] = 0"
    and "reserved_quotes D (rows @ [r]) = reserved_quotes D rows + stored D (po_reserved_quote r)"
    and "reserved_shares D token (rows @ [r]) = reserved_shares D token rows +
           (if po_token_id r = token then stored D (po_reserved_shares r) else 0)"
  by (simp_all add: reserved_quotes_def reserved_shares_def)

lemma order_balanced_nonneg:
  assumes "order_balanced D r"
  shows "0 \<le> stored D (po_reserved_quote r)" "0 \<le> stored D (po_reserved_shares r)"
  using assms by (auto simp: order_balanced_def split: Side.splits)

lemma reserved_nonneg:
  assumes "list_all (order_balanced D) rows"
  shows "0 \<le> reserved_quotes D rows" "0 \<le> reserved_shares D token rows"
  using assms order_balanced_nonneg
  by (auto simp: reserved_quotes_def reserved_shares_def list_all_iff intro!: sum_list_nonneg)

lemma reserved_other_token:
  assumes "\<forall>r \<in> set rows. po_token_id r \<noteq> token"
  shows "reserved_shares D token rows = 0"
  using assms by (induction rows) (auto simp: reserved_shares_def)

lemma member_reserved_le:
  assumes "list_all (order_balanced D) rows" "r \<in> set rows"
  shows "stored D (po_reserved_quote r) \<le> reserved_quotes D rows"
    and "po_token_id r = token \<Longrightarrow> stored D (po_reserved_shares r) \<le> reserved_shares D token rows"
proof -
  have "\<exists>xs ys. rows = xs @ r # ys" using assms(2) by (rule split_list)
  then obtain xs ys where rows: "rows = xs @ r # ys" by blast
  with assms have "list_all (order_balanced D) xs" "list_all (order_balanced D) ys" by auto
  note nn = reserved_nonneg [OF this(1)] reserved_nonneg [OF this(2)]
  show "stored D (po_reserved_quote r) \<le> reserved_quotes D rows"
    using nn by (simp add: rows reserved_quotes_def)
  show "stored D (po_reserved_shares r) \<le> reserved_shares D token rows" if "po_token_id r = token"
    using nn that by (simp add: rows reserved_shares_def add_increasing add_increasing2)
qed

section \<open>Loading and saving\<close>

lemma load_ledger_balanced:
  assumes ok: "books_balance D db" and l: "load_ledger D token db = Ok l"
  shows "ledger_balanced D token (paper_venue_orders db) l"
proof -
  from l obtain a where a: "paper_account db = Some a"
    and q: "lg_quote_balance l = stored D (pa_quote_balance a)" "lg_reserved_quote l = stored D (pa_reserved_quote a)"
    and inv: "case sql_find (\<lambda>r. pi_token_id r = token) (paper_inventory db) of
        None \<Rightarrow> lg_shares l = 0 \<and> lg_reserved_shares l = 0
      | Some v \<Rightarrow> lg_shares l = stored D (pi_shares v) \<and> lg_reserved_shares l = stored D (pi_reserved_shares v)"
    by (auto simp: load_ledger_def res_simps split: option.splits)
  have "account_balanced D (paper_venue_orders db) a" using ok by (simp add: books_balance_def a)
  moreover have "lg_reserved_shares l = reserved_shares D token (paper_venue_orders db)
      \<and> lg_reserved_shares l \<le> lg_shares l"
  proof (cases "sql_find (\<lambda>r. pi_token_id r = token) (paper_inventory db)")
    case None
    then have "\<forall>r \<in> set (paper_venue_orders db). po_token_id r \<noteq> token"
      using ok by (force simp: books_balance_def list_all_iff sql_find_None_iff)
    with inv None show ?thesis by (simp add: reserved_other_token)
  next
    case (Some v)
    with ok have "holding_balanced D (paper_venue_orders db) v" "pi_token_id v = token"
      by (auto simp: books_balance_def list_all_iff dest: sql_find_SomeD)
    with inv Some show ?thesis by (simp add: holding_balanced_def)
  qed
  ultimately show ?thesis by (simp add: ledger_balanced_def account_balanced_def q)
qed

lemma map_upsert_inventory:
  "map pi_token_id (upsert_inventory v rows) =
     (if \<exists>r \<in> set rows. pi_token_id r = pi_token_id v then map pi_token_id rows
      else map pi_token_id rows @ [pi_token_id v])"
  by (simp add: upsert_inventory_def map_sql_update list_ex_iff)

lemma upsert_inventory_tokens:
  "pi_token_id ` set (upsert_inventory v rows) = insert (pi_token_id v) (pi_token_id ` set rows)"
proof -
  have "set (map pi_token_id (upsert_inventory v rows)) = insert (pi_token_id v) (set (map pi_token_id rows))"
    by (subst map_upsert_inventory) (auto intro: rev_image_eqI)
  then show ?thesis by simp
qed

lemma upsert_inventory_distinct:
  assumes "distinct (map pi_token_id rows)"
  shows "distinct (map pi_token_id (upsert_inventory v rows))"
  using assms by (auto simp: map_upsert_inventory)

lemma upsert_inventory_cases:
  assumes "w \<in> set (upsert_inventory v rows)"
  shows "(w \<in> set rows \<and> pi_token_id w \<noteq> pi_token_id v)
    \<or> (pi_token_id w = pi_token_id v \<and> pi_shares w = pi_shares v \<and> pi_reserved_shares w = pi_reserved_shares v)"
  using assms by (auto simp: upsert_inventory_def list_ex_iff set_sql_update split: if_split_asm)

lemma save_ledger_books:
  assumes D: "dec_text D" and a: "paper_account db = Some a"
    and rows: "rows_balanced D rows" and dist: "distinct (map pi_token_id (paper_inventory db))"
    and tokens: "\<forall>r \<in> set rows. po_token_id r \<in> insert token (pi_token_id ` set (paper_inventory db))"
    and others: "\<forall>v \<in> set (paper_inventory db). pi_token_id v \<noteq> token \<longrightarrow> holding_balanced D rows v"
    and l: "ledger_balanced D token rows l"
    and db': "paper_venue_orders db' = rows" "paper_account db' = paper_account (save_ledger D token l now db)"
      "paper_inventory db' = paper_inventory (save_ledger D token l now db)"
  shows "books_balance D db'"
proof -
  let ?v = "\<lparr>pi_token_id = token, pi_shares = d_norm D (lg_shares l),
      pi_reserved_shares = d_norm D (lg_reserved_shares l), pi_updated_at = now\<rparr>"
  have inv: "paper_inventory db' = upsert_inventory ?v (paper_inventory db)"
    by (simp add: db' save_ledger_def)
  have "holding_balanced D rows w" if "w \<in> set (paper_inventory db')" for w
    using upsert_inventory_cases [of w ?v "paper_inventory db"] that others l D
    by (auto simp: inv holding_balanced_def ledger_balanced_def)
  moreover have "po_token_id r \<in> pi_token_id ` set (paper_inventory db')" if "r \<in> set rows" for r
    using that tokens by (auto simp: inv upsert_inventory_tokens)
  ultimately show ?thesis
    using rows l D upsert_inventory_distinct [OF dist]
    by (simp add: books_balance_def db' a save_ledger_def list_all_iff account_balanced_def ledger_balanced_def)
qed

section \<open>Opening the account\<close>

lemma insert_starting_positions_books:
  assumes D: "dec_text D" "dec_zero D"
  shows "insert_starting_positions D now ps db = Ok db' \<Longrightarrow> books_balance D db \<Longrightarrow> paper_venue_orders db = []
    \<Longrightarrow> paper_account db \<noteq> None \<Longrightarrow> books_balance D db'"
proof (induction ps arbitrary: db)
  case (Cons p ps)
  from Cons.prems(1) obtain shares rows where rest: "insert_starting_positions D now ps
        (db\<lparr>paper_inventory := paper_inventory db @
               [\<lparr>pi_token_id = pp_token_id p, pi_shares = d_norm D shares, pi_reserved_shares = ''0'',
                 pi_updated_at = now\<rparr>],
             positions := rows\<rparr>) = Ok db'"
    and sh: "0 \<le> shares"
    and fresh: "\<not> list_ex (\<lambda>r. pi_token_id r = pp_token_id p) (paper_inventory db)"
    by (clarsimp simp: res_simps not_less)
  from rest Cons.prems(2-4) D sh fresh show ?case
    by (intro Cons.IH [OF rest])
       (auto simp: books_balance_def holding_balanced_def list_ex_iff split: option.splits)
qed auto

lemma initialize_books:
  assumes D: "dec_text D" "dec_zero D"
    and ok: "books_balance D db" and i: "initialize_paper_account D H config now db = Ok db'"
  shows "books_balance D db'"
proof (cases "paper_account db")
  case (Some a)
  with i have "db' = db"
    by (auto simp: initialize_paper_account_def Let_def res_simps split: prod.splits if_split_asm)
  with ok show ?thesis by simp
next
  case None
  with i obtain q hash db1 e where 1: "insert_starting_positions D now (pg_starting_positions config)
        (db\<lparr>paper_account := Some \<lparr>pa_configuration_sha256 = hash, pa_quote_balance = d_norm D q,
           pa_reserved_quote = ''0'', pa_created_at = now, pa_updated_at = now\<rparr>\<rparr>) = Ok db1"
    and q: "0 \<le> q" and db': "db' = send [e] (log_event e db1)"
    by (clarsimp simp: initialize_paper_account_def Let_def res_simps append_event_eq not_less)
  have "books_balance D db1"
    by (rule insert_starting_positions_books [OF D 1])
       (use ok None q D in \<open>auto simp: books_balance_def account_balanced_def\<close>)
  then show ?thesis by (subst books_balance_same [of _ db1]) (simp_all add: db')
qed

section \<open>Committing an order\<close>

text \<open>What the paper venue passes to \<open>commit_paper_order\<close> (\<open>PaperVenue::submit\<close>).\<close>

definition commit_balanced :: "PaperOrderCommit \<Rightarrow> bool" where
  "commit_balanced c \<longleftrightarrow>
     0 \<le> pc_price c \<and> 0 \<le> pc_fee_rate c \<and> pc_fee_rate c \<le> 1 \<and> 0 \<le> pc_remaining_quantity c
     \<and> (pc_state c \<in> {OrderState.Live, OrderState.PartiallyFilled} \<or> pc_remaining_quantity c = 0)
     \<and> 0 \<le> pc_filled_quantity c \<and> pc_fee_amount c \<le> pc_quote_amount c
     \<and> pc_reserved_quote c = (case pc_side c of
          Buy \<Rightarrow> pc_remaining_quantity c * pc_price c * (1 + pc_fee_rate c) | Sell \<Rightarrow> 0)
     \<and> pc_reserved_shares c = (case pc_side c of Buy \<Rightarrow> 0 | Sell \<Rightarrow> pc_remaining_quantity c)"

lemma paper_order_row_fields [simp]:
  shows "po_venue_order_id (paper_order_row D c now) = pc_venue_order_id c"
    and "po_token_id (paper_order_row D c now) = pc_token_id c"
    and "po_reserved_quote (paper_order_row D c now) = d_norm D (pc_reserved_quote c)"
    and "po_reserved_shares (paper_order_row D c now) = d_norm D (pc_reserved_shares c)"
  by (simp_all add: paper_order_row_def)

lemma paper_order_row_balanced:
  assumes "dec_text D" "commit_balanced c"
  shows "order_balanced D (paper_order_row D c now)"
  using assms
  by (cases "pc_side c") (auto simp: paper_order_row_def order_balanced_def commit_balanced_def paper_active_def)

lemma settle_commit_balanced:
  assumes D: "dec_exact D" "dec_text D" and c: "commit_balanced c" and l: "ledger_balanced D (pc_token_id c) rows l"
    and s: "settle_commit D c l = Ok l'"
  shows "ledger_balanced D (pc_token_id c) (rows @ [paper_order_row D c now]) l'"
proof (cases "pc_side c")
  case Buy
  with s c l D show ?thesis
    by (auto simp: settle_commit_def res_simps bind_Some_simps dec_exact_simps [OF D(1)] ledger_balanced_def
          commit_balanced_def)
next
  case Sell
  with s c l D show ?thesis
    by (auto simp: settle_commit_def res_simps bind_Some_simps dec_exact_simps [OF D(1)] ledger_balanced_def
          commit_balanced_def)
qed

lemma commit_paper_orderE:
  assumes "commit_paper_order D c now db = Ok (snap, db')"
  obtains (replayed) "db' = db" "load_paper_order D (pc_venue_order_id c) db = Ok (Some snap)" "pn_evidence snap = pc_evidence c"
  | (committed) l l' e where "load_paper_order D (pc_venue_order_id c) db = Ok None"
      "load_ledger D (pc_token_id c) db = Ok l" "settle_commit D c l = Ok l'"
      "pc_venue_order_id c \<notin> po_venue_order_id ` set (paper_venue_orders db)"
      "db' = send [e] (log_event e ((save_ledger D (pc_token_id c) l' now db)\<lparr>paper_venue_orders :=
         paper_venue_orders db @ [paper_order_row D c now]\<rparr>))"
      "load_paper_order D (pc_venue_order_id c) db' = Ok (Some snap)"
proof -
  from assms obtain found where f: "load_paper_order D (pc_venue_order_id c) db = Ok found"
    by (auto simp: commit_paper_order_def res_simps)
  show ?thesis
  proof (cases found)
    case (Some x)
    with assms f show ?thesis by (intro replayed) (auto simp: commit_paper_order_def split: if_split_asm)
  next
    case None
    from assms f None show ?thesis
      by (auto simp: commit_paper_order_def Let_def res_simps append_event_eq list_ex_iff same_key_def
            save_ledger_def load_paper_order_def image_iff split: if_split_asm intro!: committed)
  qed
qed

lemma commit_books:
  assumes D: "dec_exact D" "dec_text D" and ok: "books_balance D db" and c: "commit_balanced c"
    and run: "commit_paper_order D c now db = Ok (snap, db')"
  shows "books_balance D db'"
  using run
proof (cases rule: commit_paper_orderE)
  case replayed
  with ok show ?thesis by simp
next
  case (committed l l' e)
  let ?rows = "paper_venue_orders db @ [paper_order_row D c now]"
  have l': "ledger_balanced D (pc_token_id c) ?rows l'"
    by (rule settle_commit_balanced [OF D c load_ledger_balanced [OF ok committed(2)] committed(3)])
  from committed(2) obtain a where a: "paper_account db = Some a"
    by (auto simp: load_ledger_def res_simps)
  have rows: "rows_balanced D ?rows"
    using ok committed(4) paper_order_row_balanced [OF D(2) c] by (auto simp: books_balance_def rows_balanced_def)
  have others: "\<forall>v \<in> set (paper_inventory db). pi_token_id v \<noteq> pc_token_id c \<longrightarrow> holding_balanced D ?rows v"
    using ok by (auto simp: books_balance_def list_all_iff holding_balanced_def)
  show ?thesis
  proof (rule save_ledger_books [OF D(2) a rows _ _ others l'])
    show "distinct (map pi_token_id (paper_inventory db))" using ok by (simp add: books_balance_def)
    show "\<forall>r \<in> set ?rows. po_token_id r \<in> insert (pc_token_id c) (pi_token_id ` set (paper_inventory db))"
      using ok by (auto simp: books_balance_def list_all_iff)
  qed (simp_all add: committed(5) save_ledger_def)
qed

section \<open>Market trades\<close>

text \<open>A fill changes no paper table but the row of its order.\<close>

definition same_paper :: "Store \<Rightarrow> Store \<Rightarrow> bool" where
  "same_paper db db' \<longleftrightarrow> paper_account db' = paper_account db \<and> paper_inventory db' = paper_inventory db
     \<and> paper_venue_orders db' = paper_venue_orders db \<and> paper_market_events db' = paper_market_events db"

lemma apply_matched_fill_paper:
  assumes "apply_matched_fill D U ord v filled fp ids tid now db = Ok (e, db')"
  shows "same_paper db db'"
  using assms by (auto simp: apply_matched_fill_def Let_def append_event_eq res_simps same_paper_def split: if_split_asm)

lemma project_paper_fill_paper:
  assumes "project_paper_fill D U t vid vtid st fill rem ev tid now db = Ok (es, db')"
  shows "same_paper db db'"
proof (cases "sql_find (\<lambda>r. or_venue_order_id r = Some vid) (orders db)")
  case (Some core)
  with assms show ?thesis
    by (auto simp: project_paper_fill_def Let_def append_event_eq res_simps same_paper_def
          dest!: apply_matched_fill_paper split: if_split_asm)
qed (use assms in \<open>auto simp: project_paper_fill_def same_paper_def\<close>)

text \<open>What one fill does to its order row, with exact arithmetic.\<close>

definition filled_row ::
  "dec_ops \<Rightarrow> market_trade \<Rightarrow> decimal \<Rightarrow> PaperOrderRow \<Rightarrow> PaperOrderRow \<Rightarrow> bool" where
  "filled_row D t fill row r \<longleftrightarrow>
     po_venue_order_id r = po_venue_order_id row \<and> po_token_id r = po_token_id row \<and> po_side r = po_side row
     \<and> po_price r = po_price row \<and> po_fee_rate r = po_fee_rate row
     \<and> list_all (parses D) [po_remaining_quantity r, po_filled_quantity r, po_quote_amount r, po_fee_amount r,
          po_reserved_quote r, po_reserved_shares r]
     \<and> po_state r = (if stored D (po_remaining_quantity row) = fill then OrderState.Filled else OrderState.PartiallyFilled)
     \<and> stored D (po_remaining_quantity r) = stored D (po_remaining_quantity row) - fill
     \<and> stored D (po_filled_quantity r) = stored D (po_filled_quantity row) + fill
     \<and> stored D (po_quote_amount r) = stored D (po_quote_amount row) + fill * mt_price t
     \<and> stored D (po_fee_amount r) = stored D (po_fee_amount row) + fill * mt_price t * stored D (po_fee_rate row)
     \<and> (case po_side row of
          Buy \<Rightarrow> stored D (po_reserved_quote r) = max 0 (stored D (po_reserved_quote row)
                   - fill * stored D (po_price row) * (1 + stored D (po_fee_rate row)))
                 \<and> stored D (po_reserved_shares r) = stored D (po_reserved_shares row)
        | Sell \<Rightarrow> stored D (po_reserved_quote r) = stored D (po_reserved_quote row)
                 \<and> stored D (po_reserved_shares r) = max 0 (stored D (po_reserved_shares row) - fill))"

text \<open>What it does to the account and the inventory of the token.\<close>

definition settled :: "dec_ops \<Rightarrow> market_trade \<Rightarrow> decimal \<Rightarrow> PaperOrderRow \<Rightarrow> ledger \<Rightarrow> ledger" where
  "settled D t fill row l = (let q = fill * mt_price t; f = q * stored D (po_fee_rate row) in
     case po_side row of
       Buy \<Rightarrow> l\<lparr>lg_quote_balance := lg_quote_balance l - (q + f),
                lg_reserved_quote := max 0 (lg_reserved_quote l - fill * stored D (po_price row) * (1 + stored D (po_fee_rate row))),
                lg_shares := lg_shares l + fill\<rparr>
     | Sell \<Rightarrow> l\<lparr>lg_quote_balance := lg_quote_balance l + (q - f), lg_shares := lg_shares l - fill,
                 lg_reserved_shares := max 0 (lg_reserved_shares l - fill)\<rparr>)"

lemma settle_fill_exact:
  assumes D: "dec_exact D"
    and s: "settle_fill D (po_side row) fill (stored D (po_price row)) (stored D (po_fee_rate row))
       (fill * mt_price t) (fill * mt_price t * stored D (po_fee_rate row)) prq prs l = Some (rq, rs, l')"
  shows "l' = settled D t fill row l"
    and "case po_side row of
       Buy \<Rightarrow> rq = max 0 (prq - fill * stored D (po_price row) * (1 + stored D (po_fee_rate row))) \<and> rs = prs
     | Sell \<Rightarrow> rq = prq \<and> rs = max 0 (prs - fill)"
  using s by (cases "po_side row";
      auto simp: settle_fill_def settled_def Let_def bind_Some_simps dec_exact_simps [OF D] max.commute)+

lemma fill_paper_orderE:
  assumes D: "dec_exact D" "dec_text D"
    and f: "fill_paper_order D U t now row tid (stored D (po_price row)) (stored D (po_remaining_quantity row)) fill l db
      = Ok (es, l', db')"
  obtains g where "paper_venue_orders db' = sql_update (\<lambda>r. po_venue_order_id r = po_venue_order_id row) g (paper_venue_orders db)"
    "filled_row D t fill row (g row)" "\<And>r. po_venue_order_id (g r) = po_venue_order_id r"
    "\<And>r. po_token_id (g r) = po_token_id r" "l' = settled D t fill row l"
    "0 \<le> lg_quote_balance l'" "0 \<le> lg_shares l'"
    "paper_account db' = paper_account db" "paper_inventory db' = paper_inventory db"
    "paper_market_events db' = paper_market_events db"
proof -
  let ?st = "if stored D (po_remaining_quantity row) = fill then OrderState.Filled else OrderState.PartiallyFilled"
    and ?vtid = "''paper:'' @ mt_event_id t @ '':'' @ po_venue_order_id row"
    and ?q = "fill * mt_price t" and ?f = "stored D (po_fee_rate row)"
  let ?g = "\<lambda>avg rq rs. set_paper_fill D ?st (stored D (po_remaining_quantity row) - fill)
      (stored D (po_filled_quantity row) + fill) avg (stored D (po_quote_amount row) + ?q)
      (stored D (po_fee_amount row) + ?q * ?f) rq rs (po_venue_trade_ids_json row @ [?vtid])
      (trade_through_evidence t fill) now"
  from f obtain avg rq rs es1 db1 where
    settle: "settle_fill D (po_side row) fill (stored D (po_price row)) ?f ?q (?q * ?f)
       (stored D (po_reserved_quote row)) (stored D (po_reserved_shares row)) l = Some (rq, rs, l')"
    and proj: "project_paper_fill D U t (po_venue_order_id row) ?vtid ?st fill
         (stored D (po_remaining_quantity row) - fill) (trade_through_evidence t fill) tid now
         (db\<lparr>paper_venue_orders := sql_update (\<lambda>r. po_venue_order_id r = po_venue_order_id row)
            (?g avg rq rs) (paper_venue_orders db)\<rparr>) = Ok (es1, db1)"
    and nn: "0 \<le> lg_quote_balance l'" "0 \<le> lg_shares l'"
    and db': "db' = log_event (next_event ''paper.trade_through_fill'' ''paper_order''
         (RText (po_venue_order_id row)) (trade_through_evidence t fill) now db1) db1"
    by (clarsimp simp: fill_paper_order_def res_simps bind_Some_simps dec_exact_simps [OF D(1)] Let_def append_event_eq
          not_less)
  note s = settle_fill_exact [OF D(1) settle]
  from project_paper_fill_paper [OF proj] show ?thesis
    by (intro that [of "?g avg rq rs"])
       (use s nn D(2) in \<open>auto simp: db' same_paper_def filled_row_def set_paper_fill_def split: Side.splits\<close>)
qed

text \<open>A fill of a balanced order keeps the order, the account and the inventory balanced.\<close>

lemma filled_row_balanced:
  assumes "order_balanced D row" "paper_active row" "filled_row D t fill row r"
    and "0 < fill" "fill \<le> stored D (po_remaining_quantity row)"
  shows "order_balanced D r"
    and "stored D (po_reserved_quote r) = stored D (po_reserved_quote row) -
      (case po_side row of Buy \<Rightarrow> fill * stored D (po_price row) * (1 + stored D (po_fee_rate row)) | Sell \<Rightarrow> 0)"
    and "stored D (po_reserved_shares r) = stored D (po_reserved_shares row) -
      (case po_side row of Buy \<Rightarrow> 0 | Sell \<Rightarrow> fill)"
proof -
  let ?p = "stored D (po_price row)" and ?f = "stored D (po_fee_rate row)" and ?m = "stored D (po_remaining_quantity row)"
  have "fill * ?p * (1 + ?f) \<le> ?m * ?p * (1 + ?f)"
    using assms(1,5) by (intro mult_right_mono) (auto simp: order_balanced_def)
  moreover have "(?m - fill) * ?p * (1 + ?f) = ?m * ?p * (1 + ?f) - fill * ?p * (1 + ?f)"
    by (simp add: algebra_simps)
  ultimately show "order_balanced D r"
    "stored D (po_reserved_quote r) = stored D (po_reserved_quote row) -
      (case po_side row of Buy \<Rightarrow> fill * ?p * (1 + ?f) | Sell \<Rightarrow> 0)"
    "stored D (po_reserved_shares r) = stored D (po_reserved_shares row) - (case po_side row of Buy \<Rightarrow> 0 | Sell \<Rightarrow> fill)"
    using assms by (cases "po_side row"; auto simp: order_balanced_def filled_row_def paper_active_def)+
qed

lemma settled_balanced:
  assumes row: "row \<in> set rows" "po_token_id row = mt_token_id t" "paper_active row"
    and rows: "rows_balanced D rows" and l: "ledger_balanced D (mt_token_id t) rows l"
    and g: "filled_row D t fill row (g row)" "\<And>r. po_token_id (g r) = po_token_id r" "\<And>r. po_venue_order_id (g r) = po_venue_order_id r"
    and fill: "0 < fill" "fill \<le> stored D (po_remaining_quantity row)"
    and price: "0 < mt_price t" "paper_crossed (po_side row) (mt_price t) (stored D (po_price row))"
  defines "rows' \<equiv> sql_update (\<lambda>r. po_venue_order_id r = po_venue_order_id row) g rows"
  shows "ledger_balanced D (mt_token_id t) rows' (settled D t fill row l)" "rows_balanced D rows'"
    and "token \<noteq> mt_token_id t \<Longrightarrow> reserved_shares D token rows' = reserved_shares D token rows"
proof -
  have dist: "distinct (map po_venue_order_id rows)" and all: "list_all (order_balanced D) rows"
    using rows by (auto simp: rows_balanced_def)
  have b: "order_balanced D row" using all row(1) by (simp add: list_all_iff)
  note fb = filled_row_balanced [OF b row(3) g(1) fill]
  have others: "order_balanced D r" if "r \<in> set rows'" for r
    using that fb(1) all key_unique [OF dist _ row(1)] by (fastforce simp: rows'_def list_all_iff elim!: in_sql_updateE split: if_split_asm)
  show "rows_balanced D rows'"
    using dist others by (auto simp: rows_balanced_def rows'_def list_all_iff g(3) map_sql_update)
  have q: "reserved_quotes D rows' = reserved_quotes D rows - stored D (po_reserved_quote row) + stored D (po_reserved_quote (g row))"
    unfolding reserved_quotes_def rows'_def by (rule sum_list_sql_update [OF dist row(1)])
  have sh: "reserved_shares D tk rows' = reserved_shares D tk rows
      - (if po_token_id row = tk then stored D (po_reserved_shares row) else 0)
      + (if po_token_id row = tk then stored D (po_reserved_shares (g row)) else 0)" for tk
    unfolding reserved_shares_def rows'_def
    using sum_list_sql_update [OF dist row(1), of "\<lambda>r. if po_token_id r = tk then stored D (po_reserved_shares r) else 0" g]
    by (simp add: g(2))
  show "reserved_shares D token rows' = reserved_shares D token rows" if "token \<noteq> mt_token_id t"
    using that sh [of token] row(2) by simp
  have le: "stored D (po_reserved_quote row) \<le> lg_reserved_quote l" "stored D (po_reserved_shares row) \<le> lg_reserved_shares l"
    using member_reserved_le [OF all row(1)] row(2) l by (auto simp: ledger_balanced_def)
  let ?p = "stored D (po_price row)" and ?f = "stored D (po_fee_rate row)"
  have nn: "0 \<le> reserved_quotes D rows'" "0 \<le> reserved_shares D (mt_token_id t) rows'"
    using reserved_nonneg others by (auto simp: list_all_iff)
  show "ledger_balanced D (mt_token_id t) rows' (settled D t fill row l)"
  proof (cases "po_side row")
    case Buy
    have "fill * mt_price t * (1 + ?f) \<le> fill * ?p * (1 + ?f)"
      using fill(1) price Buy b by (intro mult_right_mono mult_left_mono) (auto simp: paper_crossed_def order_balanced_def)
    then show ?thesis
      using l q sh [of "mt_token_id t"] fb(2,3) row(2) nn Buy fill(1) by (auto simp: ledger_balanced_def settled_def Let_def algebra_simps)
  next
    case Sell
    have "0 \<le> fill * mt_price t * (1 - ?f)"
      using fill(1) price(1) b by (auto simp: order_balanced_def)
    then show ?thesis
      using l q sh [of "mt_token_id t"] fb(2,3) row(2) nn Sell by (auto simp: ledger_balanced_def settled_def Let_def algebra_simps)
  qed
qed

lemma settled_nonneg:
  assumes row: "row \<in> set rows" "po_token_id row = mt_token_id t"
    and rows: "rows_balanced D rows" and l: "ledger_balanced D (mt_token_id t) rows l"
    and fill: "0 < fill" "fill \<le> stored D (po_remaining_quantity row)"
    and price: "0 < mt_price t" "paper_crossed (po_side row) (mt_price t) (stored D (po_price row))"
  shows "0 \<le> lg_quote_balance (settled D t fill row l)" "0 \<le> lg_shares (settled D t fill row l)"
proof -
  have all: "list_all (order_balanced D) rows" and b: "order_balanced D row"
    using rows row by (auto simp: rows_balanced_def list_all_iff)
  let ?p = "stored D (po_price row)" and ?f = "stored D (po_fee_rate row)"
  have le: "stored D (po_reserved_quote row) \<le> lg_quote_balance l" "stored D (po_reserved_shares row) \<le> lg_shares l"
    using member_reserved_le [OF all row(1)] row(2) l by (auto simp: ledger_balanced_def)
  have nn: "0 \<le> lg_quote_balance l" "0 \<le> lg_shares l"
    using le order_balanced_nonneg [OF b] by auto
  have "0 \<le> fill * mt_price t * (1 - ?f)" "0 \<le> ?f" "0 \<le> ?p"
    using fill(1) price(1) b by (auto simp: order_balanced_def)
  moreover have "fill * mt_price t * (1 + ?f) \<le> stored D (po_remaining_quantity row) * ?p * (1 + ?f)" if "po_side row = Buy"
    using fill price that b by (intro mult_right_mono mult_mono) (auto simp: paper_crossed_def order_balanced_def)
  ultimately have B: "po_side row = Buy \<Longrightarrow> fill * mt_price t * (1 + ?f) \<le> stored D (po_reserved_quote row)"
    and S: "po_side row = Sell \<Longrightarrow> fill \<le> stored D (po_reserved_shares row)" "0 \<le> fill * mt_price t * (1 - ?f)"
    using fill b by (auto simp: order_balanced_def)
  show "0 \<le> lg_quote_balance (settled D t fill row l)"
    using B S nn le by (cases "po_side row") (auto simp: settled_def Let_def algebra_simps)
  show "0 \<le> lg_shares (settled D t fill row l)"
    using S nn le fill by (cases "po_side row") (auto simp: settled_def Let_def)
qed

text \<open>The loop over the resting orders of the token, in the order of their creation.\<close>

definition resting :: "market_trade \<Rightarrow> Store \<Rightarrow> (PaperOrderRow \<times> uuid) list \<Rightarrow> bool" where
  "resting t db work \<longleftrightarrow> distinct (map (po_venue_order_id \<circ> fst) work)
     \<and> list_all (\<lambda>(r, _). r \<in> set (paper_venue_orders db) \<and> po_token_id r = mt_token_id t \<and> paper_active r) work"

lemma resting_Cons:
  assumes "resting t db ((row, tid) # work)"
  shows "resting t db work" "row \<in> set (paper_venue_orders db)" "po_token_id row = mt_token_id t" "paper_active row"
  using assms by (auto simp: resting_def)

lemma resting_update:
  assumes "resting t db ((row, tid) # work)"
    and "paper_venue_orders db' = sql_update (\<lambda>r. po_venue_order_id r = po_venue_order_id row) g (paper_venue_orders db)"
  shows "resting t db' work"
  unfolding resting_def
proof (intro conjI)
  show "distinct (map (po_venue_order_id \<circ> fst) work)" using assms(1) by (simp add: resting_def)
  show "list_all (\<lambda>(r, _). r \<in> set (paper_venue_orders db') \<and> po_token_id r = mt_token_id t \<and> paper_active r) work"
    unfolding list_all_iff
  proof (clarify)
    fix r i assume r: "(r, i) \<in> set work"
    with assms(1) have "r \<in> set (paper_venue_orders db)" "po_token_id r = mt_token_id t" "paper_active r"
      "po_venue_order_id r \<noteq> po_venue_order_id row" by (force simp: resting_def list_all_iff)+
    then show "r \<in> set (paper_venue_orders db') \<and> po_token_id r = mt_token_id t \<and> paper_active r"
      by (auto simp: assms(2) set_sql_update intro!: rev_image_eqI)
  qed
qed

text \<open>One round of the loop: the order is passed over, or filled by the smaller of what it and the trade have left.\<close>

lemma trade_through_roundE:
  assumes D: "dec_exact D" "dec_text D"
    and run: "trade_through_loop D U t now ((row, tid) # work) (m, n, evs, l, db) = Ok res"
  obtains (stop) "m \<le> 0" "res = (n, evs, l, db)"
  | (pass) "0 < m" "\<not> paper_crossed (po_side row) (mt_price t) (stored D (po_price row)) \<or> stored D (po_remaining_quantity row) \<le> 0"
      "trade_through_loop D U t now work (m, n, evs, l, db) = Ok res"
  | (fill) fill es l' db' where "0 < m" "fill = min (stored D (po_remaining_quantity row)) m" "0 < fill"
      "paper_crossed (po_side row) (mt_price t) (stored D (po_price row))"
      "fill_paper_order D U t now row tid (stored D (po_price row)) (stored D (po_remaining_quantity row)) fill l db = Ok (es, l', db')"
      "trade_through_loop D U t now work (m - fill, n + 1, evs @ es, l', db') = Ok res"
proof (cases "m \<le> 0")
  case True
  with run stop show ?thesis by simp
next
  case False
  show ?thesis
  proof (cases "paper_crossed (po_side row) (mt_price t) (stored D (po_price row))
      \<and> 0 < min (stored D (po_remaining_quantity row)) m")
    case True
    with False run show ?thesis
      by (auto simp: res_simps dec_exact_simps [OF D(1)] Let_def not_le intro!: fill [OF _ refl])
  next
    case no: False
    with False run show ?thesis
      by (intro pass) (auto simp: res_simps Let_def min_less_iff_conj not_le not_less split: if_split_asm)
  qed
qed

lemma trade_through_loop_balanced:
  assumes D: "dec_exact D" "dec_text D" and price: "0 < mt_price t"
  shows "trade_through_loop D U t now work (m, n, evs, l, db) = Ok (n', evs', l', db')
    \<Longrightarrow> resting t db work \<Longrightarrow> rows_balanced D (paper_venue_orders db)
    \<Longrightarrow> ledger_balanced D (mt_token_id t) (paper_venue_orders db) l
    \<Longrightarrow> rows_balanced D (paper_venue_orders db') \<and> ledger_balanced D (mt_token_id t) (paper_venue_orders db') l'
       \<and> map po_token_id (paper_venue_orders db') = map po_token_id (paper_venue_orders db)
       \<and> (\<forall>token. token \<noteq> mt_token_id t \<longrightarrow>
            reserved_shares D token (paper_venue_orders db') = reserved_shares D token (paper_venue_orders db))
       \<and> paper_account db' = paper_account db \<and> paper_inventory db' = paper_inventory db
       \<and> paper_market_events db' = paper_market_events db"
proof (induction work arbitrary: m n evs l db)
  case (Cons w work)
  obtain row tid where w: "w = (row, tid)" by (cases w)
  note work = resting_Cons [OF Cons.prems(2) [unfolded w]]
  from Cons.prems(1) [unfolded w] show ?case
  proof (cases rule: trade_through_roundE [OF D, consumes 1, case_names stop pass fill])
    case stop
    with Cons.prems show ?thesis by simp
  next
    case pass
    from Cons.IH [OF pass(3) work(1) Cons.prems(3,4)] show ?thesis .
  next
    case (fill fill es l1 db1)
    show ?thesis
      using fill(5)
    proof (rule fill_paper_orderE [OF D], goal_cases)
      case (1 g)
      have le: "fill \<le> stored D (po_remaining_quantity row)" using fill(2) by simp
      note b = settled_balanced [OF work(2-4) Cons.prems(3,4) 1(2) 1(4) 1(3) fill(3) le price fill(4)]
      have "rows_balanced D (paper_venue_orders db1)" "ledger_balanced D (mt_token_id t) (paper_venue_orders db1) l1"
        using b(1,2) 1(1,5) by simp_all
      moreover have "map po_token_id (paper_venue_orders db1) = map po_token_id (paper_venue_orders db)"
        using 1(1,4) by (simp add: map_sql_update)
      ultimately show ?case
        using Cons.IH [OF fill(6) resting_update [OF Cons.prems(2) [unfolded w] 1(1)]] 1 b(3) by simp
    qed
  qed
qed simp

lemma resting_rows:
  assumes "distinct (map po_venue_order_id (paper_venue_orders db))"
  shows "resting t db (zip (trade_through_rows t db) (map fresh [0 ..< length (trade_through_rows t db)]))"
proof -
  let ?rows = "trade_through_rows t db"
  have "distinct (map po_venue_order_id ?rows)"
    using assms distinct_map_filter [OF assms] by (simp add: trade_through_rows_def distinct_map)
  moreover have "map (po_venue_order_id \<circ> fst) (zip ?rows (map fresh [0 ..< length ?rows])) = map po_venue_order_id ?rows"
    by (simp flip: map_map)
  ultimately show ?thesis
    by (auto simp: resting_def list_all_iff trade_through_rows_def dest!: set_zip_leftD)
qed

lemma apply_paper_trade_throughE:
  assumes "apply_paper_trade_through D U t fresh now db = Ok (n, db')"
  obtains (duplicate) "mt_event_id t \<in> pe_event_id ` set (paper_market_events db)" "n = 0" "db' = db"
  | (applied) db1 l evs l' db2 where "mt_event_id t \<notin> pe_event_id ` set (paper_market_events db)" "st_mode db = Paper"
      "0 < mt_price t" "mt_price t < 1" "0 < mt_size t"
      "db1 = db\<lparr>paper_market_events := paper_market_events db @
             [\<lparr>pe_event_id = mt_event_id t, pe_token_id = mt_token_id t, pe_price = d_norm D (mt_price t),
               pe_size = d_norm D (mt_size t), pe_observed_at = mt_observed_at t, pe_created_at = now\<rparr>]\<rparr>"
      "load_ledger D (mt_token_id t) db1 = Ok l"
      "trade_through_loop D U t now
         (zip (trade_through_rows t db1) (map fresh [0 ..< length (trade_through_rows t db1)])) (mt_size t, 0, [], l, db1)
         = Ok (n, evs, l', db2)"
      "paper_account db' = paper_account (save_ledger D (mt_token_id t) l' now db2)"
      "paper_inventory db' = paper_inventory (save_ledger D (mt_token_id t) l' now db2)"
      "paper_venue_orders db' = paper_venue_orders db2" "paper_market_events db' = paper_market_events db2"
      "st_mode db' = st_mode db2"
proof (cases "list_ex (\<lambda>e. pe_event_id e = mt_event_id t) (paper_market_events db)")
  case True
  with assms show ?thesis
    by (intro duplicate) (auto simp: apply_paper_trade_through_def list_ex_iff split: if_split_asm intro: rev_image_eqI)
next
  case False
  let ?db1 = "db\<lparr>paper_market_events := paper_market_events db @
             [\<lparr>pe_event_id = mt_event_id t, pe_token_id = mt_token_id t, pe_price = d_norm D (mt_price t),
               pe_size = d_norm D (mt_size t), pe_observed_at = mt_observed_at t, pe_created_at = now\<rparr>]\<rparr>"
  from False assms obtain l evs l' db2 where
    run: "load_ledger D (mt_token_id t) ?db1 = Ok l"
      "trade_through_loop D U t now
         (zip (trade_through_rows t ?db1) (map fresh [0 ..< length (trade_through_rows t ?db1)])) (mt_size t, 0, [], l, ?db1)
         = Ok (n, evs, l', db2)"
    and db': "\<exists>es e. db' = send es (log_event e (save_ledger D (mt_token_id t) l' now db2))"
    and valid: "st_mode db = Paper" "0 < mt_price t" "mt_price t < 1" "0 < mt_size t"
    by (clarsimp simp: apply_paper_trade_through_def Let_def res_simps append_event_eq not_le split: if_split_asm) blast
  from db' False valid show ?thesis
    by (intro applied [OF _ valid refl run]) (auto simp: list_ex_iff save_ledger_def)
qed

lemma trade_through_books:
  assumes D: "dec_exact D" "dec_text D" and ok: "books_balance D db"
    and run: "apply_paper_trade_through D U t fresh now db = Ok (n, db')"
  shows "books_balance D db'"
  using run
proof (cases rule: apply_paper_trade_throughE)
  case duplicate
  with ok show ?thesis by simp
next
  case (applied db1 l evs l' db2)
  have same: "paper_account db1 = paper_account db" "paper_inventory db1 = paper_inventory db"
    "paper_venue_orders db1 = paper_venue_orders db"
    by (simp_all add: applied(6))
  have ok1: "books_balance D db1" using ok by (simp add: books_balance_same [OF same])
  then have rows: "rows_balanced D (paper_venue_orders db1)" by (simp add: books_balance_def)
  then have "distinct (map po_venue_order_id (paper_venue_orders db1))" by (simp add: rows_balanced_def)
  note loop = trade_through_loop_balanced [OF D applied(3) applied(8) resting_rows [OF this] rows
      load_ledger_balanced [OF ok1 applied(7)]]
  from applied(7) loop obtain a where a: "paper_account db2 = Some a" by (auto simp: load_ledger_def res_simps)
  have tokens: "po_token_id ` set (paper_venue_orders db2) = po_token_id ` set (paper_venue_orders db1)"
    using arg_cong [OF conjunct1 [OF conjunct2 [OF conjunct2 [OF loop]]], of set] by simp
  show ?thesis
  proof (rule save_ledger_books [OF D(2) a, of "paper_venue_orders db2"])
    show "\<forall>r \<in> set (paper_venue_orders db2). po_token_id r \<in> insert (mt_token_id t) (pi_token_id ` set (paper_inventory db2))"
    proof
      fix r assume "r \<in> set (paper_venue_orders db2)"
      with tokens have "po_token_id r \<in> po_token_id ` set (paper_venue_orders db1)" by blast
      then show "po_token_id r \<in> insert (mt_token_id t) (pi_token_id ` set (paper_inventory db2))"
        using loop ok1 by (auto simp: books_balance_def list_all_iff)
    qed
    show "\<forall>v \<in> set (paper_inventory db2). pi_token_id v \<noteq> mt_token_id t \<longrightarrow> holding_balanced D (paper_venue_orders db2) v"
      using loop ok1 by (auto simp: books_balance_def list_all_iff holding_balanced_def)
  qed (use loop ok1 applied(9-11) in \<open>auto simp: books_balance_def\<close>)
qed

section \<open>Cancellation\<close>

lemma release_paper_orderE:
  assumes D: "dec_exact D"
    and "release_paper_order D row now db = Ok db'"
  obtains a where "paper_account db = Some a"
    "paper_account db' = Some (a\<lparr>pa_reserved_quote := d_norm D (max 0 (stored D (pa_reserved_quote a) - stored D (po_reserved_quote row))),
       pa_updated_at := now\<rparr>)"
    "paper_inventory db' = (case sql_find (\<lambda>r. pi_token_id r = po_token_id row) (paper_inventory db) of
        None \<Rightarrow> paper_inventory db
      | Some v \<Rightarrow> sql_update (\<lambda>r. pi_token_id r = po_token_id row)
          (\<lambda>r. r\<lparr>pi_reserved_shares := d_norm D (max 0 (stored D (pi_reserved_shares v) - stored D (po_reserved_shares row))),
                 pi_updated_at := now\<rparr>) (paper_inventory db))"
    "paper_venue_orders db' = sql_update (\<lambda>r. po_venue_order_id r = po_venue_order_id row)
       (\<lambda>r. r\<lparr>po_state := OrderState.Cancelled, po_remaining_quantity := ''0'', po_reserved_quote := ''0'',
              po_reserved_shares := ''0'', po_updated_at := now\<rparr>) (paper_venue_orders db)"
    "paper_market_events db' = paper_market_events db" "st_mode db' = st_mode db"
proof (cases "sql_find (\<lambda>r. pi_token_id r = po_token_id row) (paper_inventory db)")
  case None
  from assms(2) show ?thesis
    by (clarsimp simp: release_paper_order_def res_simps Let_def dec_exact_simps [OF D] None max.commute [of _ 0])
       (rule that; simp add: None)
next
  case (Some v)
  from assms(2) show ?thesis
    by (clarsimp simp: release_paper_order_def res_simps Let_def dec_exact_simps [OF D] Some max.commute [of _ 0])
       (rule that; simp add: Some)
qed

lemma release_books:
  assumes D: "dec_exact D" "dec_text D" "dec_zero D" and ok: "books_balance D db"
    and row: "row \<in> set (paper_venue_orders db)" and run: "release_paper_order D row now db = Ok db'"
  shows "books_balance D db'"
  using run
proof (rule release_paper_orderE [OF D(1)], goal_cases)
  case (1 a)
  let ?g = "\<lambda>r. r\<lparr>po_state := OrderState.Cancelled, po_remaining_quantity := ''0'', po_reserved_quote := ''0'',
      po_reserved_shares := ''0'', po_updated_at := now\<rparr>"
  let ?rows = "paper_venue_orders db" and ?rows' = "paper_venue_orders db'"
  have dist: "distinct (map po_venue_order_id ?rows)" and all: "list_all (order_balanced D) ?rows"
    using ok by (auto simp: books_balance_def rows_balanced_def)
  have b: "order_balanced D row" using all row by (simp add: list_all_iff)
  have q: "reserved_quotes D ?rows' = reserved_quotes D ?rows - stored D (po_reserved_quote row)"
    using sum_list_sql_update [OF dist row, of "\<lambda>r. stored D (po_reserved_quote r)" ?g] D(3)
    by (simp add: reserved_quotes_def 1(4))
  have sh: "reserved_shares D tk ?rows' = reserved_shares D tk ?rows
      - (if po_token_id row = tk then stored D (po_reserved_shares row) else 0)" for tk
    using sum_list_sql_update [OF dist row, of "\<lambda>r. if po_token_id r = tk then stored D (po_reserved_shares r) else 0" ?g] D(3)
    by (simp add: reserved_shares_def 1(4) cong: if_cong)
  have all': "list_all (order_balanced D) ?rows'"
  proof -
    have "order_balanced D (?g r)" if "order_balanced D r" for r
      using that D(3) by (cases "po_side r") (auto simp: order_balanced_def)
    with all show ?thesis by (auto simp: 1(4) list_all_iff set_sql_update)
  qed
  note nn = reserved_nonneg [OF all'] and le = member_reserved_le [OF all row] and nnb = order_balanced_nonneg [OF b]
  from ok row have "po_token_id row \<in> pi_token_id ` set (paper_inventory db)" by (auto simp: books_balance_def list_all_iff)
  then have "sql_find (\<lambda>r. pi_token_id r = po_token_id row) (paper_inventory db) \<noteq> None"
    by (auto simp: sql_find_None_iff)
  then obtain v where v: "sql_find (\<lambda>r. pi_token_id r = po_token_id row) (paper_inventory db) = Some v" by blast
  then have v': "v \<in> set (paper_inventory db)" "pi_token_id v = po_token_id row" by (auto dest: sql_find_SomeD)
  have hold: "holding_balanced D ?rows w" if "w \<in> set (paper_inventory db)" for w
    using ok that by (simp add: books_balance_def list_all_iff)
  have acc: "account_balanced D ?rows a" using ok by (simp add: books_balance_def 1(1))
  have "holding_balanced D ?rows' w" if "w \<in> set (paper_inventory db')" for w
  proof -
    from that 1(3) v obtain w0 where w0: "w0 \<in> set (paper_inventory db)"
      and w: "w = (if pi_token_id w0 = po_token_id row
          then w0\<lparr>pi_reserved_shares := d_norm D (max 0 (stored D (pi_reserved_shares v) - stored D (po_reserved_shares row))),
                  pi_updated_at := now\<rparr> else w0)"
      by (auto elim: in_sql_updateE)
    show ?thesis
      using hold [OF w0] hold [OF v'(1)] v'(2) w sh nn(2) [of "po_token_id row"] nnb D(2) by (auto simp: holding_balanced_def)
  qed
  moreover have "map pi_token_id (paper_inventory db') = map pi_token_id (paper_inventory db)"
    by (simp add: 1(3) v map_sql_update)
  then have tk: "pi_token_id ` set (paper_inventory db') = pi_token_id ` set (paper_inventory db)"
    "distinct (map pi_token_id (paper_inventory db')) = distinct (map pi_token_id (paper_inventory db))"
    by (metis set_map, simp)
  moreover have "account_balanced D ?rows' (a\<lparr>pa_reserved_quote := d_norm D (max 0 (stored D (pa_reserved_quote a)
      - stored D (po_reserved_quote row))), pa_updated_at := now\<rparr>)"
    using acc q nn(1) nnb D(2) by (auto simp: account_balanced_def)
  moreover have "list_all (\<lambda>r. po_token_id r \<in> pi_token_id ` set (paper_inventory db')) ?rows'"
    using ok by (auto simp: tk 1(4) books_balance_def list_all_iff set_sql_update)
  moreover have "distinct (map po_venue_order_id ?rows')" using dist by (simp add: 1(4) map_sql_update)
  ultimately show ?case
    using ok all' 1(2) by (simp add: books_balance_def rows_balanced_def list_all_iff)
qed

lemma cancel_paper_orderE:
  assumes "cancel_paper_order D vid now db = Ok (snap, db')"
  obtains row db1 e where "sql_find (\<lambda>r. po_venue_order_id r = vid) (paper_venue_orders db) = Some row"
    "(if po_state row \<in> terminal_states then Ok db else release_paper_order D row now db) = Ok db1"
    "load_paper_order D vid db1 = Ok (Some snap)" "db' = send [e] (log_event e db1)"
proof -
  from assms obtain row db1 where 1: "sql_find (\<lambda>r. po_venue_order_id r = vid) (paper_venue_orders db) = Some row"
    "(if po_state row \<in> terminal_states then Ok db else release_paper_order D row now db) = Ok db1"
    "load_paper_order D vid db1 = Ok (Some snap)" "\<exists>e. db' = send [e] (log_event e db1)"
    unfolding cancel_paper_order_def rbind_eq_Ok ok_or_eq_Ok Let_def append_event_eq if_Err_eq_Ok by auto
  from 1(4) that [OF 1(1-3)] show ?thesis by blast
qed

lemma cancel_books:
  assumes D: "dec_exact D" "dec_text D" "dec_zero D" and ok: "books_balance D db"
    and run: "cancel_paper_order D vid now db = Ok (snap, db')"
  shows "books_balance D db'"
  using run
proof (rule cancel_paper_orderE, goal_cases)
  case (1 row db1 e)
  have "row \<in> set (paper_venue_orders db)" using 1(1) by (auto dest: sql_find_SomeD)
  then have "books_balance D db1"
    using 1(2) ok release_books [OF D ok] by (auto split: if_split_asm)
  then show ?case by (subst books_balance_same [of _ db1]) (simp_all add: 1(4))
qed

section \<open>Every run of the ledger\<close>

text \<open>
  The writes of the paper ledger, in any order and interleaved with writes that leave its tables
  alone.  Orders are committed as the paper venue commits them.
\<close>

inductive ledger_step :: "dec_ops \<Rightarrow> (json \<Rightarrow> string) \<Rightarrow> (uuid \<Rightarrow> string) \<Rightarrow> Store \<Rightarrow> Store \<Rightarrow> bool" for D H U where
  initialize: "initialize_paper_account D H config now db = Ok db' \<Longrightarrow> ledger_step D H U db db'"
| commit: "commit_paper_order D c now db = Ok (snap, db') \<Longrightarrow> commit_balanced c \<Longrightarrow> ledger_step D H U db db'"
| trade: "apply_paper_trade_through D U t fresh now db = Ok (n, db') \<Longrightarrow> ledger_step D H U db db'"
| cancel: "cancel_paper_order D vid now db = Ok (snap, db') \<Longrightarrow> ledger_step D H U db db'"
| elsewhere: "same_paper db db' \<Longrightarrow> ledger_step D H U db db'"

definition dec_sound :: "dec_ops \<Rightarrow> bool" where
  "dec_sound D \<longleftrightarrow> dec_exact D \<and> dec_text D \<and> dec_zero D"

definition no_paper :: "Store \<Rightarrow> bool" where
  "no_paper db \<longleftrightarrow> paper_account db = None \<and> paper_inventory db = [] \<and> paper_venue_orders db = []"

lemma step_books:
  assumes "dec_sound D" "books_balance D db" "ledger_step D H U db db'"
  shows "books_balance D db'"
  using assms(3)
proof cases
  case elsewhere
  with assms(2) show ?thesis by (simp add: same_paper_def books_balance_same [of db' db])
qed (use assms(1,2) in \<open>auto simp: dec_sound_def intro: initialize_books commit_books trade_through_books cancel_books\<close>)

interpretation paper: invariant_system no_paper "ledger_step D H U" "\<lambda>db. dec_sound D \<longrightarrow> books_balance D db" for D H U
proof unfold_locales
  show "dec_sound D \<longrightarrow> books_balance D db" if "no_paper db" for db
    using that by (simp add: no_paper_def books_balance_def rows_balanced_def)
  show "dec_sound D \<longrightarrow> books_balance D db'" if "dec_sound D \<longrightarrow> books_balance D db" "ledger_step D H U db db'" for db db'
    using that step_books by blast
qed

section \<open>What a market trade fills\<close>

text \<open>The reference: a trade of size \<open>m\<close> is handed to a queue of demands from the front.\<close>

fun allocate :: "decimal \<Rightarrow> decimal list \<Rightarrow> decimal list" where
  "allocate m [] = []"
| "allocate m (q # qs) = (let f = min q (max m 0) in f # allocate (m - f) qs)"

lemma allocate_none: "m \<le> 0 \<Longrightarrow> list_all (\<lambda>q. 0 \<le> q) qs \<Longrightarrow> allocate m qs = map (\<lambda>_. 0) qs"
  by (induction qs) (auto simp: Let_def)

lemma allocate_bound: "list_all (\<lambda>q. 0 \<le> q) qs \<Longrightarrow> sum_list (allocate m qs) \<le> max m 0"
proof (induction qs arbitrary: m)
  case (Cons q qs)
  then show ?case using Cons.IH [of "m - min q (max m 0)"] by (auto simp: Let_def max_def min_def split: if_split_asm)
qed simp

definition filled_of :: "dec_ops \<Rightarrow> Store \<Rightarrow> string \<Rightarrow> decimal" where
  "filled_of D db vid = (case sql_find (\<lambda>r. po_venue_order_id r = vid) (paper_venue_orders db) of
     None \<Rightarrow> 0 | Some r \<Rightarrow> stored D (po_filled_quantity r))"

definition crosses :: "dec_ops \<Rightarrow> market_trade \<Rightarrow> PaperOrderRow \<Rightarrow> bool" where
  "crosses D t r \<longleftrightarrow> paper_crossed (po_side r) (mt_price t) (stored D (po_price r))"

lemma filled_of_row:
  assumes "distinct (map po_venue_order_id (paper_venue_orders db))" "r \<in> set (paper_venue_orders db)"
  shows "filled_of D db (po_venue_order_id r) = stored D (po_filled_quantity r)"
  using sql_find_key [OF assms] by (simp add: filled_of_def)

lemma trade_through_loop_allocates:
  assumes D: "dec_exact D" "dec_text D" and price: "0 < mt_price t"
  shows "trade_through_loop D U t now work (m, n, evs, l, db) = Ok (n', evs', l', db')
    \<Longrightarrow> resting t db work \<Longrightarrow> rows_balanced D (paper_venue_orders db)
    \<Longrightarrow> ledger_balanced D (mt_token_id t) (paper_venue_orders db) l
    \<Longrightarrow> map (\<lambda>r. filled_of D db' (po_venue_order_id r) - stored D (po_filled_quantity r)) (filter (crosses D t) (map fst work))
         = allocate m (map (\<lambda>r. stored D (po_remaining_quantity r)) (filter (crosses D t) (map fst work)))
       \<and> (\<forall>r \<in> set (paper_venue_orders db). po_venue_order_id r \<notin> po_venue_order_id ` set (filter (crosses D t) (map fst work))
            \<longrightarrow> r \<in> set (paper_venue_orders db'))"
proof (induction work arbitrary: m n evs l db)
  case (Cons w work)
  obtain row tid where w: "w = (row, tid)" by (cases w)
  note work = resting_Cons [OF Cons.prems(2) [unfolded w]]
  have rest: "po_venue_order_id row \<notin> po_venue_order_id ` set (filter (crosses D t) (map fst work))"
    using Cons.prems(2) by (auto simp: w resting_def)
  have dist: "distinct (map po_venue_order_id (paper_venue_orders db))" and b: "order_balanced D row"
    using Cons.prems(3) work(2) by (auto simp: rows_balanced_def list_all_iff)
  have dist': "distinct (map po_venue_order_id (paper_venue_orders db'))"
    using trade_through_loop_balanced [OF D price Cons.prems] by (simp add: rows_balanced_def)
  have at: "filled_of D db' (po_venue_order_id row) = stored D (po_filled_quantity r)"
    if "r \<in> set (paper_venue_orders db')" "po_venue_order_id r = po_venue_order_id row" for r
    using filled_of_row [OF dist' that(1)] that(2) by simp
  from Cons.prems(1) [unfolded w] show ?case
  proof (cases rule: trade_through_roundE [OF D, consumes 1, case_names stop pass fill])
    case stop
    have "list_all (\<lambda>q. 0 \<le> q) (map (\<lambda>r. stored D (po_remaining_quantity r)) (filter (crosses D t) (map fst (w # work))))"
      using Cons.prems(2,3) by (fastforce simp: resting_def rows_balanced_def list_all_iff order_balanced_def)
    moreover have "filled_of D db (po_venue_order_id r) = stored D (po_filled_quantity r)" if "r \<in> set (map fst (w # work))" for r
      using that Cons.prems(2) by (intro filled_of_row [OF dist]) (auto simp: resting_def list_all_iff)
    ultimately show ?thesis
      using stop by (auto simp: w allocate_none)
  next
    case pass
    note IH = Cons.IH [OF pass(3) work(1) Cons.prems(3,4)]
    have row: "filled_of D db' (po_venue_order_id row) = stored D (po_filled_quantity row)"
      using IH rest work(2) by (intro at) auto
    have "stored D (po_remaining_quantity row) = 0" if "crosses D t row"
      using that pass(2) b by (auto simp: crosses_def order_balanced_def)
    then show ?thesis
      using IH row pass(1) by (auto simp: w Let_def)
  next
    case (fill fill es l1 db1)
    show ?thesis
      using fill(5)
    proof (rule fill_paper_orderE [OF D], goal_cases)
      case (1 g)
      have le: "fill \<le> stored D (po_remaining_quantity row)" using fill(2) by simp
      note bal = settled_balanced [OF work(2-4) Cons.prems(3,4) 1(2) 1(4) 1(3) fill(3) le price fill(4)]
      have IH: "map (\<lambda>r. filled_of D db' (po_venue_order_id r) - stored D (po_filled_quantity r)) (filter (crosses D t) (map fst work))
         = allocate (m - fill) (map (\<lambda>r. stored D (po_remaining_quantity r)) (filter (crosses D t) (map fst work)))"
        "r \<in> set (paper_venue_orders db1) \<Longrightarrow> po_venue_order_id r \<notin> po_venue_order_id ` set (filter (crosses D t) (map fst work))
            \<Longrightarrow> r \<in> set (paper_venue_orders db')" for r
        using Cons.IH [OF fill(6) resting_update [OF Cons.prems(2) [unfolded w] 1(1)]] bal(1,2) 1(1,5) by auto
      have g: "g row \<in> set (paper_venue_orders db1)" using work(2) by (auto simp: 1(1) set_sql_update intro!: rev_image_eqI)
      have "filled_of D db' (po_venue_order_id row) = stored D (po_filled_quantity (g row))"
        using IH(2) [OF g] rest 1(3) by (intro at) auto
      moreover have "stored D (po_filled_quantity (g row)) = stored D (po_filled_quantity row) + fill"
        using 1(2) by (simp add: filled_row_def)
      moreover have "r \<in> set (paper_venue_orders db')" if "r \<in> set (paper_venue_orders db)"
        "po_venue_order_id r \<notin> insert (po_venue_order_id row) (po_venue_order_id ` set (filter (crosses D t) (map fst work)))" for r
        using that by (intro IH(2)) (auto simp: 1(1) set_sql_update intro!: rev_image_eqI)
      moreover have "crosses D t row" using fill(4) by (simp add: crosses_def)
      ultimately show ?case
        using IH(1) fill(1,2) by (auto simp: w Let_def)
    qed
  qed
qed simp

section \<open>A market trade never overdraws\<close>

lemma apply_matched_fill_Err [simp]: "apply_matched_fill D U ord v filled fp ids tid now db \<noteq> Err (IdentityMismatch msg)"
  by (auto simp: apply_matched_fill_def Let_def append_event_eq rbind_eq_Err split: option.splits if_split_asm)

lemma project_paper_fill_Err [simp]:
  "project_paper_fill D U t vid vtid st fill rem ev tid now db \<noteq> Err (IdentityMismatch msg)"
  by (auto simp: project_paper_fill_def Let_def append_event_eq rbind_eq_Err insert_transition_def
        split: option.splits if_split_asm)

abbreviation overdrawn :: StoreError where
  "overdrawn \<equiv> IdentityMismatch ''paper trade-through would overdraw the account''"

lemma fill_paper_order_solvent:
  assumes D: "dec_exact D"
    and row: "row \<in> set (paper_venue_orders db)" "po_token_id row = mt_token_id t"
    and rows: "rows_balanced D (paper_venue_orders db)" and l: "ledger_balanced D (mt_token_id t) (paper_venue_orders db) l"
    and fill: "0 < fill" "fill \<le> stored D (po_remaining_quantity row)"
    and price: "0 < mt_price t" "paper_crossed (po_side row) (mt_price t) (stored D (po_price row))"
  shows "fill_paper_order D U t now row tid (stored D (po_price row)) (stored D (po_remaining_quantity row)) fill l db \<noteq> Err overdrawn"
proof
  assume "fill_paper_order D U t now row tid (stored D (po_price row)) (stored D (po_remaining_quantity row)) fill l db = Err overdrawn"
  then obtain rq rs l' where
    "settle_fill D (po_side row) fill (stored D (po_price row)) (stored D (po_fee_rate row))
       (fill * mt_price t) (fill * mt_price t * stored D (po_fee_rate row))
       (stored D (po_reserved_quote row)) (stored D (po_reserved_shares row)) l = Some (rq, rs, l')"
    "lg_quote_balance l' < 0 \<or> lg_shares l' < 0"
    by (auto simp: fill_paper_order_def rbind_eq_Err res_simps bind_Some_simps dec_exact_simps [OF D] Let_def append_event_eq
          split: if_split_asm prod.splits)
  with settle_fill_exact(1) [OF D this(1)] settled_nonneg [OF row rows l fill price] show False by simp
qed

lemma trade_through_loop_solvent:
  assumes D: "dec_exact D" "dec_text D" and price: "0 < mt_price t"
  shows "resting t db work \<Longrightarrow> rows_balanced D (paper_venue_orders db)
    \<Longrightarrow> ledger_balanced D (mt_token_id t) (paper_venue_orders db) l
    \<Longrightarrow> trade_through_loop D U t now work (m, n, evs, l, db) \<noteq> Err overdrawn"
proof (induction work arbitrary: m n evs l db)
  case (Cons w work)
  obtain row tid where w: "w = (row, tid)" by (cases w)
  note work = resting_Cons [OF Cons.prems(1) [unfolded w]]
  let ?fill = "min (stored D (po_remaining_quantity row)) m"
  show ?case
  proof
    assume err: "trade_through_loop D U t now (w # work) (m, n, evs, l, db) = Err overdrawn"
    with Cons.IH [OF work(1) Cons.prems(2,3)] have m: "0 < ?fill"
      and cross: "paper_crossed (po_side row) (mt_price t) (stored D (po_price row))"
      by (auto simp: w rbind_eq_Err Let_def split: if_split_asm)
    have le: "?fill \<le> stored D (po_remaining_quantity row)" by simp
    note fine = fill_paper_order_solvent [OF D(1) work(2,3) Cons.prems(2,3) m le price cross]
    from err fine m cross obtain es l1 db1 where
      fill: "fill_paper_order D U t now row tid (stored D (po_price row)) (stored D (po_remaining_quantity row)) ?fill l db = Ok (es, l1, db1)"
      and rest: "trade_through_loop D U t now work (m - ?fill, n + 1, evs @ es, l1, db1) = Err overdrawn"
      by (auto simp: w rbind_eq_Err Let_def res_simps dec_exact_simps [OF D(1)] split: if_split_asm)
    show False
      using fill
    proof (rule fill_paper_orderE [OF D], goal_cases)
      case (1 g)
      note bal = settled_balanced [OF work(2-4) Cons.prems(2,3) 1(2) 1(4) 1(3) m le price cross]
      from Cons.IH [OF resting_update [OF Cons.prems(1) [unfolded w] 1(1)]] bal(1,2) 1(1,5) rest show ?case by simp
    qed
  qed
qed simp

section \<open>The promises of the ledger\<close>

text \<open>
  C17. In every run of the paper ledger, from a database without one: the reserved quote of the account
  is the sum of what its resting orders reserve and never exceeds the balance, the reserved shares of
  every token are the sum of what its resting sells reserve and never exceed the holding, and every
  resting buy reserves its remaining quantity at its limit price with the fee.  Amounts are read back
  from their stored text; arithmetic is that of runs without round-off.
\<close>

theorem paper_books_always_balance:
  assumes "dec_sound D" "no_paper db0" "(ledger_step D H U)\<^sup>*\<^sup>* db0 db"
  shows "books_balance D db"
  using paper.reachable_inv [OF assms(2,3)] assms(1) by blast


text \<open>
  While the books balance, no market trade can overdraw the account or the inventory: the guard of
  \<open>apply_paper_trade_through\<close> against it never fires.
\<close>

theorem trade_through_never_overdraws:
  assumes "dec_sound D" "books_balance D db"
  shows "apply_paper_trade_through D U t fresh now db
    \<noteq> Err (IdentityMismatch ''paper trade-through would overdraw the account'')"
proof
  assume err: "apply_paper_trade_through D U t fresh now db = Err overdrawn"
  have D: "dec_exact D" "dec_text D" using assms(1) by (auto simp: dec_sound_def)
  define db1 where "db1 = db\<lparr>paper_market_events := paper_market_events db @
             [\<lparr>pe_event_id = mt_event_id t, pe_token_id = mt_token_id t, pe_price = d_norm D (mt_price t),
               pe_size = d_norm D (mt_size t), pe_observed_at = mt_observed_at t, pe_created_at = now\<rparr>]\<rparr>"
  have ok: "books_balance D db1" using assms(2) by (subst books_balance_same [of _ db]) (simp_all add: db1_def)
  then have rows: "rows_balanced D (paper_venue_orders db1)" "distinct (map po_venue_order_id (paper_venue_orders db1))"
    by (simp_all add: books_balance_def rows_balanced_def)
  have "load_ledger D tk d \<noteq> Err overdrawn" for tk d
    by (auto simp: load_ledger_def rbind_eq_Err ok_or_eq_Err split: option.splits)
  with err obtain l where l: "load_ledger D (mt_token_id t) db1 = Ok l" and price: "0 < mt_price t"
    and loop: "trade_through_loop D U t now (zip (trade_through_rows t db1) (map fresh [0 ..< length (trade_through_rows t db1)]))
        (mt_size t, 0, [], l, db1) = Err overdrawn"
    by (auto simp: apply_paper_trade_through_def Let_def rbind_eq_Err append_event_eq not_le db1_def split: if_split_asm)
  from trade_through_loop_solvent [OF D price resting_rows [OF rows(2)] rows(1) load_ledger_balanced [OF ok l]] loop
  show False by simp
qed

lemma project_paper_fill_keeps:
  assumes "project_paper_fill D U t vid vtid st fill rem ev tid now db = Ok (es, db')"
  shows "st_mode db' = st_mode db \<and> paper_market_events db' = paper_market_events db"
  using assms
  by (auto simp: project_paper_fill_def apply_matched_fill_def Let_def append_event_eq res_simps
        split: option.splits if_split_asm)

lemma trade_through_loop_keeps:
  "trade_through_loop D U t now work (m, n, evs, l, db) = Ok (n', evs', l', db')
    \<Longrightarrow> paper_market_events db' = paper_market_events db \<and> st_mode db' = st_mode db"
proof (induction work arbitrary: m n evs l db)
  case (Cons w work)
  obtain row tid where w: "w = (row, tid)" by (cases w)
  have fill: "paper_market_events db1 = paper_market_events d \<and> st_mode db1 = st_mode d"
    if "fill_paper_order D U t now row tid lp rem f l d = Ok (es, l1, db1)" for lp rem f l es l1 d db1
    using that
    by (auto simp: fill_paper_order_def res_simps Let_def append_event_eq same_paper_def split: prod.splits if_split_asm
          dest!: project_paper_fill_keeps)
  from Cons.prems show ?case
    by (auto simp: w res_simps Let_def split: if_split_asm dest!: fill Cons.IH)
qed simp

text \<open>
  A market trade is applied once: after it has been applied, the same event changes nothing and
  reports no fill.
\<close>

theorem trade_through_applies_once:
  assumes "apply_paper_trade_through D U t fresh now db = Ok (n, db')"
  shows "apply_paper_trade_through D U t fresh' now' db' = Ok (0, db')"
proof -
  from assms have valid: "st_mode db = Paper" "mt_event_id t \<noteq> []" "mt_token_id t \<noteq> []" "0 < mt_price t"
    "mt_price t < 1" "0 < mt_size t"
    by (auto simp: apply_paper_trade_through_def not_le split: if_split_asm)
  from assms have "st_mode db' = Paper \<and> (\<exists>e \<in> set (paper_market_events db'). pe_event_id e = mt_event_id t)"
  proof (cases rule: apply_paper_trade_throughE)
    case duplicate
    with valid show ?thesis by auto
  next
    case (applied db1 l evs l' db2)
    with trade_through_loop_keeps [OF applied(8)] valid show ?thesis by simp
  qed
  with valid show ?thesis by (auto simp: apply_paper_trade_through_def list_ex_iff not_le)
qed

text \<open>What the account can still spend.\<close>

definition available_quote :: "dec_ops \<Rightarrow> Store \<Rightarrow> decimal" where
  "available_quote D db = (case paper_account db of
     None \<Rightarrow> 0 | Some a \<Rightarrow> stored D (pa_quote_balance a) - stored D (pa_reserved_quote a))"

text \<open>
  Cancelling a resting order releases exactly what it reserves: the spendable quote grows by the
  order's reservation, the order is CANCELLED with nothing remaining, and the other orders are left as
  they were.
\<close>

theorem cancel_releases_reservation:
  assumes "dec_sound D" "books_balance D db" "cancel_paper_order D vid now db = Ok (snap, db')"
    and "sql_find (\<lambda>r. po_venue_order_id r = vid) (paper_venue_orders db) = Some row" "paper_active row"
  shows "available_quote D db' = available_quote D db + stored D (po_reserved_quote row)
    \<and> pn_state snap = OrderState.Cancelled \<and> pn_remaining_quantity snap = 0
    \<and> (\<forall>r \<in> set (paper_venue_orders db). po_venue_order_id r \<noteq> vid \<longrightarrow> r \<in> set (paper_venue_orders db'))"
  using assms(3)
proof (rule cancel_paper_orderE, goal_cases)
  case (1 row' db1 e)
  have D: "dec_exact D" "dec_text D" "dec_zero D" using assms(1) by (auto simp: dec_sound_def)
  have row': "row' = row" "row \<in> set (paper_venue_orders db)" "po_venue_order_id row = vid"
    using 1(1) assms(4) sql_find_SomeD by force+
  have rel: "release_paper_order D row now db = Ok db1"
    using 1(2) assms(5) by (auto simp: row' paper_active_def terminal_states_def)
  have b: "rows_balanced D (paper_venue_orders db)" using assms(2) by (simp add: books_balance_def)
  show ?case
    using rel
  proof (rule release_paper_orderE [OF D(1)], goal_cases)
    case (1 a)
    have le: "stored D (po_reserved_quote row) \<le> stored D (pa_reserved_quote a)"
      using member_reserved_le(1) [OF _ row'(2)] b assms(2) 1(1)
      by (auto simp: books_balance_def account_balanced_def rows_balanced_def)
    have "sql_find (\<lambda>r. po_venue_order_id r = vid) (paper_venue_orders db1) =
        Some (row\<lparr>po_state := OrderState.Cancelled, po_remaining_quantity := ''0'', po_reserved_quote := ''0'',
                  po_reserved_shares := ''0'', po_updated_at := now\<rparr>)"
      using b row'(2) unfolding 1(4) row'(3) rows_balanced_def
      by (intro sql_find_update_key) (auto simp: row'(3))
    with 1 le D \<open>load_paper_order D vid db1 = Ok (Some snap)\<close> \<open>db' = send [e] (log_event e db1)\<close> row'(3)
    show ?case by (auto simp: available_quote_def load_paper_order_def res_simps set_sql_update intro!: rev_image_eqI)
  qed
qed

end
