(* ===== verification/PaperVenue.thy ===== *)
theory PaperVenue
  imports PaperBooks
begin

text \<open>
  \<open>src/src/venue/paper.rs\<close>: the simulated venue.  Market data arrives as JSON over HTTP and as messages
  of a trade stream; both are inputs of the model (a fetched value or the error of the request).  \<open>J\<close>
  is how \<open>serde_json\<close> prints a value that is not a string, \<open>P\<close> the hash that names a paper order and
  \<open>H\<close> the hash of a canonical market event (none when the event has no canonical form).  The venue's own state is the set of subscribed tokens and
  the set of tokens whose stream failed; its orders live in the paper ledger of the store.
\<close>

type_synonym 'a vres = "(VenueError, 'a) res"

definition store_error :: "StoreError \<Rightarrow> VenueError" where
  "store_error e = VenueRejected (''paper ledger: '' @ store_error_text e)"

section \<open>Market data\<close>

text \<open>\<open>str::trim_matches\<close> of the double quote.\<close>

definition trim_quotes :: "string \<Rightarrow> string" where
  "trim_quotes s = rev (dropWhile (\<lambda>c. byte c = 34) (rev (dropWhile (\<lambda>c. byte c = 34) s)))"

definition parse_decimal :: "dec_ops \<Rightarrow> (json \<Rightarrow> string) \<Rightarrow> json option \<Rightarrow> string \<Rightarrow> decimal vres" where
  "parse_decimal D J value field =
     rbind (ok_or (Market (''missing '' @ field))
              (map_option (\<lambda>v. case v of JStr s \<Rightarrow> s | _ \<Rightarrow> J v) value)) (\<lambda>raw.
       ok_or (Market (''invalid '' @ field)) (d_from_str D (trim_quotes raw)))"

definition get_or :: "json \<Rightarrow> string \<Rightarrow> string \<Rightarrow> json option" where
  "get_or v snake camel = (case jget v snake of Some x \<Rightarrow> Some x | None \<Rightarrow> jget v camel)"

definition bool_or :: "bool \<Rightarrow> json option \<Rightarrow> bool" where
  "bool_or otherwise v = (case v of Some (JBool b) \<Rightarrow> b | _ \<Rightarrow> otherwise)"

definition token_listed :: "json \<Rightarrow> string \<Rightarrow> bool" where
  "token_listed value token_id = (case jget value ''tokens'' of
     Some (JArr tokens) \<Rightarrow>
       list_ex (\<lambda>token. case get_or token ''token_id'' ''tokenId'' of
         Some (JStr raw) \<Rightarrow> raw = token_id
       | Some (JInt n) \<Rightarrow> 0 \<le> n \<and> n < 2 ^ 64 \<and> show_nat (nat n) = token_id
       | _ \<Rightarrow> False) tokens
   | _ \<Rightarrow> False)"

definition fee_or_zero :: "decimal vres \<Rightarrow> decimal vres" where
  "fee_or_zero r = (case r of Err e \<Rightarrow> Ok 0 | _ \<Rightarrow> r)"

definition market_rules :: "dec_ops \<Rightarrow> (json \<Rightarrow> string) \<Rightarrow> json vres \<Rightarrow> string \<Rightarrow> string \<Rightarrow> instant \<Rightarrow> MarketRules vres" where
  "market_rules D J fetched condition_id token_id now =
     rbind fetched (\<lambda>value.
     if \<not> token_listed value token_id then Err (Market ''token does not belong to condition'')
     else
     rbind (parse_decimal D J (get_or value ''minimum_tick_size'' ''minimumTickSize'') ''minimum_tick_size'') (\<lambda>tick_size.
     rbind (parse_decimal D J (get_or value ''minimum_order_size'' ''minimumOrderSize'') ''minimum_order_size'') (\<lambda>minimum_order_size.
     rbind (fee_or_zero (parse_decimal D J (get_or value ''maker_base_fee'' ''makerBaseFee'') ''maker_base_fee'')) (\<lambda>maker_fee_rate.
     rbind (fee_or_zero (parse_decimal D J (get_or value ''taker_base_fee'' ''takerBaseFee'') ''taker_base_fee'')) (\<lambda>taker_fee_rate.
       Ok \<lparr>mk_condition_id = condition_id, mk_token_id = token_id,
           mk_active = bool_or False (jget value ''active''), mk_closed = bool_or True (jget value ''closed''),
           mk_accepting_orders = bool_or False (get_or value ''accepting_orders'' ''acceptingOrders''),
           mk_tick_size = tick_size, mk_minimum_order_size = minimum_order_size,
           mk_negative_risk = bool_or False (get_or value ''neg_risk'' ''negRisk''),
           mk_maker_fee_rate = maker_fee_rate, mk_taker_fee_rate = taker_fee_rate, mk_observed_at = now\<rparr>)))))"

fun parse_levels :: "dec_ops \<Rightarrow> (json \<Rightarrow> string) \<Rightarrow> json list \<Rightarrow> PriceLevel list vres" where
  "parse_levels D J [] = Ok []"
| "parse_levels D J (level # levels) =
     rbind (parse_decimal D J (jget level ''price'') ''price'') (\<lambda>price.
     rbind (parse_decimal D J (jget level ''size'') ''size'') (\<lambda>size.
     rbind (parse_levels D J levels) (\<lambda>rest. Ok (\<lparr>pl_price = price, pl_size = size\<rparr> # rest))))"

definition book_side :: "dec_ops \<Rightarrow> (json \<Rightarrow> string) \<Rightarrow> json \<Rightarrow> string \<Rightarrow> PriceLevel list vres" where
  "book_side D J value name = (case jget value name of
     Some (JArr levels) \<Rightarrow> parse_levels D J levels
   | _ \<Rightarrow> Err (Market (''missing '' @ name)))"

definition order_book :: "dec_ops \<Rightarrow> (json \<Rightarrow> string) \<Rightarrow> json vres \<Rightarrow> instant \<Rightarrow> OrderBook vres" where
  "order_book D J fetched now =
     rbind fetched (\<lambda>value.
     rbind (book_side D J value ''bids'') (\<lambda>bids.
     rbind (book_side D J value ''asks'') (\<lambda>asks.
       Ok \<lparr>bk_bids = bids, bk_asks = asks, bk_observed_at = now,
           bk_hash = (case jget value ''hash'' of Some (JStr h) \<Rightarrow> Some h | _ \<Rightarrow> None)\<rparr>)))"

section \<open>Walking the book\<close>

record PaperFill =
  fl_shares :: decimal
  fl_quote :: decimal
  fl_fee :: decimal
  fl_complete :: bool

definition no_fill :: PaperFill where
  "no_fill = \<lparr>fl_shares = 0, fl_quote = 0, fl_fee = 0, fl_complete = False\<rparr>"

definition average_price :: "dec_ops \<Rightarrow> PaperFill \<Rightarrow> decimal option option" where
  "average_price D f = (if fl_shares f > 0 then map_option Some (d_div D (fl_quote f) (fl_shares f)) else Some None)"

definition dust :: decimal where
  "dust = 1 / 10 ^ 6"

definition add_fill :: "dec_ops \<Rightarrow> decimal \<Rightarrow> decimal \<Rightarrow> decimal \<Rightarrow> PaperFill \<Rightarrow> PaperFill option" where
  "add_fill D shares quote fee f = do {
     s \<leftarrow> d_add D (fl_shares f) shares;
     q \<leftarrow> d_add D (fl_quote f) quote;
     e \<leftarrow> d_add D (fl_fee f) fee;
     Some (f\<lparr>fl_shares := s, fl_quote := q, fl_fee := e\<rparr>) }"

fun walk_buy :: "dec_ops \<Rightarrow> decimal \<Rightarrow> PriceLevel list \<Rightarrow> decimal \<Rightarrow> PaperFill \<Rightarrow> PaperFill option" where
  "walk_buy D fee_rate [] quote_remaining fill = Some fill"
| "walk_buy D fee_rate (level # levels) quote_remaining fill = do {
     factor \<leftarrow> d_add D 1 fee_rate;
     quote_per_share \<leftarrow> d_mul D (pl_price level) factor;
     affordable \<leftarrow> d_div D quote_remaining quote_per_share;
     let shares = min (pl_size level) affordable;
     quote \<leftarrow> d_mul D shares (pl_price level);
     fee \<leftarrow> d_mul D quote fee_rate;
     fill \<leftarrow> add_fill D shares quote fee fill;
     spent \<leftarrow> d_add D quote fee;
     quote_remaining \<leftarrow> d_sub D quote_remaining spent;
     if quote_remaining \<le> dust then Some (fill\<lparr>fl_complete := True\<rparr>)
     else walk_buy D fee_rate levels quote_remaining fill }"

fun walk_sell :: "dec_ops \<Rightarrow> decimal \<Rightarrow> PriceLevel list \<Rightarrow> decimal \<Rightarrow> PaperFill \<Rightarrow> PaperFill option" where
  "walk_sell D fee_rate [] shares_remaining fill = Some fill"
| "walk_sell D fee_rate (level # levels) shares_remaining fill = do {
     let shares = min (pl_size level) shares_remaining;
     quote \<leftarrow> d_mul D shares (pl_price level);
     fee \<leftarrow> d_mul D quote fee_rate;
     fill \<leftarrow> add_fill D shares quote fee fill;
     shares_remaining \<leftarrow> d_sub D shares_remaining shares;
     if shares_remaining \<le> dust then Some (fill\<lparr>fl_complete := True\<rparr>)
     else walk_sell D fee_rate levels shares_remaining fill }"

definition walk_book ::
  "dec_ops \<Rightarrow> OrderBook \<Rightarrow> Side \<Rightarrow> decimal \<Rightarrow> decimal \<Rightarrow> decimal \<Rightarrow> PaperFill option" where
  "walk_book D book side requested worst_price fee_rate = (case side of
     Buy \<Rightarrow> walk_buy D fee_rate (filter (\<lambda>l. pl_price l \<le> worst_price) (sort_key pl_price (bk_asks book))) requested no_fill
   | Sell \<Rightarrow> walk_sell D fee_rate (filter (\<lambda>l. pl_price l \<ge> worst_price) (sort_key (\<lambda>l. - pl_price l) (bk_bids book)))
               requested no_fill)"

section \<open>Trade streams\<close>

record PaperStreams =
  pv_subscriptions :: "string set"
  pv_failures :: "string set"

text \<open>
  \<open>connected\<close> is the state of the market connection, \<open>asset\<close> the result of reading the token as a 256
  bit number, \<open>subscribed\<close> the result of the subscription call.
\<close>

definition ensure_trade_subscription ::
  "bool \<times> unit vres \<times> unit vres \<Rightarrow> string \<Rightarrow> PaperStreams \<Rightarrow> unit vres \<times> PaperStreams" where
  "ensure_trade_subscription = (\<lambda>(connected, asset, subscribed) token v.
     if token \<in> pv_subscriptions v \<and> token \<notin> pv_failures v \<and> connected then (Ok (), v)
      else
      let v = v\<lparr>pv_subscriptions := pv_subscriptions v - {token}\<rparr>
      in case rbind asset (\<lambda>_. subscribed) of
           Ok _ \<Rightarrow> (Ok (), v\<lparr>pv_subscriptions := insert token (pv_subscriptions v)\<rparr>)
         | Err e \<Rightarrow> (Err e, v)
         | Panic \<Rightarrow> (Panic, v))"

section \<open>Preparing and submitting\<close>

definition paper_prepare :: "(uuid \<Rightarrow> json \<Rightarrow> string) \<Rightarrow> uuid \<Rightarrow> OrderIntentRequest \<Rightarrow> PreparedVenueOrder" where
  "paper_prepare P intent_id request =
     (let normalized = json_of_request request in
      \<lparr>pv_deterministic_order_id = ''paper_'' @ P intent_id normalized, pv_normalized_json = normalized,
       pv_signed_payload_json = None, pv_signer_address = None, pv_funder_address = None,
       pv_protocol_version = 2, pv_sdk_version = ''paper-v1''\<rparr>)"

text \<open>What \<open>submit\<close> commits to the ledger, from the market, the request and the fill of the book.\<close>

definition fok_unfilled :: "OrderIntentRequest \<Rightarrow> PaperFill \<Rightarrow> bool" where
  "fok_unfilled request fill \<longleftrightarrow> rq_time_in_force request = Fok \<and> \<not> fl_complete fill"

definition applied_fill :: "OrderIntentRequest \<Rightarrow> PaperFill \<Rightarrow> PaperFill" where
  "applied_fill request fill = (if fok_unfilled request fill then no_fill else fill)"

definition committed_state :: "OrderIntentRequest \<Rightarrow> PaperFill \<Rightarrow> OrderState" where
  "committed_state request fill =
     (if fok_unfilled request fill then OrderState.Cancelled
      else if is_immediate (rq_time_in_force request)
      then (if fl_complete fill then OrderState.Filled else OrderState.Cancelled)
      else OrderState.Live)"

definition reserved_quote :: "dec_ops \<Rightarrow> OrderIntentRequest \<Rightarrow> decimal \<Rightarrow> decimal \<Rightarrow> decimal \<Rightarrow> decimal option" where
  "reserved_quote D request quantity price fee_rate =
     (if \<not> is_immediate (rq_time_in_force request) \<and> rq_side request = Buy
      then do { cost \<leftarrow> d_mul D quantity price; factor \<leftarrow> d_add D 1 fee_rate; d_mul D cost factor }
      else Some 0)"

definition committed_quantity :: "dec_ops \<Rightarrow> OrderIntentRequest \<Rightarrow> decimal \<Rightarrow> decimal \<Rightarrow> decimal option" where
  "committed_quantity D request quantity tick_size =
     (if rq_side request = Buy \<and> is_immediate (rq_time_in_force request) then d_div D quantity tick_size
      else Some quantity)"

definition fill_evidence :: "OrderIntentRequest \<Rightarrow> PaperFill \<Rightarrow> decimal option \<Rightarrow> json" where
  "fill_evidence request fill average =
     (if fok_unfilled request fill
      then JObj [(''paper'', JBool True), (''reason'', JStr ''insufficient_depth'')]
      else JObj [(''paper'', JBool True), (''filled_quantity'', JDec (fl_shares (applied_fill request fill))),
                 (''quote'', JDec (fl_quote (applied_fill request fill))),
                 (''fee'', JDec (fl_fee (applied_fill request fill))), (''average_price'', json_opt JDec average)])"

definition paper_commit ::
  "dec_ops \<Rightarrow> OrderIntentRequest \<Rightarrow> MarketRules \<Rightarrow> decimal \<Rightarrow> decimal \<Rightarrow> PaperFill \<Rightarrow> string \<Rightarrow> PaperOrderCommit option" where
  "paper_commit D request market price quantity fill order_id = do {
     let fee_rate = max (mk_maker_fee_rate market) (mk_taker_fee_rate market);
     let applied = applied_fill request fill;
     quote_reserved \<leftarrow> reserved_quote D request quantity price fee_rate;
     original_quantity \<leftarrow> committed_quantity D request quantity (mk_tick_size market);
     average \<leftarrow> average_price D applied;
     Some \<lparr>pc_venue_order_id = order_id, pc_condition_id = rq_condition_id request, pc_token_id = rq_token_id request,
           pc_side = rq_side request, pc_state = committed_state request fill, pc_price = price, pc_fee_rate = fee_rate,
           pc_original_quantity = original_quantity,
           pc_remaining_quantity = (if is_immediate (rq_time_in_force request) then 0 else original_quantity),
           pc_filled_quantity = fl_shares applied, pc_filled_price = average, pc_quote_amount = fl_quote applied,
           pc_fee_amount = fl_fee applied, pc_reserved_quote = quote_reserved,
           pc_reserved_shares =
             (if \<not> is_immediate (rq_time_in_force request) \<and> rq_side request = Sell then quantity else 0),
           pc_venue_trade_ids = (if fl_shares applied > 0 then [''paper_trade_'' @ order_id] else []),
           pc_evidence = fill_evidence request fill average\<rparr> }"

text \<open>
  \<open>book\<close> and \<open>market\<close> are what the calls to the market data service return; \<open>attempt\<close> is what
  the connection, the token and the subscription call give when a resting order has to follow its market.
\<close>

definition submit_terms ::
  "dec_ops \<Rightarrow> OrderBook vres \<Rightarrow> MarketRules vres \<Rightarrow> OrderIntentRequest \<Rightarrow> (OrderBook \<times> MarketRules \<times> decimal \<times> decimal) vres" where
  "submit_terms D book market request =
     rbind book (\<lambda>book.
     rbind market (\<lambda>market.
     rbind (map_err (\<lambda>e. VenueRejected (domain_error_text e)) (protection_price D request)) (\<lambda>price.
     rbind (map_err (\<lambda>e. VenueRejected (domain_error_text e)) (quantity_decimal D request)) (\<lambda>quantity.
       Ok (book, market, price, quantity)))))"

definition submission_of :: "PaperOrderSnapshot \<Rightarrow> VenueSubmission" where
  "submission_of snap =
     \<lparr>vs_venue_order_id = pn_venue_order_id snap, vs_state = pn_state snap,
      vs_filled_quantity = pn_filled_quantity snap, vs_filled_price = pn_filled_price snap,
      vs_venue_trade_ids = pn_venue_trade_ids snap, vs_evidence = pn_evidence snap\<rparr>"

definition submit_commit ::
  "dec_ops \<Rightarrow> OrderIntentRequest \<Rightarrow> MarketRules \<Rightarrow> decimal \<Rightarrow> decimal \<Rightarrow> PaperFill \<Rightarrow> string \<Rightarrow> instant \<Rightarrow> Store
     \<Rightarrow> (VenueSubmission \<times> Store) vres" where
  "submit_commit D request market price quantity fill order_id now db =
     rbind (or_panic (paper_commit D request market price quantity fill order_id)) (\<lambda>commit.
     rbind (map_err store_error (commit_paper_order D commit now db)) (\<lambda>(snap, db).
       Ok (submission_of snap, db)))"

definition paper_submit ::
  "dec_ops \<Rightarrow> OrderBook vres \<Rightarrow> MarketRules vres \<Rightarrow> bool \<times> unit vres \<times> unit vres \<Rightarrow> PreparedVenueOrder
     \<Rightarrow> OrderIntentRequest \<Rightarrow> instant \<Rightarrow> PaperStreams \<Rightarrow> Store \<Rightarrow> (VenueSubmission \<times> Store) vres \<times> PaperStreams" where
  "paper_submit D book market attempt prepared request now v db =
     (case submit_terms D book market request of
        Ok (book, market, price, quantity) \<Rightarrow>
          let fee_rate = max (mk_maker_fee_rate market) (mk_taker_fee_rate market);
              (fill, v) = (if is_immediate (rq_time_in_force request)
                 then (or_panic (walk_book D book (rq_side request) quantity price fee_rate), v)
                 else (case ensure_trade_subscription attempt (rq_token_id request) v of
                         (opened, v) \<Rightarrow> (rbind opened (\<lambda>_. Ok no_fill), v)))
          in (rbind fill (\<lambda>fill. submit_commit D request market price quantity fill
                                  (pv_deterministic_order_id prepared) now db), v)
      | Err e \<Rightarrow> (Err e, v)
      | Panic \<Rightarrow> (Panic, v))"

section \<open>Cancelling and observing\<close>

definition paper_cancel :: "dec_ops \<Rightarrow> string \<Rightarrow> instant \<Rightarrow> Store \<Rightarrow> (VenueCancellation \<times> Store) vres" where
  "paper_cancel D vid now db =
     rbind (map_err store_error (cancel_paper_order D vid now db)) (\<lambda>(order, db).
       Ok (\<lparr>vc_state = pn_state order,
            vc_evidence = JObj [(''paper'', JBool True), (''state'', JStr (order_state_text (pn_state order)))]\<rparr>, db))"

definition observed_order :: "json \<Rightarrow> PaperOrderSnapshot \<Rightarrow> ObservedVenueOrder" where
  "observed_order evidence order =
     \<lparr>ob_venue_order_id = pn_venue_order_id order, ob_state = pn_state order,
      ob_remaining_quantity = pn_remaining_quantity order, ob_filled_quantity = pn_filled_quantity order,
      ob_filled_price = pn_filled_price order, ob_venue_trade_ids = pn_venue_trade_ids order, ob_evidence = evidence\<rparr>"

definition paper_find_order :: "dec_ops \<Rightarrow> string \<Rightarrow> Store \<Rightarrow> ObservedVenueOrder option vres" where
  "paper_find_order D vid db =
     rbind (map_err store_error (find_paper_order D vid db)) (\<lambda>found.
       Ok (map_option (\<lambda>order. observed_order (JObj [(''paper'', JBool True), (''recovered'', JBool True),
             (''original_evidence'', pn_evidence order)]) order) found))"

definition stale_streams :: "string list \<Rightarrow> VenueError" where
  "stale_streams failed = Stale (''paper trade streams unhealthy for tokens: '' @ join_with (CHR '','') failed)"

text \<open>\<open>failed\<close> lists the failed tokens in the order the hash set iterates.\<close>

definition paper_reconcile :: "dec_ops \<Rightarrow> string list \<Rightarrow> Store \<Rightarrow> ReconciliationResult vres" where
  "paper_reconcile D failed db =
     (if failed \<noteq> [] then Err (stale_streams failed)
      else
      rbind (map_err store_error (list_paper_orders D db)) (\<lambda>paper_orders.
      let observed_trades = concat (map (\<lambda>order. map (\<lambda>t.
            \<lparr>ot_venue_trade_id = t, ot_venue_order_ids = [pn_venue_order_id order], ot_status = Matched,
             ot_evidence = JObj [(''paper'', JBool True), (''reconciliation'', JBool True)]\<rparr>)
            (pn_venue_trade_ids order)) paper_orders)
      in
      rbind (map_err store_error (paper_venue_positions D db)) (\<lambda>positions.
        Ok \<lparr>rr_orders_observed = fst (paper_venue_counts db), rr_trades_observed = length observed_trades,
            rr_observed_orders = map (\<lambda>order. observed_order (JObj [(''paper'', JBool True),
               (''reconciliation'', JBool True), (''original_evidence'', pn_evidence order)]) order) paper_orders,
            rr_observed_trades = observed_trades,
            rr_observed_positions = map (\<lambda>(condition, token, shares).
               \<lparr>op_condition_id = condition, op_token_id = token, op_shares = shares,
                op_evidence = JObj [(''paper'', JBool True), (''source'', JStr ''durable_paper_inventory'')]\<rparr>) positions,
            rr_critical_findings = []\<rparr>)))"

section \<open>Stream messages and the heartbeat\<close>

text \<open>A message of a token's stream, or its end.\<close>

record stream_trade =
  sx_asset_id :: string
  sx_market :: string
  sx_price :: decimal
  sx_side :: "string option"
  sx_size :: "decimal option"
  sx_timestamp :: int

datatype stream_message = Trade stream_trade | StreamError | StreamEnd

definition market_event_id :: "(json \<Rightarrow> string option) \<Rightarrow> stream_trade \<Rightarrow> decimal \<Rightarrow> string option" where
  "market_event_id H t qty = H (JObj [(''asset_id'', JStr (sx_asset_id t)), (''market'', JStr (sx_market t)),
     (''price'', JDec (sx_price t)), (''side'', json_opt JStr (sx_side t)), (''size'', JDec qty),
     (''timestamp'', JInt (sx_timestamp t))])"

text \<open>\<open>T\<close> reads a number of milliseconds as an instant, where there is one.\<close>

definition on_stream_message ::
  "dec_ops \<Rightarrow> (json \<Rightarrow> string option) \<Rightarrow> (int \<Rightarrow> instant option) \<Rightarrow> (uuid \<Rightarrow> string) \<Rightarrow> string \<Rightarrow> stream_message
     \<Rightarrow> (nat \<Rightarrow> uuid) \<Rightarrow> instant \<Rightarrow> PaperStreams \<times> Store \<Rightarrow> PaperStreams \<times> Store" where
  "on_stream_message D H T U token msg fresh now = (\<lambda>(v, db).
     case msg of
       Trade t \<Rightarrow>
         let v = v\<lparr>pv_failures := pv_failures v - {token}\<rparr>;
             failed = v\<lparr>pv_failures := insert token (pv_failures v)\<rparr>
         in
         (case sx_size t of
            None \<Rightarrow> (v, db)
          | Some qty \<Rightarrow>
              if qty \<le> 0 then (v, db)
              else
              (case market_event_id H t qty of
                 None \<Rightarrow> (failed, db)
               | Some event_id \<Rightarrow>
                   (case apply_paper_trade_through D U
                           \<lparr>mt_event_id = event_id, mt_token_id = token, mt_price = sx_price t, mt_size = qty,
                            mt_observed_at = (case T (sx_timestamp t) of Some i \<Rightarrow> i | None \<Rightarrow> now)\<rparr> fresh now db of
                      Ok (n, db') \<Rightarrow> (v, db')
                    | _ \<Rightarrow> (failed, db))))
     | _ \<Rightarrow> (v\<lparr>pv_failures := insert token (pv_failures v)\<rparr>, db))"

text \<open>\<open>heartbeat\<close>: \<open>attempts\<close> gives the connection, asset and subscription results for each token.\<close>

fun ensure_all ::
  "(string \<Rightarrow> bool \<times> unit vres \<times> unit vres) \<Rightarrow> string list \<Rightarrow> PaperStreams \<Rightarrow> unit vres \<times> PaperStreams" where
  "ensure_all attempts [] v = (Ok (), v)"
| "ensure_all attempts (token # tokens) v =
     (case ensure_trade_subscription (attempts token) token v of
        (Ok _, v) \<Rightarrow> ensure_all attempts tokens v
      | (r, v) \<Rightarrow> (r, v))"

definition paper_heartbeat ::
  "(string \<Rightarrow> bool \<times> unit vres \<times> unit vres) \<Rightarrow> (string set \<Rightarrow> string list) \<Rightarrow> Store \<Rightarrow> PaperStreams
     \<Rightarrow> unit vres \<times> PaperStreams" where
  "paper_heartbeat attempts listing db v =
     (case ensure_all attempts (paper_active_tokens db) v of
        (Ok _, v) \<Rightarrow> (if pv_failures v \<noteq> {} then (Err (stale_streams (listing (pv_failures v))), v) else (Ok (), v))
      | (r, v) \<Rightarrow> (r, v))"

definition paper_new ::
  "dec_ops \<Rightarrow> (json \<Rightarrow> string) \<Rightarrow> PaperConfig \<Rightarrow> unit vres \<Rightarrow> (string \<Rightarrow> bool \<times> unit vres \<times> unit vres) \<Rightarrow> instant \<Rightarrow> Store
     \<Rightarrow> (PaperStreams \<times> Store) vres" where
  "paper_new D H config client attempts now db =
     rbind (map_err store_error (initialize_paper_account D H config now db)) (\<lambda>db.
     rbind client (\<lambda>_.
     (case ensure_all attempts (paper_active_tokens db) \<lparr>pv_subscriptions = {}, pv_failures = {}\<rparr> of
        (Ok _, v) \<Rightarrow> Ok (v, db) | (Err e, v) \<Rightarrow> Err e | (Panic, v) \<Rightarrow> Panic)))"

end
