(* ===== verification/Polymarket.thy ===== *)
theory Polymarket
  imports Config
begin

text \<open>
  The market side of \<open>src/src/venue/polymarket.rs\<close>: the errors of the client SDK and what they become, the
  state of the live venue, the book cache that the stream tasks maintain, subscriptions, market rules and
  order books.  The SDK, the web socket and the number types of \<open>alloy\<close> are third-party: what a call
  answers is a field of the record \<open>sdk\<close>, given for one operation, and the conversions are fields of
  \<open>sdk_lib\<close>.  A spawned stream task is one definition per message, run at any time.
\<close>

type_synonym 'a lv = "(VenueError, 'a) res"

section \<open>The SDK\<close>

record SdkStatus =
  ss_code :: nat
  ss_message :: string
  ss_text :: string

datatype SdkErrorKind = KindValidation | KindGeoblock | KindOther string

text \<open>An error of the SDK: the status it downcasts to if any, its kind and its text.\<close>

record SdkError =
  sx_status :: "SdkStatus option"
  sx_kind :: SdkErrorKind
  sx_text :: string

datatype OrderStatusType =
    StatusLive | StatusMatched | StatusCanceled | StatusDelayed | StatusUnmatched | OrderStatusOther string

datatype TradeStatusType =
    StatusTradeMatched | StatusMined | StatusConfirmed | StatusRetrying | StatusFailed | TradeStatusOther string

datatype SdkSide = SdkBuy | SdkSell | SdkSideOther

datatype SdkOrderType = SdkGTC | SdkGTD | SdkFOK | SdkFAK

record OrderV2 =
  o2_salt :: nat
  o2_maker :: nat
  o2_signer :: nat
  o2_tokenId :: nat
  o2_makerAmount :: nat
  o2_takerAmount :: nat
  o2_side :: "8 word"
  o2_signatureType :: "8 word"
  o2_timestamp :: nat
  o2_metadata :: nat
  o2_builder :: nat

record SignedOrder =
  sd_order :: OrderV2
  sd_expiration :: nat
  sd_signature :: string
  sd_order_type :: SdkOrderType
  sd_owner :: uuid
  sd_post_only :: bool
  sd_defer_exec :: bool

datatype Amount = UsdcAmount decimal | SharesAmount decimal

text \<open>What the order builders of the SDK are given.\<close>

datatype OrderTerms =
    LimitOrder nat decimal decimal SdkSide SdkOrderType bool "instant option"
  | MarketOrder nat Amount decimal SdkSide SdkOrderType

datatype AssetType = Collateral | Conditional nat

record BalanceAllowance =
  ba_balance :: decimal
  ba_allowances :: "(nat \<times> string) list"

record SdkMarket =
  sm_tokens :: "nat list"
  sm_active :: bool
  sm_closed :: bool
  sm_accepting_orders :: bool
  sm_minimum_tick_size :: decimal
  sm_minimum_order_size :: decimal
  sm_neg_risk :: bool
  sm_maker_base_fee :: decimal
  sm_taker_base_fee :: decimal

record PostOrderResponse =
  pr_success :: bool
  pr_error_msg :: "string option"
  pr_order_id :: string
  pr_status :: OrderStatusType
  pr_making_amount :: decimal
  pr_taking_amount :: decimal
  pr_trade_ids :: "string list"
  pr_transaction_hashes :: json

record CancelResponse =
  cx_canceled :: "string list"
  cx_not_canceled :: "(string \<times> string) list"

record SdkOrder =
  sk_order_id :: string
  sk_order_status :: OrderStatusType
  sk_order_asset_id :: nat
  sk_order_original_size :: decimal
  sk_order_size_matched :: decimal
  sk_order_price :: decimal
  sk_order_associate_trades :: "string list"

datatype TraderSide = Taker | Maker | TraderSideOther

record SdkTrade =
  sk_trade_id :: string
  sk_trade_status :: TradeStatusType
  sk_trade_trader_side :: TraderSide
  sk_trade_taker_order_id :: string
  sk_trade_maker_orders :: "string list"
  sk_trade_market :: string
  sk_trade_asset_id :: nat
  sk_trade_side :: string
  sk_trade_size :: decimal
  sk_trade_price :: decimal
  sk_trade_match_time :: json
  sk_trade_last_update :: json
  sk_trade_transaction_hash :: string
  sk_trade_error_msg :: "string option"

record SdkPosition =
  sk_position_condition_id :: string
  sk_position_asset :: nat
  sk_position_size :: decimal
  sk_position_proxy_wallet :: string
  sk_position_avg_price :: decimal
  sk_position_current_value :: decimal
  sk_position_redeemable :: bool
  sk_position_mergeable :: bool

record 'a SdkPage =
  pp_data :: "'a list"
  pp_next_cursor :: string

text \<open>Conversions and texts of the libraries; an address and a hash are numbers.\<close>

record sdk_lib =
  sl_u256 :: "string \<Rightarrow> (string, nat) res"
  sl_show_u256 :: "nat \<Rightarrow> string"
  sl_address :: "string \<Rightarrow> (string, nat) res"
  sl_show_address :: "nat \<Rightarrow> string"
  sl_b256 :: "string \<Rightarrow> (string, nat) res"
  sl_uuid :: "string \<Rightarrow> (string, uuid) res"
  sl_show_decimal :: "decimal \<Rightarrow> string"
  sl_show_json :: "json \<Rightarrow> string"
  sl_parse_json :: "string \<Rightarrow> (string, json) res"
  sl_order_status :: "OrderStatusType \<Rightarrow> string"
  sl_trade_status :: "TradeStatusType \<Rightarrow> string"
  sl_time_of_millis :: "int \<Rightarrow> instant option"
  sl_usdc :: "decimal \<Rightarrow> (string, Amount) res"
  sl_shares :: "decimal \<Rightarrow> (string, Amount) res"
  sl_side_byte :: "SdkSide \<Rightarrow> 8 word"
  sl_exchange_v2 :: "nat \<Rightarrow> bool \<Rightarrow> nat option"
  sl_signing_hash :: "nat \<Rightarrow> nat \<Rightarrow> OrderV2 \<Rightarrow> string"
  sl_signed_json :: "SignedOrder \<Rightarrow> (string, string) res"
  sl_order_json :: "OrderV2 \<Rightarrow> (string, json) res"
  sl_positions_request :: "nat \<Rightarrow> nat \<Rightarrow> (string, unit) res"
  sl_arrange :: "nat list \<Rightarrow> nat list"

text \<open>
  What the SDK answers during one operation.  A connection state that is polled is a function of the
  attempt, a page of a listing a function of its cursor and its index.
\<close>

record sdk =
  sk_version :: "(SdkError, nat) res"
  sk_geoblock :: "(SdkError, bool \<times> string \<times> string) res"
  sk_closed_only :: "(SdkError, bool) res"
  sk_user_connected :: bool
  sk_market_connected :: bool
  sk_connects :: "nat \<Rightarrow> bool"
  sk_subscribe_orderbook :: "nat \<Rightarrow> (SdkError, unit) res"
  sk_subscribe_prices :: "nat \<Rightarrow> (SdkError, unit) res"
  sk_subscribe_user :: "(SdkError, unit) res"
  sk_market :: "string \<Rightarrow> (SdkError, SdkMarket) res"
  sk_order_book :: "nat \<Rightarrow> (SdkError, OrderBook) res"
  sk_build :: "OrderTerms \<Rightarrow> (SdkError, nat) res"
  sk_sign :: "nat \<Rightarrow> (SdkError, SignedOrder) res"
  sk_neg_risk :: "nat \<Rightarrow> (SdkError, bool) res"
  sk_balance :: "AssetType \<Rightarrow> (SdkError, BalanceAllowance) res"
  sk_post_order :: "SignedOrder \<Rightarrow> (SdkError, PostOrderResponse) res"
  sk_cancel_order :: "string \<Rightarrow> (SdkError, CancelResponse) res"
  sk_order :: "string \<Rightarrow> (SdkError, SdkOrder) res"
  sk_orders :: "string option \<Rightarrow> nat \<Rightarrow> (SdkError, SdkOrder SdkPage) res"
  sk_trades :: "string option \<Rightarrow> nat \<Rightarrow> (SdkError, SdkTrade SdkPage) res"
  sk_positions :: "nat \<Rightarrow> nat \<Rightarrow> nat \<Rightarrow> (SdkError, SdkPosition list) res"
  sk_heartbeat :: "uuid option \<Rightarrow> (SdkError, string option \<times> uuid) res"
  sk_client :: "(SdkError, unit) res"
  sk_web_socket :: "(SdkError, unit) res"
  sk_credentials :: "(SdkError, unit) res"
  sk_authenticate :: "nat \<Rightarrow> (SdkError, unit) res"
  sk_data_client :: "(SdkError, unit) res"

section \<open>Errors\<close>

text \<open>\<open>str::contains\<close>.\<close>

fun str_contains :: "string \<Rightarrow> string \<Rightarrow> bool" where
  "str_contains p [] \<longleftrightarrow> p = []"
| "str_contains p (c # s) \<longleftrightarrow> starts_with p (c # s) \<or> str_contains p s"

definition classify_pre_submit_error :: "SdkError \<Rightarrow> VenueError" where
  "classify_pre_submit_error e = (case sx_status e of
     Some status \<Rightarrow>
       if ss_code status = 425 then MatchingEngineRestart (ss_message status)
       else if str_contains ''order_version_mismatch'' (ss_message status) then ProtocolMismatch (ss_message status)
       else VenueRejected (ss_text status)
   | None \<Rightarrow> (case sx_kind e of
       KindGeoblock \<Rightarrow> GeographicRestricted (sx_text e)
     | KindValidation \<Rightarrow> VenueRejected (sx_text e)
     | KindOther k \<Rightarrow> Unavailable (sx_text e)))"

definition classify_submission_error :: "SdkError \<Rightarrow> VenueError" where
  "classify_submission_error e = (case sx_status e of
     Some status \<Rightarrow>
       if ss_code status = 425 then MatchingEngineRestart (ss_message status)
       else if str_contains ''order_version_mismatch'' (ss_message status) then ProtocolMismatch (ss_message status)
       else if 500 \<le> ss_code status \<and> ss_code status < 600 then Ambiguous (ss_text status)
       else VenueRejected (ss_text status)
   | None \<Rightarrow> (case sx_kind e of KindOther k \<Rightarrow> Ambiguous (sx_text e) | _ \<Rightarrow> classify_pre_submit_error e))"

definition is_not_found :: "SdkError \<Rightarrow> bool" where
  "is_not_found e \<longleftrightarrow> (case sx_status e of Some status \<Rightarrow> ss_code status = 404 | None \<Rightarrow> False)"

abbreviation pre_submit :: "(SdkError, 'a) res \<Rightarrow> 'a lv" where
  "pre_submit \<equiv> map_err classify_pre_submit_error"

abbreviation rejecting :: "(string, 'a) res \<Rightarrow> 'a lv" where
  "rejecting \<equiv> map_err VenueRejected"

section \<open>The state of the venue\<close>

record PolymarketVenue =
  lv_config :: PolymarketConfig
  lv_market_subscriptions :: "string set"
  lv_books :: "string \<Rightarrow> OrderBook option"
  lv_last_user_event :: "instant option"
  lv_user_event_generation :: "64 word"
  lv_reconciled_user_event_generation :: "64 word"
  lv_stream_gap_generation :: "64 word"
  lv_reconciled_stream_generation :: "64 word"
  lv_heartbeat_id :: "uuid option"

definition note_gap :: "PolymarketVenue \<Rightarrow> PolymarketVenue" where
  "note_gap v = v\<lparr>lv_stream_gap_generation := lv_stream_gap_generation v + 1\<rparr>"

definition drop_book :: "string \<Rightarrow> PolymarketVenue \<Rightarrow> PolymarketVenue" where
  "drop_book token v = v\<lparr>lv_books := (lv_books v)(token := None)\<rparr>"

definition keep_book :: "string \<Rightarrow> OrderBook \<Rightarrow> PolymarketVenue \<Rightarrow> PolymarketVenue" where
  "keep_book token book v = v\<lparr>lv_books := (lv_books v)(token \<mapsto> book)\<rparr>"

section \<open>Books\<close>

text \<open>The closure \<open>valid_levels\<close>, with the prices it has inserted.\<close>

fun consistent_levels :: "decimal set \<Rightarrow> PriceLevel list \<Rightarrow> bool" where
  "consistent_levels prices [] \<longleftrightarrow> True"
| "consistent_levels prices (level # levels) \<longleftrightarrow>
     pl_price level > 0 \<and> pl_price level \<le> 1 \<and> pl_size level > 0 \<and> pl_price level \<notin> prices
     \<and> consistent_levels (insert (pl_price level) prices) levels"

definition book_is_consistent :: "OrderBook \<Rightarrow> bool" where
  "book_is_consistent book \<longleftrightarrow>
     consistent_levels {} (bk_bids book) \<and> consistent_levels {} (bk_asks book)
     \<and> (case (best_bid book, best_ask book) of (Some bid, Some ask) \<Rightarrow> bid < ask | _ \<Rightarrow> True)
     \<and> (case bk_hash book of None \<Rightarrow> True | Some hash \<Rightarrow> \<not> is_blank hash)"

section \<open>Stream tasks\<close>

text \<open>One step of a task: a message, an error of the stream, or its end.\<close>

datatype 'a stream_item = StreamOk 'a | StreamError | StreamEnd

record BookMessage =
  bm_asset_id :: nat
  bm_timestamp :: int
  bm_bids :: "PriceLevel list"
  bm_asks :: "PriceLevel list"
  bm_hash :: "string option"

record PriceChange =
  pe_asset_id :: nat
  pe_side :: SdkSide
  pe_price :: decimal
  pe_size :: "decimal option"
  pe_hash :: "string option"

record PriceMessage =
  px_timestamp :: int
  px_price_changes :: "PriceChange list"

definition message_time :: "sdk_lib \<Rightarrow> instant \<Rightarrow> int \<Rightarrow> instant" where
  "message_time L now millis = (case sl_time_of_millis L millis of None \<Rightarrow> now | Some t \<Rightarrow> t)"

definition on_user_item :: "instant \<Rightarrow> unit stream_item \<Rightarrow> PolymarketVenue \<Rightarrow> PolymarketVenue" where
  "on_user_item now item v = (case item of
     StreamOk _ \<Rightarrow> v\<lparr>lv_last_user_event := Some now, lv_user_event_generation := lv_user_event_generation v + 1\<rparr>
   | _ \<Rightarrow> note_gap v)"

definition on_book_item :: "sdk_lib \<Rightarrow> string \<Rightarrow> instant \<Rightarrow> BookMessage stream_item \<Rightarrow> PolymarketVenue \<Rightarrow> PolymarketVenue" where
  "on_book_item L token now item v = (case item of
     StreamOk m \<Rightarrow>
       (let book = \<lparr>bk_bids = bm_bids m, bk_asks = bm_asks m, bk_observed_at = message_time L now (bm_timestamp m),
                    bk_hash = bm_hash m\<rparr>;
            asset_id = sl_show_u256 L (bm_asset_id m);
            regressed = (case lv_books v asset_id of None \<Rightarrow> False | Some prior \<Rightarrow> bk_observed_at book < bk_observed_at prior)
        in if regressed \<or> \<not> book_is_consistent book then note_gap (drop_book asset_id v)
           else keep_book asset_id book v)
   | _ \<Rightarrow> note_gap (drop_book token v))"

definition change_levels :: "PriceChange \<Rightarrow> PriceLevel list \<Rightarrow> PriceLevel list" where
  "change_levels entry levels =
     (let kept = filter (\<lambda>level. pl_price level \<noteq> pe_price entry) levels
      in case pe_size entry of
           Some amount \<Rightarrow> if amount > 0 then kept @ [\<lparr>pl_price = pe_price entry, pl_size = amount\<rparr>] else kept
         | None \<Rightarrow> kept)"

definition change_book :: "instant \<Rightarrow> PriceChange \<Rightarrow> OrderBook \<Rightarrow> OrderBook" where
  "change_book observed_at entry book =
     (let book = (if pe_side entry = SdkBuy then book\<lparr>bk_bids := change_levels entry (bk_bids book)\<rparr>
                  else book\<lparr>bk_asks := change_levels entry (bk_asks book)\<rparr>);
          book = book\<lparr>bk_observed_at := observed_at\<rparr>
      in case pe_hash entry of None \<Rightarrow> book | Some hash \<Rightarrow> book\<lparr>bk_hash := Some hash\<rparr>)"

definition on_price_change :: "sdk_lib \<Rightarrow> instant \<Rightarrow> PriceChange \<Rightarrow> PolymarketVenue \<Rightarrow> PolymarketVenue" where
  "on_price_change L observed_at entry v =
     (let asset_id = sl_show_u256 L (pe_asset_id entry)
      in case lv_books v asset_id of
           None \<Rightarrow> v
         | Some book \<Rightarrow>
             if observed_at < bk_observed_at book then note_gap (drop_book asset_id v)
             else
               (let book = change_book observed_at entry book
                in if book_is_consistent book then keep_book asset_id book v
                   else note_gap (drop_book asset_id v)))"

definition on_price_item :: "sdk_lib \<Rightarrow> string \<Rightarrow> instant \<Rightarrow> PriceMessage stream_item \<Rightarrow> PolymarketVenue \<Rightarrow> PolymarketVenue" where
  "on_price_item L token now item v = (case item of
     StreamOk m \<Rightarrow> fold (on_price_change L (message_time L now (px_timestamp m))) (px_price_changes m) v
   | _ \<Rightarrow> note_gap (drop_book token v))"

section \<open>Subscriptions and trading permission\<close>

text \<open>Up to a hundred polls of the connection state, a tenth of a second apart.\<close>

fun wait_loop :: "(nat \<Rightarrow> bool) \<Rightarrow> string \<Rightarrow> nat \<Rightarrow> nat \<Rightarrow> unit lv" where
  "wait_loop polls channel k 0 = Err (Stale (channel @ '' WebSocket did not connect within 10 seconds''))"
| "wait_loop polls channel k (Suc n) = (if polls k then Ok () else wait_loop polls channel (k + 1) n)"

definition wait_for_ws :: "sdk \<Rightarrow> string \<Rightarrow> unit lv" where
  "wait_for_ws K channel = wait_loop (sk_connects K) channel 0 100"

definition ensure_market_subscription :: "sdk_lib \<Rightarrow> sdk \<Rightarrow> string \<Rightarrow> PolymarketVenue \<Rightarrow> unit lv \<times> PolymarketVenue" where
  "ensure_market_subscription L K token_id v =
     (if token_id \<in> lv_market_subscriptions v
         \<and> (case lv_books v token_id of None \<Rightarrow> False | Some book \<Rightarrow> book_is_consistent book) \<and> sk_market_connected K
      then (Ok (), v)
      else
        (let v = v\<lparr>lv_market_subscriptions := lv_market_subscriptions v - {token_id}\<rparr>;
             subscribed = rbind (map_err Market (sl_u256 L token_id)) (\<lambda>token.
               rbind (pre_submit (sk_subscribe_orderbook K token)) (\<lambda>_. pre_submit (sk_subscribe_prices K token)))
         in case subscribed of
              Ok _ \<Rightarrow> (wait_for_ws K ''Market'', v\<lparr>lv_market_subscriptions := insert token_id (lv_market_subscriptions v)\<rparr>)
            | r \<Rightarrow> (r, v)))"

definition ensure_trading_allowed :: "sdk \<Rightarrow> PolymarketConfig \<Rightarrow> unit lv" where
  "ensure_trading_allowed K config =
     rbind (pre_submit (sk_version K)) (\<lambda>version.
     if version \<noteq> pm_expected_protocol config
     then Err (ProtocolMismatch (''expected '' @ show_nat (pm_expected_protocol config) @ '', venue reports '' @ show_nat version))
     else
     rbind (pre_submit (sk_geoblock K)) (\<lambda>(blocked, country, region).
     if blocked then Err (GeographicRestricted (''blocked from '' @ country @ ''/'' @ region))
     else
     rbind (pre_submit (sk_closed_only K)) (\<lambda>closed_only.
     if closed_only then Err (GeographicRestricted ''account is in close-only mode'') else Ok ())))"

section \<open>Market rules and order books\<close>

definition live_market_rules ::
  "sdk_lib \<Rightarrow> sdk \<Rightarrow> string \<Rightarrow> string \<Rightarrow> instant \<Rightarrow> PolymarketVenue \<Rightarrow> MarketRules lv \<times> PolymarketVenue" where
  "live_market_rules L K condition_id token_id now v = (case ensure_trading_allowed K (lv_config v) of
     Ok _ \<Rightarrow>
       (case ensure_market_subscription L K token_id v of (subscribed, v') \<Rightarrow>
         (rbind subscribed (\<lambda>_.
          rbind (pre_submit (sk_market K condition_id)) (\<lambda>market.
          if \<not> list_ex (\<lambda>token. sl_show_u256 L token = token_id) (sm_tokens market)
          then Err (Market ''token does not belong to condition'')
          else Ok \<lparr>mk_condition_id = condition_id, mk_token_id = token_id, mk_active = sm_active market,
                   mk_closed = sm_closed market, mk_accepting_orders = sm_accepting_orders market,
                   mk_tick_size = sm_minimum_tick_size market, mk_minimum_order_size = sm_minimum_order_size market,
                   mk_negative_risk = sm_neg_risk market, mk_maker_fee_rate = sm_maker_base_fee market,
                   mk_taker_fee_rate = sm_taker_base_fee market, mk_observed_at = now\<rparr>)), v'))
   | Err e \<Rightarrow> (Err e, v)
   | Panic \<Rightarrow> (Panic, v))"

definition live_order_book :: "sdk_lib \<Rightarrow> sdk \<Rightarrow> string \<Rightarrow> instant \<Rightarrow> PolymarketVenue \<Rightarrow> OrderBook lv" where
  "live_order_book L K token_id now v =
     (let fetched =
        rbind (map_err Market (sl_u256 L token_id)) (\<lambda>token.
        rbind (pre_submit (sk_order_book K token)) (\<lambda>book.
        if \<not> book_is_consistent book then Err (Stale ''REST order book failed consistency checks'') else Ok book))
      in case lv_books v token_id of
           Some book \<Rightarrow> if (now - bk_observed_at book) div 10 ^ 9 \<le> 2 then Ok book else fetched
         | None \<Rightarrow> fetched)"

end
