(* ===== verification/PolymarketOrders.thy ===== *)
theory PolymarketOrders
  imports Polymarket
begin

text \<open>
  The order side of \<open>src/src/venue/polymarket.rs\<close>: signing, the balance check, preparation, the
  reconstruction of a persisted order, submission, cancellation and lookup.
\<close>

section \<open>Statuses\<close>

fun map_order_status :: "OrderStatusType \<Rightarrow> OrderState" where
  "map_order_status StatusLive = OrderState.Live"
| "map_order_status StatusUnmatched = OrderState.Live"
| "map_order_status StatusDelayed = OrderState.Live"
| "map_order_status StatusMatched = OrderState.Filled"
| "map_order_status StatusCanceled = OrderState.Cancelled"
| "map_order_status (OrderStatusOther s) = OrderState.Unknown"

fun map_trade_status :: "TradeStatusType \<Rightarrow> TradeState option" where
  "map_trade_status StatusTradeMatched = Some TradeState.Matched"
| "map_trade_status StatusMined = Some TradeState.Mined"
| "map_trade_status StatusConfirmed = Some TradeState.Confirmed"
| "map_trade_status StatusRetrying = Some TradeState.Retrying"
| "map_trade_status StatusFailed = Some TradeState.Failed"
| "map_trade_status (TradeStatusOther s) = None"

fun sdk_order_type :: "TimeInForce \<Rightarrow> SdkOrderType" where
  "sdk_order_type Gtc = SdkGTC"
| "sdk_order_type Gtd = SdkGTD"
| "sdk_order_type Fok = SdkFOK"
| "sdk_order_type Fak = SdkFAK"

fun sdk_side :: "Side \<Rightarrow> SdkSide" where
  "sdk_side Buy = SdkBuy"
| "sdk_side Sell = SdkSell"

section \<open>Signing\<close>

abbreviation in_domain :: "(DomainError, 'a) res \<Rightarrow> 'a lv" where
  "in_domain \<equiv> map_err (\<lambda>e. VenueRejected (domain_error_text e))"

definition order_terms :: "sdk_lib \<Rightarrow> OrderIntentRequest \<Rightarrow> nat \<Rightarrow> decimal \<Rightarrow> decimal \<Rightarrow> OrderTerms lv" where
  "order_terms L request token_id price quantity =
     (let side = sdk_side (rq_side request); order_type = sdk_order_type (rq_time_in_force request)
      in case rq_time_in_force request of
           Gtc \<Rightarrow> Ok (LimitOrder token_id quantity price side order_type (rq_post_only request) None)
         | Gtd \<Rightarrow> rbind (ok_or (VenueRejected ''GTD expiration is required'') (rq_expires_at request)) (\<lambda>expires_at.
             Ok (LimitOrder token_id quantity price side order_type (rq_post_only request) (Some expires_at)))
         | _ \<Rightarrow> rbind (rejecting (case rq_side request of Buy \<Rightarrow> sl_usdc L quantity | Sell \<Rightarrow> sl_shares L quantity)) (\<lambda>amount.
             Ok (MarketOrder token_id amount price side order_type)))"

definition sign_order :: "dec_ops \<Rightarrow> sdk_lib \<Rightarrow> sdk \<Rightarrow> OrderIntentRequest \<Rightarrow> SignedOrder lv" where
  "sign_order D L K request =
     rbind (rejecting (sl_u256 L (rq_token_id request))) (\<lambda>token_id.
     rbind (in_domain (protection_price D request)) (\<lambda>price.
     rbind (in_domain (quantity_decimal D request)) (\<lambda>quantity.
     rbind (order_terms L request token_id price quantity) (\<lambda>order_terms.
     rbind (pre_submit (sk_build K order_terms)) (\<lambda>signable.
     pre_submit (sk_sign K signable))))))"

definition required_funds :: "dec_ops \<Rightarrow> OrderIntentRequest \<Rightarrow> decimal \<Rightarrow> decimal \<Rightarrow> decimal lv" where
  "required_funds D request quantity price = (case rq_side request of
     Buy \<Rightarrow> if rq_time_in_force request \<in> {Fok, Fak} then Ok quantity else or_panic (d_mul D quantity price)
   | Sell \<Rightarrow> Ok quantity)"

definition ensure_balance_and_allowance :: "dec_ops \<Rightarrow> sdk_lib \<Rightarrow> sdk \<Rightarrow> OrderIntentRequest \<Rightarrow> nat \<Rightarrow> unit lv" where
  "ensure_balance_and_allowance D L K request exchange =
     rbind (rejecting (sl_u256 L (rq_token_id request))) (\<lambda>token_id.
     rbind (pre_submit (sk_balance K (case rq_side request of Buy \<Rightarrow> Collateral | Sell \<Rightarrow> Conditional token_id))) (\<lambda>balance.
     rbind (in_domain (quantity_decimal D request)) (\<lambda>quantity.
     rbind (in_domain (protection_price D request)) (\<lambda>price.
     rbind (required_funds D request quantity price) (\<lambda>required.
     if ba_balance balance < required
     then Err (VenueRejected (''venue balance '' @ sl_show_decimal L (ba_balance balance) @ '' is below required ''
            @ sl_show_decimal L required))
     else
     rbind (ok_or (VenueRejected (''no venue allowance is recorded for exchange '' @ sl_show_address L exchange))
              (map_of (ba_allowances balance) exchange)) (\<lambda>raw.
     rbind (ok_or (VenueRejected ''invalid venue allowance'') (d_from_str_exact D raw)) (\<lambda>(allowance, scale).
     if allowance < required
     then Err (VenueRejected (''venue allowance '' @ sl_show_decimal L allowance @ '' is below required ''
            @ sl_show_decimal L required))
     else Ok ())))))))"

definition live_prepare :: "dec_ops \<Rightarrow> sdk_lib \<Rightarrow> sdk \<Rightarrow> PolymarketConfig \<Rightarrow> OrderIntentRequest \<Rightarrow> PreparedVenueOrder lv" where
  "live_prepare D L K config request =
     rbind (ensure_trading_allowed K config) (\<lambda>_.
     rbind (sign_order D L K request) (\<lambda>signed.
     rbind (pre_submit (sk_neg_risk K (o2_tokenId (sd_order signed)))) (\<lambda>neg_risk.
     rbind (ok_or (ProtocolMismatch (''V2 exchange is not configured for chain '' @ show_nat (pm_chain_id config)
              @ '' and neg_risk='' @ (if neg_risk then ''true'' else ''false'')))
              (sl_exchange_v2 L (pm_chain_id config) neg_risk)) (\<lambda>exchange.
     rbind (ensure_balance_and_allowance D L K request exchange) (\<lambda>_.
     rbind (rejecting (sl_signed_json L signed)) (\<lambda>signed_payload_json.
     rbind (rejecting (sl_order_json L (sd_order signed))) (\<lambda>normalized_json.
     Ok \<lparr>pv_deterministic_order_id = sl_signing_hash L (pm_chain_id config) exchange (sd_order signed),
         pv_normalized_json = normalized_json, pv_signed_payload_json = Some signed_payload_json,
         pv_signer_address = pm_signer_address config, pv_funder_address = pm_funder_address config,
         pv_protocol_version = pm_expected_protocol config, pv_sdk_version = ''0.7.0''\<rparr>)))))))"

section \<open>A persisted order\<close>

definition value_string :: "sdk_lib \<Rightarrow> json \<Rightarrow> string \<Rightarrow> string lv" where
  "value_string L value field =
     rbind (ok_or (VenueRejected (''signed order is missing '' @ field)) (jget value field)) (\<lambda>v.
     case v of JStr raw \<Rightarrow> Ok raw
     | JInt n \<Rightarrow> Ok (sl_show_json L v)
     | JDec x \<Rightarrow> Ok (sl_show_json L v)
     | _ \<Rightarrow> Err (VenueRejected (''signed order has invalid '' @ field)))"

definition value_u64 :: "json \<Rightarrow> string \<Rightarrow> nat lv" where
  "value_u64 value field = (case jget value field of
     Some (JInt n) \<Rightarrow> if 0 \<le> n \<and> n < 2 ^ 64 then Ok (nat n) else Err (VenueRejected (''signed order is missing '' @ field))
   | _ \<Rightarrow> Err (VenueRejected (''signed order is missing '' @ field)))"

definition parse_with :: "(string \<Rightarrow> (string, nat) res) \<Rightarrow> sdk_lib \<Rightarrow> json \<Rightarrow> string \<Rightarrow> nat lv" where
  "parse_with parse L value field = rbind (value_string L value field) (\<lambda>raw. rejecting (parse raw))"

definition parse_u256 :: "sdk_lib \<Rightarrow> json \<Rightarrow> string \<Rightarrow> nat lv" where
  "parse_u256 L = parse_with (sl_u256 L) L"

definition parse_address :: "sdk_lib \<Rightarrow> json \<Rightarrow> string \<Rightarrow> nat lv" where
  "parse_address L = parse_with (sl_address L) L"

definition parse_b256 :: "sdk_lib \<Rightarrow> json \<Rightarrow> string \<Rightarrow> nat lv" where
  "parse_b256 L = parse_with (sl_b256 L) L"

definition json_str :: "json \<Rightarrow> string \<Rightarrow> string option" where
  "json_str value field = (case jget value field of Some (JStr s) \<Rightarrow> Some s | _ \<Rightarrow> None)"

definition json_flag :: "json \<Rightarrow> string \<Rightarrow> bool" where
  "json_flag value field = (case jget value field of Some (JBool b) \<Rightarrow> b | _ \<Rightarrow> False)"

definition side_of_text :: "sdk_lib \<Rightarrow> string option \<Rightarrow> (8 word) lv" where
  "side_of_text L raw =
     (if raw = Some ''BUY'' then Ok (sl_side_byte L SdkBuy) else if raw = Some ''SELL'' then Ok (sl_side_byte L SdkSell)
      else Err (VenueRejected ''signed order contains an invalid side''))"

definition order_type_of_text :: "string option \<Rightarrow> SdkOrderType lv" where
  "order_type_of_text raw =
     (if raw = Some ''GTC'' then Ok SdkGTC else if raw = Some ''GTD'' then Ok SdkGTD
      else if raw = Some ''FOK'' then Ok SdkFOK else if raw = Some ''FAK'' then Ok SdkFAK
      else Err (VenueRejected ''signed order contains an invalid order type''))"

definition reconstruct_order :: "sdk_lib \<Rightarrow> json \<Rightarrow> OrderV2 lv" where
  "reconstruct_order L body =
     rbind (parse_u256 L body ''salt'') (\<lambda>salt.
     rbind (parse_address L body ''maker'') (\<lambda>maker.
     rbind (parse_address L body ''signer'') (\<lambda>signer.
     rbind (parse_u256 L body ''tokenId'') (\<lambda>token_id.
     rbind (parse_u256 L body ''makerAmount'') (\<lambda>maker_amount.
     rbind (parse_u256 L body ''takerAmount'') (\<lambda>taker_amount.
     rbind (side_of_text L (json_str body ''side'')) (\<lambda>side.
     rbind (value_u64 body ''signatureType'') (\<lambda>signature_type.
     if signature_type \<ge> 256 then Err (VenueRejected ''signatureType exceeds u8'')
     else
     rbind (parse_u256 L body ''timestamp'') (\<lambda>timestamp.
     rbind (parse_b256 L body ''metadata'') (\<lambda>metadata.
     rbind (parse_b256 L body ''builder'') (\<lambda>builder.
     Ok \<lparr>o2_salt = salt, o2_maker = maker, o2_signer = signer, o2_tokenId = token_id, o2_makerAmount = maker_amount,
         o2_takerAmount = taker_amount, o2_side = side, o2_signatureType = of_nat signature_type,
         o2_timestamp = timestamp, o2_metadata = metadata, o2_builder = builder\<rparr>)))))))))))"

definition reconstruct_signed_order :: "sdk_lib \<Rightarrow> string \<Rightarrow> SignedOrder lv" where
  "reconstruct_signed_order L payload =
     rbind (rejecting (sl_parse_json L payload)) (\<lambda>value.
     rbind (ok_or (VenueRejected ''signed order is missing order'') (jget value ''order'')) (\<lambda>body.
     rbind (reconstruct_order L body) (\<lambda>ord.
     rbind (parse_u256 L body ''expiration'') (\<lambda>expiration.
     rbind (ok_or (VenueRejected ''signed order is missing signature'') (json_str body ''signature'')) (\<lambda>signature.
     rbind (order_type_of_text (json_str value ''orderType'')) (\<lambda>order_type.
     rbind (ok_or (VenueRejected ''signed order is missing owner'') (json_str value ''owner'')) (\<lambda>owner_text.
     rbind (rejecting (sl_uuid L owner_text)) (\<lambda>owner.
     Ok \<lparr>sd_order = ord, sd_expiration = expiration, sd_signature = signature, sd_order_type = order_type,
         sd_owner = owner, sd_post_only = json_flag value ''postOnly'', sd_defer_exec = json_flag value ''deferExec''\<rparr>))))))))"

section \<open>Submission, cancellation, lookup\<close>

definition fill_price :: "dec_ops \<Rightarrow> decimal \<Rightarrow> decimal \<Rightarrow> decimal option lv" where
  "fill_price D quote shares = (if shares > 0 then rbind (or_panic (d_div D quote shares)) (\<lambda>p. Ok (Some p)) else Ok None)"

definition submission_of_response :: "dec_ops \<Rightarrow> sdk_lib \<Rightarrow> OrderIntentRequest \<Rightarrow> PostOrderResponse \<Rightarrow> VenueSubmission lv" where
  "submission_of_response D L request response =
     (if \<not> pr_success response
      then Err (VenueRejected (case pr_error_msg response of None \<Rightarrow> ''venue rejected the order'' | Some m \<Rightarrow> m))
      else if map_order_status (pr_status response) = OrderState.Unknown
      then Err (Ambiguous (''venue returned unrecognized order status '' @ sl_order_status L (pr_status response)
             @ '' for '' @ pr_order_id response))
      else
      let (quote, shares) = (case rq_side request of
            Buy \<Rightarrow> (pr_making_amount response, pr_taking_amount response)
          | Sell \<Rightarrow> (pr_taking_amount response, pr_making_amount response))
      in rbind (fill_price D quote shares) (\<lambda>filled_price.
         Ok \<lparr>vs_venue_order_id = pr_order_id response, vs_state = map_order_status (pr_status response),
             vs_filled_quantity = shares, vs_filled_price = filled_price, vs_venue_trade_ids = pr_trade_ids response,
             vs_evidence = JObj
               [(''success'', JBool (pr_success response)), (''order_id'', JStr (pr_order_id response)),
                (''status'', JStr (sl_order_status L (pr_status response))), (''error'', jstr_opt (pr_error_msg response)),
                (''trade_ids'', JArr (map JStr (pr_trade_ids response))),
                (''transaction_hashes'', pr_transaction_hashes response)]\<rparr>))"

definition live_submit :: "dec_ops \<Rightarrow> sdk_lib \<Rightarrow> sdk \<Rightarrow> PreparedVenueOrder \<Rightarrow> OrderIntentRequest \<Rightarrow> VenueSubmission lv" where
  "live_submit D L K prepared request =
     rbind (ok_or (VenueRejected ''signed payload is required in live mode'') (pv_signed_payload_json prepared)) (\<lambda>payload.
     rbind (reconstruct_signed_order L payload) (\<lambda>signed.
     rbind (map_err classify_submission_error (sk_post_order K signed)) (submission_of_response D L request)))"

definition live_cancel :: "sdk \<Rightarrow> string \<Rightarrow> VenueCancellation lv" where
  "live_cancel K venue_order_id =
     rbind (pre_submit (sk_cancel_order K venue_order_id)) (\<lambda>response.
     if \<not> list_ex (\<lambda>x. x = venue_order_id) (cx_canceled response)
     then Err (Ambiguous (case map_of (cx_not_canceled response) venue_order_id of
            Some reason \<Rightarrow> reason | None \<Rightarrow> ''venue did not positively acknowledge cancellation''))
     else Ok \<lparr>vc_state = OrderState.Cancelled, vc_evidence = JObj
            [(''canceled'', JArr (map JStr (cx_canceled response))),
             (''not_canceled'', JObj (map (\<lambda>(k, v). (k, JStr v)) (cx_not_canceled response)))]\<rparr>)"

definition observed_live_order :: "dec_ops \<Rightarrow> sdk_lib \<Rightarrow> string \<Rightarrow> SdkOrder \<Rightarrow> ObservedVenueOrder lv" where
  "observed_live_order D L source ord =
     rbind (or_panic (d_sub D (sk_order_original_size ord) (sk_order_size_matched ord))) (\<lambda>remaining.
     Ok \<lparr>ob_venue_order_id = sk_order_id ord, ob_state = map_order_status (sk_order_status ord),
         ob_remaining_quantity = max remaining 0, ob_filled_quantity = sk_order_size_matched ord,
         ob_filled_price = Some (sk_order_price ord), ob_venue_trade_ids = sk_order_associate_trades ord,
         ob_evidence = JObj
           [(''source'', JStr source), (''venue_order_id'', JStr (sk_order_id ord)),
            (''asset_id'', JStr (sl_show_u256 L (sk_order_asset_id ord))),
            (''status'', JStr (sl_order_status L (sk_order_status ord))),
            (''original_size'', JDec (sk_order_original_size ord)), (''size_matched'', JDec (sk_order_size_matched ord))]\<rparr>)"

definition live_find_order :: "dec_ops \<Rightarrow> sdk_lib \<Rightarrow> sdk \<Rightarrow> string \<Rightarrow> ObservedVenueOrder option lv" where
  "live_find_order D L K deterministic_order_id = (case sk_order K deterministic_order_id of
     Ok ord \<Rightarrow> rbind (observed_live_order D L ''rest_order_lookup'' ord) (\<lambda>observed. Ok (Some observed))
   | Err e \<Rightarrow> if is_not_found e then Ok None else Err (classify_pre_submit_error e)
   | Panic \<Rightarrow> Panic)"

end
