(* ===== verification/PolymarketReconcile.thy ===== *)
theory PolymarketReconcile
  imports PolymarketOrders
begin

text \<open>
  Construction, reconciliation and heartbeat of the live venue, and the key file, of
  \<open>src/src/venue/polymarket.rs\<close>.  Reconciliation reads the two generation counters before its first
  request and stores them after its last one; what the stream tasks do in between is the parameter
  \<open>meanwhile\<close>.
\<close>

unbundle bit_operations_syntax

section \<open>Listings\<close>

text \<open>The cursor that ends a listing.\<close>

definition last_cursor :: "string \<Rightarrow> bool" where
  "last_cursor c \<longleftrightarrow> c = [] \<or> c = ''LTE=''"

fun observe_orders :: "dec_ops \<Rightarrow> sdk_lib \<Rightarrow> SdkOrder list \<Rightarrow> ObservedVenueOrder list lv" where
  "observe_orders D L [] = Ok []"
| "observe_orders D L (ord # rest) =
     rbind (observed_live_order D L ''open_orders_reconciliation'' ord) (\<lambda>o1.
     rbind (observe_orders D L rest) (\<lambda>os. Ok (o1 # os)))"

text \<open>At most \<open>n\<close> pages; \<open>k\<close> pages were read, \<open>count\<close> and \<open>acc\<close> are what they held.\<close>

fun orders_loop :: "dec_ops \<Rightarrow> sdk_lib \<Rightarrow> sdk \<Rightarrow> nat \<Rightarrow> nat \<Rightarrow> string option \<Rightarrow> nat \<Rightarrow> ObservedVenueOrder list
    \<Rightarrow> (nat \<times> ObservedVenueOrder list) lv" where
  "orders_loop D L K k 0 cursor count acc = Ok (count, acc)"
| "orders_loop D L K k (Suc n) cursor count acc =
     rbind (pre_submit (sk_orders K cursor k)) (\<lambda>page.
     rbind (observe_orders D L (pp_data page)) (\<lambda>observed.
     if last_cursor (pp_next_cursor page) then Ok (count + length (pp_data page), acc @ observed)
     else orders_loop D L K (k + 1) n (Some (pp_next_cursor page)) (count + length (pp_data page)) (acc @ observed)))"

definition trade_order_ids :: "SdkTrade \<Rightarrow> string list" where
  "trade_order_ids t = (case sk_trade_trader_side t of
     Taker \<Rightarrow> [sk_trade_taker_order_id t]
   | Maker \<Rightarrow> sk_trade_maker_orders t
   | TraderSideOther \<Rightarrow> sk_trade_taker_order_id t # sk_trade_maker_orders t)"

definition trade_evidence :: "sdk_lib \<Rightarrow> SdkTrade \<Rightarrow> json" where
  "trade_evidence L t = JObj
     [(''source'', JStr ''trade_reconciliation''), (''market'', JStr (sk_trade_market t)),
      (''asset_id'', JStr (sl_show_u256 L (sk_trade_asset_id t))), (''side'', JStr (sk_trade_side t)),
      (''size'', JDec (sk_trade_size t)), (''price'', JDec (sk_trade_price t)),
      (''status'', JStr (sl_trade_status L (sk_trade_status t))), (''match_time'', sk_trade_match_time t),
      (''last_update'', sk_trade_last_update t), (''transaction_hash'', JStr (sk_trade_transaction_hash t)),
      (''error'', jstr_opt (sk_trade_error_msg t))]"

fun observe_trades :: "sdk_lib \<Rightarrow> SdkTrade list \<Rightarrow> ObservedVenueTrade list \<times> string list \<Rightarrow> ObservedVenueTrade list \<times> string list" where
  "observe_trades L [] acc = acc"
| "observe_trades L (t # rest) (observed, findings) = (case map_trade_status (sk_trade_status t) of
     None \<Rightarrow> observe_trades L rest (observed, findings @ [''venue trade '' @ sk_trade_id t
       @ '' has an unrecognized status '' @ sl_trade_status L (sk_trade_status t)])
   | Some status \<Rightarrow> observe_trades L rest (observed @
       [\<lparr>ot_venue_trade_id = sk_trade_id t, ot_venue_order_ids = trade_order_ids t, ot_status = status,
         ot_evidence = trade_evidence L t\<rparr>], findings))"

fun trades_loop :: "sdk_lib \<Rightarrow> sdk \<Rightarrow> nat \<Rightarrow> nat \<Rightarrow> string option \<Rightarrow> nat \<Rightarrow> ObservedVenueTrade list \<times> string list
    \<Rightarrow> (nat \<times> ObservedVenueTrade list \<times> string list) lv" where
  "trades_loop L K k 0 cursor count acc = Ok (count, acc)"
| "trades_loop L K k (Suc n) cursor count acc =
     rbind (pre_submit (sk_trades K cursor k)) (\<lambda>page.
     let acc = observe_trades L (pp_data page) acc; count = count + length (pp_data page)
     in if last_cursor (pp_next_cursor page) then Ok (count, acc)
        else trades_loop L K (k + 1) n (Some (pp_next_cursor page)) count acc)"

definition observed_live_position :: "sdk_lib \<Rightarrow> SdkPosition \<Rightarrow> ObservedVenuePosition" where
  "observed_live_position L p =
     \<lparr>op_condition_id = sk_position_condition_id p, op_token_id = sl_show_u256 L (sk_position_asset p),
      op_shares = sk_position_size p, op_evidence = JObj
        [(''source'', JStr ''data_api_positions''), (''proxy_wallet'', JStr (sk_position_proxy_wallet p)),
         (''average_price'', JDec (sk_position_avg_price p)), (''current_value'', JDec (sk_position_current_value p)),
         (''redeemable'', JBool (sk_position_redeemable p)), (''mergeable'', JBool (sk_position_mergeable p))]\<rparr>"

text \<open>Pages \<open>k\<close> to 20 of five hundred positions each.\<close>

fun positions_loop :: "sdk_lib \<Rightarrow> sdk \<Rightarrow> nat \<Rightarrow> nat \<Rightarrow> nat \<Rightarrow> ObservedVenuePosition list \<Rightarrow> string list
    \<Rightarrow> (ObservedVenuePosition list \<times> string list) lv" where
  "positions_loop L K funder k 0 acc findings = Ok (acc, findings)"
| "positions_loop L K funder k (Suc n) acc findings =
     rbind (map_err Unavailable (sl_positions_request L 500 (k * 500))) (\<lambda>_.
     rbind (pre_submit (sk_positions K funder 500 (k * 500))) (\<lambda>page.
     let acc = acc @ map (observed_live_position L) page
     in if length page < 500 then Ok (acc, findings)
        else positions_loop L K funder (k + 1) n acc
          (if k = 20 then findings @ [''position reconciliation exceeded the Data API pagination bound''] else findings)))"

definition asset_of_order :: "sdk_lib \<Rightarrow> ObservedVenueOrder \<Rightarrow> nat option" where
  "asset_of_order L ob = (case json_str (ob_evidence ob) ''asset_id'' of
     None \<Rightarrow> None | Some raw \<Rightarrow> (case sl_u256 L raw of Ok t \<Rightarrow> Some t | _ \<Rightarrow> None))"

definition asset_of_position :: "sdk_lib \<Rightarrow> ObservedVenuePosition \<Rightarrow> nat option" where
  "asset_of_position L p = (case sl_u256 L (op_token_id p) of Ok t \<Rightarrow> Some t | _ \<Rightarrow> None)"

text \<open>A hash set, iterated in the order the library arranges it.\<close>

definition token_ids :: "sdk_lib \<Rightarrow> ObservedVenueOrder list \<Rightarrow> ObservedVenuePosition list \<Rightarrow> nat list" where
  "token_ids L obs held =
     sl_arrange L (remdups (List.map_filter (asset_of_order L) obs @ List.map_filter (asset_of_position L) held))"

fun allowances_loop :: "sdk_lib \<Rightarrow> sdk \<Rightarrow> nat list \<Rightarrow> string list \<Rightarrow> string list lv" where
  "allowances_loop L K [] findings = Ok findings"
| "allowances_loop L K (token # rest) findings =
     rbind (pre_submit (sk_balance K (Conditional token))) (\<lambda>conditional.
     allowances_loop L K rest (if ba_allowances conditional = []
       then findings @ [''venue returned no conditional-token allowances for '' @ sl_show_u256 L token] else findings))"

section \<open>Reconciliation\<close>

definition funder_address :: "sdk_lib \<Rightarrow> PolymarketConfig \<Rightarrow> nat lv" where
  "funder_address L config =
     rbind (ok_or (LiveNotConfigured ''funder_address is required'') (pm_funder_address config)) (\<lambda>raw.
     map_err LiveNotConfigured (sl_address L raw))"

text \<open>Everything reconciliation asks of the venue.\<close>

definition live_observations :: "dec_ops \<Rightarrow> sdk_lib \<Rightarrow> sdk \<Rightarrow> PolymarketConfig \<Rightarrow> ReconciliationResult lv" where
  "live_observations D L K config =
     rbind (ensure_trading_allowed K config) (\<lambda>_.
     if \<not> sk_user_connected K then Err (Stale ''authenticated user stream is disconnected'')
     else
     rbind (orders_loop D L K 0 100 None 0 []) (\<lambda>(orders_observed, observed_orders).
     rbind (trades_loop L K 0 100 None 0 ([], [])) (\<lambda>(trades_observed, observed_trades, findings).
     rbind (pre_submit (sk_balance K Collateral)) (\<lambda>collateral.
     let findings = (if ba_allowances collateral = []
           then findings @ [''venue returned no collateral allowances for the configured account''] else findings)
     in
     rbind (funder_address L config) (\<lambda>funder.
     rbind (positions_loop L K funder 0 21 [] findings) (\<lambda>(observed_positions, findings).
     rbind (allowances_loop L K (token_ids L observed_orders observed_positions) findings) (\<lambda>findings.
     Ok \<lparr>rr_orders_observed = orders_observed, rr_trades_observed = trades_observed,
         rr_observed_orders = observed_orders, rr_observed_trades = observed_trades,
         rr_observed_positions = observed_positions, rr_critical_findings = findings\<rparr>)))))))"

definition live_reconcile ::
  "dec_ops \<Rightarrow> sdk_lib \<Rightarrow> sdk \<Rightarrow> (PolymarketVenue \<Rightarrow> PolymarketVenue) \<Rightarrow> PolymarketVenue
     \<Rightarrow> ReconciliationResult lv \<times> PolymarketVenue" where
  "live_reconcile D L K meanwhile v =
     (let user_generation_at_start = lv_user_event_generation v;
          gap_generation_at_start = lv_stream_gap_generation v;
          observed = live_observations D L K (lv_config v);
          v = meanwhile v
      in case observed of
           Ok result \<Rightarrow>
             if lv_market_subscriptions v \<noteq> {} \<and> \<not> sk_market_connected K
             then (Err (Stale ''market stream is disconnected during reconciliation''), v)
             else (Ok result, v\<lparr>lv_reconciled_stream_generation := gap_generation_at_start,
                                lv_reconciled_user_event_generation := user_generation_at_start\<rparr>)
         | r \<Rightarrow> (r, v))"

section \<open>Heartbeat\<close>

definition live_heartbeat :: "sdk \<Rightarrow> PolymarketVenue \<Rightarrow> unit lv \<times> PolymarketVenue" where
  "live_heartbeat K v =
     (if \<not> sk_user_connected K then (Err (Stale ''authenticated user stream is disconnected''), v)
      else if lv_market_subscriptions v \<noteq> {} \<and> \<not> sk_market_connected K then (Err (Stale ''market stream is disconnected''), v)
      else if lv_stream_gap_generation v \<noteq> lv_reconciled_stream_generation v
      then (Err (Stale ''a WebSocket gap requires reconciliation''), v)
      else case pre_submit (sk_heartbeat K (lv_heartbeat_id v)) of
             Ok (Some error, i) \<Rightarrow> (Err (Unavailable error), v)
           | Ok (None, i) \<Rightarrow> (Ok (), v\<lparr>lv_heartbeat_id := Some i\<rparr>)
           | Err e \<Rightarrow> (Err e, v)
           | Panic \<Rightarrow> (Panic, v))"

definition live_requires_heartbeat :: bool where
  "live_requires_heartbeat = True"

definition live_reconciliation_required :: "PolymarketVenue \<Rightarrow> bool" where
  "live_reconciliation_required v \<longleftrightarrow> lv_user_event_generation v \<noteq> lv_reconciled_user_event_generation v"

section \<open>The key file\<close>

text \<open>
  \<open>str::trim\<close>, on the bytes of a UTF-8 text.  What the file system answers to the calls of
  \<open>load_live_signer\<close> is a record; \<open>None\<close> is an error of the call.
\<close>

function trim_start :: "string \<Rightarrow> string" where
  "trim_start s = (if ws_width s = 0 then s else trim_start (drop (ws_width s) s))"
  by pat_completeness auto
termination
proof (relation "measure length")
  show "(drop (ws_width s) s, s) \<in> measure length" if "ws_width s \<noteq> 0" for s
    using that by (cases s) simp_all
qed simp

declare trim_start.simps [simp del]

fun trim_end :: "string \<Rightarrow> string" where
  "trim_end [] = []"
| "trim_end (c # s) = (if is_blank (c # s) then [] else c # trim_end s)"

definition trim :: "string \<Rightarrow> string" where
  "trim s = trim_end (trim_start s)"

record FileMetadata =
  fm_symlink :: bool
  fm_file :: bool
  fm_dev :: nat
  fm_ino :: nat
  fm_mode :: "32 word"
  fm_len :: nat

record key_file_system =
  kf_link_metadata :: "string \<Rightarrow> FileMetadata option"
  kf_open :: "string \<Rightarrow> bool"
  kf_opened_metadata :: "FileMetadata option"
  kf_current_metadata :: "string \<Rightarrow> FileMetadata option"
  kf_read_exact :: "nat \<Rightarrow> string option"
  kf_read_more :: "nat option"
  kf_utf8 :: "string \<Rightarrow> bool"
  kf_private_key :: "string \<Rightarrow> nat option"

definition private_key_mode_is_allowed :: "32 word \<Rightarrow> bool" where
  "private_key_mode_is_allowed mode \<longleftrightarrow> mode AND 4095 \<in> {256, 384}"

text \<open>The address of the signer stands for the signer.\<close>

definition load_live_signer :: "sdk_lib \<Rightarrow> key_file_system \<Rightarrow> PolymarketConfig \<Rightarrow> nat lv" where
  "load_live_signer L F config =
     (if pm_chain_id config \<noteq> 137 then Err (LiveNotConfigured ''local signing supports only Polygon chain 137'')
      else
      rbind (ok_or (LiveNotConfigured ''private_key_file is required'') (pm_private_key_file config)) (\<lambda>path.
      rbind (ok_or (LiveNotConfigured ''live key file could not be inspected'') (kf_link_metadata F path)) (\<lambda>link.
      if fm_symlink link \<or> \<not> fm_file link
      then Err (LiveNotConfigured ''live key path must be a regular, non-symlink file'')
      else if \<not> kf_open F path then Err (LiveNotConfigured ''live key file could not be read'')
      else
      rbind (ok_or (LiveNotConfigured ''live key file could not be inspected'') (kf_opened_metadata F)) (\<lambda>opened.
      rbind (ok_or (LiveNotConfigured ''live key file changed while it was being opened'') (kf_current_metadata F path)) (\<lambda>current.
      if fm_symlink current \<or> \<not> fm_file current \<or> fm_dev current \<noteq> fm_dev link \<or> fm_ino current \<noteq> fm_ino link
         \<or> \<not> fm_file opened \<or> fm_dev opened \<noteq> fm_dev link \<or> fm_ino opened \<noteq> fm_ino link
      then Err (LiveNotConfigured ''live key file changed while it was being opened'')
      else if \<not> private_key_mode_is_allowed (fm_mode opened)
      then Err (LiveNotConfigured ''live key file mode must be 0400 or 0600'')
      else if fm_len opened + 1 \<ge> 2 ^ 64 then Err (LiveNotConfigured ''live key file is too large'')
      else
      rbind (ok_or (LiveNotConfigured ''live key file could not be read'') (kf_read_exact F (fm_len opened))) (\<lambda>contents.
      rbind (ok_or (LiveNotConfigured ''live key file could not be read'') (kf_read_more F)) (\<lambda>more.
      if more \<noteq> 0 then Err (LiveNotConfigured ''live key file changed while it was being read'')
      else if \<not> kf_utf8 F contents then Err (LiveNotConfigured ''live key file does not contain a valid private key'')
      else
      rbind (ok_or (LiveNotConfigured ''live key file does not contain a valid private key'')
               (kf_private_key F (trim contents))) (\<lambda>signer.
      rbind (ok_or (LiveNotConfigured ''signer_address is required'') (pm_signer_address config)) (\<lambda>raw.
      rbind (map_err (\<lambda>_. LiveNotConfigured ''configured signer_address is invalid'') (sl_address L raw)) (\<lambda>configured_signer.
      if signer \<noteq> configured_signer
      then Err (LiveNotConfigured ''configured signer_address does not match mounted key'')
      else Ok signer))))))))))"

text \<open>The first argument is the build feature \<open>live\<close>.\<close>

definition validate_live_signer :: "bool \<Rightarrow> sdk_lib \<Rightarrow> key_file_system \<Rightarrow> PolymarketConfig \<Rightarrow> unit lv" where
  "validate_live_signer live_feature L F config =
     (if live_feature then rbind (load_live_signer L F config) (\<lambda>_. Ok ()) else Err LiveNotCompiled)"

section \<open>Construction\<close>

definition new_live_venue :: "PolymarketConfig \<Rightarrow> PolymarketVenue" where
  "new_live_venue config =
     \<lparr>lv_config = config, lv_market_subscriptions = {}, lv_books = (\<lambda>_. None), lv_last_user_event = None,
      lv_user_event_generation = 0, lv_reconciled_user_event_generation = 0, lv_stream_gap_generation = 0,
      lv_reconciled_stream_generation = 0, lv_heartbeat_id = None\<rparr>"

text \<open>While the constructor waits for its web socket, the user stream already runs: \<open>meanwhile\<close>.\<close>

definition polymarket_new ::
  "bool \<Rightarrow> sdk_lib \<Rightarrow> key_file_system \<Rightarrow> sdk \<Rightarrow> (PolymarketVenue \<Rightarrow> PolymarketVenue) \<Rightarrow> PolymarketConfig \<Rightarrow> PolymarketVenue lv" where
  "polymarket_new live_feature L F K meanwhile config =
     (if \<not> live_feature then Err LiveNotCompiled
      else
      rbind (load_live_signer L F config) (\<lambda>signer.
      rbind (funder_address L config) (\<lambda>funder.
      rbind (map_err (\<lambda>e. LiveNotConfigured (sx_text e)) (sk_client K)) (\<lambda>_.
      rbind (pre_submit (sk_version K)) (\<lambda>version.
      if version \<noteq> pm_expected_protocol config
      then Err (ProtocolMismatch (''expected '' @ show_nat (pm_expected_protocol config) @ '', venue reports '' @ show_nat version))
      else
      rbind (pre_submit (sk_geoblock K)) (\<lambda>(blocked, country, region).
      if blocked then Err (GeographicRestricted (''blocked from '' @ country @ ''/'' @ region))
      else
      rbind (pre_submit (sk_credentials K)) (\<lambda>_.
      rbind (pre_submit (sk_web_socket K)) (\<lambda>_.
      rbind (pre_submit (sk_authenticate K funder)) (\<lambda>_.
      rbind (pre_submit (sk_closed_only K)) (\<lambda>closed_only.
      if closed_only then Err (GeographicRestricted ''account is in close-only mode'')
      else
      rbind (pre_submit (sk_subscribe_user K)) (\<lambda>_.
      rbind (wait_for_ws K ''User'') (\<lambda>_.
      rbind (pre_submit (sk_data_client K)) (\<lambda>_.
      Ok (meanwhile (new_live_venue config)))))))))))))))"

end
