(* ===== verification/Backup.thy ===== *)
theory Backup
  imports Journal
begin

text \<open>
  The files of a backup (\<open>create_backup_files\<close>, \<open>run_backup\<close>, \<open>verify_backup\<close> of \<open>src/src/store.rs\<close>) over a file
  system that maps paths to contents with their permissions.  SQLite's \<open>VACUUM INTO\<close> writes the
  tables it reads to a file that must not exist, as its documentation says; opening a file and
  \<open>PRAGMA integrity_check\<close>, SHA-256 of a content, the JSON of a manifest, and the failures of the operating
  system are parameters.  The write gate is held from the copy of the database to the commit of the
  row, so the store does not change in between.
\<close>

section \<open>Files\<close>

record BackupManifest =
  ma_backup_id :: uuid
  ma_schema_version :: int
  ma_mode :: Mode
  ma_chain_id :: nat
  ma_protocol_version :: nat
  ma_signer_address :: "string option"
  ma_funder_address :: "string option"
  ma_last_event_sequence :: int
  ma_database_size_bytes :: nat
  ma_checksum_sha256 :: string
  ma_created_at :: instant

text \<open>A database file holds the tables of a store and the version of its last migration.\<close>

datatype content = DatabaseFile Store int | TextFile string

record stored_file =
  fl_content :: content
  fl_mode :: nat

text \<open>A path is a directory and a file name.\<close>

type_synonym path = "string \<times> string"
type_synonym file_system = "path \<Rightarrow> stored_file option"

record backup_library =
  bl_uuid :: "uuid \<Rightarrow> string"
  bl_path :: "path \<Rightarrow> string"
  bl_fails :: "nat \<Rightarrow> StoreError option"
  bl_integrity :: "content \<Rightarrow> (StoreError, string) res"
  bl_sha :: "content \<Rightarrow> string"
  bl_size :: "content \<Rightarrow> nat"
  bl_schema_version :: int
  bl_show_manifest :: "BackupManifest \<Rightarrow> string"
  bl_parse_manifest :: "string \<Rightarrow> (string, BackupManifest) res"
  bl_umask :: nat

definition backup_file :: "backup_library \<Rightarrow> uuid \<Rightarrow> string" where
  "backup_file L bid = bl_uuid L bid @ ''.sqlite3''"

definition manifest_file :: "backup_library \<Rightarrow> uuid \<Rightarrow> string" where
  "manifest_file L bid = bl_uuid L bid @ ''.manifest.json''"

definition partial_file :: "string \<Rightarrow> string" where
  "partial_file name = name @ ''.partial''"

text \<open>
  A program on the file system.  The \<open>k\<close>-th operation of a backup may fail and then changes nothing;
  what was written before stays.
\<close>

type_synonym 'a fs_op = "file_system \<Rightarrow> (StoreError, 'a) res \<times> file_system"

definition fs_bind :: "'a fs_op \<Rightarrow> ('a \<Rightarrow> 'b fs_op) \<Rightarrow> 'b fs_op" where
  "fs_bind m f = (\<lambda>fs. case m fs of (Ok x, fs') \<Rightarrow> f x fs' | (Err e, fs') \<Rightarrow> (Err e, fs') | (Panic, fs') \<Rightarrow> (Panic, fs'))"

definition fs_result :: "(StoreError, 'a) res \<Rightarrow> 'a fs_op" where
  "fs_result r = (\<lambda>fs. (r, fs))"

definition may_fail :: "backup_library \<Rightarrow> nat \<Rightarrow> 'a fs_op \<Rightarrow> 'a fs_op" where
  "may_fail L k m = (\<lambda>fs. case bl_fails L k of Some e \<Rightarrow> (Err e, fs) | None \<Rightarrow> m fs)"

definition no_such_file :: string where
  "no_such_file = ''No such file or directory (os error 2)''"

definition write_file :: "path \<Rightarrow> stored_file \<Rightarrow> unit fs_op" where
  "write_file p f = (\<lambda>fs. (Ok (), fs(p \<mapsto> f)))"

definition vacuum_into :: "path \<Rightarrow> stored_file \<Rightarrow> unit fs_op" where
  "vacuum_into p f = (\<lambda>fs. if fs p \<noteq> None then (Err (Database ''output file already exists''), fs) else write_file p f fs)"

definition set_owner_only_file :: "path \<Rightarrow> unit fs_op" where
  "set_owner_only_file p = (\<lambda>fs. case fs p of
     None \<Rightarrow> (Err (Io no_such_file), fs) | Some f \<Rightarrow> (Ok (), fs(p \<mapsto> f\<lparr>fl_mode := 384\<rparr>)))"

definition rename_file :: "path \<Rightarrow> path \<Rightarrow> unit fs_op" where
  "rename_file p q = (\<lambda>fs. case fs p of
     None \<Rightarrow> (Err (Io no_such_file), fs) | Some f \<Rightarrow> (Ok (), fs(p := None, q \<mapsto> f)))"

definition sha256_file :: "backup_library \<Rightarrow> path \<Rightarrow> file_system \<Rightarrow> (string, string) res" where
  "sha256_file L p fs = (case fs p of None \<Rightarrow> Err no_such_file | Some f \<Rightarrow> Ok (bl_sha L (fl_content f)))"

definition sqlite_integrity_check :: "backup_library \<Rightarrow> path \<Rightarrow> file_system \<Rightarrow> unit tx" where
  "sqlite_integrity_check L p fs = (case fs p of
     None \<Rightarrow> Err (Database ''unable to open database file'')
   | Some f \<Rightarrow> rbind (bl_integrity L (fl_content f)) (\<lambda>result.
       if result \<noteq> ''ok'' then Err (IdentityMismatch (''SQLite integrity check failed: '' @ result)) else Ok ()))"

definition reading :: "(file_system \<Rightarrow> 'a tx) \<Rightarrow> 'a fs_op" where
  "reading f = (\<lambda>fs. (f fs, fs))"

section \<open>Creation\<close>

definition last_sequence :: "Store \<Rightarrow> int" where
  "last_sequence db = coalesce (sql_max (map ev_sequence (execution_events db))) 0"

definition backup_manifest :: "backup_library \<Rightarrow> uuid \<Rightarrow> instant \<Rightarrow> nat \<Rightarrow> string \<Rightarrow> Store \<Rightarrow> BackupManifest tx" where
  "backup_manifest L bid created_at bytes checksum db =
     rbind (ok_or (Database ''no rows returned by a query that expected to return at least one row'') (instance_metadata db)) (\<lambda>identity.
     if im_chain_id identity < 0 then Err (IdentityMismatch ''stored chain ID is negative'')
     else if im_protocol_version identity \<notin> {0 ..< 2 ^ 32} then Err (IdentityMismatch ''stored protocol version is invalid'')
     else Ok \<lparr>ma_backup_id = bid, ma_schema_version = bl_schema_version L, ma_mode = st_mode db,
          ma_chain_id = nat (im_chain_id identity), ma_protocol_version = nat (im_protocol_version identity),
          ma_signer_address = im_signer_address identity, ma_funder_address = im_funder_address identity,
          ma_last_event_sequence = last_sequence db, ma_database_size_bytes = bytes, ma_checksum_sha256 = checksum,
          ma_created_at = created_at\<rparr>)"

text \<open>Everything \<open>create_backup_files\<close> does before its transaction, which is \<open>complete_backup\<close> and may fail as operation 6.\<close>

definition create_backup_files :: "backup_library \<Rightarrow> string \<Rightarrow> uuid \<Rightarrow> instant \<Rightarrow> Store \<Rightarrow> backup_files fs_op" where
  "create_backup_files L dir bid created_at db =
     (let backup_path = (dir, backup_file L bid); partial_backup_path = (dir, partial_file (backup_file L bid));
          manifest_path = (dir, manifest_file L bid); partial_manifest_path = (dir, partial_file (manifest_file L bid));
          image = DatabaseFile db (bl_schema_version L)
      in fs_bind (may_fail L 0 (vacuum_into partial_backup_path \<lparr>fl_content = image, fl_mode = bl_umask L\<rparr>)) (\<lambda>_.
         fs_bind (may_fail L 1 (set_owner_only_file partial_backup_path)) (\<lambda>_.
         fs_bind (reading (sqlite_integrity_check L partial_backup_path)) (\<lambda>_.
         fs_bind (reading (\<lambda>fs. map_err Io (sha256_file L partial_backup_path fs))) (\<lambda>checksum.
         fs_bind (fs_result (backup_manifest L bid created_at (bl_size L image) checksum db)) (\<lambda>manifest.
         fs_bind (may_fail L 2 (write_file partial_manifest_path
                    \<lparr>fl_content = TextFile (bl_show_manifest L manifest), fl_mode = bl_umask L\<rparr>)) (\<lambda>_.
         fs_bind (may_fail L 3 (set_owner_only_file partial_manifest_path)) (\<lambda>_.
         fs_bind (may_fail L 4 (rename_file partial_backup_path backup_path)) (\<lambda>_.
         fs_bind (may_fail L 5 (rename_file partial_manifest_path manifest_path)) (\<lambda>_.
         may_fail L 6 (fs_result (Ok \<lparr>bf_database_path = bl_path L backup_path, bf_manifest_path = bl_path L manifest_path,
                       bf_checksum = checksum\<rparr>))))))))))))"

definition run_backup_files :: "backup_library \<Rightarrow> string \<Rightarrow> uuid \<Rightarrow> instant \<Rightarrow> Store \<times> file_system \<Rightarrow> unit tx \<times> Store \<times> file_system" where
  "run_backup_files L dir bid now = (\<lambda>(db, fs).
     case sql_find (\<lambda>b. bu_id b = bid \<and> bu_state b = ''RUNNING'') (backups db) of
       None \<Rightarrow> (Err NotFound, db, fs)
     | Some row \<Rightarrow>
         (case create_backup_files L dir bid (bu_created_at row) db fs of (outcome, fs') \<Rightarrow>
            (case run_backup bid (map_err store_error_text outcome) now db of (r, db') \<Rightarrow>
               (rbind outcome (\<lambda>_. r), db', fs'))))"

section \<open>Verification\<close>

text \<open>What a query on a database file reads; any other file is not a database.\<close>

definition database_of :: "content \<Rightarrow> (string, Store \<times> int) res" where
  "database_of c = (case c of DatabaseFile db version \<Rightarrow> Ok (db, version) | TextFile t \<Rightarrow> Err ''file is not a database'')"

definition verify_backup_inner :: "backup_library \<Rightarrow> path \<Rightarrow> Mode option \<Rightarrow> file_system \<Rightarrow> (string, BackupManifest) res" where
  "verify_backup_inner L manifest_path expected_mode fs =
     rbind (ok_or no_such_file (fs manifest_path)) (\<lambda>manifest_content.
     rbind (case fl_content manifest_content of TextFile t \<Rightarrow> bl_parse_manifest L t
              | DatabaseFile db version \<Rightarrow> Err ''expected value at line 1 column 1'') (\<lambda>manifest.
     let database_path = (fst manifest_path, backup_file L (ma_backup_id manifest))
     in
     rbind (sha256_file L database_path fs) (\<lambda>actual.
     if actual \<noteq> ma_checksum_sha256 manifest then Err ''backup checksum mismatch''
     else if expected_mode \<noteq> None \<and> Some (ma_mode manifest) \<noteq> expected_mode
     then Err (''backup mode '' @ mode_text (ma_mode manifest) @ '' does not match configured mode '' @ mode_text (the expected_mode))
     else
     rbind (map_err store_error_text (sqlite_integrity_check L database_path fs)) (\<lambda>_.
     rbind (ok_or no_such_file (fs database_path)) (\<lambda>database.
     rbind (database_of (fl_content database)) (\<lambda>(image, schema_version).
     if schema_version \<noteq> ma_schema_version manifest then Err ''backup schema version does not match manifest''
     else
     rbind (ok_or ''no rows returned by a query that expected to return at least one row'' (instance_metadata image)) (\<lambda>identity.
     if im_mode identity \<noteq> mode_text (ma_mode manifest) then Err ''backup database mode mismatch''
     else if last_sequence image \<noteq> ma_last_event_sequence manifest then Err ''backup event sequence does not match manifest''
     else Ok manifest)))))))"

definition verify_backup :: "backup_library \<Rightarrow> path \<Rightarrow> Mode \<Rightarrow> file_system \<Rightarrow> (string, BackupManifest) res" where
  "verify_backup L manifest_path expected_mode = verify_backup_inner L manifest_path (Some expected_mode)"

definition verify_backup_offline :: "backup_library \<Rightarrow> path \<Rightarrow> file_system \<Rightarrow> (string, BackupManifest) res" where
  "verify_backup_offline L manifest_path = verify_backup_inner L manifest_path None"

section \<open>What a completed backup is worth\<close>

lemma fs_bind_Ok:
  "fs_bind m f fs = (Ok y, fs') \<longleftrightarrow> (\<exists>x fs1. m fs = (Ok x, fs1) \<and> f x fs1 = (Ok y, fs'))"
  by (auto simp: fs_bind_def split: prod.splits res.splits)

lemma fs_ops_Ok:
  "may_fail L k m fs = (Ok y, fs') \<longleftrightarrow> bl_fails L k = None \<and> m fs = (Ok y, fs')"
  "write_file p f fs = (Ok u, fs') \<longleftrightarrow> fs' = fs(p \<mapsto> f)"
  "vacuum_into p f fs = (Ok u, fs') \<longleftrightarrow> fs p = None \<and> fs' = fs(p \<mapsto> f)"
  "set_owner_only_file p fs = (Ok u, fs') \<longleftrightarrow> (\<exists>f. fs p = Some f \<and> fs' = fs(p \<mapsto> f\<lparr>fl_mode := 384\<rparr>))"
  "rename_file p q fs = (Ok u, fs') \<longleftrightarrow> (\<exists>f. fs p = Some f \<and> fs' = fs(p := None, q \<mapsto> f))"
  "reading g fs = (Ok y, fs') \<longleftrightarrow> g fs = Ok y \<and> fs' = fs"
  "fs_result r fs = (Ok y, fs') \<longleftrightarrow> r = Ok y \<and> fs' = fs"
  by (auto simp: may_fail_def write_file_def vacuum_into_def set_owner_only_file_def rename_file_def reading_def fs_result_def
      split: option.splits)

lemma backup_names:
  "partial_file (backup_file L bid) \<noteq> backup_file L bid" "partial_file (manifest_file L bid) \<noteq> manifest_file L bid"
  "partial_file (backup_file L bid) \<noteq> manifest_file L bid" "partial_file (manifest_file L bid) \<noteq> backup_file L bid"
  "partial_file (backup_file L bid) \<noteq> partial_file (manifest_file L bid)" "backup_file L bid \<noteq> manifest_file L bid"
  by (simp_all add: partial_file_def backup_file_def manifest_file_def)

lemma create_backup_files_Ok:
  assumes "create_backup_files L dir bid created_at db fs = (Ok files, fs')"
  obtains manifest where
    "backup_manifest L bid created_at (bl_size L (DatabaseFile db (bl_schema_version L))) (bf_checksum files) db = Ok manifest"
    "bf_checksum files = bl_sha L (DatabaseFile db (bl_schema_version L))"
    "bl_integrity L (DatabaseFile db (bl_schema_version L)) = Ok ''ok''"
    "fs' (dir, backup_file L bid) = Some \<lparr>fl_content = DatabaseFile db (bl_schema_version L), fl_mode = 384\<rparr>"
    "fs' (dir, manifest_file L bid) = Some \<lparr>fl_content = TextFile (bl_show_manifest L manifest), fl_mode = 384\<rparr>"
  using assms backup_names [of L bid]
  by (auto simp: create_backup_files_def Let_def fs_bind_Ok fs_ops_Ok sqlite_integrity_check_def sha256_file_def res_simps)

lemma run_backup_files_Ok:
  assumes "run_backup_files L dir bid now (db, fs) = (Ok (), db', fs')"
  obtains row files where "sql_find (\<lambda>b. bu_id b = bid \<and> bu_state b = ''RUNNING'') (backups db) = Some row"
    "create_backup_files L dir bid (bu_created_at row) db fs = (Ok files, fs')" "db' = complete_backup bid files now db"
  using assms by (auto simp: run_backup_files_def run_backup_def res_simps split: option.splits prod.splits)

lemma complete_backup_row:
  assumes "r \<in> set (backups db)" "bu_id r = bid"
  shows "\<exists>b \<in> set (backups (complete_backup bid files now db)). bu_id b = bid \<and> bu_state b = ''COMPLETE''
     \<and> bu_checksum_sha256 b = Some (bf_checksum files) \<and> bu_manifest_path b = Some (bf_manifest_path files)
     \<and> bu_last_event_sequence b = Some (last_sequence db)"
proof -
  define u where "u = r\<lparr>bu_state := ''COMPLETE'', bu_database_path := Some (bf_database_path files),
    bu_manifest_path := Some (bf_manifest_path files), bu_checksum_sha256 := Some (bf_checksum files),
    bu_last_event_sequence := Some (last_sequence db), bu_updated_at := now\<rparr>"
  have "u \<in> set (backups (complete_backup bid files now db))"
    using assms by (auto simp: complete_backup_def Let_def append_event_def send_def set_sql_update last_sequence_def u_def
        image_iff split: prod.splits)
  then show ?thesis by (rule rev_bexI) (simp add: u_def assms(2))
qed

lemma verify_written:
  assumes "fs (dir, manifest_file L bid) = Some f" "fl_content f = TextFile t" "bl_parse_manifest L t = Ok m" "ma_backup_id m = bid"
    and "fs (dir, backup_file L bid) = Some g" "fl_content g = DatabaseFile tables version"
    and "bl_sha L (DatabaseFile tables version) = ma_checksum_sha256 m" "bl_integrity L (DatabaseFile tables version) = Ok ''ok''"
    and "ma_schema_version m = version" "instance_metadata tables = Some row" "im_mode row = mode_text (ma_mode m)"
    and "ma_last_event_sequence m = last_sequence tables" "expected = None \<or> expected = Some (ma_mode m)"
  shows "verify_backup_inner L (dir, manifest_file L bid) expected fs = Ok m"
  using assms(13)
  by (elim disjE) (simp_all add: verify_backup_inner_def sha256_file_def sqlite_integrity_check_def database_of_def Let_def assms(1-12))

text \<open>
  C31. A completed backup verifies.  When a backup of a database bound to its mode runs to completion, its row
  is COMPLETE with the checksum of the file, database and manifest are readable by their owner only,
  and as long as neither file is touched verification accepts the manifest under the mode of the
  service and without one; the file holds the tables as they were, up to the last event the row names.
\<close>

theorem completed_backup_verifies:
  assumes "run_backup_files L dir bid now (db, fs) = (Ok (), db', fs')"
    and "\<forall>m. bl_parse_manifest L (bl_show_manifest L m) = Ok m"
    and "instance_metadata db = Some row" "im_mode row = mode_text (st_mode db)"
    and "later (dir, manifest_file L bid) = fs' (dir, manifest_file L bid)" "later (dir, backup_file L bid) = fs' (dir, backup_file L bid)"
  shows "\<exists>m b. verify_backup L (dir, manifest_file L bid) (st_mode db) later = Ok m
     \<and> verify_backup_offline L (dir, manifest_file L bid) later = Ok m
     \<and> b \<in> set (backups db') \<and> bu_id b = bid \<and> bu_state b = ''COMPLETE''
     \<and> bu_checksum_sha256 b = Some (ma_checksum_sha256 m) \<and> bu_last_event_sequence b = Some (ma_last_event_sequence m)
     \<and> ma_last_event_sequence m = last_sequence db
     \<and> later (dir, backup_file L bid) = Some \<lparr>fl_content = DatabaseFile db (bl_schema_version L), fl_mode = 384\<rparr>
     \<and> (\<exists>t. later (dir, manifest_file L bid) = Some \<lparr>fl_content = TextFile t, fl_mode = 384\<rparr>)"
proof -
  obtain old files where o: "sql_find (\<lambda>b. bu_id b = bid \<and> bu_state b = ''RUNNING'') (backups db) = Some old"
    "create_backup_files L dir bid (bu_created_at old) db fs = (Ok files, fs')" "db' = complete_backup bid files now db"
    by (rule run_backup_files_Ok [OF assms(1)]) (rule that)
  obtain m where m: "backup_manifest L bid (bu_created_at old) (bl_size L (DatabaseFile db (bl_schema_version L))) (bf_checksum files) db = Ok m"
    "bf_checksum files = bl_sha L (DatabaseFile db (bl_schema_version L))"
    "bl_integrity L (DatabaseFile db (bl_schema_version L)) = Ok ''ok''"
    "fs' (dir, backup_file L bid) = Some \<lparr>fl_content = DatabaseFile db (bl_schema_version L), fl_mode = 384\<rparr>"
    "fs' (dir, manifest_file L bid) = Some \<lparr>fl_content = TextFile (bl_show_manifest L m), fl_mode = 384\<rparr>"
    by (rule create_backup_files_Ok [OF o(2)]) (rule that)
  have fields: "ma_backup_id m = bid" "ma_checksum_sha256 m = bf_checksum files" "ma_mode m = st_mode db"
    "ma_schema_version m = bl_schema_version L" "ma_last_event_sequence m = last_sequence db"
    using m(1) by (auto simp: backup_manifest_def res_simps)
  have "verify_backup_inner L (dir, manifest_file L bid) expected later = Ok m" if "expected \<in> {None, Some (st_mode db)}" for expected
    by (rule verify_written [where t = "bl_show_manifest L m" and tables = db and version = "bl_schema_version L",
          OF assms(5) [unfolded m(5)] _ _ fields(1) assms(6) [unfolded m(4)] _ _ m(3) _ assms(3)])
      (use that in \<open>simp_all add: assms(2,4) m(2) fields\<close>)
  moreover from complete_backup_row [of old db bid files now] sql_find_SomeD [OF o(1)]
  obtain b where "b \<in> set (backups db')" "bu_id b = bid" "bu_state b = ''COMPLETE''" "bu_checksum_sha256 b = Some (bf_checksum files)"
    "bu_last_event_sequence b = Some (last_sequence db)" by (auto simp: o(3))
  ultimately show ?thesis
    by (intro exI [of _ m] exI [of _ b]) (simp add: verify_backup_def verify_backup_offline_def assms(5,6) m(4,5) fields)
qed

end
