(* ===== verification/Entry.thy ===== *)
theory Entry
  imports ApiFrame PaperVenue PolymarketReconcile Backup
begin

text \<open>
  \<open>src/src/main.rs\<close>: the start and end of the service process, the diagnosis, and the command line client.
  The operating system, the file formats, the HTTP client and the metrics recorder are fields of the
  record \<open>host\<close>; an error is the text \<open>anyhow\<close> displays.  Signals, log lines and the metrics listener
  are left out.
\<close>

record api_call =
  cl_method :: Method
  cl_url :: string
  cl_bearer :: string
  cl_idempotency_key :: "string option"
  cl_body :: "json option"

record host =
  ho_read :: "string \<Rightarrow> (string, string) res"
  ho_parse_json :: "string \<Rightarrow> (string, json) res"
  ho_schema_error :: "json \<Rightarrow> string"
  ho_parse_config :: "string \<Rightarrow> Config option"
  ho_parse_policy :: "string \<Rightarrow> RiskPolicy option"
  ho_write :: "string \<Rightarrow> json \<Rightarrow> (string, unit) res"
  ho_parent :: "string \<Rightarrow> string"
  ho_exists :: "string \<Rightarrow> bool"
  ho_unhex :: "string \<Rightarrow> bytes option"
  ho_hex_error :: "string \<Rightarrow> string"
  ho_hex :: "bytes \<Rightarrow> string"
  ho_sha :: "string \<Rightarrow> bytes"
  ho_env :: "string \<Rightarrow> string option"
  ho_live_feature :: bool
  ho_recorder :: "(string, unit) res"
  ho_bind :: "SocketAddr \<Rightarrow> bool"
  ho_show_addr :: "SocketAddr \<Rightarrow> string"
  ho_database :: "(string, unit) res"
  ho_token_length :: "string \<Rightarrow> nat option"
  ho_read_exact :: "string \<Rightarrow> nat \<Rightarrow> string option"
  ho_read_more :: "string \<Rightarrow> (string, nat) res"
  ho_utf8 :: "string \<Rightarrow> bool"
  ho_client :: "(string, unit) res"
  ho_send :: "api_call \<Rightarrow> (string, nat \<times> (string, json) res) res"
  ho_get :: "string \<Rightarrow> (nat \<times> json option) option"
  ho_show_status :: "nat \<Rightarrow> string"
  ho_show_json :: "json \<Rightarrow> string"

section \<open>The policy of a mode\<close>

text \<open>\<open>RiskPolicy::load\<close>.\<close>

definition load_policy :: "host \<Rightarrow> dec_ops \<Rightarrow> string \<Rightarrow> (string, RiskPolicy) res" where
  "load_policy P D path =
     rbind (map_err (\<lambda>_. ''read risk policy '' @ path) (ho_read P path)) (\<lambda>contents.
     rbind (ok_or ''parse strict risk policy JSON'' (ho_parse_policy P contents)) (\<lambda>policy.
     rbind (validate_policy D policy) (\<lambda>_. Ok policy)))"

definition validate_mode_policy :: "Config \<Rightarrow> RiskPolicy \<Rightarrow> (string, unit) res" where
  "validate_mode_policy config policy =
     (if cf_mode config \<noteq> Mode.Live then Ok ()
      else if rp_allowed_condition_ids policy = {} \<or> rp_allowed_token_ids policy = {}
      then Err ''live mode requires non-empty condition and token allowlists''
      else if ''*'' \<in> rp_allowed_condition_ids policy \<or> ''*'' \<in> rp_allowed_token_ids policy
      then Err ''live mode refuses wildcard risk-policy allowlists''
      else if str_contains ''example'' (ascii_lowercase (rp_version policy))
           \<or> str_contains ''placeholder'' (ascii_lowercase (rp_version policy))
      then Err ''live mode refuses placeholder risk-policy versions''
      else Ok ())"

section \<open>The service process\<close>

record ServeArgs =
  sr_config :: string
  sr_risk_policy :: string
  sr_mode :: "string option"

text \<open>One run of the service: what surrounds it, what its venue answers at the start, what happens, and whether it ends by a signal.\<close>

record life =
  lf_host :: host
  lf_args :: ServeArgs
  lf_surroundings :: surroundings
  lf_web :: http_library
  lf_files :: "nat \<Rightarrow> (string, backup_files) res"
  lf_now :: instant
  lf_paper_client :: "(VenueError, unit) res"
  lf_paper_streams :: "string \<Rightarrow> bool \<times> (VenueError, unit) res \<times> (VenueError, unit) res"
  lf_sdk_lib :: sdk_lib
  lf_keys :: key_file_system
  lf_sdk :: sdk
  lf_meanwhile :: "PolymarketVenue \<Rightarrow> PolymarketVenue"
  lf_events :: "service_event list"
  lf_graceful :: bool

definition mode_of_text :: "string \<Rightarrow> (string, Mode) res" where
  "mode_of_text raw = ok_or (domain_error_text (InvalidField ''mode'' ''must be paper or live'')) (mode_from_str raw)"

definition read_setup :: "host \<Rightarrow> dec_ops \<Rightarrow> ServeArgs \<Rightarrow> (string, Config \<times> RiskPolicy \<times> AuthRegistry) res" where
  "read_setup P D args =
     rbind (case sr_mode args of None \<Rightarrow> Ok None | Some raw \<Rightarrow> rbind (mode_of_text raw) (\<lambda>m. Ok (Some m))) (\<lambda>mode_override.
     rbind (load_config (\<lambda>p. case ho_read P p of Ok t \<Rightarrow> Some t | _ \<Rightarrow> None) (ho_parse_config P) (ho_unhex P)
              (ho_live_feature P) (ho_env P) (sr_config args) mode_override) (\<lambda>config.
     rbind (load_policy P D (sr_risk_policy args)) (\<lambda>policy.
     rbind (validate_mode_policy config policy) (\<lambda>_.
     rbind (new_registry (ho_unhex P) (ho_hex_error P) (cf_auth config)) (\<lambda>auth.
     Ok (config, policy, auth))))))"

text \<open>\<open>Store::open\<close> on a database file: the handle is new, the tables are those of the file.\<close>

definition identity_of :: "PolymarketConfig \<Rightarrow> venue_identity" where
  "identity_of c = \<lparr>vi_chain_id = pm_chain_id c, vi_expected_protocol = pm_expected_protocol c,
     vi_signer_address = pm_signer_address c, vi_funder_address = pm_funder_address c\<rparr>"

definition reopened :: "Config \<Rightarrow> Store \<Rightarrow> Store" where
  "reopened config db = db\<lparr>st_mode := cf_mode config, st_event_retention := sg_event_retention (cf_storage config), st_sent := []\<rparr>"

definition open_listeners :: "host \<Rightarrow> Config \<Rightarrow> (string, unit) res" where
  "open_listeners P config =
     rbind (ho_recorder P) (\<lambda>_.
     if \<not> ho_bind P (sv_bind (cf_server config))
     then Err (''bind control API '' @ ho_show_addr P (sv_bind (cf_server config)))
     else if \<not> ho_bind P (sv_metrics_bind (cf_server config))
     then Err (''bind metrics API '' @ ho_show_addr P (sv_metrics_bind (cf_server config)))
     else Ok ())"

text \<open>The venue of the mode; the paper account is initialised by a transaction of its own.\<close>

definition open_venue :: "life \<Rightarrow> Config \<Rightarrow> Store \<Rightarrow> (VenueError, unit) res \<times> Store" where
  "open_venue F config db =
     (let D = su_dec (lf_surroundings F); H = su_hash (lf_surroundings F)
      in case cf_mode config of
           Mode.Paper \<Rightarrow>
             (rbind (paper_new D H (cf_paper config) (lf_paper_client F) (lf_paper_streams F) (lf_now F) db) (\<lambda>_. Ok ()),
              case initialize_paper_account D H (cf_paper config) (lf_now F) db of Ok db' \<Rightarrow> db' | _ \<Rightarrow> db)
         | Mode.Live \<Rightarrow>
             (rbind (polymarket_new (ho_live_feature (lf_host F)) (lf_sdk_lib F) (lf_keys F) (lf_sdk F) (lf_meanwhile F)
                (cf_polymarket config)) (\<lambda>_. Ok ()), db))"

definition boot :: "life \<Rightarrow> Store \<Rightarrow> (string, Config \<times> RiskPolicy \<times> AuthRegistry) res \<times> Store" where
  "boot F db =
     (case rbind (read_setup (lf_host F) (su_dec (lf_surroundings F)) (lf_args F)) (\<lambda>(config, policy, auth).
           rbind (open_listeners (lf_host F) config) (\<lambda>_.
           rbind (ho_database (lf_host F)) (\<lambda>_.
           rbind (map_err store_error_text (open_store (identity_of (cf_polymarket config)) (lf_now F) (reopened config db))) (\<lambda>db.
           Ok (config, policy, auth, db))))) of
        Ok (config, policy, auth, db) \<Rightarrow>
          (case open_venue F config db of (r, db) \<Rightarrow> (map_err venue_error_text (rbind r (\<lambda>_. Ok (config, policy, auth))), db))
      | Err e \<Rightarrow> (Err e, db)
      | Panic \<Rightarrow> (Panic, db))"

text \<open>\<open>ExecutionCoordinator::start\<close> and \<open>ApiState::new\<close>; the log of venue calls goes on over the runs.\<close>

definition new_coordinator :: "venue_call list \<Rightarrow> Store \<Rightarrow> coordinator" where
  "new_coordinator calls db = \<lparr>co_store = db, co_calls = 0, co_queue = [], co_deferred = [], co_slots = 64,
     co_healthy = None, co_spawned = [], co_log = calls, co_stopped = False\<rparr>"

definition new_service :: "instant \<Rightarrow> coordinator \<Rightarrow> service" where
  "new_service now c = \<lparr>ap_coordinator = c, ap_limiter = new_bucket 25 100 now, ap_tasks = []\<rparr>"

text \<open>What the configuration decides of the surroundings.\<close>

definition process_surroundings :: "Config \<Rightarrow> RiskPolicy \<Rightarrow> surroundings \<Rightarrow> surroundings" where
  "process_surroundings config policy E = E\<lparr>su_policy := policy, su_requires_heartbeat := (cf_mode config = Mode.Live)\<rparr>"

definition run_process :: "life \<Rightarrow> venue_call list \<times> Store \<Rightarrow> venue_call list \<times> Store" where
  "run_process F = (\<lambda>(calls, db).
     case boot F db of
       (Ok (config, policy, auth), db) \<Rightarrow>
         (let E = process_surroundings config policy (lf_surroundings F);
              c = (case startup E (new_coordinator calls db) of
                     (Ok _, c) \<Rightarrow>
                       (let a = run_service (lf_web F) E (lf_files F) auth (lf_events F) (new_service (lf_now F) c)
                        in if lf_graceful F then snd (shutdown E (rp_cancel_on_halt policy) (ap_coordinator a)) else ap_coordinator a)
                   | (_, c) \<Rightarrow> c)
          in (co_log c, co_store c))
     | (_, db) \<Rightarrow> (calls, db))"

definition run_processes :: "life list \<Rightarrow> venue_call list \<times> Store \<Rightarrow> venue_call list \<times> Store" where
  "run_processes = fold run_process"

section \<open>Diagnosis\<close>

record DoctorArgs =
  dr_config :: string
  dr_risk_policy :: string
  dr_backup :: "string option"

fun trim_end_matches :: "char set \<Rightarrow> string \<Rightarrow> string" where
  "trim_end_matches cs [] = []"
| "trim_end_matches cs (c # s) = (if set (c # s) \<subseteq> cs then [] else c # trim_end_matches cs s)"

text \<open>A GET of the client whose answer is decoded as JSON, with the three contexts of its failures.\<close>

definition get_json :: "host \<Rightarrow> string \<Rightarrow> string \<Rightarrow> string \<Rightarrow> string \<Rightarrow> (json \<Rightarrow> 'a option) \<Rightarrow> (string, 'a) res" where
  "get_json P url querying refused parsing decode =
     rbind (ok_or querying (ho_get P url)) (\<lambda>(status, body).
     if 400 \<le> status \<and> status < 600 then Err refused
     else ok_or parsing (case body of None \<Rightarrow> None | Some j \<Rightarrow> decode j))"

definition u32_of_json :: "json \<Rightarrow> nat option" where
  "u32_of_json j = (case j of JInt n \<Rightarrow> if 0 \<le> n \<and> n < 2 ^ 32 then Some (nat n) else None | _ \<Rightarrow> None)"

definition i64_of_json :: "json \<Rightarrow> int option" where
  "i64_of_json j = (case j of JInt n \<Rightarrow> if - (2 ^ 63) \<le> n \<and> n < 2 ^ 63 then Some n else None | _ \<Rightarrow> None)"

definition doctor_public_venue :: "host \<Rightarrow> int \<Rightarrow> Config \<Rightarrow> (string, json) res" where
  "doctor_public_venue P local_time_ms config =
     rbind (ho_client P) (\<lambda>_.
     let clob_url = trim_end_matches {CHR ''/''} (pm_clob_url (cf_polymarket config))
     in
     rbind (get_json P (clob_url @ ''/version'') ''query Polymarket protocol version''
              ''Polymarket version endpoint rejected the request'' ''parse Polymarket protocol version'' u32_of_json) (\<lambda>version.
     if version \<noteq> pm_expected_protocol (cf_polymarket config)
     then Err (''expected Polymarket protocol '' @ show_nat (pm_expected_protocol (cf_polymarket config))
            @ '', venue reports '' @ show_nat version)
     else
     rbind (get_json P (clob_url @ ''/time'') ''query Polymarket server time''
              ''Polymarket time endpoint rejected the request'' ''parse Polymarket server time'' i64_of_json) (\<lambda>server_time_ms.
     let clock_skew_ms = nat \<bar>local_time_ms - server_time_ms\<bar>
     in if clock_skew_ms > 30000 then Err (''local clock differs from venue by '' @ show_nat clock_skew_ms @ ''ms'')
        else
     rbind (get_json P (pm_geoblock_url (cf_polymarket config)) ''query geographic eligibility''
              ''geographic eligibility endpoint rejected the request'' ''parse geographic eligibility'' Some) (\<lambda>geoblock.
     rbind (ok_or ''geographic eligibility response is missing boolean blocked''
              (case jget geoblock ''blocked'' of Some (JBool b) \<Rightarrow> Some b | _ \<Rightarrow> None)) (\<lambda>blocked.
     if blocked then Err ''venue reports this egress location as blocked''
     else Ok (JObj [(''protocol'', JInt (int version)), (''clock_skew_ms'', JInt (int clock_skew_ms)),
                    (''geographic_eligibility'', JStr ''allowed'')]))))))"

definition json_of_manifest :: "BackupManifest \<Rightarrow> json" where
  "json_of_manifest m = JObj
     [(''backup_id'', JUuid (ma_backup_id m)), (''schema_version'', JInt (ma_schema_version m)),
      (''mode'', JStr (mode_text (ma_mode m))), (''chain_id'', JInt (int (ma_chain_id m))),
      (''protocol_version'', JInt (int (ma_protocol_version m))), (''signer_address'', jstr_opt (ma_signer_address m)),
      (''funder_address'', jstr_opt (ma_funder_address m)), (''last_event_sequence'', JInt (ma_last_event_sequence m)),
      (''database_size_bytes'', JInt (int (ma_database_size_bytes m))), (''checksum_sha256'', JStr (ma_checksum_sha256 m)),
      (''created_at'', JTime (ma_created_at m))]"

text \<open>The path of a manifest, split by the library, and the answer of the verification, are given.\<close>

definition doctor ::
  "host \<Rightarrow> dec_ops \<Rightarrow> backup_library \<Rightarrow> (string \<Rightarrow> path) \<Rightarrow> file_system \<Rightarrow> sdk_lib \<Rightarrow> key_file_system \<Rightarrow> int \<Rightarrow> DoctorArgs
     \<Rightarrow> (string, json) res" where
  "doctor P D B split_path fs L K local_time_ms args = (case dr_backup args of
     Some manifest \<Rightarrow> rbind (verify_backup_offline B (split_path manifest) fs) (\<lambda>verified. Ok (json_of_manifest verified))
   | None \<Rightarrow>
       rbind (load_config (\<lambda>p. case ho_read P p of Ok t \<Rightarrow> Some t | _ \<Rightarrow> None) (ho_parse_config P) (ho_unhex P)
                (ho_live_feature P) (ho_env P) (dr_config args) None) (\<lambda>config.
       rbind (load_policy P D (dr_risk_policy args)) (\<lambda>policy.
       rbind (validate_mode_policy config policy) (\<lambda>_.
       if \<not> ho_exists P (ho_parent P (sg_database_path (cf_storage config)))
       then Err (''database parent does not exist: '' @ ho_parent P (sg_database_path (cf_storage config)))
       else
       rbind (if cf_mode config = Mode.Live
              then map_err venue_error_text (validate_live_signer (ho_live_feature P) L K (cf_polymarket config)) else Ok ()) (\<lambda>_.
       rbind (doctor_public_venue P local_time_ms config) (\<lambda>venue_check.
       Ok (JObj [(''status'', JStr ''ok''), (''mode'', JStr (mode_text (cf_mode config))),
                 (''database_path'', JStr (sg_database_path (cf_storage config))),
                 (''clob_url'', JStr (pm_clob_url (cf_polymarket config))),
                 (''risk_policy_version'', JStr (rp_version policy)), (''venue'', venue_check)])))))))"

end
