(* ===== verification/Client.thy ===== *)
theory Client
  imports Entry
begin

text \<open>The command line client of \<open>src/src/main.rs\<close>: the token file, the requests it sends, and the commands.\<close>

section \<open>The token file\<close>

text \<open>\<open>str::strip_suffix\<close>.\<close>

definition strip_suffix :: "string \<Rightarrow> string \<Rightarrow> string option" where
  "strip_suffix p s = map_option rev (strip_prefix (rev p) (rev s))"

definition strip_terminator :: "string \<Rightarrow> string" where
  "strip_terminator contents = (case strip_suffix [CHR 0x0D, CHR 0x0A] contents of
     Some without_terminator \<Rightarrow> without_terminator
   | None \<Rightarrow> (case strip_suffix [CHR 0x0A] contents of Some without_terminator \<Rightarrow> without_terminator | None \<Rightarrow> contents))"

text \<open>\<open>chars().count()\<close> of a UTF-8 text: the bytes that continue no character.\<close>

definition char_count :: "string \<Rightarrow> nat" where
  "char_count s = length (filter (\<lambda>c. \<not> (128 \<le> byte c \<and> byte c < 192)) s)"

definition parse_api_token :: "string \<Rightarrow> (string, string) res" where
  "parse_api_token contents =
     (let contents = strip_terminator contents
      in if list_ex (\<lambda>c. c = CHR 0x0D \<or> c = CHR 0x0A) contents then Err ''bearer token file must contain exactly one line''
         else if trim contents \<noteq> contents then Err ''bearer token file must not contain surrounding whitespace''
         else if char_count contents < 32 then Err ''bearer token file must contain at least 32 characters''
         else Ok contents)"

definition load_api_token :: "host \<Rightarrow> string \<Rightarrow> (string, string) res" where
  "load_api_token P path =
     rbind (ok_or (''read bearer token file '' @ path) (ho_token_length P path)) (\<lambda>len.
     if len + 1 \<ge> 2 ^ 64 then Err ''bearer token file is too large''
     else
     rbind (ok_or ''read bearer token file'' (ho_read_exact P path len)) (\<lambda>contents.
     rbind (ho_read_more P path) (\<lambda>more.
     if more \<noteq> 0 then Err ''bearer token file changed while it was being read''
     else if \<not> ho_utf8 P contents then Err ''bearer token file must contain valid UTF-8''
     else parse_api_token contents)))"

section \<open>Requests\<close>

record ApiArgs =
  aa_url :: string
  aa_token_file :: string
  aa_idempotency_key :: "string option"

text \<open>The request that is built: a key of its own unless one is given, and only for idempotent requests.\<close>

definition api_call_of :: "(uuid \<Rightarrow> string) \<Rightarrow> uuid \<Rightarrow> string \<Rightarrow> ApiArgs \<Rightarrow> Method \<Rightarrow> string \<Rightarrow> json option \<Rightarrow> bool \<Rightarrow> api_call" where
  "api_call_of U fresh token api method path body idempotent =
     \<lparr>cl_method = method, cl_url = trim_end_matches {CHR ''/''} (aa_url api) @ path, cl_bearer = token,
      cl_idempotency_key = (if idempotent
        then Some (case aa_idempotency_key api of Some key \<Rightarrow> key | None \<Rightarrow> ''cli-'' @ U fresh) else None),
      cl_body = body\<rparr>"

definition api_request :: "host \<Rightarrow> (uuid \<Rightarrow> string) \<Rightarrow> uuid \<Rightarrow> ApiArgs \<Rightarrow> Method \<Rightarrow> string \<Rightarrow> json option \<Rightarrow> bool \<Rightarrow> (string, json) res" where
  "api_request P U fresh api method path body idempotent =
     rbind (load_api_token P (aa_token_file api)) (\<lambda>token.
     rbind (ho_client P) (\<lambda>_.
     rbind (ho_send P (api_call_of U fresh token api method path body idempotent)) (\<lambda>(status, answer).
     rbind answer (\<lambda>body.
     if status \<notin> {200 ..< 300} then Err (''API returned '' @ ho_show_status P status @ '': '' @ ho_show_json P body)
     else Ok body))))"

section \<open>Commands\<close>

datatype command =
    CmdCapabilities
  | CmdServe ServeArgs
  | CmdDoctor DoctorArgs
  | CmdSubmit ApiArgs string
  | CmdCancel ApiArgs CancellationRequest
  | CmdHalt ApiArgs string
  | CmdResume ApiArgs string
  | CmdOrders ApiArgs
  | CmdTrades ApiArgs
  | CmdPositions ApiArgs
  | CmdReconcile ApiArgs
  | CmdBackup ApiArgs
  | CmdTokenDigest string
  | CmdOpenapi "string option" "string option"

definition capabilities :: "bool \<Rightarrow> json" where
  "capabilities live_feature =
     (if live_feature
      then JObj [(''schema_version'', JStr ''oddsfox.capabilities.v1''),
                 (''modes'', JArr [JStr ''paper'', JStr ''live'']), (''signer'', JStr ''local_file'')]
      else JObj [(''schema_version'', JStr ''oddsfox.capabilities.v1''), (''modes'', JArr [JStr ''paper'']), (''signer'', JNull)])"

text \<open>The API request of a command: its arguments, method, path, body, and whether it carries a key.\<close>

type_synonym command_request = "ApiArgs \<times> Method \<times> string \<times> json option \<times> bool"

definition submitted_request :: "host \<Rightarrow> string \<Rightarrow> (string, OrderIntentRequest) res" where
  "submitted_request P path =
     rbind (ho_read P path) (\<lambda>text.
     rbind (ho_parse_json P text) (\<lambda>j. ok_or (ho_schema_error P j) (request_of_json j)))"

definition command_request :: "host \<Rightarrow> command \<Rightarrow> (string, command_request) res option" where
  "command_request P cmd = (case cmd of
     CmdSubmit api path \<Rightarrow> Some (rbind (submitted_request P path) (\<lambda>request.
       Ok (api, POST, ''/v1/intents'', Some (json_of_request request), True)))
   | CmdCancel api request \<Rightarrow> Some (rbind (map_err domain_error_text (validate_cancellation request)) (\<lambda>_.
       Ok (api, POST, ''/v1/cancellations'', Some (json_of_cancellation request), True)))
   | CmdHalt api reason \<Rightarrow> Some (Ok (api, POST, ''/v1/control/halt'', Some (json_of_reason reason), True))
   | CmdResume api reason \<Rightarrow> Some (Ok (api, POST, ''/v1/control/resume'', Some (json_of_reason reason), True))
   | CmdOrders api \<Rightarrow> Some (Ok (api, GET, ''/v1/orders'', None, False))
   | CmdTrades api \<Rightarrow> Some (Ok (api, GET, ''/v1/trades'', None, False))
   | CmdPositions api \<Rightarrow> Some (Ok (api, GET, ''/v1/positions'', None, False))
   | CmdReconcile api \<Rightarrow> Some (Ok (api, POST, ''/v1/reconciliations'', None, True))
   | CmdBackup api \<Rightarrow> Some (Ok (api, POST, ''/v1/backups'', None, True))
   | _ \<Rightarrow> None)"

definition token_digest_command :: "host \<Rightarrow> string \<Rightarrow> (string, string) res" where
  "token_digest_command P input =
     (let token = trim_end_matches {CHR 0x0D, CHR 0x0A} input
      in if length token < 32 then Err ''bearer token input must contain at least 32 characters''
         else Ok (token_digest (ho_hex P) (ho_sha P) token))"

text \<open>The document written to \<open>output\<close>, or printed, after it was compared with \<open>check\<close>.\<close>

datatype outcome = Printed json | PrintedText string | Quiet

definition openapi_command :: "host \<Rightarrow> string option \<Rightarrow> string option \<Rightarrow> (string, outcome) res" where
  "openapi_command P output check =
     rbind (case openapi_document of Ok j \<Rightarrow> Ok j | _ \<Rightarrow> Panic) (\<lambda>document.
     rbind (case check of None \<Rightarrow> Ok ()
            | Some path \<Rightarrow>
                rbind (ho_read P path) (\<lambda>text.
                rbind (ho_parse_json P text) (\<lambda>checked.
                if checked \<noteq> document then Err (''checked-in OpenAPI differs from generated contract: '' @ path) else Ok ()))) (\<lambda>_.
     (case output of
        Some path \<Rightarrow> rbind (ho_write P path document) (\<lambda>_. Ok Quiet)
      | None \<Rightarrow> if check = None then Ok (Printed document) else Ok Quiet)))"

text \<open>The whole command line; what \<open>serve\<close> and \<open>doctor\<close> do is given.\<close>

definition run_command ::
  "host \<Rightarrow> (uuid \<Rightarrow> string) \<Rightarrow> uuid \<Rightarrow> (ServeArgs \<Rightarrow> (string, unit) res) \<Rightarrow> (DoctorArgs \<Rightarrow> (string, json) res) \<Rightarrow> command
     \<Rightarrow> (string, outcome) res" where
  "run_command P U fresh serving diagnosis cmd = (case cmd of
     CmdCapabilities \<Rightarrow> Ok (Printed (capabilities (ho_live_feature P)))
   | CmdServe args \<Rightarrow> rbind (serving args) (\<lambda>_. Ok Quiet)
   | CmdDoctor args \<Rightarrow> rbind (diagnosis args) (\<lambda>j. Ok (Printed j))
   | CmdTokenDigest input \<Rightarrow> rbind (token_digest_command P input) (\<lambda>d. Ok (PrintedText d))
   | CmdOpenapi output check \<Rightarrow> openapi_command P output check
   | _ \<Rightarrow> (case command_request P cmd of
            None \<Rightarrow> Panic
          | Some r \<Rightarrow> rbind r (\<lambda>(api, method, path, body, idempotent).
              rbind (api_request P U fresh api method path body idempotent) (\<lambda>j. Ok (Printed j)))))"

end
