(* ===== verification/CoordinatorSafety.thy ===== *)
theory CoordinatorSafety
  imports CoordinatorFrame
begin

text \<open>
  The coordinator refines the transactions of the store: whatever its operations do, in any order and
  with any transactions of other tasks in between, the store takes steps of \<open>store_step\<close> only, so
  every invariant of the pipeline holds for the running service; and the venue is asked at most once
  to submit the order of an intent.
\<close>

section \<open>Orders stay\<close>

lemma order_keys_update:
  assumes "orders db' = sql_update Q g (orders db)" "\<And>r. or_id (g r) = or_id r" "\<And>r. or_intent_id (g r) = or_intent_id r"
  shows "order_keys db' = order_keys db"
  unfolding order_keys_def assms(1) by (rule map_sql_update) (simp add: assms)

lemma order_keys_same: "orders db' = orders db \<Longrightarrow> order_keys db' = order_keys db"
  by (simp add: order_keys_def)

lemma keys_admit:
  assumes "admit_intent H a k request fresh now db = Ok (x, db')"
  shows "order_keys db' = order_keys db"
  using assms
  by (auto simp: admit_intent_def admit_new_def insert_idempotency_record_def Let_def res_simps append_event_eq order_keys_def
      split: option.splits if_split_asm)

lemma keys_intent: "transition_intent i e n rej now db = Ok (r, db') \<Longrightarrow> order_keys db' = order_keys db"
  by (erule transition_intentE) (rule order_keys_same)

lemma keys_reserve: "evaluate_and_reserve_risk D i request market book policy did now db = Ok (d, db') \<Longrightarrow> order_keys db' = order_keys db"
  by (erule evaluate_and_reserveE) (rule order_keys_same)

lemma keys_reject: "reject_preparation i code msg now db = Ok db' \<Longrightarrow> order_keys db' = order_keys db"
  by (erule reject_preparationE) (rule order_keys_same)

lemma keys_begin: "begin_submission i oid now db = Ok db' \<Longrightarrow> order_keys db' = order_keys db"
  by (erule begin_submissionE) (rule order_keys_update)

lemma keys_finish:
  "finish_submission D U i oid ist ost v rc filled fp ids ev tid now db = Ok db' \<Longrightarrow> order_keys db' = order_keys db"
  by (erule finish_submissionE) (rule order_keys_update)

lemma keys_resolve:
  assumes "resolve_unknown_submission D U un v st rem filled fp ids ev tid now db = Ok db'"
  shows "order_keys db' = order_keys db"
  using assms
proof (cases rule: resolve_unknown_submissionE)
  case (resolved f g h A)
  show ?thesis by (rule order_keys_update [OF resolved(5,6,7)])
qed simp

lemma keys_order:
  assumes "transition_order oid n v ev now db = Ok (ord, db')"
  shows "order_keys db' = order_keys db"
  using assms
proof (cases rule: transition_orderE)
  case (changed prior f g P)
  show ?thesis by (rule order_keys_update [OF changed(7,8,9)])
qed simp

lemma keys_cancel_prepared: "cancel_prepared_order oid ev now db = Ok (ord, db') \<Longrightarrow> order_keys db' = order_keys db"
  by (erule cancel_prepared_orderE) (rule order_keys_update)

lemma keys_reconcile:
  assumes "reconcile_order_projection D U oid st rem tot fp ids ev tid now db = Ok db'"
  shows "order_keys db' = order_keys db"
  using assms
proof (cases rule: reconcile_order_projectionE)
  case (changed prior n g)
  show ?thesis by (rule order_keys_update [OF changed(5,6,7)])
qed simp

lemma keys_recover_pre:
  assumes "recover_pre_submission_work U now db = Ok (is, db')"
  shows "order_keys db' = order_keys db"
proof -
  have loop: "orders db1 = orders (snd acc)" if "recover_pre_submission_loop U now rows acc = Ok (evs, db1)" for rows acc evs db1
    using that
  proof (induction rows arbitrary: acc)
    case (Cons row rows)
    obtain i st where row: "row = (i, st)" by (cases row)
    obtain evs0 db0 where acc: "acc = (evs0, db0)" by (cases acc)
    from Cons.prems obtain evs1 db2 where r: "recover_pre_submission_row U now (i, st) (evs0, db0) = Ok (evs1, db2)"
      and rest: "recover_pre_submission_loop U now rows (evs1, db2) = Ok (evs, db1)"
      by (auto simp: row acc elim!: rbind_OkE)
    from r have "orders db2 = orders db0" by (cases rule: recover_pre_rowE) simp_all
    with Cons.IH [OF rest] show ?case by (simp add: acc)
  qed simp
  from assms obtain evs db1 where "recover_pre_submission_loop U now (pre_submission_rows db) ([], db) = Ok (evs, db1)"
    and "db' = send evs db1"
    by (auto simp: recover_pre_submission_work_def Let_def elim!: rbind_OkE)
  with loop show ?thesis by (fastforce intro: order_keys_same)
qed

lemma keys_paper_trade:
  assumes ok: "pipeline_ok db" and run: "apply_paper_trade_through D U t fresh now db = Ok (n, db')"
  shows "order_keys db' = order_keys db"
proof -
  have "list_all2 order_projected (orders db) (orders db')"
    using apply_paper_trade_through_projects [OF run] ok by (simp add: orders_projected_def pipeline_ok_def)
  then show ?thesis
    by (auto simp: order_keys_def order_projected_def list_all2_conv_all_nth intro: nth_equalityI)
qed

lemma keys_prepare:
  assumes "create_prepared_order D S intent request prepared pv fee pid aid oid now db = Ok (order, db')"
  shows "set (order_keys db) \<subseteq> set (order_keys db')"
  using assms by (rule create_prepared_orderE) (auto simp: order_keys_def)

lemmas keys_steps =
  keys_admit keys_intent keys_reserve keys_reject keys_begin keys_finish keys_recover_pre
  keys_resolve keys_order keys_cancel_prepared keys_reconcile

lemma keys_same_pipeline: "same_pipeline db db' \<Longrightarrow> order_keys db' = order_keys db"
  by (simp add: same_pipeline_def order_keys_def)

lemma step_order_keys:
  assumes "pipeline_ok db" "store_step D H S U db db'"
  shows "set (order_keys db) \<subseteq> set (order_keys db')"
  using assms(2)
proof (cases rule: store_step.cases)
  case prepare
  then show ?thesis by (rule keys_prepare)
qed ((rule equalityD1 [OF arg_cong [where f = set, OF sym]],
      ((rule keys_steps, assumption) | (rule recover_interrupted_ok(3) [OF assms(1)], assumption)
       | (rule keys_paper_trade [OF assms(1)], assumption)
       | (rule keys_same_pipeline, rule keep_steps, assumption)))+)

section \<open>Orders the venue has answered\<close>

text \<open>An order whose intent is past its submission, or rejected: it never becomes PREPARED or SUBMITTING again.\<close>

definition answered :: "uuid \<Rightarrow> Store \<Rightarrow> bool" where
  "answered oid db \<longleftrightarrow> (\<exists>i. (oid, i) \<in> set (order_keys db)
     \<and> (\<exists>r \<in> set (intents db). in_id r = i
          \<and> in_state r \<in> {IntentState.Submitted, IntentState.Unknown, IntentState.Rejected}))"

lemma answered_step:
  assumes "pipeline_ok db" "store_step D H S U db db'" "answered oid db"
  shows "answered oid db'"
proof -
  from assms(3) obtain i r where i: "(oid, i) \<in> set (order_keys db)" "r \<in> set (intents db)" "in_id r = i"
    "in_state r \<in> {IntentState.Submitted, IntentState.Unknown, IntentState.Rejected}"
    by (auto simp: answered_def)
  with step_follows [OF assms(1,2)] obtain r' where r': "r' \<in> set (intents db')" "in_id r' = i"
    "intent_flow (in_state r) (in_state r')" by (force simp: follows_def)
  from r'(3) i(4) have "in_state r' \<in> {IntentState.Submitted, IntentState.Unknown, IntentState.Rejected}"
    by (auto elim: intent_flow_submittedE intent_flow_rejectedE intent_flow_unknownE)
  with r' i(1) step_order_keys [OF assms(1,2)] show ?thesis by (auto simp: answered_def)
qed

lemma answered_not_pending:
  assumes "pipeline_ok db" "answered oid db"
  shows "\<forall>r \<in> set (orders db). or_id r = oid \<longrightarrow> or_state r \<notin> {OrderState.Prepared, OrderState.Submitting}"
proof (intro ballI impI)
  fix r assume r: "r \<in> set (orders db)" "or_id r = oid"
  from assms(2) obtain i x where i: "(oid, i) \<in> set (order_keys db)" "x \<in> set (intents db)" "in_id x = i"
    "in_state x \<in> {IntentState.Submitted, IntentState.Unknown, IntentState.Rejected}"
    by (auto simp: answered_def)
  then obtain r0 where r0: "r0 \<in> set (orders db)" "or_id r0 = oid" "or_intent_id r0 = i" by (auto simp: order_keys_def)
  have "r0 = r" using assms(1) r r0 by (intro key_unique [of or_id "orders db"]) (auto simp: pipeline_ok_def)
  with pipeline_ok_link [OF assms(1) i(2) r(1)] i r0(3)
  show "or_state r \<notin> {OrderState.Prepared, OrderState.Submitting}" by (auto simp: linked_def)
qed

lemma answered_open_order:
  assumes "pipeline_ok db" "r \<in> set (orders db)" "or_state r \<notin> {OrderState.Prepared, OrderState.Submitting}"
  shows "answered (or_id r) db"
proof -
  from assms(1,2) obtain x where x: "x \<in> set (intents db)" "in_id x = or_intent_id r" "linked (in_state x) (or_state r)"
    by (auto simp: pipeline_ok_def)
  with assms(2,3) show ?thesis
    by (auto simp: answered_def order_keys_def linked_def submitted_states_def intro!: exI [of _ "or_intent_id r"])
qed

section \<open>The frame of the coordinator\<close>

text \<open>What other tasks do to the store: any transactions of the service.\<close>

definition interferes :: "surroundings \<Rightarrow> bool" where
  "interferes E \<longleftrightarrow> (\<forall>n db. (co_step E)\<^sup>*\<^sup>* db (su_before E n db))"

definition submitted :: "coordinator \<Rightarrow> uuid list" where
  "submitted c = List.map_filter submitted_intent (co_log c)"

text \<open>\<open>A\<close> are orders the running operation knows to have been answered by the venue.\<close>

definition good :: "uuid set \<Rightarrow> coordinator \<Rightarrow> bool" where
  "good A c \<longleftrightarrow> pipeline_ok (co_store c) \<and> (\<forall>oid \<in> A. answered oid (co_store c))
     \<and> distinct (submitted c) \<and> (\<forall>i \<in> set (submitted c). submission_begun i (co_store c))"

definition advances :: "surroundings \<Rightarrow> uuid set \<Rightarrow> coordinator \<Rightarrow> coordinator \<Rightarrow> bool" where
  "advances E A c c' \<longleftrightarrow> (interferes E \<longrightarrow> good A c \<longrightarrow> good A c' \<and> (co_step E)\<^sup>*\<^sup>* (co_store c) (co_store c'))"

lemma steps_keep:
  assumes "(store_step D H S U)\<^sup>*\<^sup>* db db'" "pipeline_ok db"
  shows "pipeline_ok db'" and "answered oid db \<Longrightarrow> answered oid db'"
    and "submission_begun i db \<Longrightarrow> submission_begun i db'"
proof -
  show "pipeline_ok db'" by (rule pipeline.steps_inv [OF assms])
  show "answered oid db'" if "answered oid db"
    by (rule pipeline.stable [where P = "answered oid", OF answered_step assms that])
  show "submission_begun i db'" if "submission_begun i db"
    by (rule pipeline.stable [where P = "submission_begun i", OF submission_begun_step assms that])
qed

lemma submitted_append: "List.map_filter submitted_intent (xs @ ys)
    = List.map_filter submitted_intent xs @ List.map_filter submitted_intent ys"
  by (simp add: List.map_filter_def)

lemma good_steps:
  fixes c c' :: coordinator
  assumes "good A c" "(co_step E)\<^sup>*\<^sup>* (co_store c) (co_store c')" "co_log c' = co_log c"
  shows "good A c'"
  using assms steps_keep [OF assms(2)] by (auto simp: good_def submitted_def)

lemma advances_steps:
  fixes c c' :: coordinator
  assumes "interferes E \<Longrightarrow> good A c \<Longrightarrow> (co_step E)\<^sup>*\<^sup>* (co_store c) (co_store c')" "co_log c' = co_log c"
  shows "advances E A c c'"
  using assms good_steps by (auto simp: advances_def)

interpretation ops: co_ops "advances E A" E for E A
proof unfold_locales
  show "advances E A c c" for c by (simp add: advances_def)
  show "advances E A c c''" if "advances E A c c'" "advances E A c' c''" for c c' c''
    using that by (auto simp: advances_def)
  show "advances E A c c'"
    if "co_log c' = co_log c" "db = su_before E n (co_store c)" "co_store c' = db \<or> halting_step E db (co_store c')" for c c' db n
  proof (rule advances_steps [OF _ that(1)])
    assume "interferes E"
    then have "(co_step E)\<^sup>*\<^sup>* (co_store c) db" by (simp add: that(2) interferes_def)
    with that(3) show "(co_step E)\<^sup>*\<^sup>* (co_store c) (co_store c')"
      by (auto simp: halting_step_def intro: rtranclp.rtrancl_into_rtrancl)
  qed
  show "advances E A c c'"
    if "co_store c' = co_store c" "co_log c' = co_log c @ [call]" "submitted_intent call = None" for c c' call
    using that by (auto simp: advances_def good_def submitted_def submitted_append List.map_filter_simps)
  show "advances E A c c'" if "co_store c' = co_store c" "co_log c' = co_log c" for c c'
    using that by (auto simp: advances_def good_def submitted_def)
qed

section \<open>Reconciliation\<close>

text \<open>An order that was answered is projected by a transaction of the model.\<close>

lemma kept_project_observed:
  assumes "oid \<in> A"
  shows "kept (advances E A) (project_observed E oid observed)"
  unfolding kept_def
proof
  fix c :: coordinator
  define n where "n = co_calls c"
  define db where "db = su_before E n (co_store c)"
  let ?f = "reconcile_order_projection (su_dec E) (su_uuid E) oid (ob_state observed) (ob_remaining_quantity observed)
    (ob_filled_quantity observed) (ob_filled_price observed) (ob_venue_trade_ids observed) (ob_evidence observed)
    (su_fresh E n 0) (su_now E n)"
  show "advances E A c (snd (project_observed E oid observed c))"
  proof (cases "?f db")
    case (Ok db')
    have store: "co_store (snd (project_observed E oid observed c)) = db'"
      and log: "co_log (snd (project_observed E oid observed c)) = co_log c"
      using Ok by (simp_all add: project_observed_def co_do_def co_tx_def Let_def n_def db_def)
    show ?thesis
    proof (rule advances_steps [OF _ log])
      assume E: "interferes E" and g: "good A c"
      then have env: "(co_step E)\<^sup>*\<^sup>* (co_store c) db" by (simp add: db_def interferes_def)
      have "pipeline_ok db" "answered oid db" using g assms steps_keep [OF env] by (auto simp: good_def)
      from store_step.reconcile [OF Ok answered_not_pending [OF this]] env
      show "(co_step E)\<^sup>*\<^sup>* (co_store c) (co_store (snd (project_observed E oid observed c)))"
        unfolding store by (rule rtranclp.rtrancl_into_rtrancl [rotated])
    qed
  qed (auto simp: project_observed_def co_do_def co_tx_def Let_def n_def db_def
        intro!: ops.journal_step [where db = "su_before E (co_calls c) (co_store c)" and n = "co_calls c"])
qed

text \<open>The orders a reconciliation reads as open have been answered, and stay so until they are projected.\<close>

lemma kept_reading_open_orders:
  assumes "\<And>active known. kept (advances E (or_id ` set active)) (f (active, known))"
  shows "kept (advances E A) (co_bind (co_read E (\<lambda>db. Ok (reconciliation_orders db))) f)"
  unfolding kept_def
proof
  fix c :: coordinator
  let ?m = "co_read E (\<lambda>db. Ok (reconciliation_orders db))"
  define db where "db = su_before E (co_calls c) (co_store c)"
  define c1 where "c1 = tick (c\<lparr>co_store := db\<rparr>)"
  obtain active known where ak: "reconciliation_orders db = (active, known)" by fastforce
  have m: "?m c = (Ok (active, known), c1)"
    by (simp add: co_read_def co_tx_def Let_def db_def [symmetric] c1_def ak)
  have "kept (advances E A) ?m" by (rule ops.kept_read)
  then have 1: "advances E A c c1" using m by (rule keptD)
  show "advances E A c (snd (co_bind ?m f c))"
    unfolding advances_def
  proof (intro impI)
    assume E: "interferes E" and g: "good A c"
    from 1 E g have g1: "good A c1" and s1: "(co_step E)\<^sup>*\<^sup>* (co_store c) (co_store c1)" by (auto simp: advances_def)
    have "answered (or_id r) db" if "r \<in> set active" for r
    proof -
      from that ak obtain r0 where "r0 \<in> set (orders db)" "or_id r0 = or_id r"
        "or_state r0 \<in> {OrderState.Live, OrderState.PartiallyFilled, OrderState.CancelPending}"
        by (auto simp: reconciliation_orders_def Let_def OrderRecord.truncate_def)
      moreover have "pipeline_ok db" using g1 by (simp add: good_def c1_def)
      ultimately show ?thesis using answered_open_order [of db r0] by auto
    qed
    with g1 have g2: "good (or_id ` set active) c1" by (auto simp: good_def c1_def)
    have "advances E (or_id ` set active) c1 (snd (f (active, known) c1))"
      using assms by (simp add: kept_def)
    with E g2 have "good (or_id ` set active) (snd (f (active, known) c1))"
      and s2: "(co_step E)\<^sup>*\<^sup>* (co_store c1) (co_store (snd (f (active, known) c1)))" by (auto simp: advances_def)
    moreover have "\<forall>oid \<in> A. answered oid (co_store (snd (f (active, known) c1)))"
      using g1 steps_keep(2) [OF s2] by (auto simp: good_def)
    ultimately show "good A (snd (co_bind ?m f c)) \<and> (co_step E)\<^sup>*\<^sup>* (co_store c) (co_store (snd (co_bind ?m f c)))"
      using s1 by (auto simp: co_bind_def m good_def)
  qed
qed

lemma kept_process_observations: "kept (advances E A) (process_observations E rid result)"
  unfolding process_observations_def
  by (rule kept_reading_open_orders, unfold prod.case, intro ops.kept_apply_observations kept_project_observed)

section \<open>The call that submits\<close>

text \<open>
  The call goes out right after the commit that marks the intent, and that commit is refused for an
  intent that was submitted before.
\<close>

lemma kept_begin_and_call:
  assumes "\<And>answer. kept (advances E A) (k answer)" and "\<And>e. kept (advances E A) (h e)"
  shows "kept (advances E A) (begin_and_call E i oid k h)"
  unfolding kept_def
proof
  fix c :: coordinator
  let ?b = "co_do E (\<lambda>n. begin_submission i oid (su_now E n))"
  let ?m = "co_bind (co_try ?b) (\<lambda>begun. case begun of
     Ok _ \<Rightarrow> co_bind (co_call (su_submit E) (SubmitCall i oid)) k | Err e \<Rightarrow> h e | Panic \<Rightarrow> co_result Panic)"
  have b: "kept (advances E A) ?b" by (rule ops.kept_do) (rule halting_keep, erule store_step.start, erule control_keeps)
  obtain r c1 where r: "?b c = (r, c1)" by fastforce
  with b have 1: "advances E A c c1" by (rule keptD)
  show "advances E A c (snd (?m c))"
  proof (cases r)
    case Panic
    with r 1 show ?thesis by (simp add: co_bind_def co_try_def)
  next
    case (Err e)
    have "advances E A c1 (snd (h e c1))" using assms(2) by (simp add: kept_def)
    with 1 have "advances E A c (snd (h e c1))" by (rule ops.R_trans)
    with r Err show ?thesis by (simp add: co_bind_def co_try_def)
  next
    case (Ok u)
    define db where "db = su_before E (co_calls c) (co_store c)"
    from r Ok have begun: "begin_submission i oid (su_now E (co_calls c)) db = Ok (co_store c1)" and log: "co_log c1 = co_log c"
      by (auto simp: co_do_def co_tx_def Let_def db_def [symmetric] res_simps split: res.splits)
    let ?c2 = "tick (c1\<lparr>co_log := co_log c1 @ [SubmitCall i oid]\<rparr>)"
    have call: "co_call (su_submit E) (SubmitCall i oid) c1 = (Panic, ?c2)
        \<or> (\<exists>a. co_call (su_submit E) (SubmitCall i oid) c1 = (Ok a, ?c2))"
      by (auto simp: co_call_def Let_def split: option.splits res.splits)
    have 2: "advances E A c ?c2"
      unfolding advances_def
    proof (intro impI)
      assume E: "interferes E" and g: "good A c"
      have env: "(co_step E)\<^sup>*\<^sup>* (co_store c) db" using E by (simp add: interferes_def db_def)
      have ok: "pipeline_ok db" using g steps_keep(1) [OF env] by (simp add: good_def)
      have "i \<notin> set (submitted c)"
      proof
        assume "i \<in> set (submitted c)"
        with g have "submission_begun i db" using steps_keep(3) [OF env] by (auto simp: good_def)
        from begin_refused_once_begun [OF ok this] begun show False by (metis is_ok.simps(1))
      qed
      moreover have "good A c1" "(co_step E)\<^sup>*\<^sup>* (co_store c) (co_store c1)" using 1 E g by (auto simp: advances_def)
      ultimately show "good A ?c2 \<and> (co_step E)\<^sup>*\<^sup>* (co_store c) (co_store ?c2)"
        using begin_marks_begun [OF begun] log
        by (auto simp: good_def submitted_def submitted_append List.map_filter_simps)
    qed
    show ?thesis
      using call
    proof
      assume "co_call (su_submit E) (SubmitCall i oid) c1 = (Panic, ?c2)"
      with r Ok 2 show ?thesis by (simp add: co_bind_def co_try_def)
    next
      assume "\<exists>a. co_call (su_submit E) (SubmitCall i oid) c1 = (Ok a, ?c2)"
      then obtain a where a: "co_call (su_submit E) (SubmitCall i oid) c1 = (Ok a, ?c2)" ..
      have "advances E A ?c2 (snd (k a ?c2))" using assms(1) by (simp add: kept_def)
      with 2 have "advances E A c (snd (k a ?c2))" by (rule ops.R_trans)
      with r Ok a show ?thesis by (simp add: co_bind_def co_try_def)
    qed
  qed
qed

interpretation run: co_service "advances E A" E for E A
proof unfold_locales
  show "kept (advances E A) (process_observations E rid result)" for rid result by (rule kept_process_observations)
  show "kept (advances E A) (begin_and_call E i oid k h)"
    if "\<And>answer. kept (advances E A) (k answer)" "\<And>e. kept (advances E A) (h e)" for i oid k h
    using that by (rule kept_begin_and_call)
  show "advances E A c c'"
    if "co_log c' = co_log c" "db = su_before E n (co_store c)" "co_step E db (co_store c')" for c c' db n
  proof (rule advances_steps [OF _ that(1)])
    assume "interferes E"
    then have "(co_step E)\<^sup>*\<^sup>* (co_store c) db" by (simp add: that(2) interferes_def)
    with that(3) show "(co_step E)\<^sup>*\<^sup>* (co_store c) (co_store c')" by (rule rtranclp.rtrancl_into_rtrancl [rotated])
  qed
qed

lemma good_submits_once:
  assumes "good A c"
  shows "length (filter (\<lambda>call. submitted_intent call = Some i) (co_log c)) \<le> 1
    \<and> (\<forall>oid. SubmitCall i oid \<in> set (co_log c) \<longrightarrow> submission_begun i (co_store c))"
proof -
  have "length (filter (\<lambda>call. submitted_intent call = Some i) log) = count_list (List.map_filter submitted_intent log) i" for log
    by (induction log) (auto simp: List.map_filter_simps split: option.splits)
  moreover have "count_list xs i \<le> 1" if "distinct xs" for xs
    using that by (induction xs) (auto simp: count_list_0_iff)
  moreover have "i \<in> set (submitted c)" if "SubmitCall i oid \<in> set (co_log c)" for oid
    using that by (force simp: submitted_def List.map_filter_def image_iff)
  ultimately show ?thesis using assms by (auto simp: good_def submitted_def)
qed

section \<open>Properties\<close>

text \<open>
  The coordinator refines the transactions of the store.  Whatever operations its tasks run, in any
  order, with any answers of the venue and any transactions of other tasks in between, the store goes
  from a reachable state through committed transactions of the model only; so every invariant of the
  pipeline holds after it.
\<close>

theorem coordinator_refines_store:
  assumes "interferes E" "fresh_store db0" "(co_step E)\<^sup>*\<^sup>* db0 (co_store c)" "co_log c = []"
  shows "(co_step E)\<^sup>*\<^sup>* db0 (co_store (run_operations E ops c)) \<and> pipeline_ok (co_store (run_operations E ops c))"
proof -
  have "pipeline_ok (co_store c)" using assms(2,3) by (rule pipeline.reachable_inv)
  then have "good {} c" using assms(4) by (simp add: good_def submitted_def List.map_filter_simps)
  with run.run_operations_kept [of E "{}" c] assms(1)
  have "good {} (run_operations E ops c)" "(co_step E)\<^sup>*\<^sup>* (co_store c) (co_store (run_operations E ops c))"
    by (auto simp: advances_def)
  with assms(3) show ?thesis by (auto simp: good_def)
qed

text \<open>
  The venue is asked at most once to submit an intent.  Over any sequence of coordinator operations,
  restart recovery, resubmission of prepared orders and time-outs included, and with any interleaved
  transactions, the log of venue calls has at most one submission per intent, and every intent
  submitted is marked as such in the store.
\<close>

theorem venue_submission_at_most_once:
  assumes "interferes E" "fresh_store db0" "(co_step E)\<^sup>*\<^sup>* db0 (co_store c)" "co_log c = []"
  shows "length (filter (\<lambda>call. submitted_intent call = Some i) (co_log (run_operations E ops c))) \<le> 1
    \<and> (\<forall>oid. SubmitCall i oid \<in> set (co_log (run_operations E ops c))
         \<longrightarrow> submission_begun i (co_store (run_operations E ops c)))"
proof -
  have "pipeline_ok (co_store c)" using assms(2,3) by (rule pipeline.reachable_inv)
  then have "good {} c" using assms(4) by (simp add: good_def submitted_def List.map_filter_simps)
  with run.run_operations_kept [of E "{}" c] assms(1)
  have "good {} (run_operations E ops c)" by (auto simp: advances_def)
  then show ?thesis by (rule good_submits_once)
qed

end
