(* ===== verification/CoordinatorLatch.thy ===== *)
theory CoordinatorLatch
  imports CoordinatorFrame
begin

text \<open>
  The halt latch.  A halted service stays HALTED, and asks the venue for no submission, until an operator
  resumes it or it is shut down; startup does not release the latch.  What other tasks write may halt the
  service but not resume it.  A submission whose answer is ambiguous, and a reconciliation that fails,
  set the latch.
\<close>

definition undisturbed :: "surroundings \<Rightarrow> bool" where
  "undisturbed E \<longleftrightarrow> (\<forall>n db. halted db \<longrightarrow> halted (su_before E n db))"

definition submissions :: "coordinator \<Rightarrow> venue_call list" where
  "submissions c = filter (\<lambda>call. submitted_intent call \<noteq> None) (co_log c)"

definition latched :: "surroundings \<Rightarrow> coordinator \<Rightarrow> coordinator \<Rightarrow> bool" where
  "latched E c c' \<longleftrightarrow> (undisturbed E \<longrightarrow> halted (co_store c) \<longrightarrow> halted (co_store c') \<and> submissions c' = submissions c)"

interpretation latch_ops: co_ops "latched E" E for E
proof unfold_locales
  show "latched E c c'"
    if "co_log c' = co_log c" "db = su_before E n (co_store c)" "co_store c' = db \<or> halting_step E db (co_store c')" for c c' db n
    using that by (auto simp: latched_def undisturbed_def submissions_def halting_step_def)
qed (auto simp: latched_def submissions_def)

lemma latched_project_observed: "kept (latched E) (project_observed E oid observed)"
  unfolding kept_def project_observed_def
proof
  fix c :: coordinator
  show "latched E c (snd (co_do E (\<lambda>n. reconcile_order_projection (su_dec E) (su_uuid E) oid
     (ob_state observed) (ob_remaining_quantity observed) (ob_filled_quantity observed) (ob_filled_price observed)
     (ob_venue_trade_ids observed) (ob_evidence observed) (su_fresh E n 0) (su_now E n)) c))"
    by (auto simp: latched_def undisturbed_def submissions_def halted_def co_do_def co_tx_def Let_def res_simps
        split: res.splits elim!: rbind_OkE dest!: control_reconcile [unfolded same_control_def])
qed

lemma begin_needs_ready: "begin_submission i oid now db = Ok db' \<Longrightarrow> \<not> halted db"
  by (erule begin_submissionE) (simp add: halted_def)

lemma latched_begin:
  assumes "\<And>e. kept (latched E) (h e)"
  shows "kept (latched E) (begin_and_call E i oid k h)"
  unfolding kept_def
proof
  fix c :: coordinator
  let ?n = "co_calls c" and ?db = "su_before E (co_calls c) (co_store c)"
  let ?b = "co_do E (\<lambda>n. begin_submission i oid (su_now E n))"
  have b: "kept (latched E) ?b"
    by (rule latch_ops.kept_do) (rule halting_keep, erule store_step.start, erule control_keeps)
  show "latched E c (snd (begin_and_call E i oid k h c))"
  proof (cases "begin_submission i oid (su_now E ?n) ?db")
    case (Ok db')
    then have "undisturbed E \<Longrightarrow> \<not> halted (co_store c)" by (auto simp: undisturbed_def dest: begin_needs_ready)
    then show ?thesis by (auto simp: latched_def)
  next
    case (Err e)
    obtain c1 where c1: "?b c = (Err (StoreFailed e), c1)" using Err by (simp add: co_do_def co_tx_def Let_def)
    have "latched E c c1" using b c1 by (rule keptD)
    moreover have "latched E c1 (snd (h (StoreFailed e) c1))" using assms by (simp add: kept_def)
    ultimately have "latched E c (snd (h (StoreFailed e) c1))" by (rule latch_ops.R_trans)
    then show ?thesis by (simp add: co_bind_def co_try_def c1)
  next
    case Panic
    obtain c1 where c1: "?b c = (Panic, c1)" using Panic by (simp add: co_do_def co_tx_def Let_def)
    with b have "latched E c c1" by (rule keptD)
    then show ?thesis by (simp add: co_bind_def co_try_def c1)
  qed
qed

interpretation latch: co_tasks "latched E" E for E
proof unfold_locales
  show "kept (latched E) (process_observations E rid result)" for rid result
    unfolding process_observations_def
    by (rule latch_ops.kept_bind [OF latch_ops.kept_read])
       (auto split: prod.split intro!: latch_ops.kept_apply_observations latched_project_observed)
qed (rule latched_begin)

section \<open>Startup\<close>

text \<open>A halted service reads HALTED, so only that branch of what follows matters.\<close>

lemma latched_current_state:
  assumes "kept (latched E) (f Halted)"
  shows "kept (latched E) (co_bind (current_state E) f)"
  unfolding kept_def
proof
  fix c :: coordinator
  let ?db = "su_before E (co_calls c) (co_store c)"
  show "latched E c (snd (co_bind (current_state E) f c))"
  proof (cases "undisturbed E \<and> halted (co_store c)")
    case True
    then have db: "halted ?db" by (simp add: undisturbed_def)
    then obtain c1 where c1: "current_state E c = (Ok Halted, c1)"
      by (auto simp: halted_def current_state_def co_read_def co_tx_def Let_def service_state_def
          service_state_with_revision_def parse_service_state_def)
    have "latched E c c1" using latch_ops.kept_reads(1) c1 by (rule keptD)
    moreover have "latched E c1 (snd (f Halted c1))" using assms by (simp add: kept_def)
    ultimately have "latched E c (snd (f Halted c1))" by (rule latch_ops.R_trans)
    then show ?thesis by (simp add: co_bind_def c1)
  qed (auto simp: latched_def)
qed

lemma co_bind_assoc: "co_bind (co_bind m f) g = co_bind m (\<lambda>x. co_bind (f x) g)"
  by (rule ext) (auto simp: co_bind_def split: prod.splits res.splits)

lemma co_bind_result: "co_bind (co_return x) f = f x"
  by (rule ext) (simp add: co_bind_def co_result_def)

lemma latched_startup: "kept (latched E) (startup E)"
proof -
  have cancellations: "kept (latched E) (startup_cancellations E prior)" for prior
    unfolding startup_cancellations_def
    by (intro latch_ops.kept_bind latch_ops.kept_read latch.kept_pending_loop latch_ops.kept_when latch.kept_cancel_inner latch_ops.kept_result)
  have heartbeat: "kept (latched E) (startup_heartbeat E)"
    unfolding startup_heartbeat_def
    by (intro latch_ops.kept_when latch_ops.kept_bind latch_ops.kept_try latch_ops.kept_supervised_heartbeat latch.kept_halt)
  have rest: "kept (latched E) (co_bind (startup_recovery E) (\<lambda>recoverable.
     co_then (startup_cancellations E Halted)
     (co_then (reconcile E ''startup'')
     (co_then (startup_heartbeat E)
     (co_bind (current_state E) (\<lambda>state.
     if state = Halted then co_set_deferred recoverable
     else co_then (set_state E ''system'' Ready ''startup checks passed'') (enqueue_all E recoverable)))))))"
    by (intro latch_ops.kept_bind latch.kept_startup_recovery cancellations latch.kept_reconcile heartbeat latched_current_state)
       (simp add: latch_ops.kept_fields)
  show ?thesis
    unfolding startup_def startup_state_def co_bind_assoc
    by (rule latched_current_state) (simp add: co_bind_result co_when_def rest)
qed

lemma latched_operation:
  assumes "\<not> may_resume op"
  shows "kept (latched E) (run_operation E op)"
proof (cases "op = Startup")
  case True
  then show ?thesis by (simp add: run_operation_def latched_startup)
qed (simp add: latch.kept_task assms)

section \<open>Properties\<close>

text \<open>
  A halt is a latch.  Once the service is HALTED, no sequence of operations other than a resume or a
  shutdown takes it out of HALTED, restarts and failed venue calls included, and as long as it is halted
  the venue is not asked to submit anything.
\<close>

theorem halt_is_latched:
  assumes "undisturbed E" "halted (co_store c)" "list_all (\<lambda>op. \<not> may_resume op) ops"
  shows "halted (co_store (run_operations E ops c)) \<and> submissions (run_operations E ops c) = submissions c"
  using assms(2,3)
proof (induction ops arbitrary: c)
  case (Cons op ops)
  then have "latched E c (snd (run_operation E op c))" using latched_operation by (simp add: kept_def)
  with Cons assms(1) show ?case by (auto simp: latched_def)
qed simp


section \<open>What sets the latch\<close>

lemma co_bind_OkE:
  assumes "co_bind m f c = (Ok y, c')"
  obtains x c1 where "m c = (Ok x, c1)" "f x c1 = (Ok y, c')"
  using assms by (cases "m c"; cases "fst (m c)") (auto simp: co_bind_def)

lemma co_do_Ok: "co_do E f c = (Ok (), c') \<Longrightarrow> f (co_calls c) (su_before E (co_calls c) (co_store c)) = Ok (co_store c')"
  by (auto simp: co_do_def co_tx_def Let_def res_simps split: res.splits)

lemma set_state_halts: "set_state E actor Halted reason c = (Ok (), c') \<Longrightarrow> halted (co_store c')"
  unfolding set_state_def set_service_state_def
  by (drule co_do_Ok) (auto simp: halted_def service_state_text_def dest: set_service_state_innerD(2))

lemma latched_keeps:
  assumes "kept (latched E) m" "undisturbed E" "halted (co_store c)"
  shows "halted (co_store (snd (m c)))"
  using assms by (auto simp: kept_def latched_def)

lemma latched_cancel_on_halt: "kept (latched E) (cancel_on_halt_inner E reason)"
  unfolding cancel_on_halt_inner_def by (intro latch_ops.kept_when latch.kept_protective)

lemma halt_halts:
  assumes "undisturbed E" "halt E actor reason c = (Ok (), c')"
  shows "halted (co_store c')"
proof -
  from assms(2) obtain c1 c2 where "set_state E actor Halted reason c1 = (Ok (), c2)"
    "cancel_on_halt_inner E reason c2 = (Ok (), c')"
    unfolding halt_def by (elim co_bind_OkE) auto
  then have "halted (co_store c2)" "co_store c' = co_store (snd (cancel_on_halt_inner E reason c2))"
    by (auto dest: set_state_halts)
  with latched_keeps [OF latched_cancel_on_halt assms(1)] show ?thesis by simp
qed


text \<open>
  C20. A halt takes effect whatever the venue does.  When the reason is not blank, the revision is not
  exhausted and the id of the audit row is new, a halt leaves the service HALTED: errors, deadlines and
  even a panic of the protective cancellation do not undo it.
\<close>

theorem halt_takes_effect:
  assumes "undisturbed E" "\<not> is_blank reason"
    and "cs_revision (control_state (su_before E (co_calls c) (co_store c))) < i64_max"
    and "su_fresh E (co_calls c) 0 \<notin> oa_id ` set (operator_actions (su_before E (co_calls c) (co_store c)))"
  shows "halted (co_store (snd (halt E actor reason c)))"
proof -
  have "\<exists>db'. set_service_state (su_hash E) actor Halted reason (su_fresh E (co_calls c) 0) (su_fresh E (co_calls c) 1)
      (su_now E (co_calls c)) (su_before E (co_calls c) (co_store c)) = Ok db'"
    using assms(3,4)
    by (auto simp: set_service_state_def set_service_state_inner_def Let_def append_event_eq sql_insert_def list_ex_iff same_key_def)
  then obtain c1 where c1: "set_state E actor Halted reason c = (Ok (), c1)"
    by (auto simp: set_state_def co_do_def co_tx_def Let_def)
  from latched_keeps [OF latched_cancel_on_halt assms(1) set_state_halts [OF c1]]
  show ?thesis using assms(2) by (simp add: halt_def co_bind_def require_reason_def co_result_def c1)
qed

lemma co_bind_cases:
  assumes "co_bind m f c = (r, c')" "r \<noteq> Panic"
  obtains (ok) x c1 where "m c = (Ok x, c1)" "f x c1 = (r, c')" | (err) e where "m c = (Err e, c')" "r = Err e"
  using assms by (cases "m c"; cases "fst (m c)") (auto simp: co_bind_def)

lemma co_try_not_Err: "co_try m c \<noteq> (Err e, c')"
  by (auto simp: co_try_def split: prod.splits res.splits)

lemma co_ignore_not_Err: "co_ignore m c \<noteq> (Err e, c')"
  by (auto simp: co_ignore_def co_bind_def co_try_def co_result_def split: prod.splits res.splits)

text \<open>The end of a failed reconciliation: halt the service unless it is halted already.\<close>

definition ensure_halted :: "surroundings \<Rightarrow> unit co" where
  "ensure_halted E = co_bind (co_try (current_state E)) (\<lambda>state. case state of
     Ok s \<Rightarrow> if s = Halted then co_return ()
             else co_bind (co_try (set_state E ''system'' Halted ''reconciliation processing failed'')) (\<lambda>r.
                    co_when (is_ok r) (spawn_protective_cancellation E ''reconciliation processing failed''))
   | _ \<Rightarrow> co_return ())"

lemma ensure_halted_end:
  assumes "ensure_halted E c = (r, c')" "r \<noteq> Panic"
  shows "halted (co_store c') \<or> \<not> is_ok (service_state (co_store c'))
    \<or> \<not> is_ok (set_service_state (su_hash E) ''system'' Halted ''reconciliation processing failed''
          (su_fresh E (co_calls c' - 1) 0) (su_fresh E (co_calls c' - 1) 1) (su_now E (co_calls c' - 1)) (co_store c'))"
proof -
  define db where "db = su_before E (co_calls c) (co_store c)"
  define c1 where "c1 = tick (c\<lparr>co_store := db\<rparr>)"
  have read: "current_state E c = (case service_state db of Ok (s, _, _) \<Rightarrow> (Ok s, c1)
      | Err e \<Rightarrow> (Err (StoreFailed e), c1) | Panic \<Rightarrow> (Panic, c1))"
    by (auto simp: current_state_def co_read_def co_tx_def Let_def db_def c1_def split: res.splits)
  have parsed: "halted db" if "service_state db = Ok (Halted, x)" for x
    using that by (auto simp: service_state_def service_state_with_revision_def halted_def parse_service_state_def Let_def
        res_simps split: if_split_asm prod.splits)
  let ?nxt = "set_service_state (su_hash E) ''system'' Halted ''reconciliation processing failed''
      (su_fresh E (co_calls c1) 0) (su_fresh E (co_calls c1) 1) (su_now E (co_calls c1)) (su_before E (co_calls c1) (co_store c1))"
  show ?thesis
  proof (cases "service_state db")
    case (Err e)
    then have "c' = c1" using assms(1) by (simp add: ensure_halted_def co_bind_def co_try_def read co_result_def)
    then show ?thesis using Err by (simp add: c1_def)
  next
    case Panic
    then show ?thesis using assms by (simp add: ensure_halted_def co_bind_def co_try_def read)
  next
    case (Ok x)
    obtain s y where x: "x = (s, y)" by (cases x)
    show ?thesis
    proof (cases "s = Halted")
      case True
      then have "c' = c1" using assms(1) Ok x
        by (simp add: ensure_halted_def co_bind_def co_try_def read co_result_def split: prod.splits)
      then show ?thesis using parsed Ok x True by (simp add: c1_def)
    next
      case False
      then have rest: "co_bind (co_try (set_state E ''system'' Halted ''reconciliation processing failed'')) (\<lambda>r.
           co_when (is_ok r) (spawn_protective_cancellation E ''reconciliation processing failed'')) c1 = (r, c')"
        using assms(1) Ok x by (simp add: ensure_halted_def co_bind_def co_try_def read split: prod.splits)
      have spawn: "co_store (snd (spawn_protective_cancellation E m c)) = co_store c" for m c
        by (simp add: spawn_protective_cancellation_def co_when_def co_spawn_def co_result_def)
      show ?thesis
      proof (cases ?nxt)
        case (Ok db')
        then have "co_store c' = db'"
          using rest spawn by (auto simp: set_state_def co_do_def co_tx_def co_bind_def co_try_def co_when_def Let_def
              dest!: arg_cong [where f = snd])
        moreover have "halted db'"
          using Ok by (auto simp: set_service_state_def halted_def service_state_text_def dest: set_service_state_innerD(2))
        ultimately show ?thesis by simp
      next
        case (Err e)
        then have "c' = tick (c1\<lparr>co_store := su_before E (co_calls c1) (co_store c1)\<rparr>)"
          using rest by (simp add: set_state_def co_do_def co_tx_def co_bind_def co_try_def co_when_def co_result_def Let_def)
        then show ?thesis using Err by (simp add: tick_def)
      next
        case Panic
        then show ?thesis using rest assms(2)
          by (simp add: set_state_def co_do_def co_tx_def co_bind_def co_try_def Let_def)
      qed
    qed
  qed
qed

lemma close_failed_ends:
  assumes "close_failed_reconciliation E rid e c = (r, c')" "r \<noteq> Panic"
  obtains c1 where "ensure_halted E c1 = (r, c')"
  using assms unfolding close_failed_reconciliation_def ensure_halted_def [symmetric]
  by (elim co_bind_cases)
     (auto simp: co_when_def co_result_def co_try_not_Err co_ignore_not_Err split: if_split_asm)

text \<open>
  C19. A reconciliation that fails halts the service.  When a started reconciliation returns an error, from
  the venue, from the store or while its observations are applied, the service is HALTED afterwards,
  unless the control row is unreadable or the store refuses to write the halt.
\<close>

theorem failed_reconciliation_halts:
  assumes "reconcile_started E rid c = (Err e, c')"
  shows "halted (co_store c') \<or> \<not> is_ok (service_state (co_store c'))
    \<or> \<not> is_ok (set_service_state (su_hash E) ''system'' Halted ''reconciliation processing failed''
          (su_fresh E (co_calls c' - 1) 0) (su_fresh E (co_calls c' - 1) 1) (su_now E (co_calls c' - 1)) (co_store c'))"
proof -
  obtain r c1 where inner: "reconcile_started_inner E rid c = (r, c1)" by fastforce
  from assms obtain e0 r' where "r = Err e0" and close: "close_failed_reconciliation E rid e0 c1 = (r', c')" "r' \<noteq> Panic"
    unfolding reconcile_started_def
    by (cases r; cases "close_failed_reconciliation E rid e c1"; cases "fst (close_failed_reconciliation E rid e c1)")
       (auto simp: co_bind_def co_try_def inner co_result_def split: prod.splits res.splits)
  from close obtain c2 where "ensure_halted E c2 = (r', c')" by (rule close_failed_ends)
  then show ?thesis using close(2) by (rule ensure_halted_end)
qed

end
