(* ===== verification/ApiSafety.thy ===== *)
theory ApiSafety
  imports ApiFrame CoordinatorSafety CoordinatorLatch
begin

text \<open>
  The properties of the coordinator for the whole service: its store is written by HTTP requests, by the
  tasks they spawn and by the background tasks of the coordinator, in any order.
\<close>

interpretation web: http_service "advances E A" E for E A
  by unfold_locales

interpretation web_latch: http_tasks "latched E" E for E
  by unfold_locales

text \<open>
  C4. The service refines the transactions of the store.  Whatever HTTP requests it answers, whatever tasks
  they spawn and whatever turns its background tasks take, in any order, with any answers of the venue,
  the store goes from a reachable state through committed transactions of the model only; so the
  invariant of the pipeline holds after it.
\<close>

theorem service_refines_store:
  assumes "interferes E" "fresh_store db0" "(co_step E)\<^sup>*\<^sup>* db0 (co_store (ap_coordinator a))" "co_log (ap_coordinator a) = []"
  shows "(co_step E)\<^sup>*\<^sup>* db0 (co_store (ap_coordinator (run_service W E files registry evs a)))
     \<and> pipeline_ok (co_store (ap_coordinator (run_service W E files registry evs a)))"
proof -
  have "pipeline_ok (co_store (ap_coordinator a))" using assms(2,3) by (rule pipeline.reachable_inv)
  then have "good {} (ap_coordinator a)" using assms(4) by (simp add: good_def submitted_def List.map_filter_simps)
  with web.kept_run_service [of E "{}" a W files registry evs] assms(1,3) show ?thesis
    by (auto simp: advances_def good_def)
qed

text \<open>
  C2. The venue is asked at most once to submit an intent.  Over any sequence of HTTP requests, spawned
  tasks and background turns, restart recovery and resubmission of prepared orders included, the log of
  venue calls has at most one submission per intent, and every intent submitted is marked as such in
  the store.
\<close>

theorem service_submits_at_most_once:
  assumes "interferes E" "fresh_store db0" "(co_step E)\<^sup>*\<^sup>* db0 (co_store (ap_coordinator a))" "co_log (ap_coordinator a) = []"
  shows "length (filter (\<lambda>call. submitted_intent call = Some i)
           (co_log (ap_coordinator (run_service W E files registry evs a)))) \<le> 1
    \<and> (\<forall>oid. SubmitCall i oid \<in> set (co_log (ap_coordinator (run_service W E files registry evs a)))
         \<longrightarrow> submission_begun i (co_store (ap_coordinator (run_service W E files registry evs a))))"
proof -
  have "pipeline_ok (co_store (ap_coordinator a))" using assms(2,3) by (rule pipeline.reachable_inv)
  then have "good {} (ap_coordinator a)" using assms(4) by (simp add: good_def submitted_def List.map_filter_simps)
  with web.kept_run_service [of E "{}" a W files registry evs] assms(1)
  have "good {} (ap_coordinator (run_service W E files registry evs a))" by (auto simp: advances_def)
  then show ?thesis by (rule good_submits_once)
qed

text \<open>
  C3. A halt is a latch for the whole service.  Once it is HALTED, no HTTP request other than a
  routed \<open>POST /v1/control/resume\<close>, no spawned task and no background turn other than a resume or a
  shutdown takes it out of HALTED, restarts included, and meanwhile the venue is asked to submit nothing.
\<close>

theorem halt_latches_service:
  assumes "undisturbed E" "halted (co_store (ap_coordinator a))" "list_all (\<lambda>ev. \<not> may_release W ev) evs"
  shows "halted (co_store (ap_coordinator (run_service W E files registry evs a)))
     \<and> submissions (ap_coordinator (run_service W E files registry evs a)) = submissions (ap_coordinator a)"
  using assms(2,3)
proof (induction evs arbitrary: a)
  case (Cons ev evs)
  have "latched E (ap_coordinator a) (ap_coordinator (service_step W E files registry ev a))"
  proof (cases ev)
    case (Request correlation rq)
    with Cons.prems(2) have "hl_route W rq \<noteq> Some PostResume" by (simp add: may_release_def)
    from web_latch.akept_serve [OF this] show ?thesis by (simp add: service_step_def Request)
  next
    case (Turn op)
    with Cons.prems(2) have "kept (latched E) (run_operation E op)" by (simp add: may_release_def latched_operation)
    then show ?thesis by (simp add: service_step_def Turn kept_def)
  next
    case (RunTask i)
    then show ?thesis by (simp add: service_step_def web_latch.kept_run_task latch_ops.R_refl)
  qed
  with Cons assms(1) show ?case by (auto simp: latched_def)
qed simp

end
