(* ===== verification/ApiAccess.thy ===== *)
theory ApiAccess
  imports ApiFrame
begin

text \<open>
  Access control of the HTTP interface: what a request can do depends on the scopes of the credential
  whose token it carries.  That the router resolves a request to a route of its method and path is the
  documented behaviour of \<open>axum\<close>; its \<open>get\<close> routes answer HEAD as well.
\<close>

definition literal_path :: "string \<Rightarrow> bool" where
  "literal_path p \<longleftrightarrow> CHR ''{'' \<notin> set p"

definition follows_routes :: "http_library \<Rightarrow> bool" where
  "follows_routes W \<longleftrightarrow> (\<forall>rq ep. hl_route W rq = Some ep \<longrightarrow>
     (case endpoint_route ep of (method, path) \<Rightarrow>
        (hq_method rq = method \<or> (method = GET \<and> hq_method rq = OtherMethod ''HEAD''))
        \<and> (literal_path path \<longrightarrow> hq_path rq = path)))"

text \<open>The scope a mutation needs.\<close>

fun mutation_scope :: "endpoint \<Rightarrow> string option" where
  "mutation_scope PostIntent = Some ''submit''"
| "mutation_scope PostCancellation = Some ''cancel''"
| "mutation_scope PostHalt = Some ''operate''"
| "mutation_scope PostResume = Some ''operate''"
| "mutation_scope PostReconciliation = Some ''operate''"
| "mutation_scope PostBackup = Some ''operate''"
| "mutation_scope _ = None"

definition silent_store :: "surroundings \<Rightarrow> bool" where
  "silent_store E \<longleftrightarrow> (\<forall>n db. su_before E n db = db)"

definition same_store :: "coordinator \<Rightarrow> coordinator \<Rightarrow> bool" where
  "same_store c c' \<longleftrightarrow> co_store c' = co_store c"

interpretation reading: co_frame same_store
  by unfold_locales (simp_all add: same_store_def)

lemma reading_read: "silent_store E \<Longrightarrow> kept same_store (co_read E f)"
  by (auto simp: kept_def same_store_def silent_store_def co_read_def co_tx_def Let_def res_simps tick_def
      split: res.splits elim!: rbind_OkE)

lemma reads_keep_store:
  assumes "silent_store E" "mutation_scope ep = None"
  shows "akept same_store (handle W E ep actor rq)"
proof -
  note read = reading_read [OF assms(1)]
  have get: "akept same_store (get_resource E f query)" for f :: "'a \<Rightarrow> json" and query
    unfolding get_resource_def by (intro reading.akept_intros read)
  have pages: "akept same_store (list_resources W E requested cursor cursor_for f query)"
    for requested cursor cursor_for query and f :: "'b \<Rightarrow> json"
    unfolding list_resources_def by (intro reading.akept_intros read)
  have events: "akept same_store (get_events W E header)" for header
    unfolding get_events_def by (intro reading.akept_intros read) (auto intro!: reading.akept_intros read)
  have state: "akept same_store (control_state_response E)"
    unfolding control_state_response_def service_mode_def
    by (auto intro!: reading.akept_intros read reading.kept_get)
  have ready: "akept same_store (get_readiness E)"
    unfolding get_readiness_def by (intro reading.akept_intros reading.kept_try read)
  show ?thesis
    using assms(2)
    by (cases ep)
       (simp_all add: handle_def get_liveness_def list_intents_response_def list_orders_response_def
          list_trades_response_def get pages events state ready reading.akept_result reading.akept_openapi)
qed

lemma required_scope_of_mutation:
  assumes "follows_routes W" "hl_route W rq = Some ep" "mutation_scope ep = Some scope"
  shows "required_scope (hq_method rq) (hq_path rq) = scope"
proof -
  have r: "case endpoint_route ep of (method, path) \<Rightarrow>
      (hq_method rq = method \<or> (method = GET \<and> hq_method rq = OtherMethod ''HEAD''))
      \<and> (literal_path path \<longrightarrow> hq_path rq = path)"
    using assms(1,2) by (auto simp: follows_routes_def)
  from assms(3) r show ?thesis
    by (cases ep) (simp_all add: literal_path_def required_scope_def)
qed

text \<open>
  C6. Nothing is written without the scope for it.  Under a validated configuration, a request after
  which the store differs carried the token of a configured credential, was routed to one of the six
  mutations, and that credential has the scope of that mutation: \<open>submit\<close>, \<open>cancel\<close> or \<open>operate\<close>.
\<close>

theorem writes_need_their_scope:
  assumes "validate_config unhex live_feature env c = Ok ()" "new_registry unhex hex_error (cf_auth c) = Ok registry"
    and "follows_routes W" "silent_store E"
    and "serve W E registry correlation rq a = (r, a')" "co_store (ap_coordinator a') \<noteq> co_store (ap_coordinator a)"
  shows "\<exists>ep scope value token. hl_route W rq = Some ep \<and> mutation_scope ep = Some scope
     \<and> hq_authorization rq = Some value \<and> hl_header_text W value = Some (''Bearer '' @ token)
     \<and> (\<exists>cr \<in> set (cf_auth c). unhex (cd_token_sha256 cr) = Some (hl_sha W token) \<and> scope \<in> set (cd_scopes cr))"
proof -
  from assms(5,6) obtain ep where ep: "hl_route W rq = Some ep" by (auto simp: serve_def split: option.splits)
  have moved: "co_store (ap_coordinator (snd (handle W E ep actor rq a))) = co_store (ap_coordinator a)"
    if "mutation_scope ep = None" for actor
    using reads_keep_store [OF assms(4) that, of W actor rq] by (simp add: akept_def same_store_def)
  have "mutation_scope ep \<noteq> None"
  proof
    assume "mutation_scope ep = None"
    from moved [OF this] assms(5,6) show False
      by (auto simp: serve_def ep split: if_split_asm res.splits prod.splits) (metis snd_conv)+
  qed
  then obtain scope where scope: "mutation_scope ep = Some scope" by blast
  then have "\<not> is_public ep" by (auto simp: is_public_def)
  with assms(5,6) ep obtain actor where
    "require_auth (hl_sha W) (hl_header_text W) registry correlation (hq_method rq) (hq_path rq) (hq_authorization rq) = Ok actor"
    by (auto simp: serve_def split: res.splits)
  then obtain header token where auth: "hq_authorization rq = Some header" "hl_header_text W header = Some (''Bearer '' @ token)"
    "authenticate (hl_sha W) registry token = Some actor" "required_scope (hq_method rq) (hq_path rq) \<in> ac_scopes actor"
    by (auto simp: require_auth_Ok)
  from valid_registry [OF assms(1,2)] auth(3) obtain cr where cr: "cr \<in> set (cf_auth c)"
    "unhex (cd_token_sha256 cr) = Some (hl_sha W token)" "credential_actor cr = actor" by blast
  have "scope \<in> set (cd_scopes cr)"
    using auth(4) required_scope_of_mutation [OF assms(3) ep scope] cr(3) by (auto simp: credential_actor_def)
  with ep scope auth(1,2) cr(1,2) show ?thesis by blast
qed

end
