(* ===== verification/EntrySafety.thy ===== *)
theory EntrySafety
  imports Client ApiSafety ApiAccess
begin

text \<open>
  The process as a whole: what its start guarantees, how often it submits over its restarts, and that
  the command line client and the service agree on tokens and requests.
\<close>

section \<open>Restarts\<close>

lemma reopened_keeps: "same_pipeline db (reopened config db)"
  by (simp add: reopened_def same_pipeline_def)

lemma open_store_keeps: "open_store cfg now db = Ok db' \<Longrightarrow> same_pipeline db db'"
  by (auto simp: open_store_def split: if_split_asm dest: bind_identity_keeps)

lemma open_venue_keeps: "open_venue F config db = (r, db') \<Longrightarrow> same_pipeline db db'"
  by (auto simp: open_venue_def Let_def split: Mode.splits res.splits dest: initialize_paper_account_keeps)

lemma boot_keeps:
  assumes "boot F db = (r, db')"
  shows "same_pipeline db db'"
  using assms same_pipeline_trans [OF same_pipeline_trans [OF reopened_keeps open_store_keeps] open_venue_keeps]
  by (auto simp: boot_def res_simps split: res.splits prod.splits)

text \<open>What a process keeps: the submissions so far are distinct and each is marked in the store.\<close>

definition good_run :: "venue_call list \<times> Store \<Rightarrow> bool" where
  "good_run s \<longleftrightarrow> good {} (new_coordinator (fst s) (snd s))"

lemma good_of_run: "good {} c \<longleftrightarrow> good_run (co_log c, co_store c)"
  by (simp add: good_run_def good_def new_coordinator_def submitted_def)

lemma good_run_same:
  assumes "good_run (calls, db)" "same_pipeline db db'"
  shows "good_run (calls, db')"
  using assms pipeline_ok_same [OF _ assms(2)]
  by (auto simp: good_run_def good_def new_coordinator_def submitted_def submission_begun_def same_pipeline_def)

lemma interferes_process: "interferes (process_surroundings config policy E) \<longleftrightarrow> interferes E"
  by (simp add: interferes_def process_surroundings_def)

lemma good_process:
  assumes "good_run s" "interferes (lf_surroundings F)"
  shows "good_run (run_process F s)"
proof -
  obtain calls db where s: "s = (calls, db)" by fastforce
  obtain r db1 where b: "boot F db = (r, db1)" by fastforce
  have g: "good_run (calls, db1)" using assms(1) boot_keeps [OF b] by (simp add: s good_run_same)
  show ?thesis
  proof (cases r)
    case (Ok parts)
    obtain config policy auth where c: "parts = (config, policy, auth)" by (cases parts)
    define E where "E = process_surroundings config policy (lf_surroundings F)"
    have i: "interferes E" using assms(2) by (simp add: E_def interferes_process)
    have adv: "good {} c \<Longrightarrow> advances E {} c c' \<Longrightarrow> good {} c'" for c c' using i by (simp add: advances_def)
    obtain x c0 where st: "startup E (new_coordinator calls db1) = (x, c0)" by fastforce
    have g0: "good {} c0"
      using adv [of "new_coordinator calls db1" c0] run.kept_startup [of E "{}"] g st
      by (simp add: good_run_def kept_def) (metis snd_conv)
    define a where "a = run_service (lf_web F) E (lf_files F) auth (lf_events F) (new_service (lf_now F) c0)"
    have ga: "good {} (ap_coordinator a)"
      using adv [OF g0] web.kept_run_service [of E "{}" "new_service (lf_now F) c0"] by (simp add: a_def new_service_def)
    have "good {} (snd (shutdown E b (ap_coordinator a)))" for b
      using adv [OF ga] run.kept_shutdown [of E "{}" b] by (simp add: kept_def)
    with g0 ga show ?thesis
      by (cases x) (simp_all add: run_process_def s b Ok c E_def [symmetric] st a_def [symmetric] Let_def good_of_run)
  qed (use g in \<open>simp_all add: run_process_def s b\<close>)
qed

text \<open>
  C1. The venue is asked at most once to submit an intent, over all the runs of the service on one
  database.  Whatever each run was started with, whether it started at all, whatever requests,
  tasks and turns it saw before it ended, by a signal or between two of them, and whatever the venue
  answered, the calls of all runs together contain at most one submission of an intent.
\<close>

theorem processes_submit_at_most_once:
  assumes "fresh_store db0" "\<forall>F \<in> set lives. interferes (lf_surroundings F)"
  shows "length (filter (\<lambda>call. submitted_intent call = Some i) (fst (run_processes lives ([], db0)))) \<le> 1
    \<and> (\<forall>oid. SubmitCall i oid \<in> set (fst (run_processes lives ([], db0)))
         \<longrightarrow> submission_begun i (snd (run_processes lives ([], db0))))"
proof -
  have "good_run ([], db0)"
    using pipeline.reachable_inv [OF assms(1) rtranclp.rtrancl_refl]
    by (simp add: good_run_def good_def new_coordinator_def submitted_def List.map_filter_simps)
  then have "good_run (fold run_process lives s)" if "good_run s" for s
    using assms(2) that by (induction lives arbitrary: s) (simp_all add: good_process)
  from this [OF \<open>good_run ([], db0)\<close>] have "good {} (new_coordinator (fst (run_processes lives ([], db0))) (snd (run_processes lives ([], db0))))"
    by (simp add: run_processes_def good_run_def)
  from good_submits_once [OF this] show ?thesis by (simp add: new_coordinator_def)
qed

section \<open>The start of a live service\<close>

lemma boot_Ok:
  assumes "boot F db = (Ok (config, policy, auth), db')"
  shows "read_setup (lf_host F) (su_dec (lf_surroundings F)) (lf_args F) = Ok (config, policy, auth)"
    and "\<exists>db1. open_store (identity_of (cf_polymarket config)) (lf_now F) (reopened config db) = Ok db1
       \<and> open_venue F config db1 = (Ok (), db')"
  using assms by (auto simp: boot_def res_simps split: res.splits prod.splits)

lemma read_setup_Ok:
  assumes "read_setup P D args = Ok (config, policy, auth)"
  shows "validate_config (ho_unhex P) (ho_live_feature P) (ho_env P) config = Ok ()"
    and "validate_policy D policy = Ok ()" "validate_mode_policy config policy = Ok ()"
    and "new_registry (ho_unhex P) (ho_hex_error P) (cf_auth config) = Ok auth"
  using assms
  by (auto simp: read_setup_def load_policy_def mode_of_text_def mode_from_str_def res_simps Let_def
      dest!: load_config_Ok split: option.splits if_split_asm)

lemma open_store_identity:
  assumes "open_store cfg now db = Ok db'"
  shows "\<exists>row. instance_metadata db' = Some row \<and> im_mode row = mode_text (st_mode db)
     \<and> im_chain_id row = int (vi_chain_id cfg) \<and> im_protocol_version row = int (vi_expected_protocol cfg)
     \<and> (st_mode db = Mode.Live \<longrightarrow> im_signer_address row = vi_signer_address cfg \<and> im_funder_address row = vi_funder_address cfg)"
  using assms by (auto simp: open_store_def bind_identity_def split: option.splits if_split_asm)

text \<open>
  C5. A live service starts only behind every guard.  When a service in live mode has opened its store and
  its venue, the binary was built for it, the operator opted in through the environment, the
  configuration is sound, the risk policy is valid, names explicit conditions and tokens, and is no
  placeholder; the database is bound to live mode, to the chain, the protocol and both addresses
  of the configuration, its order tables are those it was found with, the signing key has the
  configured address, and the venue speaks protocol 2 and bars neither the location nor the account.
\<close>

theorem live_start_is_guarded:
  assumes "boot F db = (Ok (config, policy, auth), db')" "cf_mode config = Mode.Live"
  shows "ho_live_feature (lf_host F) \<and> ho_env (lf_host F) ''ODDSFOX_ENABLE_LIVE_TRADING'' = Some ''YES''
     \<and> sound_auth (ho_unhex (lf_host F)) (cf_auth config) \<and> sound_bounds config \<and> sound_live config
     \<and> validate_policy (su_dec (lf_surroundings F)) policy = Ok ()
     \<and> rp_allowed_condition_ids policy \<noteq> {} \<and> ''*'' \<notin> rp_allowed_condition_ids policy \<union> rp_allowed_token_ids policy
     \<and> rp_allowed_token_ids policy \<noteq> {} \<and> \<not> str_contains ''placeholder'' (ascii_lowercase (rp_version policy))
     \<and> (\<exists>row. instance_metadata db' = Some row \<and> im_mode row = ''live'' \<and> im_chain_id row = 137 \<and> im_protocol_version row = 2
          \<and> im_signer_address row = pm_signer_address (cf_polymarket config)
          \<and> im_funder_address row = pm_funder_address (cf_polymarket config))
     \<and> same_pipeline db db'
     \<and> (\<exists>signer raw. load_live_signer (lf_sdk_lib F) (lf_keys F) (cf_polymarket config) = Ok signer
          \<and> pm_signer_address (cf_polymarket config) = Some raw \<and> sl_address (lf_sdk_lib F) raw = Ok signer)
     \<and> sk_version (lf_sdk F) = Ok 2 \<and> (\<exists>country region. sk_geoblock (lf_sdk F) = Ok (False, country, region))
     \<and> sk_closed_only (lf_sdk F) = Ok False"
proof -
  note read = read_setup_Ok [OF boot_Ok(1) [OF assms(1)]]
  have sound: "sound_auth (ho_unhex (lf_host F)) (cf_auth config)" "sound_bounds config" "sound_live config"
    "ho_live_feature (lf_host F)" "ho_env (lf_host F) ''ODDSFOX_ENABLE_LIVE_TRADING'' = Some ''YES''"
    using read(1) assms(2) by (simp_all add: validate_simps)
  then have chain: "pm_chain_id (cf_polymarket config) = 137" "pm_expected_protocol (cf_polymarket config) = 2"
    by (simp_all add: sound_live_def)
  obtain db1 where o: "open_store (identity_of (cf_polymarket config)) (lf_now F) (reopened config db) = Ok db1"
    "open_venue F config db1 = (Ok (), db')"
    using boot_Ok(2) [OF assms(1)] by blast
  then have v: "db' = db1" "\<exists>v. polymarket_new True (lf_sdk_lib F) (lf_keys F) (lf_sdk F) (lf_meanwhile F) (cf_polymarket config) = Ok v"
    using assms(2) sound(4) by (auto simp: open_venue_def res_simps)
  have venue: "\<exists>signer raw. load_live_signer (lf_sdk_lib F) (lf_keys F) (cf_polymarket config) = Ok signer
       \<and> pm_signer_address (cf_polymarket config) = Some raw \<and> sl_address (lf_sdk_lib F) raw = Ok signer"
    "sk_version (lf_sdk F) = Ok 2" "\<exists>country region. sk_geoblock (lf_sdk F) = Ok (False, country, region)"
    "sk_closed_only (lf_sdk F) = Ok False"
    using v(2) chain(2)
    by (auto simp: polymarket_new_def res_simps load_live_signer_def)
  have policy: "rp_allowed_condition_ids policy \<noteq> {}" "rp_allowed_token_ids policy \<noteq> {}"
    "''*'' \<notin> rp_allowed_condition_ids policy" "''*'' \<notin> rp_allowed_token_ids policy"
    "\<not> str_contains ''placeholder'' (ascii_lowercase (rp_version policy))"
    using read(3) assms(2) by (auto simp: validate_mode_policy_def split: if_split_asm)
  have row: "\<exists>row. instance_metadata db' = Some row \<and> im_mode row = ''live'' \<and> im_chain_id row = 137 \<and> im_protocol_version row = 2
          \<and> im_signer_address row = pm_signer_address (cf_polymarket config)
          \<and> im_funder_address row = pm_funder_address (cf_polymarket config)"
    using open_store_identity [OF o(1)] assms(2) chain by (auto simp: v(1) reopened_def identity_of_def)
  show ?thesis using sound read(2) policy row venue boot_keeps [OF assms(1)] by auto
qed

section \<open>The client\<close>

lemma strip_suffix_Some_iff: "strip_suffix p s = Some r \<longleftrightarrow> s = r @ p"
  by (auto simp: strip_suffix_def strip_prefix_Some_iff rev_swap)

lemma strip_suffix_None_iff: "strip_suffix p s = None \<longleftrightarrow> (\<forall>r. s \<noteq> r @ p)"
  using strip_suffix_Some_iff [of p s] by (cases "strip_suffix p s") auto

lemma strip_terminator_eq:
  "strip_terminator (t @ [CHR 0x0D, CHR 0x0A]) = t"
  "CHR 0x0D \<notin> set t \<Longrightarrow> strip_terminator (t @ [CHR 0x0A]) = t"
  "CHR 0x0A \<notin> set t \<Longrightarrow> strip_terminator t = t"
proof -
  show "strip_terminator (t @ [CHR 0x0D, CHR 0x0A]) = t"
    by (simp add: strip_terminator_def strip_suffix_Some_iff [THEN iffD2, OF refl])
  show "strip_terminator (t @ [CHR 0x0A]) = t" if "CHR 0x0D \<notin> set t"
  proof -
    have "t @ [CHR 0x0A] \<noteq> r @ [CHR 0x0D, CHR 0x0A]" for r
    proof
      assume "t @ [CHR 0x0A] = r @ [CHR 0x0D, CHR 0x0A]"
      then have "t = r @ [CHR 0x0D]" by (metis append1_eq_conv append.assoc append_Cons append_Nil)
      with that show False by simp
    qed
    then have "strip_suffix [CHR 0x0D, CHR 0x0A] (t @ [CHR 0x0A]) = None" unfolding strip_suffix_None_iff by blast
    then show ?thesis by (simp add: strip_terminator_def strip_suffix_Some_iff [THEN iffD2, OF refl])
  qed
  show "strip_terminator t = t" if "CHR 0x0A \<notin> set t"
    using that by (auto simp: strip_terminator_def strip_suffix_Some_iff split: option.splits)
qed

lemma strip_terminator_split:
  "contents \<in> {strip_terminator contents, strip_terminator contents @ [CHR 0x0A], strip_terminator contents @ [CHR 0x0D, CHR 0x0A]}"
  by (auto simp: strip_terminator_def strip_suffix_Some_iff split: option.splits)

text \<open>The token files the client accepts.\<close>

lemma parse_api_token_iff:
  "parse_api_token contents = Ok token \<longleftrightarrow>
     contents \<in> {token, token @ [CHR 0x0A], token @ [CHR 0x0D, CHR 0x0A]}
     \<and> CHR 0x0D \<notin> set token \<and> CHR 0x0A \<notin> set token \<and> trim token = token \<and> 32 \<le> char_count token"
proof
  assume "parse_api_token contents = Ok token"
  then show "contents \<in> {token, token @ [CHR 0x0A], token @ [CHR 0x0D, CHR 0x0A]}
     \<and> CHR 0x0D \<notin> set token \<and> CHR 0x0A \<notin> set token \<and> trim token = token \<and> 32 \<le> char_count token"
    using strip_terminator_split [of contents]
    by (auto simp: parse_api_token_def Let_def list_ex_iff split: if_split_asm)
next
  assume a: "contents \<in> {token, token @ [CHR 0x0A], token @ [CHR 0x0D, CHR 0x0A]}
     \<and> CHR 0x0D \<notin> set token \<and> CHR 0x0A \<notin> set token \<and> trim token = token \<and> 32 \<le> char_count token"
  then have "strip_terminator contents = token" using strip_terminator_eq [of token] by auto
  with a show "parse_api_token contents = Ok token"
    by (auto simp: parse_api_token_def Let_def list_ex_iff)
qed

lemma trim_end_matches_none: "set s \<subseteq> cs \<Longrightarrow> trim_end_matches cs s = []"
  by (cases s) auto

lemma trim_end_matches_append:
  "set t \<inter> cs = {} \<Longrightarrow> set s \<subseteq> cs \<Longrightarrow> trim_end_matches cs (t @ s) = t"
  by (induction t) (auto simp: trim_end_matches_none)

text \<open>
  C30. A token file and its digest belong together.  For every file the client accepts as a token the digest
  command prints a digest for the same contents, and under any validated configuration that has a credential
  with that digest the token the client sends authenticates as the actor of that credential.
\<close>

theorem token_file_authenticates:
  assumes "parse_api_token contents = Ok token" "\<forall>b. ho_unhex P (ho_hex P b) = Some b"
  shows "\<exists>digest. token_digest_command P contents = Ok digest
     \<and> (\<forall>config cr env feature. validate_config (ho_unhex P) feature env config = Ok () \<and> cr \<in> set (cf_auth config)
          \<and> cd_token_sha256 cr = digest \<longrightarrow>
          (\<exists>auth. new_registry (ho_unhex P) (ho_hex_error P) (cf_auth config) = Ok auth
             \<and> authenticate (ho_sha P) auth token = Some (credential_actor cr)))"
proof -
  have t: "contents \<in> {token, token @ [CHR 0x0A], token @ [CHR 0x0D, CHR 0x0A]}" "CHR 0x0D \<notin> set token"
    "CHR 0x0A \<notin> set token" "32 \<le> char_count token"
    using assms(1) by (simp_all add: parse_api_token_iff)
  have "char_count token \<le> length token" by (simp add: char_count_def)
  moreover have "trim_end_matches {CHR 0x0D, CHR 0x0A} contents = token"
    using t trim_end_matches_append [of token "{CHR 0x0D, CHR 0x0A}" "[]"]
      trim_end_matches_append [of token "{CHR 0x0D, CHR 0x0A}" "[CHR 0x0A]"]
      trim_end_matches_append [of token "{CHR 0x0D, CHR 0x0A}" "[CHR 0x0D, CHR 0x0A]"] by auto
  ultimately have d: "token_digest_command P contents = Ok (ho_hex P (ho_sha P token))"
    using t(4) by (simp add: token_digest_command_def token_digest_def)
  have "\<exists>auth. new_registry (ho_unhex P) (ho_hex_error P) (cf_auth config) = Ok auth
             \<and> authenticate (ho_sha P) auth token = Some (credential_actor cr)"
    if "validate_config (ho_unhex P) feature env config = Ok ()" "cr \<in> set (cf_auth config)" "cd_token_sha256 cr = ho_hex P (ho_sha P token)"
    for config cr feature env
    using registry_of_valid [OF that(1), of "ho_hex_error P" "ho_sha P"] that(2,3) assms(2) by metis
  with d show ?thesis by auto
qed

text \<open>What the service receives of a call; the authority and a prefix of the URL are the transport's.\<close>

definition sent_request :: "(json \<Rightarrow> string) \<Rightarrow> string \<Rightarrow> api_call \<Rightarrow> http_request" where
  "sent_request show_json path call =
     \<lparr>hq_method = cl_method call, hq_path = path, hq_authorization = Some (''Bearer '' @ cl_bearer call),
      hq_idempotency_key = cl_idempotency_key call, hq_last_event_id = None,
      hq_body = Ok (case cl_body call of None \<Rightarrow> [] | Some j \<Rightarrow> show_json j)\<rparr>"

text \<open>Documented behaviour of \<open>serde_json\<close> on both sides: a value without repeated fields is read as it was written.\<close>

fun fields_once :: "json \<Rightarrow> bool" where
  "fields_once (JObj kvs) \<longleftrightarrow> distinct (map fst kvs) \<and> (\<forall>kv \<in> set kvs. fields_once (snd kv))"
| "fields_once (JArr vs) \<longleftrightarrow> (\<forall>v \<in> set vs. fields_once v)"
| "fields_once _ \<longleftrightarrow> True"

definition same_json :: "http_library \<Rightarrow> (json \<Rightarrow> string) \<Rightarrow> bool" where
  "same_json W show_json \<longleftrightarrow>
     (\<forall>j. fields_once j \<longrightarrow> (\<exists>raw. hl_parse_json W (show_json j) = Some raw \<and> unique_json raw = Some j))"

definition printable :: "string \<Rightarrow> bool" where
  "printable s \<longleftrightarrow> list_all (\<lambda>c. 33 \<le> byte c \<and> byte c \<le> 126) s"

lemma fields_once_opt [simp]: "fields_once (jstr_opt x)" "fields_once (json_opt JUuid u)" "fields_once (json_opt JTime t)"
proof -
  show "fields_once (jstr_opt x)" by (cases x) simp_all
  show "fields_once (json_opt JUuid u)" by (cases u) simp_all
  show "fields_once (json_opt JTime t)" by (cases t) simp_all
qed

lemma sent_bodies_once [simp]:
  "fields_once (json_of_request request)" "fields_once (json_of_cancellation cancellation)" "fields_once (json_of_reason reason)"
  by (simp_all add: json_of_request_def json_of_cancellation_def json_of_reason_def json_of_quantity_def json_of_context_def)

lemma de_opt_uuid_json [simp]: "de_opt_uuid (Some (json_opt JUuid x)) = Some x"
  by (cases x) auto

lemma sent_bodies_decode:
  "request_of_json (json_of_request request) = Some request"
  "cancellation_of_json (json_of_cancellation cancellation) = Some cancellation"
  "reason_of_json (json_of_reason reason) = Some reason"
  by (simp_all add: request_of_json_def json_of_request_def cancellation_of_json_def json_of_cancellation_def reason_of_json_def
      json_of_reason_def known_fields_def jget_def)

lemma strict_json_sent:
  assumes "same_json W show_json" "fields_once j" "decode j = Some x"
  shows "ap_bind (strict_json W decode (Ok (show_json j))) f = f x"
proof -
  obtain raw where "hl_parse_json W (show_json j) = Some raw" "unique_json raw = Some j"
    using assms(1,2) by (auto simp: same_json_def)
  with assms(3) show ?thesis by (simp add: strict_json_def ap_bind_def ap_result_def fun_eq_iff)
qed

text \<open>What the service does for a command.\<close>

definition command_effect :: "http_library \<Rightarrow> surroundings \<Rightarrow> host \<Rightarrow> Actor \<Rightarrow> string option \<Rightarrow> command \<Rightarrow> response api set" where
  "command_effect W E P actor key cmd = (case cmd of
     CmdSubmit api path \<Rightarrow> {submit_intent W E actor key request | request. submitted_request P path = Ok request}
   | CmdCancel api request \<Rightarrow> {cancel W E actor key request}
   | CmdHalt api reason \<Rightarrow> {post_halt W E actor key reason}
   | CmdResume api reason \<Rightarrow> {post_resume W E actor key reason}
   | CmdOrders api \<Rightarrow> range (list_orders_response W E)
   | CmdTrades api \<Rightarrow> range (list_trades_response W E)
   | CmdPositions api \<Rightarrow> {get_resource E (\<lambda>rs. JArr (map json_of_position rs)) (\<lambda>db. Ok (list_positions db))}
   | CmdReconcile api \<Rightarrow> {post_reconcile W E actor key}
   | CmdBackup api \<Rightarrow> {create_backup W E actor key}
   | _ \<Rightarrow> {})"

lemma route_endpoint:
  assumes "follows_routes W" "hl_route W rq = Some ep" "hq_path rq = path" "hq_method rq \<in> {GET, POST}"
  shows "hq_method rq = fst (endpoint_route ep) \<and> (literal_path (snd (endpoint_route ep)) \<longrightarrow> snd (endpoint_route ep) = path)"
proof -
  obtain m p where e: "endpoint_route ep = (m, p)" by fastforce
  have "(hq_method rq = m \<or> (m = GET \<and> hq_method rq = OtherMethod ''HEAD'')) \<and> (literal_path p \<longrightarrow> hq_path rq = p)"
    using assms(1) [unfolded follows_routes_def, rule_format, OF assms(2)] by (simp add: e)
  with assms(3,4) e show ?thesis by auto
qed

text \<open>
  C29. The client and the service understand each other.  The request of every command that calls the
  service, once routed to an endpoint whose path has no variable, is handled as the command means: the
  endpoint is its own, and the order, cancellation or reason the handler reads from the body is the one
  the client was given.  A key the client makes up passes the check of the service, and a command that
  changes something always carries a key.
\<close>

theorem cli_requests_are_understood:
  assumes "same_json W show_json" "follows_routes W" "\<forall>s. printable s \<longrightarrow> hl_header_text W s = Some s"
    and "command_request P cmd = Some (Ok (api, method, path, body, idempotent))"
    and "rq = sent_request show_json path (api_call_of U fresh token api method path body idempotent)"
    and "hl_route W rq = Some ep" "literal_path (snd (endpoint_route ep))"
    and "printable (U fresh)" "length (U fresh) = 36"
  shows "handle W E ep actor rq \<in> command_effect W E P actor (hq_idempotency_key rq) cmd
     \<and> (method = POST \<longrightarrow> hq_idempotency_key rq \<noteq> None)
     \<and> (method = POST \<longrightarrow> aa_idempotency_key api = None \<longrightarrow> idempotency_key W (hq_idempotency_key rq) = Ok (''cli-'' @ U fresh))"
proof -
  have rq: "hq_path rq = path" "hq_method rq = method" "hq_body rq = Ok (case body of None \<Rightarrow> [] | Some j \<Rightarrow> show_json j)"
    "hq_idempotency_key rq = (if idempotent then Some (case aa_idempotency_key api of Some key \<Rightarrow> key | None \<Rightarrow> ''cli-'' @ U fresh) else None)"
    by (simp_all add: assms(5) sent_request_def api_call_of_def)
  have m: "method \<in> {GET, POST}" "method = POST \<longleftrightarrow> idempotent"
    using assms(4) by (auto simp: command_request_def res_simps split: command.splits)
  have ep: "endpoint_route ep = (method, path)"
    using route_endpoint [OF assms(2,6) rq(1)] assms(7) m(1) by (auto simp: rq(2) prod_eq_iff)
  have key: "printable (''cli-'' @ U fresh)" using assms(8) by (simp add: printable_def byte_def)
  have "idempotency_key W (Some (''cli-'' @ U fresh)) = Ok (''cli-'' @ U fresh)"
  proof -
    have "list_all (\<lambda>c. (33 \<le> byte c \<and> byte c \<le> 126) \<or> byte c = 32) (''cli-'' @ U fresh)"
      using key unfolding printable_def by (auto simp: list_all_iff)
    moreover have "hl_header_text W (''cli-'' @ U fresh) = Some (''cli-'' @ U fresh)" using assms(3) key by blast
    ultimately show ?thesis by (simp add: idempotency_key_def assms(9))
  qed
  note sent = strict_json_sent [OF assms(1)]
  have "handle W E ep actor rq \<in> command_effect W E P actor (hq_idempotency_key rq) cmd"
    using assms(4) ep
    by (cases cmd; cases ep)
       (auto simp: command_request_def command_effect_def handle_def res_simps rq(3) sent sent_bodies_decode)
  with m(2) \<open>idempotency_key W (Some (''cli-'' @ U fresh)) = _\<close> show ?thesis by (simp add: rq(4))
qed

end
