(* ===== verification/ApiPages.thy ===== *)
theory ApiPages
  imports Api Pipeline
begin

text \<open>
  Pagination.  A client that follows the cursors of a list endpoint ends after finitely many requests and
  has seen every matching resource exactly once, in order of creation.  That a printed cursor reads
  back is the documented behaviour of \<open>base64\<close> and \<open>serde_json\<close>.
\<close>

section \<open>Following the cursors\<close>

text \<open>What one request returns, and the requests of a client that follows the cursors, at most \<open>n\<close> of them.\<close>

definition fetch_page ::
  "http_library \<Rightarrow> nat \<Rightarrow> string option \<Rightarrow> ('a \<Rightarrow> ResourceCursor)
     \<Rightarrow> (nat \<Rightarrow> ResourceCursor option \<Rightarrow> Store \<Rightarrow> 'a list) \<Rightarrow> Store \<Rightarrow> (ApiError, 'a ListPage) res" where
  "fetch_page W requested cursor cursor_for query db =
     rbind (validate_limit requested) (\<lambda>limit.
     rbind (decode_cursor W cursor) (\<lambda>after.
     Ok (list_page W limit cursor_for (query limit after db))))"

fun follow_cursors ::
  "http_library \<Rightarrow> nat \<Rightarrow> ('a \<Rightarrow> ResourceCursor) \<Rightarrow> (nat \<Rightarrow> ResourceCursor option \<Rightarrow> Store \<Rightarrow> 'a list) \<Rightarrow> Store
     \<Rightarrow> nat \<Rightarrow> string option \<Rightarrow> 'a list list option" where
  "follow_cursors W limit cursor_for query db 0 cursor = None"
| "follow_cursors W limit cursor_for query db (Suc n) cursor =
     (case fetch_page W limit cursor cursor_for query db of
        Ok p \<Rightarrow> (case lp_next_cursor p of
           None \<Rightarrow> Some [lp_items p]
         | Some text \<Rightarrow> map_option (\<lambda>pages. lp_items p # pages) (follow_cursors W limit cursor_for query db n (Some text)))
      | _ \<Rightarrow> None)"

text \<open>A list handler answers with the page.\<close>

lemma list_resources_page:
  assumes "su_before E (co_calls (ap_coordinator a)) (co_store (ap_coordinator a)) = db"
  shows "fst (list_resources W E requested cursor cursor_for f query a) =
    rbind (fetch_page W requested cursor cursor_for query db) (\<lambda>p. Ok (json_response 200 (json_of_page f p)))"
  using assms
  by (auto simp: list_resources_def fetch_page_def ap_bind_def ap_result_def ap_lift_def co_read_def co_tx_def Let_def
      split: res.splits)

section \<open>Order of creation\<close>

definition created_before :: "('r \<Rightarrow> instant) \<Rightarrow> ('r \<Rightarrow> uuid) \<Rightarrow> 'r \<Rightarrow> 'r \<Rightarrow> bool" where
  "created_before created rid x y \<longleftrightarrow> created x < created y \<or> (created x = created y \<and> rid x < rid y)"

lemma after_cursor_of: "after_cursor created rid (Some (created x, rid x)) y \<longleftrightarrow> created_before created rid x y"
  by (auto simp: after_cursor_def created_before_def)

lemma sorted_wrt_ties:
  assumes "sorted (map f ys)" "\<And>k. sorted_wrt Q (filter (\<lambda>y. f y = k) ys)"
  shows "sorted_wrt (\<lambda>x y. f x < f y \<or> (f x = f y \<and> Q x y)) ys"
  using assms
proof (induction ys)
  case (Cons y ys)
  have tail: "sorted_wrt Q (filter (\<lambda>z. f z = k) ys)" for k
    using Cons.prems(2) [of k] by (auto split: if_split_asm)
  have "f y < f z \<or> (f y = f z \<and> Q y z)" if "z \<in> set ys" for z
    using Cons.prems(1) Cons.prems(2) [of "f y"] that by auto
  with Cons.IH tail Cons.prems(1) show ?case by simp
qed simp

lemma sorted_by_creation:
  assumes "distinct (map rid rows)"
  shows "sorted_wrt (created_before created rid) (sort_key created (sort_key rid rows))"
proof -
  let ?ys = "sort_key created (sort_key rid rows)"
  have "sorted_wrt (\<lambda>x y. rid x < rid y) (sort_key rid rows)"
  proof -
    have "distinct (map rid (sort_key rid rows))"
      using assms by (simp add: distinct_map)
    then have "sorted_wrt (<) (map rid (sort_key rid rows))"
      by (simp add: strict_sorted_iff)
    then show ?thesis by (simp add: sorted_wrt_map)
  qed
  then have "sorted_wrt (\<lambda>x y. rid x < rid y) (filter (\<lambda>y. created y = k) ?ys)" for k
    by (simp add: sort_key_stable sorted_wrt_filter)
  from sorted_wrt_ties [OF _ this] show ?thesis
    by (simp add: created_before_def [abs_def])
qed

lemma filter_after:
  assumes "sorted_wrt (created_before created rid) (us @ y # vs)"
  shows "filter (after_cursor created rid (Some (created y, rid y))) (us @ y # vs) = vs"
proof -
  have asym: "\<not> created_before created rid y y" "created_before created rid x y \<Longrightarrow> \<not> created_before created rid y x" for x
    by (auto simp: created_before_def)
  have "filter (created_before created rid y) us = []" "filter (created_before created rid y) vs = vs"
    using assms asym by (auto simp: sorted_wrt_append filter_empty_conv filter_id_conv)
  then show ?thesis
    using asym(1) by (simp add: after_cursor_of [abs_def] cong: filter_cong)
qed

section \<open>Paged tables\<close>

text \<open>
  A table that is listed page by page: in a store that is \<open>ok\<close> its ids are distinct.  \<open>shown\<close> is what
  the client sees of a row; it keeps what the cursor is made of.
\<close>

locale paged_table =
  fixes created :: "'r \<Rightarrow> instant" and rid :: "'r \<Rightarrow> uuid" and table :: "Store \<Rightarrow> 'r list" and ok :: "Store \<Rightarrow> bool"
    and shown :: "'r \<Rightarrow> 'a" and cursor_for :: "'a \<Rightarrow> ResourceCursor"
  assumes distinct_ids: "ok db \<Longrightarrow> distinct (map rid (table db))"
    and cursor_shown: "cursor_for (shown r) = (created r, rid r)"
begin

definition listing :: "('r \<Rightarrow> bool) \<Rightarrow> nat \<Rightarrow> ResourceCursor option \<Rightarrow> Store \<Rightarrow> 'a list" where
  "listing P limit cursor db = map shown (page created rid (max 1 (min limit 500) + 1)
     (filter (\<lambda>r. P r \<and> after_cursor created rid cursor r) (table db)))"

definition matching :: "('r \<Rightarrow> bool) \<Rightarrow> Store \<Rightarrow> 'r list" where
  "matching P db = sort_key created (sort_key rid (filter P (table db)))"

lemma listing_sorted:
  "listing P limit cursor db = map shown (take (max 1 (min limit 500) + 1) (filter (after_cursor created rid cursor) (matching P db)))"
  by (simp add: listing_def page_def matching_def filter_sort flip: filter_filter)

lemma pages_from:
  assumes "ok db" "1 \<le> limit" "limit \<le> 500" "\<And>k. hl_cursor_of W (hl_cursor_text W k) = Some k"
    and "decode_cursor W cursor = Ok after" "matching P db = us @ zs"
    and "filter (after_cursor created rid after) (matching P db) = zs" "length zs < n"
  shows "\<exists>pages. follow_cursors W limit cursor_for (listing P) db n cursor = Some pages
     \<and> concat pages = map shown zs \<and> (\<forall>p \<in> set pages. length p \<le> limit)"
  using assms(5-8)
proof (induction n arbitrary: cursor after us zs)
  case (Suc n)
  have limit: "max (Suc 0) (min limit 500) = limit" "validate_limit limit = Ok limit"
    using assms(2,3) by (auto simp: validate_limit_def)
  define p where "p = list_page W limit cursor_for (listing P limit after db)"
  have fetch: "fetch_page W limit cursor cursor_for (listing P) db = Ok p"
    by (simp add: fetch_page_def limit Suc.prems(1) p_def)
  have rows: "listing P limit after db = map shown (take (limit + 1) zs)"
    by (simp add: listing_sorted limit(1) Suc.prems(3))
  have items: "lp_items p = map shown (take limit zs)"
    by (simp add: p_def list_page_def rows take_map Let_def)
  show ?case
  proof (cases "length zs \<le> limit")
    case True
    then have "lp_next_cursor p = None" by (simp add: p_def list_page_def rows Let_def)
    with True show ?thesis by (simp add: fetch items)
  next
    case False
    define y where "y = zs ! (limit - 1)"
    have split: "zs = take (limit - 1) zs @ y # drop limit zs"
      using id_take_nth_drop [of "limit - 1" zs] False assms(2) by (simp add: y_def)
    have "last (take limit (take (limit + 1) zs)) = y"
      using False assms(2) by (subst last_conv_nth) (auto simp: y_def)
    then have "last (map shown (take limit (take (limit + 1) zs))) = shown y"
      using False assms(2) by (subst last_map) auto
    then have cursor: "lp_next_cursor p = Some (hl_cursor_text W (created y, rid y))"
      using False by (simp add: p_def list_page_def rows take_map cursor_shown Let_def)
    have decoded: "decode_cursor W (Some (hl_cursor_text W (created y, rid y))) = Ok (Some (created y, rid y))"
      by (simp add: decode_cursor_def assms(4))
    have all: "matching P db = (us @ take (limit - 1) zs) @ y # drop limit zs"
      using Suc.prems(2) split by simp
    have "sorted_wrt (created_before created rid) (matching P db)"
      unfolding matching_def using distinct_ids [OF assms(1)] by (intro sorted_by_creation) (simp add: distinct_map_filter)
    then have after: "filter (after_cursor created rid (Some (created y, rid y))) (matching P db) = drop limit zs"
      unfolding all by (rule filter_after)
    have "matching P db = (us @ take limit zs) @ drop limit zs" using Suc.prems(2) by simp
    moreover have "length (drop limit zs) < n" using Suc.prems(4) False assms(2) by simp
    ultimately obtain pages where pages: "follow_cursors W limit cursor_for (listing P) db n (Some (hl_cursor_text W (created y, rid y))) = Some pages"
      "concat pages = map shown (drop limit zs)" "\<forall>p \<in> set pages. length p \<le> limit"
      using Suc.IH [OF decoded _ after] by blast
    have "map shown (take limit zs) @ map shown (drop limit zs) = map shown zs"
      by (simp flip: map_append)
    with pages show ?thesis by (simp add: fetch items cursor)
  qed
qed simp

lemma pages_complete:
  assumes "ok db" "1 \<le> limit" "limit \<le> 500" "\<And>k. hl_cursor_of W (hl_cursor_text W k) = Some k" "length (table db) < n"
  shows "\<exists>pages. follow_cursors W limit cursor_for (listing P) db n None = Some pages
     \<and> concat pages = map shown (matching P db) \<and> (\<forall>p \<in> set pages. length p \<le> limit)"
proof (rule pages_from [where us = "[]" and after = None, OF assms(1-4)])
  show "filter (after_cursor created rid None) (matching P db) = matching P db" by (simp add: after_cursor_def)
  show "length (matching P db) < n"
    using assms(5) le_less_trans [OF length_filter_le] by (simp add: matching_def)
qed (simp_all add: decode_cursor_def)

end

section \<open>The lists of the service\<close>

interpretation intent_pages: paged_table in_created_at in_id intents pipeline_ok IntentRecord.truncate
    "\<lambda>r. (in_created_at r, in_id r)"
  by unfold_locales (simp_all add: pipeline_ok_def IntentRecord.truncate_def)

interpretation order_pages: paged_table or_created_at or_id orders pipeline_ok OrderRecord.truncate
    "\<lambda>r. (or_created_at r, or_id r)"
  by unfold_locales (simp_all add: pipeline_ok_def OrderRecord.truncate_def)

definition intent_matches :: "IntentListQuery \<Rightarrow> IntentRow \<Rightarrow> bool" where
  "intent_matches q r \<longleftrightarrow> (case iq_state q of None \<Rightarrow> True | Some s \<Rightarrow> in_state r = s)
     \<and> (case iq_condition_id q of None \<Rightarrow> True | Some c \<Rightarrow> jget (in_request_json r) ''condition_id'' = Some (JStr c))
     \<and> (case iq_created_after q of None \<Rightarrow> True | Some t \<Rightarrow> in_created_at r \<ge> t)"

definition order_matches :: "OrderListQuery \<Rightarrow> OrderRow \<Rightarrow> bool" where
  "order_matches q r \<longleftrightarrow> (case oq_state q of None \<Rightarrow> True | Some s \<Rightarrow> or_state r = s)
     \<and> (case oq_condition_id q of None \<Rightarrow> True | Some c \<Rightarrow> or_condition_id r = c)
     \<and> (case oq_token_id q of None \<Rightarrow> True | Some t \<Rightarrow> or_token_id r = t)"

abbreviation intent_query :: "IntentListQuery \<Rightarrow> nat \<Rightarrow> ResourceCursor option \<Rightarrow> Store \<Rightarrow> IntentRecord list" where
  "intent_query q limit \<equiv> list_intents_page limit (iq_state q) (iq_condition_id q) (iq_created_after q)"

abbreviation order_query :: "OrderListQuery \<Rightarrow> nat \<Rightarrow> ResourceCursor option \<Rightarrow> Store \<Rightarrow> OrderRecord list" where
  "order_query q limit \<equiv> list_orders_page limit (oq_state q) (oq_condition_id q) (oq_token_id q)"

lemma intent_query_listing: "intent_query q = intent_pages.listing (intent_matches q)"
  by (simp add: fun_eq_iff list_intents_page_def intent_pages.listing_def intent_matches_def conj_assoc)

lemma order_query_listing: "order_query q = order_pages.listing (order_matches q)"
  by (simp add: fun_eq_iff list_orders_page_def order_pages.listing_def order_matches_def conj_assoc)

text \<open>
  C28. Following the cursors of a list ends and is complete.  For every filter and every accepted limit, a
  client that repeats a list request with the cursor of the page before gets a last page after at most
  one request more than there are rows; the pages, none longer than the limit, are together exactly the
  matching intents, respectively orders, each once, ordered by creation time and id.
\<close>

theorem paging_ends_and_is_complete:
  assumes "pipeline_ok db" "1 \<le> limit" "limit \<le> 500" "\<And>k. hl_cursor_of W (hl_cursor_text W k) = Some k"
  shows "(\<exists>pages. follow_cursors W limit (\<lambda>r. (in_created_at r, in_id r)) (intent_query q) db (length (intents db) + 1) None = Some pages
       \<and> concat pages = map IntentRecord.truncate (sort_key in_created_at (sort_key in_id (filter (intent_matches q) (intents db))))
       \<and> (\<forall>p \<in> set pages. length p \<le> limit))
    \<and> (\<exists>pages. follow_cursors W limit (\<lambda>r. (or_created_at r, or_id r)) (order_query q') db (length (orders db) + 1) None = Some pages
       \<and> concat pages = map OrderRecord.truncate (sort_key or_created_at (sort_key or_id (filter (order_matches q') (orders db))))
       \<and> (\<forall>p \<in> set pages. length p \<le> limit))"
  using intent_pages.pages_complete [OF assms, of "length (intents db) + 1" "intent_matches q"]
    order_pages.pages_complete [OF assms, of "length (orders db) + 1" "order_matches q'"]
  by (simp_all add: intent_query_listing order_query_listing intent_pages.matching_def order_pages.matching_def)

end
