(* ===== verification/ApiLimits.thy ===== *)
theory ApiLimits
  imports Api
begin

text \<open>
  What the HTTP interface admits: the rate of the token bucket, the bodies the strict JSON reader
  takes, and the checks of keys, reasons and limits.
\<close>

section \<open>The rate of the token bucket\<close>

text \<open>
  What is used of the rounding of \<open>f64\<close>: it is monotone, exact on the integers up to \<open>2^53\<close>, and its error
  is at most \<open>eps\<close> relative and \<open>eps\<close> absolute.
\<close>

definition f64_like :: "rat \<Rightarrow> (rat \<Rightarrow> rat) \<Rightarrow> bool" where
  "f64_like eps R \<longleftrightarrow> (\<forall>x y. x \<le> y \<longrightarrow> R x \<le> R y) \<and> (\<forall>n::nat. n \<le> 2 ^ 53 \<longrightarrow> R (of_nat n) = of_nat n)
     \<and> (\<forall>x \<ge> 0. R x \<le> (1 + eps) * x + eps)"

lemma f64_likeD:
  assumes "f64_like eps R"
  shows "x \<le> y \<Longrightarrow> R x \<le> R y" and "n \<le> 2 ^ 53 \<Longrightarrow> R (of_nat n) = of_nat n"
    and "0 \<le> x \<Longrightarrow> R x \<le> (1 + eps) * x + eps" and "0 \<le> x \<Longrightarrow> 0 \<le> R x"
proof -
  show 1: "x \<le> y \<Longrightarrow> R x \<le> R y" for x y using assms by (simp add: f64_like_def)
  show 2: "n \<le> 2 ^ 53 \<Longrightarrow> R (of_nat n) = of_nat n" for n using assms by (simp add: f64_like_def)
  show "0 \<le> x \<Longrightarrow> R x \<le> (1 + eps) * x + eps" using assms by (simp add: f64_like_def)
  have "R 0 = 0" using 2 [of 0] by simp
  with 1 [of 0 x] show "0 \<le> x \<Longrightarrow> 0 \<le> R x" by simp
qed

text \<open>The requests of a sequence of instants that get a token.\<close>

fun takes :: "(rat \<Rightarrow> rat) \<Rightarrow> instant list \<Rightarrow> TokenBucket \<Rightarrow> nat \<times> TokenBucket" where
  "takes R [] b = (0, b)"
| "takes R (t # ts) b =
     (case take_token R t b of (taken, b) \<Rightarrow>
      case takes R ts b of (n, b) \<Rightarrow> ((if taken then Suc n else n), b))"

definition seconds :: "int \<Rightarrow> rat" where
  "seconds d = of_int d / 10 ^ 9"

lemma secs_f64_bound:
  assumes "f64_like eps R" "0 \<le> eps" "eps \<le> 1" "0 \<le> d"
  shows "0 \<le> secs_f64 R d" and "secs_f64 R d \<le> (1 + eps)\<^sup>2 * seconds d + 5 * eps"
proof -
  note R = f64_likeD [OF assms(1)]
  let ?q = "of_int (d div 10 ^ 9) :: rat" and ?n = "of_int (d mod 10 ^ 9) / 10 ^ 9 :: rat"
  have split: "?q + ?n = seconds d"
  proof -
    have "(of_int d :: rat) = ?q * 10 ^ 9 + of_int (d mod 10 ^ 9)"
      using arg_cong [OF div_mult_mod_eq [of d "10 ^ 9"], of "of_int :: int \<Rightarrow> rat"]
      by (simp only: of_int_add of_int_mult of_int_power of_int_numeral)
    then have "(of_int d :: rat) / 10 ^ 9 = (?q * 10 ^ 9 + of_int (d mod 10 ^ 9)) / 10 ^ 9" by (rule arg_cong)
    also have "\<dots> = ?q + ?n" by (simp add: add_divide_distrib)
    finally show ?thesis by (simp add: seconds_def)
  qed
  have pos: "0 \<le> ?q" "0 \<le> ?n" using assms(4) by (simp_all add: pos_imp_zdiv_nonneg_iff)
  have s: "0 \<le> R ?q + R ?n" using R(4) pos by simp
  have "R ?q + R ?n \<le> (1 + eps) * seconds d + 2 * eps"
    using R(3) [OF pos(1)] R(3) [OF pos(2)] split by (simp add: algebra_simps flip: split)
  then have "(1 + eps) * (R ?q + R ?n) + eps \<le> (1 + eps) * ((1 + eps) * seconds d + 2 * eps) + eps"
    using assms(2) by (intro add_right_mono mult_left_mono) auto
  also have "\<dots> = (1 + eps)\<^sup>2 * seconds d + (3 * eps + 2 * (eps * eps))" by (simp add: power2_eq_square algebra_simps)
  also have "\<dots> \<le> (1 + eps)\<^sup>2 * seconds d + 5 * eps"
    using mult_left_mono [OF assms(3,2)] by simp
  finally show "secs_f64 R d \<le> (1 + eps)\<^sup>2 * seconds d + 5 * eps"
    using R(3) [OF s] by (simp add: secs_f64_def)
  show "0 \<le> secs_f64 R d" unfolding secs_f64_def by (rule R(4) [OF s])
qed

definition slack :: "rat \<Rightarrow> TokenBucket \<Rightarrow> rat" where
  "slack eps b = eps * (2 * tk_capacity b + 20 * tk_rate b + 4)"

definition bucket_ok :: "TokenBucket \<Rightarrow> bool" where
  "bucket_ok b \<longleftrightarrow> 0 \<le> tk_rate b \<and> 0 \<le> tk_tokens b \<and> tk_tokens b \<le> tk_capacity b
     \<and> (\<exists>n. n \<le> 2 ^ 53 \<and> tk_capacity b = of_nat n)"

text \<open>One request: the token it takes is paid from the balance and the refill.\<close>

lemma take_token_pays:
  assumes "f64_like eps R" "0 \<le> eps" "eps \<le> 1" "bucket_ok b" "tk_last b \<le> now" "take_token R now b = (taken, b')"
  shows "bucket_ok b'" and "tk_last b' = now" "tk_rate b' = tk_rate b" "tk_capacity b' = tk_capacity b"
    and "(if taken then 1 else 0) + tk_tokens b'
      \<le> tk_tokens b + (1 + eps) ^ 4 * tk_rate b * seconds (now - tk_last b) + slack eps b"
proof -
  note R = f64_likeD [OF assms(1)]
  define c r t d where "c = tk_capacity b" and "r = tk_rate b" and "t = tk_tokens b" and "d = now - tk_last b"
  have ok: "0 \<le> r" "0 \<le> t" "t \<le> c" "0 \<le> d" and cap: "R c = c"
    using assms(4,5) R(2) by (auto simp: bucket_ok_def c_def r_def t_def d_def)
  define s p tok where "s = secs_f64 R d" and "p = R (s * r)" and "tok = min (R (t + p)) c"
  have s: "0 \<le> s" "s \<le> (1 + eps)\<^sup>2 * seconds d + 5 * eps"
    using secs_f64_bound [OF assms(1-3) ok(4)] by (simp_all add: s_def)
  have sr: "0 \<le> s * r" using s(1) ok(1) by simp
  have p0: "0 \<le> p" unfolding p_def by (rule R(4) [OF sr])
  have tok: "0 \<le> tok" "tok \<le> c" using R(4) [of "t + p"] p0 ok by (simp_all add: tok_def)
  have one: "0 \<le> 1 + eps" "1 + eps \<le> 2" using assms(2,3) by simp_all
  have refill: "tok \<le> t + (1 + eps) ^ 4 * r * seconds d + eps * (c + 20 * r + 3)"
  proof -
    have "s * r \<le> ((1 + eps)\<^sup>2 * seconds d + 5 * eps) * r" using s(2) ok(1) by (rule mult_right_mono)
    then have "(1 + eps) * (s * r) + eps \<le> (1 + eps) * (((1 + eps)\<^sup>2 * seconds d + 5 * eps) * r) + eps"
      using one(1) by (intro add_right_mono mult_left_mono)
    with R(3) [OF sr] have p: "p \<le> (1 + eps) * (((1 + eps)\<^sup>2 * seconds d + 5 * eps) * r) + eps" by (simp add: p_def)
    have "tok \<le> (1 + eps) * (t + p) + eps" using R(3) [of "t + p"] p0 ok by (simp add: tok_def min_le_iff_disj)
    also have "\<dots> \<le> (1 + eps) * (t + ((1 + eps) * (((1 + eps)\<^sup>2 * seconds d + 5 * eps) * r) + eps)) + eps"
      using p one(1) by (intro add_right_mono mult_left_mono) auto
    also have "\<dots> = t + eps * t + (1 + eps) ^ 4 * r * seconds d + eps * ((1 + eps) * (1 + eps) * (5 * r) + (1 + eps) + 1)"
      by (simp add: power2_eq_square power4_eq_xxxx algebra_simps)
    also have "\<dots> \<le> t + eps * c + (1 + eps) ^ 4 * r * seconds d + eps * (20 * r + 3)"
    proof -
      have "(1 + eps) * (1 + eps) \<le> 2 * 2" using one by (intro mult_mono) auto
      from mult_right_mono [OF this, of "5 * r"] ok(1) have "(1 + eps) * (1 + eps) * (5 * r) \<le> 20 * r" by simp
      then have "(1 + eps) * (1 + eps) * (5 * r) + (1 + eps) + 1 \<le> 20 * r + 3" using assms(3) by linarith
      then have "eps * ((1 + eps) * (1 + eps) * (5 * r) + (1 + eps) + 1) \<le> eps * (20 * r + 3)"
        using assms(2) by (rule mult_left_mono)
      moreover have "eps * t \<le> eps * c" using ok(3) assms(2) by (rule mult_left_mono)
      ultimately show ?thesis by linarith
    qed
    finally show ?thesis by (simp add: algebra_simps)
  qed
  have step: "take_token R now b = (if 1 \<le> tok then (True, b\<lparr>tk_tokens := R (tok - 1), tk_last := now\<rparr>)
      else (False, b\<lparr>tk_tokens := tok, tk_last := now\<rparr>))"
    using ok(4) by (simp add: take_token_def Let_def tok_def p_def s_def t_def r_def c_def d_def max_def)
  have paid: "R (tok - 1) \<le> tok - 1 + eps * (c + 1)" "0 \<le> R (tok - 1)" "R (tok - 1) \<le> c" if "1 \<le> tok"
  proof -
    have "eps * (tok - 1) \<le> eps * c" using tok(2) assms(2) by (intro mult_left_mono) auto
    then show "R (tok - 1) \<le> tok - 1 + eps * (c + 1)" using R(3) [of "tok - 1"] that by (simp add: algebra_simps)
    show "0 \<le> R (tok - 1)" using R(4) that by simp
    show "R (tok - 1) \<le> c" using R(1) [of "tok - 1" c] tok(2) cap by simp
  qed
  show "tk_last b' = now" "tk_rate b' = tk_rate b" "tk_capacity b' = tk_capacity b"
    using assms(6) by (auto simp: step split: if_split_asm)
  show "bucket_ok b'"
    using assms(4,6) tok paid by (auto simp: step bucket_ok_def c_def split: if_split_asm)
  have "0 \<le> eps * (c + 1)" using assms(2) ok(2,3) by simp
  then show "(if taken then 1 else 0) + tk_tokens b'
      \<le> tk_tokens b + (1 + eps) ^ 4 * tk_rate b * seconds (now - tk_last b) + slack eps b"
    using assms(6) refill paid(1)
    by (auto simp: step slack_def c_def r_def t_def d_def algebra_simps split: if_split_asm)
qed

lemma takes_bounded:
  assumes "f64_like eps R" "0 \<le> eps" "eps \<le> 1" "bucket_ok b" "sorted (tk_last b # ts)"
  shows "of_nat (fst (takes R ts b)) \<le> tk_tokens b
    + (1 + eps) ^ 4 * tk_rate b * seconds (last (tk_last b # ts) - tk_last b) + of_nat (length ts) * slack eps b"
  using assms(4,5)
proof (induction ts arbitrary: b)
  case Nil
  then show ?case by (simp add: bucket_ok_def seconds_def)
next
  case (Cons t ts)
  obtain taken b1 where step: "take_token R t b = (taken, b1)" by fastforce
  note pay = take_token_pays [OF assms(1-3) Cons.prems(1) _ step]
  have le: "tk_last b \<le> t" using Cons.prems(2) by simp
  have "sorted (tk_last b1 # ts)" using Cons.prems(2) pay(2) [OF le] by simp
  from Cons.IH [OF pay(1) [OF le] this]
  have IH: "of_nat (fst (takes R ts b1)) \<le> tk_tokens b1
      + (1 + eps) ^ 4 * tk_rate b * seconds (last (t # ts) - t) + of_nat (length ts) * slack eps b"
    by (simp only: pay(2-4) [OF le] slack_def)
  have "seconds (last (t # ts) - t) + seconds (t - tk_last b) = seconds (last (tk_last b # t # ts) - tk_last b)"
    by (simp add: seconds_def add_divide_distrib [symmetric])
  then have time: "(1 + eps) ^ 4 * tk_rate b * seconds (last (t # ts) - t) + (1 + eps) ^ 4 * tk_rate b * seconds (t - tk_last b)
      = (1 + eps) ^ 4 * tk_rate b * seconds (last (tk_last b # t # ts) - tk_last b)"
    by (metis distrib_left)
  have count: "of_nat (fst (takes R (t # ts) b)) = (if taken then 1 else 0) + (of_nat (fst (takes R ts b1)) :: rat)"
    by (simp add: step split: prod.split)
  show ?case
    using IH pay(5) [OF le] unfolding count time [symmetric] by (simp add: algebra_simps)
qed

text \<open>
  C40. The admission limiter keeps its rate.  Of any requests that arrive over a time \<open>T\<close>, however they are
  spaced, at most the capacity plus \<open>rate * T\<close> get a token, up to the accumulated rounding error of
  \<open>f64\<close>; for the limiter of the service that is 100 at once and 25 a second.
\<close>

theorem admission_rate_is_bounded:
  assumes "f64_like eps R" "0 \<le> eps" "eps \<le> 1" "sorted (start # ts)"
  shows "of_nat (fst (takes R ts (new_bucket 25 100 start)))
    \<le> 100 + (1 + eps) ^ 4 * 25 * seconds (last (start # ts) - start) + of_nat (length ts) * (eps * 704)"
proof -
  have "bucket_ok (new_bucket 25 100 start)"
    by (auto simp: bucket_ok_def new_bucket_def intro: exI [of _ 100])
  from takes_bounded [OF assms(1-3) this] assms(4) show ?thesis
    by (simp add: new_bucket_def slack_def)
qed

theorem admission_rate_is_bounded_witness:
  "fst (takes id [0, 0, 40000000] (new_bucket 25 100 0)) = 3
   \<and> of_nat (fst (takes id [0, 0, 40000000] (new_bucket 25 100 0))) \<le> (101 :: rat)"
proof -
  have "f64_like 0 id" by (simp add: f64_like_def)
  from admission_rate_is_bounded [OF this, of 0 "[0, 0, 40000000]"]
  show ?thesis
    by (simp add: seconds_def take_token_def new_bucket_def secs_f64_def Let_def)
qed

section \<open>Strict JSON\<close>

text \<open>No object anywhere has a repeated field, and every number is finite; the value that is read.\<close>

fun clean :: "raw_json \<Rightarrow> bool" where
  "clean (RawFloat x) \<longleftrightarrow> x \<noteq> None"
| "clean (RawArr vs) \<longleftrightarrow> list_all clean vs"
| "clean (RawObj kvs) \<longleftrightarrow> distinct (map fst kvs) \<and> list_all (\<lambda>kv. clean (snd kv)) kvs"
| "clean _ \<longleftrightarrow> True"

fun plain :: "raw_json \<Rightarrow> json" where
  "plain RawNull = JNull"
| "plain (RawBool b) = JBool b"
| "plain (RawInt n) = JInt n"
| "plain (RawFloat x) = json_opt JDec x"
| "plain (RawText v) = v"
| "plain (RawArr vs) = JArr (map plain vs)"
| "plain (RawObj kvs) = JObj (map (\<lambda>kv. (fst kv, plain (snd kv))) kvs)"

lemma unique_json_reads:
  "unique_json raw = (if clean raw then Some (plain raw) else None)"
  "unique_seq vs acc = (if list_all clean vs then Some (JArr (acc @ map plain vs)) else None)"
  "unique_map kvs keys acc2 =
     (if distinct (map fst kvs) \<and> fst ` set kvs \<inter> keys = {} \<and> list_all (\<lambda>kv. clean (snd kv)) kvs
      then Some (JObj (acc2 @ map (\<lambda>kv. (fst kv, plain (snd kv))) kvs)) else None)"
  by (induction raw and vs acc and kvs keys acc2 rule: unique_json_unique_seq_unique_map.induct) auto

text \<open>
  The strict reader refuses exactly the bodies in which some object, at any depth, repeats a field
  or a number is not finite; every other body is read as the value it denotes.
\<close>

theorem strict_json_refuses_repeated_fields:
  "unique_json raw = Some v \<longleftrightarrow> clean raw \<and> v = plain raw"
  by (simp add: unique_json_reads(1)) blast

lemma strict_json_Ok:
  "fst (strict_json W decode body a) = Ok x \<longleftrightarrow>
     (\<exists>text raw. body = Ok text \<and> hl_parse_json W text = Some raw \<and> clean raw \<and> decode (plain raw) = Some x)"
  by (auto simp: strict_json_def ap_bind_def ap_result_def unique_json_reads(1) ok_or_eq_Err res_simps
      split: res.splits option.splits if_split_asm prod.splits)

section \<open>Checks\<close>

lemma idempotency_key_Ok:
  "idempotency_key W header = Ok key \<longleftrightarrow>
     (\<exists>raw. header = Some raw \<and> hl_header_text W raw = Some key)
     \<and> 16 \<le> length key \<and> length key \<le> 128 \<and> (\<forall>c \<in> set key. 32 \<le> byte c \<and> byte c \<le> 126)"
  by (auto simp: idempotency_key_def res_simps list_all_iff split: option.splits)

lemma validate_reason_Ok: "validate_reason reason = Ok () \<longleftrightarrow> \<not> is_blank reason \<and> length reason \<le> 512"
  by (auto simp: validate_reason_def)

lemma validate_limit_Ok: "validate_limit limit = Ok n \<longleftrightarrow> n = limit \<and> 1 \<le> limit \<and> limit \<le> 500"
  by (auto simp: validate_limit_def)

end
