(* ===== verification/JournalFrame.thy ===== *)
theory JournalFrame
  imports PipelineSafety "HOL-Library.Multiset"
begin

text \<open>
  What every transaction does to the journal: the events it appends get the next sequence numbers, exactly
  these events are broadcast when it commits, the recorded responses of idempotency keys are only
  added to, and the mode never changes.  Pruning is the one transaction that removes events; it broadcasts nothing.
\<close>

section \<open>Appended and broadcast events\<close>

fun numbered :: "int \<Rightarrow> ExecutionEvent list \<Rightarrow> bool" where
  "numbered n [] \<longleftrightarrow> True"
| "numbered n (e # es) \<longleftrightarrow> ev_sequence e = n + 1 \<and> numbered (n + 1) es"

lemma numbered_append: "numbered n (es @ fs) \<longleftrightarrow> numbered n es \<and> numbered (n + int (length es)) fs"
  by (induction es arbitrary: n) (auto simp: algebra_simps)

text \<open>Inside a transaction: \<open>es\<close> was appended and is not broadcast yet.\<close>

definition logged :: "ExecutionEvent list \<Rightarrow> Store \<Rightarrow> Store \<Rightarrow> bool" where
  "logged es db db' \<longleftrightarrow> st_mode db' = st_mode db \<and> idempotency_keys db' = idempotency_keys db \<and> st_sent db' = st_sent db
     \<and> execution_events db' = execution_events db @ es
     \<and> execution_events_seq db' = execution_events_seq db + int (length es)
     \<and> numbered (execution_events_seq db) es"

text \<open>A committed transaction.\<close>

definition recorded :: "Store \<Rightarrow> Store \<Rightarrow> bool" where
  "recorded db db' \<longleftrightarrow> st_mode db' = st_mode db \<and> (\<exists>es sent rows.
     idempotency_keys db' = idempotency_keys db @ rows
     \<and> execution_events db' = execution_events db @ es \<and> st_sent db' = st_sent db @ sent \<and> mset sent = mset es
     \<and> execution_events_seq db' = execution_events_seq db + int (length es)
     \<and> numbered (execution_events_seq db) es)"

definition later_ones :: "(ExecutionEvent \<Rightarrow> bool) \<Rightarrow> bool" where
  "later_ones P \<longleftrightarrow> (\<forall>e f. P e \<longrightarrow> ev_sequence e \<le> ev_sequence f \<longrightarrow> P f)"

definition pruned :: "Store \<Rightarrow> Store \<Rightarrow> bool" where
  "pruned db db' \<longleftrightarrow> st_mode db' = st_mode db \<and> idempotency_keys db' = idempotency_keys db \<and> st_sent db' = st_sent db
     \<and> execution_events_seq db' = execution_events_seq db
     \<and> (\<exists>P. later_ones P \<and> execution_events db' = filter P (execution_events db))"

lemma logged_trans: "logged es a b \<Longrightarrow> logged fs b c \<Longrightarrow> logged (es @ fs) a c"
  by (auto simp: logged_def numbered_append)

lemma logged_one: "logged es a b \<Longrightarrow> logged (es @ [next_event t r i p now b]) a (log_event (next_event t r i p now b) b)"
  by (auto simp: logged_def numbered_append)

lemma logged_same:
  assumes "logged es a b" "st_mode c = st_mode b" "idempotency_keys c = idempotency_keys b" "st_sent c = st_sent b"
    "execution_events c = execution_events b" "execution_events_seq c = execution_events_seq b"
  shows "logged es a c"
  using assms by (simp add: logged_def)

lemma logged_refl: "logged [] db db"
  by (simp add: logged_def)

lemma recorded_send: "logged es db db1 \<Longrightarrow> mset sent = mset es \<Longrightarrow> recorded db (send sent db1)"
  by (auto simp: recorded_def logged_def)

lemma recorded_quiet: "logged [] db db' \<Longrightarrow> recorded db db'"
  by (auto simp: recorded_def logged_def)

lemma recorded_refl: "recorded db db"
  by (rule recorded_quiet [OF logged_refl])

text \<open>What a transaction yields if it succeeds, followed through its statements.\<close>

definition yields :: "('a \<Rightarrow> bool) \<Rightarrow> ('e, 'a) res \<Rightarrow> bool" where
  "yields Q m \<longleftrightarrow> (\<forall>x. m = Ok x \<longrightarrow> Q x)"

lemma yieldsD: "yields Q m \<Longrightarrow> m = Ok x \<Longrightarrow> Q x"
  by (simp add: yields_def)

lemma yields_rules:
  shows "Q x \<Longrightarrow> yields Q (Ok x)" and "yields Q (Err e)"
    and "(c \<Longrightarrow> yields Q m) \<Longrightarrow> (\<not> c \<Longrightarrow> yields Q m') \<Longrightarrow> yields Q (if c then m else m')"
    and "(\<And>x. n = Ok x \<Longrightarrow> yields Q (f x)) \<Longrightarrow> yields Q (rbind n f)"
    and "(\<And>a b. p = (a, b) \<Longrightarrow> yields Q (g a b)) \<Longrightarrow> yields Q (case p of (a, b) \<Rightarrow> g a b)"
  by (auto simp: yields_def res_simps) (cases p, auto)

section \<open>The transactions\<close>

lemma records_admit: "admit_intent H a k request fresh now db = Ok (x, db') \<Longrightarrow> recorded db db'"
  by (auto simp: admit_intent_def admit_new_def Let_def res_simps append_event_eq recorded_def sql_insert_def
      split: option.splits if_split_asm)

lemma records_idempotent: "record_idempotent_response H a k op rid body st resp now db = Ok db' \<Longrightarrow> recorded db db'"
  by (auto simp: record_idempotent_response_def Let_def res_simps recorded_def split: if_split_asm)

lemma insert_idempotency_Ok:
  "insert_idempotency_record H a k op rid body st resp now db = Ok db' \<Longrightarrow>
     \<exists>row. db' = db\<lparr>idempotency_keys := idempotency_keys db @ [row]\<rparr>"
  by (auto simp: insert_idempotency_record_def Let_def split: if_split_asm)

lemma records_control:
  "set_service_state_inner H actor nxt reason idem expected aid cid now db = Ok db' \<Longrightarrow> recorded db db'"
  by (auto simp: set_service_state_inner_def Let_def res_simps append_event_eq recorded_def
      split: option.splits if_split_asm dest!: insert_idempotency_Ok)

lemma records_intent: "transition_intent i e n rej now db = Ok (r, db') \<Longrightarrow> recorded db db'"
  by (auto simp: transition_intent_def Let_def res_simps append_event_eq recorded_def split: if_split_asm option.splits)

lemma logs_decision: "insert_decision did i ap code ob pv now db = Ok (e, db') \<Longrightarrow> logged [e] db db'"
  by (auto simp: insert_decision_def Let_def res_simps append_event_eq logged_def split: if_split_asm)

lemma records_decision: "record_risk_decision i ap code ob pv did now db = Ok db' \<Longrightarrow> recorded db db'"
  by (auto simp: record_risk_decision_def res_simps dest!: logs_decision intro: recorded_send)

lemma logs_transition: "insert_transition oid p n ev now db = Ok db' \<Longrightarrow> logged [] db db'"
  by (auto simp: insert_transition_def res_simps logged_def)

lemma logs_fill:
  "apply_matched_fill D U ord vid delta fp ids tid now db = Ok (te, db') \<Longrightarrow> logged (option_list te) db db'"
  by (auto simp: apply_matched_fill_def Let_def res_simps append_event_eq logged_def split: if_split_asm)

lemma logs_reserve_exposure: "reserve_exposure D i request market policy now db = Ok (e, db') \<Longrightarrow> logged [e] db db'"
  by (auto simp: reserve_exposure_def Let_def res_simps append_event_eq logged_def)

lemma records_reserve:
  assumes "evaluate_and_reserve_risk D i request market book policy did now db = Ok (d, db')"
  shows "recorded db db'"
proof -
  have evs: "logged evs a c" if "logged [e] a b"
    "(if ap then rbind (reserve_exposure D i request market policy now b) (\<lambda>(x, db). Ok ([e, x], IntentState.Approved, db))
      else Ok ([e], IntentState.Rejected, b)) = Ok (evs, st, c)" for a b c e ap evs st
    using that by (auto simp: res_simps split: if_split_asm dest!: logs_reserve_exposure dest: logged_trans)
  have "yields (\<lambda>x. recorded db (snd x)) (evaluate_and_reserve_risk D i request market book policy did now db)"
    unfolding evaluate_and_reserve_risk_def Let_def append_event_eq prod.case
    by (intro yields_rules)
       (clarsimp, drule logs_decision, drule (1) evs, auto simp: recorded_def logged_def numbered_append)
  from yieldsD [OF this assms] show ?thesis by simp
qed

lemma records_prepare:
  "create_prepared_order D S intent request prepared pv fee pid aid oid now db = Ok (ord, db') \<Longrightarrow> recorded db db'"
  by (auto simp: create_prepared_order_def insert_order_def Let_def res_simps append_event_eq recorded_def split: if_split_asm)

lemma records_reject: "reject_preparation i code msg now db = Ok db' \<Longrightarrow> recorded db db'"
  by (auto simp: reject_preparation_def Let_def res_simps append_event_eq recorded_def split: if_split_asm)

lemma records_begin: "begin_submission i oid now db = Ok db' \<Longrightarrow> recorded db db'"
  by (auto simp: begin_submission_def Let_def res_simps append_event_eq recorded_def insert_transition_def split: if_split_asm)

lemma records_finish:
  assumes "finish_submission D U i oid ist ost v rc filled fp ids ev tid now db = Ok db'"
  shows "recorded db db'"
proof -
  have "yields (recorded db) (finish_submission D U i oid ist ost v rc filled fp ids ev tid now db)"
    unfolding finish_submission_def Let_def append_event_eq prod.case
    by (intro yields_rules)
       (auto simp: recorded_def logged_def numbered_append split: if_split_asm dest!: logs_fill logs_transition)
  from yieldsD [OF this assms] show ?thesis .
qed

lemma records_resolve:
  "resolve_unknown_submission D U un v st rem filled fp ids ev tid now db = Ok db' \<Longrightarrow> recorded db db'"
  unfolding resolve_unknown_submission_def Let_def append_event_eq
  by (auto simp: res_simps recorded_refl split: if_split_asm dest!: logs_fill logs_transition)
     (auto simp: recorded_def logged_def numbered_append)

lemma records_order: "transition_order oid n v ev now db = Ok (ord, db') \<Longrightarrow> recorded db db'"
  by (auto simp: transition_order_def Let_def res_simps append_event_eq recorded_def insert_transition_def split: if_split_asm)

lemma records_cancel_prepared: "cancel_prepared_order oid ev now db = Ok (ord, db') \<Longrightarrow> recorded db db'"
  by (auto simp: cancel_prepared_order_def Let_def res_simps append_event_eq recorded_def insert_transition_def split: if_split_asm)

lemma records_reconcile:
  assumes "reconcile_order_projection D U oid st rem tot fp ids ev tid now db = Ok db'"
  shows "recorded db db'"
proof -
  have "yields (recorded db) (reconcile_order_projection D U oid st rem tot fp ids ev tid now db)"
    unfolding reconcile_order_projection_def Let_def append_event_eq prod.case
    by (intro yields_rules recorded_refl)
       (auto simp: recorded_def logged_def numbered_append dest!: logs_fill logs_transition)
  from yieldsD [OF this assms] show ?thesis .
qed

section \<open>Recovery, finality, positions, cancellation\<close>

lemma logs_interrupted_row:
  "recover_interrupted_row now row (evs, db1) = Ok (evs', db') \<Longrightarrow> logged evs db db1 \<Longrightarrow> logged evs' db db'"
  by (auto simp: recover_interrupted_row_def Let_def res_simps append_event_eq logged_def numbered_append split: prod.splits)

lemma logs_interrupted_loop:
  "recover_interrupted_loop now rows acc = Ok (evs, db') \<Longrightarrow> logged (fst acc) db (snd acc) \<Longrightarrow> logged evs db db'"
proof (induction rows arbitrary: acc)
  case (Cons row rows)
  from Cons.prems(1) obtain acc' where "recover_interrupted_row now row acc = Ok acc'"
    and "recover_interrupted_loop now rows acc' = Ok (evs, db')" by (auto simp: res_simps)
  with Cons show ?case by (cases acc; cases acc') (auto dest: logs_interrupted_row)
qed simp

lemma records_recover_interrupted: "recover_interrupted_submissions now db = Ok (m, db') \<Longrightarrow> recorded db db'"
  by (auto simp: recover_interrupted_submissions_def Let_def res_simps logged_refl
      dest!: logs_interrupted_loop [where db = db] intro: recorded_send)

lemma logs_recover_row:
  "recover_pre_submission_row U now row (evs, db1) = Ok (evs', db') \<Longrightarrow> logged evs db db1 \<Longrightarrow> logged evs' db db'"
  by (auto simp: recover_pre_submission_row_def Let_def append_event_eq logged_def numbered_append split: prod.splits if_split_asm)

lemma logs_recover_loop:
  "recover_pre_submission_loop U now rows acc = Ok (evs, db') \<Longrightarrow> logged (fst acc) db (snd acc) \<Longrightarrow> logged evs db db'"
proof (induction rows arbitrary: acc)
  case (Cons row rows)
  from Cons.prems(1) obtain acc' where "recover_pre_submission_row U now row acc = Ok acc'"
    and "recover_pre_submission_loop U now rows acc' = Ok (evs, db')" by (auto simp: res_simps)
  with Cons show ?case by (cases acc; cases acc') (auto dest: logs_recover_row)
qed simp

lemma records_recover_pre: "recover_pre_submission_work U now db = Ok (is, db') \<Longrightarrow> recorded db db'"
  by (auto simp: recover_pre_submission_work_def Let_def res_simps logged_refl
      dest!: logs_recover_loop [where db = db] intro: recorded_send)

lemma records_finality: "record_venue_trade_finality oid vtid st ev now db = Ok (b, db') \<Longrightarrow> recorded db db'"
  by (auto simp: record_venue_trade_finality_def Let_def append_event_eq recorded_refl split: option.splits if_split_asm)
     (auto simp: recorded_def)

lemma logs_observed_loop:
  "observed_position_loop D now current obs seen acc = Ok (seen', evs', db') \<Longrightarrow> logged (fst acc) db (snd acc) \<Longrightarrow> logged evs' db db'"
proof (induction obs arbitrary: seen acc)
  case (Cons x rest)
  obtain condition token shares where x: "x = (condition, token, shares)" by (cases x)
  obtain evs db1 where acc: "acc = (evs, db1)" by (cases acc)
  let ?db = "db1\<lparr>positions := upsert_position \<lparr>ps_token_id = token, ps_condition_id = condition, ps_mode = st_mode db1,
     ps_shares = d_norm D shares, ps_updated_at = now\<rparr> (positions db1)\<rparr>"
  have "logged evs db ?db" using Cons.prems(2) by (auto simp: acc logged_def)
  from logged_one [OF this] Cons.prems show ?case
    unfolding x acc
    by (auto simp: Let_def append_event_eq split: if_split_asm intro: Cons.IH)
qed simp

lemma logs_vanished_loop:
  "logged (fst acc) db (snd acc) \<Longrightarrow>
     logged (fst (vanished_position_loop now seen rows acc)) db (snd (vanished_position_loop now seen rows acc))"
proof (induction now seen rows acc rule: vanished_position_loop.induct)
  case (2 now seen token condition prior rest evs db1)
  let ?db = "db1\<lparr>positions := sql_update (\<lambda>r. ps_token_id r = token) (\<lambda>r. r\<lparr>ps_shares := ''0'', ps_updated_at := now\<rparr>) (positions db1)\<rparr>"
  have "logged evs db ?db" using 2(3) by (auto simp: logged_def)
  from logged_one [OF this] 2 show ?case by (auto simp: Let_def append_event_eq)
qed simp

lemma records_positions:
  assumes "reconcile_venue_positions D obs now db = Ok db'"
  shows "recorded db db'"
proof -
  from assms obtain cur seen evs db1 where l: "observed_position_loop D now cur obs [] ([], db) = Ok (seen, evs, db1)"
    and db': "db' = send (fst (vanished_position_loop now seen (sort_key fst cur) (evs, db1)))
       (snd (vanished_position_loop now seen (sort_key fst cur) (evs, db1)))"
    by (auto simp: reconcile_venue_positions_def res_simps Let_def case_prod_beta)
  from logs_observed_loop [OF l, of db] have "logged (fst (evs, db1)) db (snd (evs, db1))" by (simp add: logged_refl)
  from logs_vanished_loop [OF this] show ?thesis unfolding db' by (rule recorded_send) simp
qed

lemma records_cancellation: "create_cancellation_inner H actor request idem cid now db = Ok (x, db') \<Longrightarrow> recorded db db'"
  by (auto simp: create_cancellation_inner_def Let_def res_simps append_event_eq recorded_def
      split: option.splits dest!: insert_idempotency_Ok)

lemma records_cancelled: "finish_cancellation cid failed now db = Ok (x, db') \<Longrightarrow> recorded db db'"
  by (auto simp: finish_cancellation_def Let_def res_simps append_event_eq recorded_def split: if_split_asm)

section \<open>Reconciliation runs and backups\<close>

lemma later_ones_True: "later_ones (\<lambda>_. True)" by (simp add: later_ones_def)

lemma later_ones_above: "later_ones (\<lambda>e. \<not> ev_sequence e \<le> c)" by (simp add: later_ones_def)

lemma pruned_refl: "pruned db db"
  unfolding pruned_def by (intro conjI exI [of _ "\<lambda>_. True"] later_ones_True) simp_all

lemma pruned_filter: "pruned db (db\<lparr>execution_events := filter (\<lambda>e. \<not> ev_sequence e \<le> c) (execution_events db)\<rparr>)"
  unfolding pruned_def by (intro conjI exI [of _ "\<lambda>e. \<not> ev_sequence e \<le> c"] later_ones_above) simp_all

lemma prunes_events: "prune_events db = Ok (n, db') \<Longrightarrow> pruned db db'"
  by (auto simp: prune_events_def Let_def pruned_refl pruned_filter split: if_split_asm)

lemma records_start_reconciliation: "start_reconciliation_inner H trigger idem rid now db = Ok (x, db') \<Longrightarrow> recorded db db'"
  by (auto simp: start_reconciliation_inner_def Let_def res_simps append_event_eq recorded_def
      split: option.splits dest!: insert_idempotency_Ok)

lemma logs_finding: "insert_finding fid rid code det db1 = Ok db' \<Longrightarrow> logged es db db1 \<Longrightarrow> logged es db db'"
  by (auto simp: insert_finding_def res_simps logged_def)

lemma logs_findings: "insert_findings rid fs db1 = Ok db' \<Longrightarrow> logged es db db1 \<Longrightarrow> logged es db db'"
  by (induction rid fs db1 rule: insert_findings.induct) (auto simp: res_simps dest: logs_finding)

lemma records_reconciled:
  assumes "finish_reconciliation fresh rid summary now db = Ok db'"
  shows "recorded db db'"
proof -
  have same: "logged [] db (db\<lparr>reconciliation_runs := r\<rparr>)" "logged [] db (db\<lparr>reconciliation_runs := r, reconciliation_findings := f\<rparr>)" for r f
    by (simp_all add: logged_def)
  have "yields (recorded db) (finish_reconciliation fresh rid summary now db)"
    unfolding finish_reconciliation_def Let_def append_event_eq prod.case
    by (intro yields_rules)
       (auto simp: recorded_def logged_def split: option.splits json.splits if_split_asm
          dest!: logs_findings [OF _ same(1)] logs_findings [OF _ same(2)])
  from yieldsD [OF this assms] show ?thesis .
qed

lemma records_reconciliation_failed: "fail_reconciliation rid err fid now db = Ok db' \<Longrightarrow> recorded db db'"
  by (auto simp: fail_reconciliation_def Let_def res_simps append_event_eq insert_finding_def recorded_def)

lemma logs_fail_loop:
  "fail_interrupted_loop now rows acc = Ok (evs', db') \<Longrightarrow> logged (fst acc) db (snd acc) \<Longrightarrow> logged evs' db db'"
proof (induction rows arbitrary: acc)
  case (Cons x rest)
  obtain rid fid where x: "x = (rid, fid)" by (cases x)
  obtain evs db1 where acc: "acc = (evs, db1)" by (cases acc)
  let ?db = "db1\<lparr>reconciliation_runs := sql_update (\<lambda>r. rc_id r = rid \<and> rc_state r = ''RUNNING'')
     (\<lambda>r. r\<lparr>rc_state := ''FAILED'', rc_summary_json := interrupted_run_summary, rc_completed_at := Some now\<rparr>) (reconciliation_runs db1)\<rparr>"
  have "logged evs db ?db" using Cons.prems(2) by (auto simp: acc logged_def)
  note found = logs_finding [OF _ this]
  from Cons.prems(1) obtain db2 where "insert_finding fid rid ''RECONCILIATION_INTERRUPTED'' interrupted_run_summary ?db = Ok db2"
    and rest: "fail_interrupted_loop now rest (evs @ [next_event ''reconciliation.failed'' ''reconciliation'' (RUuid rid) interrupted_run_summary now db2],
      log_event (next_event ''reconciliation.failed'' ''reconciliation'' (RUuid rid) interrupted_run_summary now db2) db2) = Ok (evs', db')"
    unfolding x acc by (auto simp: Let_def append_event_eq elim!: rbind_OkE)
  with found have "logged evs db db2" by blast
  from Cons.IH [OF rest] logged_one [OF this] show ?case by simp
qed simp

lemma records_reconciliation_interrupted: "fail_interrupted_reconciliations fresh now db = Ok (n, db') \<Longrightarrow> recorded db db'"
  by (auto simp: fail_interrupted_reconciliations_def Let_def res_simps logged_refl
      dest!: logs_fail_loop [where db = db] intro: recorded_send)

lemma records_start_backup: "start_backup_inner H idem bid now db = Ok (x, db') \<Longrightarrow> recorded db db'"
  by (auto simp: start_backup_inner_def Let_def res_simps append_event_eq recorded_def
      split: option.splits dest!: insert_idempotency_Ok)

lemma records_run_backup: "run_backup bid outcome now db = (x, db') \<Longrightarrow> recorded db db'"
  by (auto simp: run_backup_def complete_backup_def Let_def append_event_eq recorded_refl split: option.splits res.splits)
     (auto simp: recorded_def)

lemma logs_backup_loop:
  "logged (fst acc) db (snd acc) \<Longrightarrow> logged (fst (fail_backup_loop now ids acc)) db (snd (fail_backup_loop now ids acc))"
proof (induction now ids acc rule: fail_backup_loop.induct)
  case (2 now bid rest evs db1)
  let ?db = "db1\<lparr>backups := sql_update (\<lambda>b. bu_id b = bid \<and> bu_state b = ''RUNNING'') (\<lambda>b. b\<lparr>bu_state := ''FAILED'',
     bu_error := Some ''executor restarted before backup completed'', bu_updated_at := now\<rparr>) (backups db1)\<rparr>"
  have "logged evs db ?db" using 2(2) by (auto simp: logged_def)
  from logged_one [OF this] 2(1) show ?case by (auto simp: Let_def append_event_eq)
qed simp

lemma records_backup_interrupted: "fail_interrupted_backups now db = (x, db') \<Longrightarrow> recorded db db'"
  using logs_backup_loop [of "([], db)" db now]
  by (auto simp: fail_interrupted_backups_def Let_def case_prod_beta logged_refl intro: recorded_send)

section \<open>The paper ledger\<close>

lemma logs_starting_positions: "insert_starting_positions D now ps db1 = Ok db' \<Longrightarrow> logged es db db1 \<Longrightarrow> logged es db db'"
proof (induction ps arbitrary: db1)
  case (Cons p ps)
  from Cons.prems show ?case
    by (auto simp: res_simps split: if_split_asm dest!: Cons.IH) (simp_all add: logged_def)
qed simp

lemma records_paper_account: "initialize_paper_account D H config now db = Ok db' \<Longrightarrow> recorded db db'"
  by (auto simp: initialize_paper_account_def Let_def res_simps append_event_eq recorded_refl
        split: if_split_asm option.splits dest!: logs_starting_positions [where es = "[]" and db = db])
     (auto simp: recorded_def logged_def)

lemma records_paper_commit:
  assumes "commit_paper_order D c now db = Ok (snap, db')"
  shows "recorded db db'"
proof -
  from assms obtain found where "load_paper_order D (pc_venue_order_id c) db = Ok found"
    by (auto simp: commit_paper_order_def res_simps)
  with assms show ?thesis
    by (cases found) (auto simp: commit_paper_order_def Let_def res_simps append_event_eq save_ledger_def recorded_refl
        split: if_split_asm, auto simp: recorded_def)
qed

lemma logs_release_paper: "release_paper_order D row now db = Ok db' \<Longrightarrow> logged [] db db'"
  by (cases "sql_find (\<lambda>r. pi_token_id r = po_token_id row) (paper_inventory db)")
     (clarsimp simp: release_paper_order_def Let_def rbind_eq_Ok logged_def)+

lemma records_paper_cancel: "cancel_paper_order D vid now db = Ok (snap, db') \<Longrightarrow> recorded db db'"
  by (clarsimp simp: cancel_paper_order_def Let_def rbind_eq_Ok append_event_eq split: if_split_asm)
     (auto simp: recorded_def logged_def dest!: logs_release_paper)

lemma logs_paper_fill:
  assumes "project_paper_fill D U t vid vtid st fill rem ev tid now db1 = Ok (es, db')" "logged evs db db1"
  shows "logged (evs @ es) db db'"
proof -
  have "yields (\<lambda>x. logged (evs @ fst x) db (snd x)) (project_paper_fill D U t vid vtid st fill rem ev tid now db1)"
    using assms(2) unfolding project_paper_fill_def Let_def append_event_eq prod.case
    by (cases "sql_find (\<lambda>r. or_venue_order_id r = Some vid) (orders db1)")
       ((simp only: option.case, intro yields_rules)?,
        auto simp: logged_def numbered_append dest!: logs_fill logs_transition intro!: yields_rules)
  from yieldsD [OF this assms(1)] show ?thesis by simp
qed

lemma logs_fill_paper:
  assumes "fill_paper_order D U t now row tid lp rem fill l db1 = Ok (es, l', db')" "logged evs db db1"
  shows "logged (evs @ es) db db'"
proof -
  have fill: "logged (evs @ xs) db c" if "project_paper_fill D U t vid vtid st fl rm ev td now (db1\<lparr>paper_venue_orders := rows\<rparr>) = Ok (xs, c)"
    for vid vtid st fl rm ev td rows xs c
    using that by (rule logs_paper_fill) (use assms(2) in \<open>simp add: logged_def\<close>)
  from assms(1) show ?thesis
    by (clarsimp simp: fill_paper_order_def rbind_eq_Ok if_Err_eq_Ok Let_def append_event_eq)
       (drule fill, drule logged_one, simp)
qed

lemma logs_trade_loop:
  "trade_through_loop D U t now work (m, n, evs, l, db1) = Ok (n', evs', l', db') \<Longrightarrow> logged evs db db1 \<Longrightarrow> logged evs' db db'"
proof (induction work arbitrary: m n evs l db1)
  case (Cons w work)
  obtain row tid where w: "w = (row, tid)" by (cases w)
  from Cons.prems(1) consider "db' = db1" "evs' = evs"
    | "\<exists>m' n0. trade_through_loop D U t now work (m', n0, evs, l, db1) = Ok (n', evs', l', db')"
    | lp rem fill es l1 db2 where "fill_paper_order D U t now row tid lp rem fill l db1 = Ok (es, l1, db2)"
        "\<exists>m' n0. trade_through_loop D U t now work (m', n0, evs @ es, l1, db2) = Ok (n', evs', l', db')"
    by (auto simp: w res_simps Let_def split: if_split_asm) blast
  then show ?case
    by cases (use Cons.prems(2) in \<open>auto intro: Cons.IH dest: logs_fill_paper\<close>)
qed simp

lemma records_paper_trade:
  assumes "apply_paper_trade_through D U t fresh now db = Ok (n, db')"
  shows "recorded db db'"
proof -
  have loop: "logged evs db c" if "trade_through_loop D U t now work (m, k, [], l, db\<lparr>paper_market_events := pe\<rparr>) = Ok (k', evs, l', c)"
    for work m k l pe k' evs l' c
    using that by (rule logs_trade_loop) (simp add: logged_def)
  have "yields (\<lambda>x. recorded db (snd x)) (apply_paper_trade_through D U t fresh now db)"
    unfolding apply_paper_trade_through_def Let_def append_event_eq prod.case
    by (intro yields_rules)
       (auto simp: recorded_refl save_ledger_def recorded_def logged_def numbered_append dest!: loop)
  from yieldsD [OF this assms] show ?thesis by simp
qed

lemma records_identity: "bind_identity cfg now db = Ok db' \<Longrightarrow> recorded db db'"
  by (auto simp: bind_identity_def recorded_refl split: option.splits if_split_asm) (auto simp: recorded_def)

lemmas records_steps =
  records_admit records_idempotent records_control records_intent records_decision records_reserve records_prepare
  records_reject records_begin records_finish records_recover_interrupted records_recover_pre records_resolve records_order
  records_cancel_prepared records_reconcile records_finality records_positions records_cancellation records_cancelled
  records_start_reconciliation records_reconciled records_reconciliation_failed records_reconciliation_interrupted
  records_start_backup records_run_backup records_backup_interrupted records_paper_account
  records_paper_commit records_paper_cancel records_paper_trade records_identity

lemma step_records:
  assumes "store_step D H S U db db'"
  shows "recorded db db' \<or> pruned db db'"
  using assms
proof (cases rule: store_step.cases)
  case prune
  then show ?thesis by (blast dest: prunes_events)
qed ((rule disjI1, erule records_steps)+)

section \<open>Runs\<close>

text \<open>What a later store has kept and gained.\<close>

definition extends :: "Store \<Rightarrow> Store \<Rightarrow> bool" where
  "extends db db' \<longleftrightarrow> st_mode db' = st_mode db \<and> execution_events_seq db \<le> execution_events_seq db'
     \<and> (\<exists>rows. idempotency_keys db' = idempotency_keys db @ rows)
     \<and> (\<exists>new. st_sent db' = st_sent db @ new \<and> set (execution_events db') \<subseteq> set (execution_events db) \<union> set new
          \<and> (\<forall>e \<in> set new. execution_events_seq db < ev_sequence e \<and> ev_sequence e \<le> execution_events_seq db'))"

lemma numbered_bounds: "numbered n es \<Longrightarrow> e \<in> set es \<Longrightarrow> n < ev_sequence e \<and> ev_sequence e \<le> n + int (length es)"
  by (induction es arbitrary: n) force+

lemma recorded_extends: "recorded db db' \<Longrightarrow> extends db db'"
  unfolding recorded_def extends_def
  by (elim conjE exE, intro conjI) (auto dest: numbered_bounds mset_eq_setD)

lemma pruned_extends: "pruned db db' \<Longrightarrow> extends db db'"
  by (auto simp: pruned_def extends_def)

lemma extends_refl: "extends db db"
  by (auto simp: extends_def)

lemma extends_trans:
  assumes "extends a b" "extends b c"
  shows "extends a c"
proof -
  from assms obtain r1 r2 n1 n2 where
    "idempotency_keys b = idempotency_keys a @ r1" "idempotency_keys c = idempotency_keys b @ r2"
    "st_sent b = st_sent a @ n1" "set (execution_events b) \<subseteq> set (execution_events a) \<union> set n1"
    "\<forall>e \<in> set n1. execution_events_seq a < ev_sequence e \<and> ev_sequence e \<le> execution_events_seq b"
    "st_sent c = st_sent b @ n2" "set (execution_events c) \<subseteq> set (execution_events b) \<union> set n2"
    "\<forall>e \<in> set n2. execution_events_seq b < ev_sequence e \<and> ev_sequence e \<le> execution_events_seq c"
    by (auto simp: extends_def)
  then show ?thesis
    using assms unfolding extends_def by (intro conjI exI [of _ "n1 @ n2"] exI [of _ "r1 @ r2"]) force+
qed

lemma step_extends: "store_step D H S U db db' \<Longrightarrow> extends db db'"
  using step_records recorded_extends pruned_extends by blast

lemma steps_extend: "(store_step D H S U)\<^sup>*\<^sup>* db db' \<Longrightarrow> extends db db'"
  by (induction rule: rtranclp_induct) (auto intro: extends_refl extends_trans step_extends)

text \<open>The journal of a reachable store.\<close>

definition journal_ok :: "Store \<Rightarrow> bool" where
  "journal_ok db \<longleftrightarrow> 0 \<le> execution_events_seq db
     \<and> (\<exists>k \<ge> 0. k \<le> execution_events_seq db \<and> map ev_sequence (execution_events db) = [k + 1 .. execution_events_seq db])
     \<and> mset (map ev_sequence (st_sent db)) = mset [1 .. execution_events_seq db]
     \<and> set (execution_events db) \<subseteq> set (st_sent db)"

lemma numbered_map: "numbered n es \<Longrightarrow> map ev_sequence es = [n + 1 .. n + int (length es)]"
proof (induction es arbitrary: n)
  case (Cons e es)
  then have *: "ev_sequence e = n + 1" "map ev_sequence es = [n + 1 + 1 .. n + 1 + int (length es)]"
    using Cons.IH [of "n + 1"] by (simp_all only: numbered.simps)
  have "[n + 1 .. n + 1 + int (length es)] = (n + 1) # [n + 1 + 1 .. n + 1 + int (length es)]"
    by (rule upto_rec1) simp
  moreover have "n + int (length (e # es)) = n + 1 + int (length es)" by simp
  ultimately show ?case using * by (simp only: list.map)
qed simp

lemma upto_append: "m \<le> n + 1 \<Longrightarrow> [m .. n + int k] = [m .. n] @ [n + 1 .. n + int k]"
proof (induction k)
  case (Suc k)
  have "[m .. n + int (Suc k)] = [m .. n + int (Suc k) - 1] @ [n + int (Suc k)]"
    using Suc.prems by (intro upto_rec2) simp
  moreover have "[n + 1 .. n + int (Suc k)] = [n + 1 .. n + int (Suc k) - 1] @ [n + int (Suc k)]"
    by (rule upto_rec2) simp
  moreover have "n + int (Suc k) - 1 = n + int k" by simp
  ultimately show ?case using Suc by (simp only: append_assoc)
qed simp

lemma journal_ok_sent: "journal_ok db \<Longrightarrow> e \<in> set (st_sent db) \<Longrightarrow> 1 \<le> ev_sequence e \<and> ev_sequence e \<le> execution_events_seq db"
proof -
  assume "journal_ok db" and e: "e \<in> set (st_sent db)"
  then have "set (map ev_sequence (st_sent db)) = {1 .. execution_events_seq db}"
    by (metis journal_ok_def mset_eq_setD set_upto)
  with e show ?thesis by (metis atLeastAtMost_iff image_eqI set_map)
qed

lemma journal_ok_recorded:
  assumes "journal_ok db" "recorded db db'"
  shows "journal_ok db'"
proof -
  let ?n = "execution_events_seq db"
  from assms(2) obtain es sent where r: "execution_events db' = execution_events db @ es" "st_sent db' = st_sent db @ sent"
    "mset sent = mset es" "execution_events_seq db' = ?n + int (length es)" "numbered ?n es" by (auto simp: recorded_def)
  obtain k where k: "0 \<le> k" "k \<le> ?n" "map ev_sequence (execution_events db) = [k + 1 .. ?n]" "0 \<le> ?n"
    "mset (map ev_sequence (st_sent db)) = mset [1 .. ?n]" "set (execution_events db) \<subseteq> set (st_sent db)"
    using assms(1) by (auto simp: journal_ok_def)
  have upto: "[j .. ?n + int (length es)] = [j .. ?n] @ map ev_sequence es" if "j \<le> ?n + 1" for j
    unfolding numbered_map [OF r(5)] using that by (rule upto_append)
  show ?thesis
    unfolding journal_ok_def r(1,2,4)
  proof (intro conjI exI [of _ k])
    show "map ev_sequence (execution_events db @ es) = [k + 1 .. ?n + int (length es)]"
      using upto [of "k + 1"] k(2,3) by simp
    have "mset (map ev_sequence sent) = mset (map ev_sequence es)" using r(3) by (metis mset_map)
    then show "mset (map ev_sequence (st_sent db @ sent)) = mset [1 .. ?n + int (length es)]"
      using upto [of 1] k(4,5) by simp
    show "set (execution_events db @ es) \<subseteq> set (st_sent db @ sent)"
      using k(6) mset_eq_setD [OF r(3)] by auto
  qed (use k in simp_all)
qed

lemma filter_upto:
  assumes "later_ones P"
  shows "map ev_sequence es = [k + 1 .. n] \<Longrightarrow> k \<le> n \<Longrightarrow> \<exists>k' \<ge> k. k' \<le> n \<and> map ev_sequence (filter P es) = [k' + 1 .. n]"
proof (induction es arbitrary: k)
  case (Cons e es)
  then have "k < n" by (cases "k < n") auto
  then have e: "ev_sequence e = k + 1" "map ev_sequence es = [k + 1 + 1 .. n]"
    using Cons.prems(1) upto_rec1 [of "k + 1" n] by simp_all
  show ?case
  proof (cases "P e")
    case True
    have "k + 1 \<le> ev_sequence f" if "f \<in> set (e # es)" for f
    proof -
      from that have "ev_sequence f \<in> set [k + 1 .. n]" using Cons.prems(1) by (metis image_eqI set_map)
      then show ?thesis by simp
    qed
    then have "filter P (e # es) = e # es" using assms True e(1) unfolding later_ones_def by (intro filter_True) metis
    then show ?thesis using Cons.prems by auto
  next
    case False
    with Cons.IH [OF e(2)] \<open>k < n\<close> obtain k' where "k + 1 \<le> k'" "k' \<le> n" "map ev_sequence (filter P es) = [k' + 1 .. n]" by auto
    with False show ?thesis by (intro exI [of _ k']) simp
  qed
qed auto

lemma journal_ok_pruned:
  assumes "journal_ok db" "pruned db db'"
  shows "journal_ok db'"
proof -
  from assms(2) obtain P where P: "later_ones P" "execution_events db' = filter P (execution_events db)" by (auto simp: pruned_def)
  moreover obtain k where k: "0 \<le> k" "map ev_sequence (execution_events db) = [k + 1 .. execution_events_seq db]" "k \<le> execution_events_seq db"
    using assms(1) by (auto simp: journal_ok_def)
  moreover from filter_upto [OF P(1) k(2,3)] obtain k' where "k \<le> k'" "k' \<le> execution_events_seq db"
    "map ev_sequence (execution_events db') = [k' + 1 .. execution_events_seq db]" unfolding P(2) by blast
  ultimately show ?thesis
    using assms unfolding journal_ok_def pruned_def by (intro conjI exI [of _ k']) auto
qed

interpretation journal: invariant_system fresh_store "store_step D H S U" journal_ok for D H S U
proof unfold_locales
  show "journal_ok db" if "fresh_store db" for db
    using that by (auto simp: fresh_store_def new_store_def journal_ok_def)
  show "journal_ok db'" if "journal_ok db" "store_step D H S U db db'" for db db'
    using step_records [OF that(2)] journal_ok_recorded [OF that(1)] journal_ok_pruned [OF that(1)] by blast
qed

text \<open>
  C9. The journal is gapless and broadcast in full.  In every reachable store the sequence numbers of the
  events broadcast are exactly 1 to the counter, each once; the journal holds the latest of them, in
  order and without a gap, and no later transaction takes back an event that was
  broadcast or a recorded response.
\<close>

theorem journal_is_gapless:
  assumes "fresh_store db0" "(store_step D H S U)\<^sup>*\<^sup>* db0 db" "(store_step D H S U)\<^sup>*\<^sup>* db db'"
  shows "mset (map ev_sequence (st_sent db)) = mset [1 .. execution_events_seq db]
     \<and> (\<exists>k \<ge> 0. map ev_sequence (execution_events db) = [k + 1 .. execution_events_seq db])
     \<and> set (execution_events db) \<subseteq> set (st_sent db)
     \<and> (\<exists>new. st_sent db' = st_sent db @ new) \<and> (\<exists>rows. idempotency_keys db' = idempotency_keys db @ rows)"
  using journal.reachable_inv [OF assms(1,2)] steps_extend [OF assms(3)] by (auto simp: journal_ok_def extends_def)

end
