(* ===== verification/ApiStream.thy ===== *)
theory ApiStream
  imports JournalFrame Api CoordinatorSafety
begin

text \<open>
  The event stream of a client: it subscribes, reads the bounds of the journal and replays it in three separate
  reads, and other tasks commit between them.  What it sends is every event above its starting point, once.
\<close>

section \<open>The journal by its sequence numbers\<close>

definition first_kept :: "Store \<Rightarrow> int" where
  "first_kept db = (case sql_min (map ev_sequence (execution_events db)) of None \<Rightarrow> execution_events_seq db + 1 | Some m \<Rightarrow> m)"

lemma fold_min_upto: "(a::int) \<le> k \<Longrightarrow> fold min [k .. n] a = a"
proof (induction "nat (n - k + 1)" arbitrary: k)
  case (Suc j)
  then have "[k .. n] = k # [k + 1 .. n]" by (intro upto_rec1) simp
  with Suc show ?case by (simp add: min_def)
qed simp

lemma fold_max_upto: "(a::int) < k \<Longrightarrow> k \<le> n \<Longrightarrow> fold max [k .. n] a = n"
proof (induction "nat (n - k)" arbitrary: a k)
  case 0
  then show ?case by (simp add: max_def)
next
  case (Suc j)
  then have "[k .. n] = k # [k + 1 .. n]" "k < n" by (simp_all add: upto_rec1)
  with Suc show ?case by (simp add: max_def)
qed

lemma journal_bounds:
  assumes "journal_ok db" "execution_events db \<noteq> []"
  shows "event_sequence_bounds db = (Some (first_kept db), Some (execution_events_seq db))
    \<and> 1 \<le> first_kept db \<and> first_kept db \<le> execution_events_seq db
    \<and> map ev_sequence (execution_events db) = [first_kept db .. execution_events_seq db]"
proof -
  obtain k where k: "0 \<le> k" "map ev_sequence (execution_events db) = [k + 1 .. execution_events_seq db]"
    using assms(1) by (auto simp: journal_ok_def)
  with assms(2) have le: "k + 1 \<le> execution_events_seq db" by (metis list.map_disc_iff not_le upto_empty)
  then have cons: "[k + 1 .. execution_events_seq db] = (k + 1) # [k + 1 + 1 .. execution_events_seq db]" by (rule upto_rec1)
  have "sql_min [k + 1 .. execution_events_seq db] = Some (k + 1)"
    unfolding cons by (simp only: sql_min.simps) (simp add: fold_min_upto)
  moreover have "sql_max [k + 1 .. execution_events_seq db] = Some (execution_events_seq db)"
    using le unfolding cons by (cases "k + 1 = execution_events_seq db") (simp_all add: fold_max_upto)
  ultimately show ?thesis using k le by (simp add: first_kept_def event_sequence_bounds_def)
qed

text \<open>The events broadcast with a number in a range, each once.\<close>

definition broadcast_from :: "int \<Rightarrow> Store \<Rightarrow> ExecutionEvent list" where
  "broadcast_from n db = filter (\<lambda>e. n < ev_sequence e) (st_sent db)"

lemma distinct_sent: "journal_ok db \<Longrightarrow> distinct (map ev_sequence (st_sent db))"
  unfolding journal_ok_def by (metis distinct_upto mset_eq_imp_distinct_iff)

lemma broadcast_all: "journal_ok db \<Longrightarrow> broadcast_from 0 db = st_sent db"
  unfolding broadcast_from_def by (rule filter_True) (auto dest: journal_ok_sent)

lemma sent_in_full:
  assumes db: "journal_ok db" "st_sent db = old @ new" "\<forall>e \<in> set old. ev_sequence e \<le> w"
    and es: "set es \<subseteq> set (st_sent db)" "map ev_sequence es = [n + 1 .. w]" "n \<le> w"
  shows "mset (es @ filter (\<lambda>e. w < ev_sequence e) new) = mset (broadcast_from n db)"
proof -
  have inj: "inj_on ev_sequence (set (st_sent db))" and d: "distinct (st_sent db)"
    using distinct_sent [OF db(1)] by (simp_all add: distinct_map)
  have range: "ev_sequence e \<in> {n + 1 .. w}" if "e \<in> set es" for e
    using that es(2) by (metis image_eqI set_map set_upto)
  have covered: "e \<in> set es" if e: "e \<in> set (st_sent db)" "n < ev_sequence e" "ev_sequence e \<le> w" for e
  proof -
    from e(2,3) have "ev_sequence e \<in> set (map ev_sequence es)" unfolding es(2) by simp
    then obtain f where "f \<in> set es" "ev_sequence f = ev_sequence e" by auto
    with es(1) inj e(1) show ?thesis by (metis inj_onD subsetD)
  qed
  have es_distinct: "distinct es" using es(2) by (metis distinct_map distinct_upto)
  have "e \<in> set (es @ filter (\<lambda>e. w < ev_sequence e) new) \<longleftrightarrow> e \<in> set (broadcast_from n db)" for e
    using es(1,3) range [of e] covered [of e] db(2,3) unfolding broadcast_from_def by (cases "w < ev_sequence e") auto
  then have "set (es @ filter (\<lambda>e. w < ev_sequence e) new) = set (broadcast_from n db)" by blast
  moreover have "distinct (es @ filter (\<lambda>e. w < ev_sequence e) new)"
    using d db(2) range es_distinct by fastforce
  moreover have "distinct (broadcast_from n db)" using d by (simp add: broadcast_from_def)
  ultimately show ?thesis by (simp only: set_eq_iff_mset_eq_distinct)
qed

section \<open>What a client receives\<close>

lemma stream_items_received: "stream_items s (map Received es) =
   (case es_reset s of None \<Rightarrow> [] | Some reason \<Rightarrow> [SseReset reason])
     @ map SseEvent (es_replay s @ filter (\<lambda>e. es_watermark s < ev_sequence e) es)"
proof -
  have "List.map_filter (live_item w) (map Received es) = map SseEvent (filter (\<lambda>e. w < ev_sequence e) es)" for w
    by (induction es) (simp_all add: List.map_filter_simps live_item_def)
  then show ?thesis by (simp add: stream_items_def)
qed

lemma filter_above: "filter (\<lambda>x. c < x) [a + 1 .. n] = [max a c + 1 .. n]" for c :: int
  by (rule sorted_distinct_set_unique) (auto simp: sorted_wrt_filter sorted_upto)

lemma take_upto: "(a::int) \<le> n \<Longrightarrow> \<exists>w. a \<le> w \<and> w \<le> n \<and> take m [a + 1 .. n] = [a + 1 .. w]"
proof (induction m arbitrary: a)
  case (Suc m)
  show ?case
  proof (cases "a < n")
    case True
    then obtain w where "a + 1 \<le> w" "w \<le> n" "take m [a + 1 + 1 .. n] = [a + 1 + 1 .. w]" using Suc.IH [of "a + 1"] by auto
    with True show ?thesis by (intro exI [of _ w]) (simp add: upto_rec1)
  qed (use Suc.prems in auto)
qed auto

lemma replay_range:
  assumes "journal_ok db" "execution_events db \<noteq> []" "after \<le> execution_events_seq db"
  shows "\<exists>w. max (first_kept db - 1) after \<le> w
    \<and> map ev_sequence (replay_events after limit db) = [max (first_kept db - 1) after + 1 .. w]"
proof -
  note b = journal_bounds [OF assms(1,2)]
  let ?fs = "filter (\<lambda>e. after < ev_sequence e) (execution_events db)"
  have seqs: "map ev_sequence ?fs = [max (first_kept db - 1) after + 1 .. execution_events_seq db]"
  proof -
    have "map ev_sequence ?fs = filter (\<lambda>x. after < x) (map ev_sequence (execution_events db))" by (simp add: filter_map comp_def)
    with b filter_above [of after "first_kept db - 1"] show ?thesis by simp
  qed
  then have "sort_key ev_sequence ?fs = ?fs" by (simp only: sort_key_id_if_sorted sorted_upto)
  then have "map ev_sequence (replay_events after limit db) = take (min limit 10000) [max (first_kept db - 1) after + 1 .. execution_events_seq db]"
    using seqs by (simp add: replay_events_def flip: take_map)
  with take_upto [of "max (first_kept db - 1) after" "execution_events_seq db" "min limit 10000"] b assms(3) show ?thesis by auto
qed

text \<open>The four stores a stream is made of: subscription, bounds, replay, and any later one.\<close>

lemma stream_complete:
  assumes ok: "journal_ok db1" "journal_ok db2" "journal_ok db3" "journal_ok db"
    and ext: "extends db1 db2" "extends db2 db3" "extends db3 db"
    and kept: "execution_events db2 \<noteq> []" "execution_events db3 \<noteq> []" "first_kept db3 = first_kept db2" "0 \<le> after"
    and s: "s = plan_stream (length (st_sent db1)) after (event_sequence_bounds db2)
      (if event_cursor_outside_retention after (fst (event_sequence_bounds db2)) (snd (event_sequence_bounds db2)) then []
       else replay_events after 10000 db3)"
    and items: "items = stream_items s (map Received (drop (es_position s) (st_sent db)))"
  shows "case es_reset s of
      None \<Rightarrow> \<exists>es. items = map SseEvent es \<and> mset es = mset (broadcast_from (max (first_kept db2 - 1) after) db)
    | Some reason \<Rightarrow> \<exists>es. items = SseReset reason # map SseEvent es
        \<and> mset es = mset (broadcast_from (execution_events_seq db2) db)"
proof -
  note b2 = journal_bounds [OF ok(2) kept(1)]
  have position: "es_position s = length (st_sent db1)" by (simp add: s plan_stream_def Let_def)
  obtain new where new: "st_sent db = st_sent db1 @ new" "drop (es_position s) (st_sent db) = new"
    using extends_trans [OF ext(1) extends_trans [OF ext(2,3)]] position by (auto simp: extends_def)
  have seqs: "execution_events_seq db1 \<le> execution_events_seq db2" "execution_events_seq db2 \<le> execution_events_seq db3"
    using ext(1,2) by (simp_all add: extends_def)
  have old: "\<forall>e \<in> set (st_sent db1). ev_sequence e \<le> w" if "execution_events_seq db2 \<le> w" for w
    using journal_ok_sent [OF ok(1)] seqs(1) that by force
  note events = stream_items_received [of s new, folded new(2), folded items, unfolded new(2)]
  show ?thesis
  proof (cases "es_reset s")
    case (Some reason)
    then have "es_watermark s = execution_events_seq db2" "es_replay s = []"
      using b2 by (auto simp: s plan_stream_def Let_def coalesce_def split: if_split_asm)
    with events Some sent_in_full [OF ok(4) new(1) old, of "execution_events_seq db2" "[]"] show ?thesis by auto
  next
    case None
    define replay where "replay = replay_events after 10000 db3"
    from None have outside: "\<not> event_cursor_outside_retention after (Some (first_kept db2)) (Some (execution_events_seq db2))"
      and plan: "es_replay s = replay" "es_watermark s = (if replay = [] then after else ev_sequence (last replay))"
      and w: "execution_events_seq db2 \<le> es_watermark s"
      using b2 by (auto simp: s plan_stream_def Let_def event_replay_truncated_def replay_def split: if_split_asm)
    then have "after \<le> execution_events_seq db3" using kept(4) b2 seqs by (auto simp: event_cursor_outside_retention_def)
    from replay_range [OF ok(3) kept(2) this, of 10000] obtain v where
      v: "max (first_kept db2 - 1) after \<le> v" "map ev_sequence replay = [max (first_kept db2 - 1) after + 1 .. v]"
      by (auto simp: replay_def kept(3))
    have "v = es_watermark s"
    proof (cases "replay = []")
      case True
      with v plan w b2 show ?thesis by (auto simp: max_def split: if_split_asm)
    next
      case False
      then have "max (first_kept db2 - 1) after + 1 \<le> v" using v(2) by (metis list.map_disc_iff not_le upto_empty)
      then have "last (map ev_sequence replay) = v" unfolding v(2) by (simp add: upto_rec2)
      with False plan show ?thesis by (simp add: last_map)
    qed
    moreover have "set replay \<subseteq> set (st_sent db)"
      using ok(3) ext(3) by (auto simp: replay_def replay_events_def journal_ok_def extends_def dest!: in_set_takeD)
    ultimately have "mset (replay @ filter (\<lambda>e. es_watermark s < ev_sequence e) new)
        = mset (broadcast_from (max (first_kept db2 - 1) after) db)"
      using v by (intro sent_in_full [OF ok(4) new(1) old [OF w]]) simp_all
    moreover have "items = map SseEvent (replay @ filter (\<lambda>e. es_watermark s < ev_sequence e) new)"
      using events None plan(1) by simp
    ultimately show ?thesis unfolding None option.case by blast
  qed
qed

lemma last_event_id_nonneg: "last_event_id W header = Ok after \<Longrightarrow> 0 \<le> after"
  by (auto simp: last_event_id_def res_simps split: option.splits if_split_asm)

lemma first_kept_le: "journal_ok db \<Longrightarrow> first_kept db \<le> execution_events_seq db + 1"
  using journal_bounds [of db] by (cases "execution_events db = []") (auto simp: first_kept_def)

lemma first_kept_grows:
  assumes "journal_ok db" "journal_ok db'" "extends db db'"
  shows "first_kept db \<le> first_kept db'"
proof (cases "execution_events db' = []")
  case True
  then show ?thesis using first_kept_le [OF assms(1)] assms(3) by (simp add: first_kept_def extends_def)
next
  case False
  note b = journal_bounds [OF assms(2) False]
  then have "first_kept db' \<in> set (map ev_sequence (execution_events db'))" by simp
  then obtain e where e: "e \<in> set (execution_events db')" "first_kept db' = ev_sequence e" by auto
  show ?thesis
  proof (cases "e \<in> set (execution_events db)")
    case True
    then have "execution_events db \<noteq> []" by auto
    from journal_bounds [OF assms(1) this] True have "ev_sequence e \<in> set [first_kept db .. execution_events_seq db]"
      by (metis image_eqI set_map)
    then show ?thesis by (simp add: e(2))
  next
    case False
    then have "execution_events_seq db < ev_sequence e" using assms(3) e(1) by (auto simp: extends_def)
    with first_kept_le [OF assms(1)] show ?thesis by (simp add: e(2))
  qed
qed

lemma get_events_reads:
  assumes "interferes E" "get_events W E header a = (Ok response, a')" "re_body response = EventBody s"
  shows "\<exists>after db1 db2. last_event_id W header = Ok after
    \<and> (co_step E)\<^sup>*\<^sup>* (co_store (ap_coordinator a)) db1 \<and> (co_step E)\<^sup>*\<^sup>* db1 db2
    \<and> (co_step E)\<^sup>*\<^sup>* db2 (co_store (ap_coordinator a'))
    \<and> s = plan_stream (length (st_sent db1)) after (event_sequence_bounds db2)
        (if event_cursor_outside_retention after (fst (event_sequence_bounds db2)) (snd (event_sequence_bounds db2)) then []
         else replay_events after 10000 (co_store (ap_coordinator a')))"
proof -
  let ?c = "ap_coordinator a"
  let ?db1 = "su_before E (co_calls ?c) (co_store ?c)"
  let ?db2 = "su_before E (Suc (co_calls ?c)) ?db1"
  obtain after where after: "last_event_id W header = Ok after"
    using assms(2) by (cases "last_event_id W header") (simp_all add: get_events_def ap_bind_def ap_lift_def ap_result_def co_read_def co_tx_def Let_def)
  have steps: "(co_step E)\<^sup>*\<^sup>* db (su_before E n db)" for n db using assms(1) by (simp add: interferes_def)
  show ?thesis
    using assms(2,3) after
    by (intro exI [of _ after] exI [of _ ?db1] exI [of _ ?db2] conjI steps)
       (auto simp: get_events_def ap_bind_def ap_lift_def ap_result_def co_read_def co_tx_def Let_def tick_def steps split: if_split_asm)
qed


end
