(* ===== verification/CoordinatorChecks.thy ===== *)
theory CoordinatorChecks
  imports CoordinatorFrame
begin

text \<open>
  The checks of the coordinator around a single intent: what a market and a book must satisfy before an
  order is evaluated, and what becomes of an intent that is processed while the service is not READY.
\<close>

section \<open>Market data\<close>

lemma valid_levels_True:
  "valid_levels D market levels = Some True \<longleftrightarrow>
     list_all (\<lambda>l. 0 < pl_price l \<and> pl_price l < 1 \<and> d_rem D (pl_price l) (mk_tick_size market) = Some 0 \<and> 0 < pl_size l) levels"
  by (induction levels) (auto split: bind_split)

lemma or_panic_Ok [res_simps]: "or_panic x = Ok y \<longleftrightarrow> x = Some y"
  by (cases x) auto

text \<open>
  C37. Market data is accepted exactly when it describes the requested token with sane increments and
  fees, neither market nor book is from the future or too old, every level lies strictly between 0 and 1
  on the tick with a positive size, the book is not crossed, and the order's own price and size fit the
  tick and the minimum size.
\<close>

theorem market_data_accepted_iff:
  "validate_freshness_and_increments E request market book now = Ok () \<longleftrightarrow>
     mk_condition_id market = rq_condition_id request \<and> mk_token_id market = rq_token_id request
     \<and> 0 < mk_tick_size market \<and> mk_tick_size market < 1 \<and> 0 < mk_minimum_order_size market
     \<and> mk_maker_fee_rate market \<in> {0..1} \<and> mk_taker_fee_rate market \<in> {0..1}
     \<and> mk_observed_at market \<le> now + 5 * 10 ^ 9
     \<and> seconds_since now (mk_observed_at market) \<le> rp_max_market_metadata_age_seconds (su_policy E)
     \<and> bk_observed_at book \<le> now + 5 * 10 ^ 9
     \<and> seconds_since now (bk_observed_at book) \<le> rp_max_order_book_age_seconds (su_policy E)
     \<and> list_all (\<lambda>l. 0 < pl_price l \<and> pl_price l < 1 \<and> d_rem (su_dec E) (pl_price l) (mk_tick_size market) = Some 0
          \<and> 0 < pl_size l) (bk_bids book @ bk_asks book)
     \<and> \<not> crossed_book book \<and> \<not> (case bk_hash book of Some h \<Rightarrow> is_blank h | None \<Rightarrow> False)
     \<and> (\<exists>price quantity shares. protection_price (su_dec E) request = Ok price
          \<and> d_rem (su_dec E) price (mk_tick_size market) = Some 0
          \<and> quantity_decimal (su_dec E) request = Ok quantity
          \<and> (if rq_side request = Buy \<and> is_immediate (rq_time_in_force request)
             then d_div (su_dec E) quantity price else Some quantity) = Some shares
          \<and> mk_minimum_order_size market \<le> shares)"
proof -
  have market_ok: "check_market (su_policy E) request market now = Ok () \<longleftrightarrow>
     mk_condition_id market = rq_condition_id request \<and> mk_token_id market = rq_token_id request
     \<and> 0 < mk_tick_size market \<and> mk_tick_size market < 1 \<and> 0 < mk_minimum_order_size market
     \<and> mk_maker_fee_rate market \<in> {0..1} \<and> mk_taker_fee_rate market \<in> {0..1}
     \<and> mk_observed_at market \<le> now + 5 * 10 ^ 9
     \<and> seconds_since now (mk_observed_at market) \<le> rp_max_market_metadata_age_seconds (su_policy E)"
    by (auto simp: check_market_def)
  have book_ok: "check_book (su_dec E) (su_policy E) market book now = Ok () \<longleftrightarrow>
     bk_observed_at book \<le> now + 5 * 10 ^ 9
     \<and> seconds_since now (bk_observed_at book) \<le> rp_max_order_book_age_seconds (su_policy E)
     \<and> valid_levels (su_dec E) market (bk_bids book) = Some True \<and> valid_levels (su_dec E) market (bk_asks book) = Some True
     \<and> \<not> crossed_book book \<and> \<not> (case bk_hash book of Some h \<Rightarrow> is_blank h | None \<Rightarrow> False)"
    by (auto simp: check_book_def res_simps split: if_split_asm)
  have increments_ok: "check_increments (su_dec E) (su_show E) request market = Ok () \<longleftrightarrow>
     (\<exists>price quantity shares. protection_price (su_dec E) request = Ok price
          \<and> d_rem (su_dec E) price (mk_tick_size market) = Some 0
          \<and> quantity_decimal (su_dec E) request = Ok quantity
          \<and> (if rq_side request = Buy \<and> is_immediate (rq_time_in_force request)
             then d_div (su_dec E) quantity price else Some quantity) = Some shares
          \<and> mk_minimum_order_size market \<le> shares)"
    by (auto simp: check_increments_def res_simps not_less)
  show ?thesis
    unfolding validate_freshness_and_increments_def
    by (simp add: rbind_eq_Ok market_ok book_ok increments_ok valid_levels_True)
qed

section \<open>The control row\<close>

interpretation control_typed: invariant_system fresh_store "store_step D H S U"
    "\<lambda>db. cs_state (control_state db) \<in> range service_state_text" for D H S U
proof unfold_locales
  show "cs_state (control_state db) \<in> range service_state_text" if "fresh_store db" for db
    using that by (auto simp: fresh_store_def new_store_def service_state_text_def intro: range_eqI [of _ _ Starting])
  show "cs_state (control_state db') \<in> range service_state_text"
    if "cs_state (control_state db) \<in> range service_state_text" "store_step D H S U db db'" for db db'
    using step_control [OF that(2)] that(1)
    by (auto simp: same_control_def control_step_def dest!: set_service_state_innerD(2))
qed

text \<open>
  C38. The control row is well typed: in every store the service can reach, its state is the text of one of
  the six service states, so reading it never fails.
\<close>

theorem control_row_well_typed:
  assumes "fresh_store db0" "(store_step D H S U)\<^sup>*\<^sup>* db0 db"
  shows "\<exists>s. cs_state (control_state db) = service_state_text s
    \<and> service_state db = Ok (s, cs_reason (control_state db), cs_updated_at (control_state db))"
proof -
  from control_typed.reachable_inv [OF assms]
  obtain s where s: "cs_state (control_state db) = service_state_text s" by blast
  moreover have "parse_service_state (service_state_text s) = Ok s"
    by (cases s) (simp_all add: parse_service_state_def service_state_text_def)
  ultimately show ?thesis by (auto simp: service_state_def service_state_with_revision_def Let_def)
qed

section \<open>A prepared intent and a service that is not READY\<close>

text \<open>
  An intent whose order is already PREPARED, processed while the service is not READY, is neither
  rejected nor kept for later: the rejection expects RECEIVED and fails, so the worker drops the intent
  with an error, and it stays PREPARED with its reservation until the next restart.
\<close>

theorem prepared_intent_dropped_when_not_ready:
  assumes alone: "\<forall>n db. su_before E n db = db" "\<forall>n. \<not> su_reconciliation_required E n" "\<not> su_requires_heartbeat E"
    and healthy: "latest_successful_reconciliation (co_store c) = Some t"
      "\<forall>n. seconds_since (su_now E n) t \<le> rp_max_reconciliation_age_seconds (su_policy E)"
    and state: "service_state (co_store c) = Ok (s, reason, since)" "s \<noteq> Ready"
    and intent: "\<forall>r \<in> set (intents (co_store c)). in_id r = i \<longrightarrow> in_state r = IntentState.Prepared"
  shows "fst (process_intent E i c) = Err (StoreFailed NotFound)
    \<and> co_store (snd (process_intent E i c)) = co_store c
    \<and> co_deferred (snd (process_intent E i c)) = co_deferred c \<and> co_queue (snd (process_intent E i c)) = co_queue c"
proof -
  have "filter (\<lambda>r. in_id r = i \<and> in_state r = IntentState.Received) (intents (co_store c)) = []"
    using intent by (auto simp: filter_empty_conv)
  then have reject: "transition_intent i IntentState.Received IntentState.Rejected rejection now (co_store c) = Err NotFound" for rejection now
    by (simp add: transition_intent_def Let_def sql_count_def)
  have "\<not> rp_max_reconciliation_age_seconds (su_policy E) < seconds_since (su_now E n) t" for n
    using healthy(2) by (simp add: not_less)
  then show ?thesis
    using alone state(2)
    by (simp add: process_intent_def execution_health_failure_def reject_received_def intent_to_def current_state_def
        co_bind_def co_ask_def co_when_def co_result_def co_read_def co_tx_def Let_def tick_def healthy(1) state(1) reject)
qed

end
