(* ===== verification/PipelineRuns.thy ===== *)
theory PipelineRuns
  imports PipelineSafety
begin

text \<open>
  Concrete runs of the journal's transactions: a submission from a fresh database up to the commit
  before the venue request, and a restart with an approved intent.  The general theorems are applied
  to them.
\<close>

section \<open>An example run\<close>

text \<open>A fresh paper database is made READY, an intent is admitted, validated, approved and prepared.
  No amount matters for it, so its decimals are constant.\<close>

definition dec_const :: dec_ops where
  "dec_const =
     \<lparr>d_from_str = (\<lambda>_. Some 1), d_from_str_exact = (\<lambda>_. Some (1 / 2, 1)), d_norm = (\<lambda>_. ''1''),
      d_add = (\<lambda>_ _. Some 0), d_sub = (\<lambda>_ _. Some 0), d_mul = (\<lambda>_ _. Some 0), d_div = (\<lambda>_ _. Some 0),
      d_rem = (\<lambda>_ _. Some 0)\<rparr>"

text \<open>The store after a transaction, with the store evaluated once.\<close>

definition commit_of :: "(Store \<Rightarrow> ('e, 'a \<times> Store) res) \<Rightarrow> Store \<Rightarrow> Store" where
  "commit_of f db = committed db (f db)"

lemma unit_commit_of_Ok: "is_ok (f db) \<Longrightarrow> f db = Ok (commit_of (\<lambda>db. unit_res (f db)) db)"
  unfolding commit_of_def by (rule unit_committed_Ok)

definition run_ready :: Store where
  "run_ready = commit_of
     (\<lambda>db. unit_res (set_service_state_inner sample_hash ''op'' Ready ''go'' None None 1 2 0 db)) (new_store Mode.Paper 100 0)"

definition run_admitted :: Store where
  "run_admitted = commit_of
     (admit_intent sample_hash ''a'' ''k'' maker_request 10 1) run_ready"

definition run_validating :: Store where
  "run_validating = commit_of
     (transition_intent 10 IntentState.Received IntentState.Validating None 2) run_admitted"

definition run_approved :: Store where
  "run_approved = commit_of
     (evaluate_and_reserve_risk dec_const 10 maker_request sample_market sample_book sample_policy 11 3) run_validating"

definition run_preparing :: Store where
  "run_preparing = commit_of
     (transition_intent 10 IntentState.Approved IntentState.Preparing None 4) run_approved"

definition sample_prepared :: PreparedVenueOrder where
  "sample_prepared = \<lparr>pv_deterministic_order_id = ''paper-10'', pv_normalized_json = JObj [],
     pv_signed_payload_json = None, pv_signer_address = None, pv_funder_address = None,
     pv_protocol_version = 0, pv_sdk_version = ''paper''\<rparr>"

definition sample_intent_record :: IntentRecord where
  "sample_intent_record = IntentRecord.truncate ((sample_intent IntentState.Received maker_request)\<lparr>in_id := 10\<rparr>)"

definition run_prepared :: Store where
  "run_prepared = commit_of
     (create_prepared_order dec_const id sample_intent_record maker_request sample_prepared ''v1'' 0 20 21 30 5) run_preparing"

definition run_submitting :: Store where
  "run_submitting = commit_of
     (\<lambda>db. unit_res (begin_submission 10 30 6 db)) run_prepared"

lemma run_ready_commits:
  "is_ok (set_service_state_inner sample_hash ''op'' Ready ''go'' None None 1 2 0 (new_store Mode.Paper 100 0))"
  by code_simp

lemma run_admitted_commits: "is_ok (admit_intent sample_hash ''a'' ''k'' maker_request 10 1 run_ready)"
  by code_simp

lemma run_validating_commits:
  "is_ok (transition_intent 10 IntentState.Received IntentState.Validating None 2 run_admitted)"
  by code_simp

lemma run_approved_commits:
  "is_ok (evaluate_and_reserve_risk dec_const 10 maker_request sample_market sample_book sample_policy 11 3 run_validating)"
  by code_simp

lemma run_preparing_commits:
  "is_ok (transition_intent 10 IntentState.Approved IntentState.Preparing None 4 run_approved)"
  by code_simp

lemma run_prepared_commits:
  "is_ok (create_prepared_order dec_const id sample_intent_record maker_request sample_prepared ''v1'' 0 20 21 30 5 run_preparing)"
  by code_simp

lemma run_submitting_commits: "is_ok (begin_submission 10 30 6 run_prepared)"
  by code_simp

abbreviation sample_step :: "Store \<Rightarrow> Store \<Rightarrow> bool" where
  "sample_step \<equiv> store_step dec_const sample_hash id show_nat"

lemma run_prepared_reachable: "sample_step\<^sup>*\<^sup>* (new_store Mode.Paper 100 0) run_prepared"
proof -
  have "sample_step (new_store Mode.Paper 100 0) run_ready"
    unfolding run_ready_def by (rule store_step.control) (rule unit_commit_of_Ok, rule run_ready_commits)
  moreover have "sample_step run_ready run_admitted"
    using committed_Ok [OF run_admitted_commits, of run_ready] unfolding run_admitted_def [unfolded commit_of_def, symmetric]
    by (auto intro: store_step.admit)
  moreover have "sample_step run_admitted run_validating"
    using committed_Ok [OF run_validating_commits, of run_admitted] unfolding run_validating_def [unfolded commit_of_def, symmetric]
    by (auto intro: store_step.intent simp: coordinator_transition_def)
  moreover have "sample_step run_validating run_approved"
    using committed_Ok [OF run_approved_commits, of run_validating] unfolding run_approved_def [unfolded commit_of_def, symmetric]
    by (auto intro: store_step.reserve)
  moreover have "sample_step run_approved run_preparing"
    using committed_Ok [OF run_preparing_commits, of run_approved] unfolding run_preparing_def [unfolded commit_of_def, symmetric]
    by (auto intro: store_step.intent simp: coordinator_transition_def)
  moreover have "sample_step run_preparing run_prepared"
    using committed_Ok [OF run_prepared_commits, of run_preparing] unfolding run_prepared_def [unfolded commit_of_def, symmetric]
    by (auto intro: store_step.prepare)
  ultimately show ?thesis
    by (meson rtranclp.rtrancl_into_rtrancl rtranclp.rtrancl_refl)
qed

lemma fresh_sample: "fresh_store (new_store Mode.Paper 100 0)"
  by (auto simp: fresh_store_def)

lemma run_submitting_eq: "begin_submission 10 30 6 run_prepared = Ok run_submitting"
  unfolding run_submitting_def by (rule unit_commit_of_Ok, rule run_submitting_commits)

theorem submitted_at_most_once_witness:
  "begin_submission 10 30 6 run_prepared = Ok run_submitting \<and> \<not> is_ok (begin_submission 10 30 7 run_submitting)"
  using run_submitting_eq
    submitted_at_most_once [OF fresh_sample run_prepared_reachable run_submitting_eq rtranclp.rtrancl_refl]
  by blast

theorem one_order_per_intent_witness:
  "sql_count (\<lambda>r. or_intent_id r = 10) (orders run_prepared) \<le> 1"
  using one_order_per_intent [OF fresh_sample run_prepared_reachable] by blast


theorem recovery_keeps_exposure_witness:
  "\<exists>n db'. recover_interrupted_submissions 9 run_submitting = Ok (n, db')
     \<and> risk_snapshot dec_const ''c'' ''7'' 9 db' = risk_snapshot dec_const ''c'' ''7'' 9 run_submitting"
  using recovery_keeps_exposure [OF fresh_sample
      rtranclp.rtrancl_into_rtrancl [OF run_prepared_reachable store_step.start [OF run_submitting_eq]]] by blast

definition crashed_store :: Store where
  "crashed_store = ready_store\<lparr>intents := [sample_intent IntentState.Approved sample_request],
     risk_reservations := [\<lparr>rv_intent_id = 1, rv_condition_id = ''c'', rv_token_id = ''7'', rv_side = Sell,
       rv_price = ''0.5'', rv_quantity = ''10'', rv_quote_exposure = ''5'', rv_fee_rate = ''0'', rv_state = ''ACTIVE'',
       rv_created_at = 0, rv_updated_at = 0\<rparr>]\<rparr>"

definition recovered_store :: Store where
  "recovered_store = committed crashed_store (recover_pre_submission_work show_nat 1 crashed_store)"

definition revalidated_store :: Store where
  "revalidated_store = committed recovered_store
     (transition_intent 1 IntentState.Received IntentState.Validating None 2 recovered_store)"

lemma crashed_commits:
  "is_ok (recover_pre_submission_work show_nat 1 crashed_store)
   \<and> is_ok (transition_intent 1 IntentState.Received IntentState.Validating None 2 recovered_store)"
  by code_simp

lemma revalidated_evaluates:
  "case risk_snapshot_in_transaction dec_rat ''c'' ''7'' 3 revalidated_store of
     Ok s \<Rightarrow> map_option rd_approved (evaluate dec_rat sample_policy sample_request sample_market sample_book s) = Some True
   | _ \<Rightarrow> False"
  by code_simp

theorem recovered_intent_cannot_be_approved_witness:
  "evaluate_and_reserve_risk dec_rat 1 sample_request sample_market sample_book sample_policy 9 3 revalidated_store
     = Err (Database ''UNIQUE constraint failed'')"
proof -
  from crashed_commits committed_Ok obtain x y where
    1: "recover_pre_submission_work show_nat 1 crashed_store = Ok (x, recovered_store)"
    and 2: "transition_intent 1 IntentState.Received IntentState.Validating None 2 recovered_store = Ok (y, revalidated_store)"
    unfolding recovered_store_def revalidated_store_def by metis
  from revalidated_evaluates obtain s d where
    3: "risk_snapshot_in_transaction dec_rat (rq_condition_id sample_request) (rq_token_id sample_request) 3 revalidated_store = Ok s"
    and 4: "evaluate dec_rat sample_policy sample_request sample_market sample_book s = Some d" "rd_approved d"
    by (auto simp: sample_request_def split: res.splits)
  have r: "\<exists>row \<in> set (risk_reservations crashed_store). rv_intent_id row = 1"
    by (simp add: crashed_store_def)
  then show ?thesis
    using recovered_intent_cannot_be_approved [OF _ _ 1 2 3 4 dec_rat_exact] by blast
qed


end
