(* ===== verification/CoordinatorRuns.thy ===== *)
theory CoordinatorRuns
  imports CoordinatorSafety CoordinatorLatch CoordinatorChecks PipelineRuns
begin

text \<open>
  A concrete run of the coordinator: a service that restarts with a prepared order, in surroundings
  where no other task writes, with a venue that has nothing to report and accepts the order.
\<close>


definition empty_observation :: ReconciliationResult where
  "empty_observation = \<lparr>rr_orders_observed = 0, rr_trades_observed = 0, rr_observed_orders = [],
     rr_observed_trades = [], rr_observed_positions = [], rr_critical_findings = []\<rparr>"

definition quiet :: surroundings where
  "quiet = \<lparr>su_dec = dec_const, su_hash = sample_hash, su_sha = id, su_uuid = show_nat, su_show = (\<lambda>_. ''1''),
     su_policy = sample_policy, su_before = (\<lambda>_ db. db), su_now = (\<lambda>_. 6),
     su_fresh = (\<lambda>n k. 1000 + 10 * n + k), su_market_rules = (\<lambda>_. Some (Ok sample_market)),
     su_order_book = (\<lambda>_. Some (Ok sample_book)), su_prepare = (\<lambda>_. Some (Ok sample_prepared)),
     su_submit = (\<lambda>_. Some (Err (VenueRejected ''no''))),
     su_cancel = (\<lambda>_. Some (Ok \<lparr>vc_state = OrderState.Cancelled, vc_evidence = JObj []\<rparr>)),
     su_find_order = (\<lambda>_. Some (Ok None)), su_reconcile = (\<lambda>_. Some (Ok empty_observation)),
     su_heartbeat = (\<lambda>_. Some (Ok ())), su_requires_heartbeat = False,
     su_reconciliation_required = (\<lambda>_. False), su_checkpoint = (\<lambda>_. Ok ())\<rparr>"

lemma quiet_interferes: "interferes quiet"
  by (simp add: interferes_def quiet_def)

lemma quiet_step: "co_step quiet = sample_step"
  by (simp add: quiet_def)

text \<open>The prepared order of the example run, after a reconciliation.\<close>

definition run_reconciling :: Store where
  "run_reconciling = commit_of (start_reconciliation sample_hash ''startup'' 40 5) run_prepared"

definition run_reconciled :: Store where
  "run_reconciled = commit_of
     (\<lambda>db. unit_res (finish_reconciliation (\<lambda>k. 50 + k) 40 (json_of_reconciliation empty_observation) 6 db)) run_reconciling"

definition run_begun :: Store where
  "run_begun = commit_of (\<lambda>db. unit_res (begin_submission 10 30 6 db)) run_reconciled"

lemma run_reconciling_commits: "is_ok (start_reconciliation sample_hash ''startup'' 40 5 run_prepared)"
  by code_simp

lemma run_reconciled_commits:
  "is_ok (finish_reconciliation (\<lambda>k. 50 + k) 40 (json_of_reconciliation empty_observation) 6 run_reconciling)"
  by code_simp

lemma run_begun_commits: "is_ok (begin_submission 10 30 6 run_reconciled)"
  by code_simp

lemma run_begun_eq: "begin_submission 10 30 6 run_reconciled = Ok run_begun"
  unfolding run_begun_def by (rule unit_commit_of_Ok, rule run_begun_commits)

lemma run_reconciled_reachable: "sample_step\<^sup>*\<^sup>* (new_store Mode.Paper 100 0) run_reconciled"
proof -
  have "sample_step run_prepared run_reconciling"
    using committed_Ok [OF run_reconciling_commits, of run_prepared] unfolding run_reconciling_def [unfolded commit_of_def, symmetric]
    by (auto simp: start_reconciliation_def intro: store_step.reconciliation)
  moreover have "sample_step run_reconciling run_reconciled"
    unfolding run_reconciled_def by (rule store_step.reconciled) (rule unit_commit_of_Ok, rule run_reconciled_commits)
  ultimately show ?thesis
    using run_prepared_reachable by (meson rtranclp.rtrancl_into_rtrancl)
qed

definition restarted :: coordinator where
  "restarted = \<lparr>co_store = run_reconciled, co_calls = 0, co_queue = [10], co_deferred = [], co_slots = 64,
     co_healthy = None, co_spawned = [], co_log = [], co_stopped = False\<rparr>"

lemma restarted_reachable: "(co_step quiet)\<^sup>*\<^sup>* (new_store Mode.Paper 100 0) (co_store restarted)" "co_log restarted = []"
  using run_reconciled_reachable by (simp_all add: restarted_def quiet_step)

text \<open>Evaluation of the combinators on a state.\<close>

lemma run_co_bind: "co_bind m f c = (case m c of (Ok x, c') \<Rightarrow> f x c' | (Err e, c') \<Rightarrow> (Err e, c') | (Panic, c') \<Rightarrow> (Panic, c'))"
  by (simp add: co_bind_def)

lemma run_co_tx: "co_tx E f c = (case f (co_calls c) (su_before E (co_calls c) (co_store c)) of
       Ok (x, db') \<Rightarrow> (Ok x, tick (c\<lparr>co_store := db'\<rparr>))
     | Err e \<Rightarrow> (Err (StoreFailed e), tick (c\<lparr>co_store := su_before E (co_calls c) (co_store c)\<rparr>))
     | Panic \<Rightarrow> (Panic, tick (c\<lparr>co_store := su_before E (co_calls c) (co_store c)\<rparr>)))"
  by (simp add: co_tx_def Let_def)

lemma quiet_fields: "su_before quiet n db = db" "su_now quiet n = 6" "su_reconciliation_required quiet n = False"
  "su_requires_heartbeat quiet = False" "su_submit quiet n = Some (Err (VenueRejected ''no''))" "su_policy quiet = sample_policy"
  by (simp_all add: quiet_def)

lemma reconciled_facts:
  "let db = run_reconciled in
     latest_successful_reconciliation db = Some 6 \<and> service_state db = Ok (Ready, ''go'', 0)
     \<and> (case get_intent 10 db of
          Ok r \<Rightarrow> in_id r = 10 \<and> in_state r = IntentState.Prepared \<and> intent_request r \<noteq> None | _ \<Rightarrow> False)
     \<and> (case prepared_submission 10 db of Ok p \<Rightarrow> px_order_id p = 30 | _ \<Rightarrow> False)
     \<and> list_all (\<lambda>r. in_state r = IntentState.Prepared) (intents db)
     \<and> map oa_id (operator_actions db) = [1] \<and> cs_revision (control_state db) < i64_max
     \<and> map rc_id (reconciliation_runs db) = [40]"
  by code_simp

lemma reconciled_reads:
  "latest_successful_reconciliation run_reconciled = Some 6"
  "service_state run_reconciled = Ok (Ready, ''go'', 0)"
  "case get_intent 10 run_reconciled of
     Ok r \<Rightarrow> in_id r = 10 \<and> in_state r = IntentState.Prepared \<and> intent_request r \<noteq> None | _ \<Rightarrow> False"
  "case prepared_submission 10 run_reconciled of Ok p \<Rightarrow> px_order_id p = 30 | _ \<Rightarrow> False"
  "list_all (\<lambda>r. in_state r = IntentState.Prepared) (intents run_reconciled)"
  "map oa_id (operator_actions run_reconciled) = [1]" "cs_revision (control_state run_reconciled) < i64_max"
  "map rc_id (reconciliation_runs run_reconciled) = [40]"
  using reconciled_facts by (simp_all only: Let_def simp_thms)

lemma restarted_submits: "co_log (run_operations quiet [Worker] restarted) = [SubmitCall 10 30]"
proof -
  obtain r where r: "get_intent 10 run_reconciled = Ok r" "in_id r = 10" "in_state r = IntentState.Prepared" "intent_request r \<noteq> None"
    using reconciled_reads(3) by (auto split: res.splits)
  then obtain request where request: "intent_request r = Some request" by blast
  obtain p where p: "prepared_submission 10 run_reconciled = Ok p" "px_order_id p = 30"
    using reconciled_reads(4) by (auto split: res.splits)
  note eval = run_co_bind run_co_tx co_read_def co_do_def co_ask_def co_get_def co_result_def co_when_def quiet_fields tick_def
    current_state_def read_intent_def
  have health: "execution_health_failure quiet (restarted\<lparr>co_queue := [], co_calls := 1\<rparr>)
      = (Ok None, restarted\<lparr>co_queue := [], co_calls := 3\<rparr>)"
    by (simp add: execution_health_failure_def eval restarted_def reconciled_reads seconds_since_def sample_policy_def)
  have "co_log (snd (finish quiet i oid ist ost vid class fq fp ids ev c)) = co_log c" for i oid ist ost vid "class" fq fp ids ev c
    by (auto simp: finish_def eval split: res.splits prod.splits)
  then have answer: "co_log (snd (record_answer quiet 10 30 x (Err (VenueRejected ''no'')) c)) = co_log c" for x c
    by (auto simp: record_answer_def run_co_bind co_result_def co_when_def split: res.splits prod.splits) (metis snd_conv)+
  have submit: "co_log (snd (submit_prepared quiet 10 30 x (restarted\<lparr>co_queue := [], co_calls := 6\<rparr>))) = [SubmitCall 10 30]" for x
    by (simp add: submit_prepared_def eval restarted_def reconciled_reads co_try_def run_begun_eq co_call_def answer)
  have "co_log (snd (process_intent quiet 10 (restarted\<lparr>co_queue := []\<rparr>))) = [SubmitCall 10 30]"
    using request p r health [unfolded restarted_def] submit [unfolded restarted_def]
    by (simp add: process_intent_def eval restarted_def reconciled_reads resubmit_prepared_def parse_request_def)
  then show ?thesis
    by (auto simp: run_operation_def worker_turn_def run_co_bind take_queued_def restarted_def co_ignore_def co_try_def
        co_result_def split: res.splits prod.splits)
qed

theorem coordinator_refines_store_witness:
  "pipeline_ok (co_store (run_operations quiet [Worker, Shutdown True, Startup, Worker] restarted))"
  using coordinator_refines_store [OF quiet_interferes fresh_sample restarted_reachable] by blast

theorem venue_submission_at_most_once_witness:
  "SubmitCall 10 30 \<in> set (co_log (run_operations quiet [Worker] restarted))
   \<and> submission_begun 10 (co_store (run_operations quiet [Worker] restarted))
   \<and> length (filter (\<lambda>call. submitted_intent call = Some 10)
        (co_log (run_operations quiet [Worker, Startup, Worker] restarted))) \<le> 1"
proof -
  note once = venue_submission_at_most_once [OF quiet_interferes fresh_sample restarted_reachable, where i = 10]
  have "SubmitCall 10 30 \<in> set (co_log (run_operations quiet [Worker] restarted))" by (simp only: restarted_submits) simp
  with once [of "[Worker]"] once [of "[Worker, Startup, Worker]"] show ?thesis by blast
qed

section \<open>A halted service\<close>

definition run_halted :: Store where
  "run_halted = commit_of
     (\<lambda>db. unit_res (set_service_state_inner sample_hash ''op'' Halted ''stop'' None None 60 61 6 db)) run_reconciled"

definition halted_service :: coordinator where
  "halted_service = restarted\<lparr>co_store := run_halted\<rparr>"

lemma quiet_undisturbed: "undisturbed quiet"
  by (simp add: undisturbed_def quiet_fields)

lemma audit_ids: "oa_id ` set (operator_actions run_reconciled) = {1}"
  using arg_cong [OF reconciled_reads(6), of set] by simp

lemma audit_new: "oa_id row \<noteq> 1 \<Longrightarrow> \<not> list_ex (same_key oa_id row) (operator_actions run_reconciled)"
  using audit_ids by (auto simp: list_ex_iff same_key_def)

lemma store_halts:
  assumes "cs_revision (control_state db) < i64_max" "aid \<notin> oa_id ` set (operator_actions db)"
  obtains db' where "set_service_state H actor Halted reason aid cid now db = Ok db'" "halted db'"
    "reconciliation_runs db' = reconciliation_runs db"
proof -
  have "\<not> list_ex (same_key oa_id row) (operator_actions db)" if "oa_id row = aid" for row
    using assms(2) that by (auto simp: list_ex_iff same_key_def)
  with assms(1) have "\<exists>db'. set_service_state H actor Halted reason aid cid now db = Ok db' \<and> halted db'
      \<and> reconciliation_runs db' = reconciliation_runs db"
    by (simp add: set_service_state_def set_service_state_inner_def Let_def append_event_eq sql_insert_def
        halted_def service_state_text_def)
  then show ?thesis by (blast intro: that)
qed

lemma halted_reads:
  "cs_state (control_state run_halted) = ''HALTED''"
  "latest_successful_reconciliation run_halted = Some 6"
  "service_state run_halted = Ok (Halted, ''stop'', 6)"
  "intents run_halted = intents run_reconciled"
proof -
  have "\<exists>e actions. run_halted = send [e] (log_event e (run_reconciled\<lparr>control_state :=
      \<lparr>cs_state = ''HALTED'', cs_reason = ''stop'', cs_updated_at = 6,
       cs_revision = cs_revision (control_state run_reconciled) + 1\<rparr>, operator_actions := actions\<rparr>))"
    using reconciled_reads(7)
    by (auto simp: run_halted_def commit_of_def unit_res_def set_service_state_inner_def Let_def append_event_eq sql_insert_def
        audit_new service_state_text_def)
  then obtain e actions where h: "run_halted = send [e] (log_event e (run_reconciled\<lparr>control_state :=
      \<lparr>cs_state = ''HALTED'', cs_reason = ''stop'', cs_updated_at = 6,
       cs_revision = cs_revision (control_state run_reconciled) + 1\<rparr>, operator_actions := actions\<rparr>))" by blast
  show "cs_state (control_state run_halted) = ''HALTED''" "intents run_halted = intents run_reconciled"
    "service_state run_halted = Ok (Halted, ''stop'', 6)"
    by (simp_all add: h service_state_def service_state_with_revision_def parse_service_state_def Let_def)
  have "reconciliation_runs run_halted = reconciliation_runs run_reconciled" by (simp add: h)
  with reconciled_reads(1) show "latest_successful_reconciliation run_halted = Some 6"
    by (simp add: latest_successful_reconciliation_def)
qed

theorem halt_is_latched_witness:
  "halted (co_store (run_operations quiet [Worker, Startup, Heartbeat, Worker] halted_service))
   \<and> submissions (run_operations quiet [Worker, Startup, Heartbeat, Worker] halted_service) = []"
proof -
  have "halted (co_store halted_service)" "submissions halted_service = []"
    by (simp_all add: halted_service_def restarted_def halted_def halted_reads submissions_def)
  with halt_is_latched [OF quiet_undisturbed, of halted_service "[Worker, Startup, Heartbeat, Worker]"]
  show ?thesis by simp
qed

theorem prepared_intent_dropped_when_not_ready_witness:
  "fst (process_intent quiet 10 halted_service) = Err (StoreFailed NotFound)
   \<and> co_deferred (snd (process_intent quiet 10 halted_service)) = []"
proof -
  have store: "co_store halted_service = run_halted" by (simp add: halted_service_def)
  have "seconds_since 6 6 \<le> rp_max_reconciliation_age_seconds sample_policy"
    by (simp add: seconds_since_def sample_policy_def)
  moreover have "\<forall>r \<in> set (intents run_halted). in_id r = 10 \<longrightarrow> in_state r = IntentState.Prepared"
    using reconciled_reads(5) by (auto simp: list_all_iff halted_reads(4))
  ultimately show ?thesis
    using prepared_intent_dropped_when_not_ready [of quiet halted_service 6 Halted "''stop''" 6 10]
    by (simp add: quiet_fields store halted_reads) (simp add: halted_service_def restarted_def)
qed

theorem halt_takes_effect_witness:
  "halted (co_store (snd (halt quiet ''operator'' ''maintenance'' restarted)))"
proof -
  have c: "su_before quiet (co_calls restarted) (co_store restarted) = run_reconciled" "su_fresh quiet (co_calls restarted) 0 = 1000"
    by (simp_all add: quiet_fields restarted_def) (simp add: quiet_def)
  show ?thesis
    by (rule halt_takes_effect [OF quiet_undisturbed, of "''maintenance''" restarted "''operator''", unfolded c])
       (simp_all add: audit_ids reconciled_reads(7), code_simp)
qed

text \<open>A reconciliation whose venue answer does not come in time, for a run the store does not know.\<close>

definition silent :: surroundings where
  "silent = quiet\<lparr>su_reconcile := (\<lambda>_. None)\<rparr>"

lemma unknown_run:
  "fail_reconciliation 99 e fid now run_reconciled = Err (Database ''FOREIGN KEY constraint failed'')"
  "get_reconciliation 99 run_reconciled = Err NotFound"
proof -
  have ids: "rc_id r = 40" if "r \<in> set (reconciliation_runs run_reconciled)" for r
    using that arg_cong [OF reconciled_reads(8), of set] by auto
  then show "fail_reconciliation 99 e fid now run_reconciled = Err (Database ''FOREIGN KEY constraint failed'')"
    by (auto simp: fail_reconciliation_def insert_finding_def Let_def foreign_key_def list_ex_iff set_sql_update split: if_split_asm)
  show "get_reconciliation 99 run_reconciled = Err NotFound"
    proof -
    have "find (\<lambda>r. rc_id r = 99) (reconciliation_runs run_reconciled) = None" using ids by (auto simp: find_None_iff)
    then show ?thesis by (simp add: get_reconciliation_def sql_find_def)
  qed
qed

lemma silent_reconciliation:
  "fst (reconcile_started silent 99 restarted) = Err (StoreFailed (Database ''FOREIGN KEY constraint failed''))
   \<and> halted (co_store (snd (reconcile_started silent 99 restarted)))"
proof -
  have "su_fresh quiet (Suc (Suc (Suc (Suc 0)))) 0 \<noteq> 1" by (simp add: quiet_def)
  then obtain db' where "set_service_state (su_hash quiet) ''system'' Halted ''reconciliation processing failed''
      (su_fresh quiet (Suc (Suc (Suc (Suc 0)))) 0) (su_fresh quiet (Suc (Suc (Suc (Suc 0)))) (Suc 0)) 6 run_reconciled = Ok db'"
    "halted db'" using reconciled_reads(7) audit_ids by (auto elim: store_halts)
  then show ?thesis
    by (simp add: reconcile_started_def reconcile_started_inner_def close_failed_reconciliation_def co_bind_def co_try_def
        co_call_def co_do_def co_tx_def co_read_def co_result_def co_when_def co_ignore_def current_state_def set_state_def
        spawn_protective_cancellation_def co_spawn_def Let_def tick_def silent_def restarted_def quiet_fields
        unknown_run reconciled_reads)
qed

theorem failed_reconciliation_halts_witness:
  "fst (reconcile_started silent 99 restarted) = Err (StoreFailed (Database ''FOREIGN KEY constraint failed''))
   \<and> (halted (co_store (snd (reconcile_started silent 99 restarted)))
      \<or> \<not> is_ok (service_state (co_store (snd (reconcile_started silent 99 restarted))))
      \<or> (\<exists>n. \<not> is_ok (set_service_state (su_hash silent) ''system'' Halted ''reconciliation processing failed''
            (su_fresh silent n 0) (su_fresh silent n 1) (su_now silent n)
            (co_store (snd (reconcile_started silent 99 restarted))))))"
  using silent_reconciliation failed_reconciliation_halts
    [of silent 99 restarted "StoreFailed (Database ''FOREIGN KEY constraint failed'')"
        "snd (reconcile_started silent 99 restarted)"]
  by (metis prod.collapse)

text \<open>A submission whose deadline passes, where the reconciliation that follows clashes with a recorded run.\<close>

definition dec_whole :: dec_ops where
  "dec_whole = dec_const\<lparr>d_sub := (\<lambda>_ _. Some 1)\<rparr>"

definition clashing :: surroundings where
  "clashing = quiet\<lparr>su_dec := dec_whole, su_policy := sample_policy\<lparr>rp_cancel_on_halt := False\<rparr>, su_fresh := (\<lambda>_ _. 40)\<rparr>"

definition timed_out :: json where
  "timed_out = JObj [(''error'', JStr (venue_error_text (Ambiguous ''deadline'')))]"

definition run_unknown :: Store where
  "run_unknown = commit_of (\<lambda>db. unit_res (finish_submission dec_whole show_nat 10 30 IntentState.Unknown OrderState.Unknown
     (Some ''paper-10'') ''AMBIGUOUS'' 0 None [] timed_out 40 6 db)) run_begun"

lemma run_unknown_commits:
  "is_ok (finish_submission dec_whole show_nat 10 30 IntentState.Unknown OrderState.Unknown
     (Some ''paper-10'') ''AMBIGUOUS'' 0 None [] timed_out 40 6 run_begun)"
  by code_simp

lemma run_unknown_eq:
  "finish_submission dec_whole show_nat 10 30 IntentState.Unknown OrderState.Unknown
     (Some ''paper-10'') ''AMBIGUOUS'' 0 None [] timed_out 40 6 run_begun = Ok run_unknown"
  unfolding run_unknown_def by (rule unit_commit_of_Ok, rule run_unknown_commits)

lemma run_unknown_facts:
  "let db = run_unknown in map oa_id (operator_actions db) = [1] \<and> cs_revision (control_state db) < i64_max
     \<and> map rc_id (reconciliation_runs db) = [40]"
  by code_simp

lemma clashing_answer:
  "fst (record_answer clashing 10 30 sample_prepared (deadline (Ambiguous ''deadline'') None) (restarted\<lparr>co_store := run_begun\<rparr>)) = Ok ()"
proof -
  have ids: "map oa_id (operator_actions run_unknown) = [1]" "cs_revision (control_state run_unknown) < i64_max"
    "map rc_id (reconciliation_runs run_unknown) = [40]"
    using run_unknown_facts by (simp_all only: Let_def simp_thms)
  have "40 \<notin> oa_id ` set (operator_actions run_unknown)" using arg_cong [OF ids(1), of set] by simp
  with ids(2) obtain db' where db': "set_service_state sample_hash ''system'' Halted ''ambiguous venue submission'' 40 40 6 run_unknown = Ok db'"
    "reconciliation_runs db' = reconciliation_runs run_unknown" by (auto elim: store_halts)
  have "\<exists>r \<in> set (reconciliation_runs db'). 40 = rc_id r"
    using arg_cong [OF ids(3), of "\<lambda>xs. 40 \<in> set xs"] by (auto simp: db'(2) image_iff)
  then have clash: "start_reconciliation sample_hash ''ambiguous_submission'' 40 6 db' = Err (Database ''UNIQUE constraint failed'')"
    by (simp add: start_reconciliation_def start_reconciliation_inner_def Let_def sql_insert_def list_ex_iff same_key_def)
  note answer = run_unknown_eq [unfolded timed_out_def venue_error_text.simps, simplified]
  have "\<not> is_blank ''ambiguous venue submission''" by code_simp
  then show ?thesis
    by (simp add: record_answer_def finish_def halt_def require_reason_def set_state_def cancel_on_halt_inner_def reconcile_def
        co_bind_def co_try_def co_do_def co_tx_def co_result_def co_when_def co_ignore_def Let_def tick_def
        clashing_def restarted_def quiet_def sample_prepared_def answer db'(1) clash)
qed


theorem control_row_well_typed_witness:
  "\<exists>s. service_state run_reconciled = Ok (s, cs_reason (control_state run_reconciled), cs_updated_at (control_state run_reconciled))"
  using control_row_well_typed [OF fresh_sample run_reconciled_reachable] by blast

end
