(* ===== verification/ApiRuns.thy ===== *)
theory ApiRuns
  imports ApiSafety ApiAccess ApiPages ApiLimits ApiStream CoordinatorRuns
begin

text \<open>
  Concrete runs of the service, with the library functions instantiated: headers are ASCII text, every
  body parses to one object, a cursor is written in unary, and every request is routed by its path
  among three of the routes.
\<close>

definition cursor_text :: "ResourceCursor \<Rightarrow> string" where
  "cursor_text k = (if fst k < 0 then CHR ''-'' else CHR ''+'') # replicate (nat \<bar>fst k\<bar>) (CHR ''t'') @ replicate (snd k) (CHR ''u'')"

definition cursor_of_text :: "string \<Rightarrow> ResourceCursor option" where
  "cursor_of_text s =
     (let m = int (length (filter (\<lambda>c. c = CHR ''t'') s)); u = length (filter (\<lambda>c. c = CHR ''u'') s)
      in Some (if hd s = CHR ''-'' then - m else m, u))"

lemma cursor_roundtrip: "cursor_of_text (cursor_text k) = Some k"
  by (cases k) (auto simp: cursor_text_def cursor_of_text_def Let_def)

definition sample_route :: "http_request \<Rightarrow> endpoint option" where
  "sample_route rq = map_of [((POST, ''/v1/backups''), PostBackup), ((POST, ''/v1/control/resume''), PostResume),
     ((GET, ''/v1/events''), GetEvents)] (hq_method rq, hq_path rq)"

definition sample_web :: http_library where
  "sample_web = \<lparr>hl_header_text = Some, hl_parse_json = (\<lambda>_. Some (RawObj [(''reason'', RawText (JStr ''go''))])),
     hl_json_error = id, hl_schema_error = (\<lambda>_. ''schema''), hl_cursor_text = cursor_text, hl_cursor_of = cursor_of_text,
     hl_round = id, hl_status_ok = (\<lambda>n. 100 \<le> n \<and> n \<le> 999), hl_route = sample_route, hl_sha = (\<lambda>_. replicate 32 205)\<rparr>"

definition backup_request :: http_request where
  "backup_request = \<lparr>hq_method = POST, hq_path = ''/v1/backups'', hq_authorization = Some ''Bearer secret'',
     hq_idempotency_key = Some ''nightly-backup-0001'', hq_last_event_id = None, hq_body = Ok []\<rparr>"

definition serving :: "coordinator \<Rightarrow> service" where
  "serving c = \<lparr>ap_coordinator = c, ap_limiter = new_bucket 25 100 0, ap_tasks = []\<rparr>"

definition no_files :: "nat \<Rightarrow> (string, backup_files) res" where
  "no_files n = Err ''disk full''"

lemma serving_coordinator [simp]: "ap_coordinator (serving c) = c"
  by (simp add: serving_def)

lemma sample_web_fields [simp]: "hl_route sample_web = sample_route" "hl_round sample_web = id"
  by (simp_all add: sample_web_def)

lemma sample_routes_followed: "follows_routes sample_web"
  by (auto simp: follows_routes_def sample_route_def split: if_split_asm)

theorem service_refines_store_witness:
  "pipeline_ok (co_store (ap_coordinator (run_service sample_web quiet no_files [] 
     [Turn Worker, Request 7 backup_request, RunTask 0, Turn Startup] (serving restarted))))"
  using service_refines_store [OF quiet_interferes fresh_sample, of "serving restarted", unfolded serving_coordinator,
      OF restarted_reachable] by blast

theorem service_submits_at_most_once_witness:
  "SubmitCall 10 30 \<in> set (co_log (ap_coordinator (run_service sample_web quiet no_files [] [Turn Worker] (serving restarted))))
   \<and> submission_begun 10 (co_store (ap_coordinator (run_service sample_web quiet no_files [] [Turn Worker] (serving restarted))))
   \<and> length (filter (\<lambda>call. submitted_intent call = Some 10) (co_log (ap_coordinator
        (run_service sample_web quiet no_files [] [Turn Worker, Turn Startup, Request 7 backup_request, Turn Worker] (serving restarted))))) \<le> 1"
proof -
  note once = service_submits_at_most_once [OF quiet_interferes fresh_sample, of "serving restarted", unfolded serving_coordinator,
      OF restarted_reachable, where i = 10 and W = sample_web and files = no_files and registry = "[]"]
  have "SubmitCall 10 30 \<in> set (co_log (ap_coordinator (run_service sample_web quiet no_files [] [Turn Worker] (serving restarted))))"
    using restarted_submits by (simp add: service_step_def)
  with once [of "[Turn Worker]"]
    once [of "[Turn Worker, Turn Startup, Request 7 backup_request, Turn Worker]"]
  show ?thesis by blast
qed

theorem halt_latches_service_witness:
  "halted (co_store (ap_coordinator (run_service sample_web quiet no_files []
      [Turn Worker, Request 7 backup_request, Turn Startup, RunTask 0, Turn Worker] (serving halted_service))))"
proof -
  have "halted (co_store (ap_coordinator (serving halted_service)))"
    by (simp add: halted_service_def halted_def halted_reads)
  moreover have "list_all (\<lambda>ev. \<not> may_release sample_web ev)
      [Turn Worker, Request 7 backup_request, Turn Startup, RunTask 0, Turn Worker]"
    by (simp add: may_release_def sample_route_def backup_request_def)
  ultimately show ?thesis using halt_latches_service [OF quiet_undisturbed] by blast
qed

definition sample_registry :: AuthRegistry where
  "sample_registry = [\<lparr>ce_actor = \<lparr>ac_id = ''strategy'', ac_scopes = {''read'', ''submit''}\<rparr>, ce_digest = replicate 32 171\<rparr>,
     \<lparr>ce_actor = \<lparr>ac_id = ''operator'', ac_scopes = {''operate'', ''cancel''}\<rparr>, ce_digest = replicate 32 205\<rparr>]"

definition resting :: service where
  "resting = serving (restarted\<lparr>co_store := new_store Mode.Paper 100 0\<rparr>)"

lemma sample_registry_new: "new_registry sample_unhex id (cf_auth live_config) = Ok sample_registry"
  by (simp add: live_config_def sample_registry_def sample_unhex_def credential_actor_def)

lemma backup_changes:
  "co_store (ap_coordinator (snd (serve sample_web quiet sample_registry 7 backup_request resting))) \<noteq> co_store (ap_coordinator resting)"
proof -
  let ?op = "\<lparr>ac_id = ''operator'', ac_scopes = {''operate'', ''cancel''}\<rparr>"
  have route: "sample_route backup_request = Some PostBackup"
    by (simp add: sample_route_def backup_request_def)
  have "strip_prefix ''Bearer '' ''Bearer secret'' = Some ''secret''" by code_simp
  then have auth: "require_auth (hl_sha sample_web) (hl_header_text sample_web) sample_registry 7 (hq_method backup_request)
      (hq_path backup_request) (hq_authorization backup_request) = Ok ?op"
    by (simp add: require_auth_def backup_request_def sample_web_def authenticate_def sample_registry_def has_scope_def required_scope_def)
  have key: "idempotency_key sample_web (hq_idempotency_key backup_request) = Ok ''nightly-backup-0001''"
    by (simp add: idempotency_key_def backup_request_def sample_web_def) code_simp
  have "backups (co_store (ap_coordinator (snd (create_backup sample_web quiet ?op (hq_idempotency_key backup_request) resting)))) \<noteq> []"
    by (simp add: create_backup_def mutation_def replay_operation_def ap_bind_def ap_result_def key ap_lift_def co_read_def co_tx_def
      Let_def quiet_fields idempotent_response_def enforce_admission_rate_def with_permit_def reserve_operation_def
      run_co_bind co_get_def co_result_def tick_def resting_def serving_def restarted_def new_store_def sql_find_def
      take_token_def new_bucket_def sample_web_fields secs_f64_def start_backup_inner_def sql_insert_def
      insert_idempotency_record_def append_event_def service_mode_def ap_spawn_def)
  then have "co_store (ap_coordinator (snd (create_backup sample_web quiet ?op (hq_idempotency_key backup_request) resting))) \<noteq> new_store Mode.Paper 100 0"
    by (auto simp: new_store_def)
  then show ?thesis
    by (simp add: serve_def route auth is_public_def handle_def resting_def case_prod_beta)
qed

theorem writes_need_their_scope_witness:
  "\<exists>scope token. mutation_scope PostBackup = Some scope \<and> hq_authorization backup_request = Some (''Bearer '' @ token)
     \<and> (\<exists>cr \<in> set (cf_auth live_config). scope \<in> set (cd_scopes cr))"
proof -
  have "validate_config sample_unhex True (\<lambda>_. Some ''YES'') live_config = Ok ()"
    using live_config_sound by (simp add: validate_simps)
  from writes_need_their_scope [OF this sample_registry_new sample_routes_followed _ surjective_pairing backup_changes]
  show ?thesis
    by (auto simp: silent_store_def quiet_fields sample_web_def sample_route_def backup_request_def)
qed

theorem paging_ends_and_is_complete_witness:
  "\<exists>pages. follow_cursors sample_web 1 (\<lambda>r. (in_created_at r, in_id r))
       (intent_query \<lparr>iq_limit = 1, iq_state = None, iq_condition_id = None, iq_created_after = None, iq_cursor = None\<rparr>)
       run_reconciled (length (intents run_reconciled) + 1) None = Some pages
     \<and> (\<forall>p \<in> set pages. length p \<le> 1)"
proof -
  have "pipeline_ok run_reconciled" using fresh_sample run_reconciled_reachable by (rule pipeline.reachable_inv)
  have "hl_cursor_of sample_web (hl_cursor_text sample_web k) = Some k" for k
    by (simp add: sample_web_def cursor_roundtrip)
  from paging_ends_and_is_complete [OF _ _ _ this, of run_reconciled 1
      "\<lparr>iq_limit = 1, iq_state = None, iq_condition_id = None, iq_created_after = None, iq_cursor = None\<rparr>"]
    \<open>pipeline_ok run_reconciled\<close> show ?thesis by (meson le_refl one_le_numeral)
qed

theorem journal_is_gapless_witness:
  "mset (map ev_sequence (st_sent run_reconciled)) = mset [1 .. execution_events_seq run_reconciled]
   \<and> (\<exists>new. st_sent run_begun = st_sent run_reconciled @ new)"
proof -
  have "sample_step run_reconciled run_begun" by (rule store_step.start) (rule run_begun_eq)
  then have "sample_step\<^sup>*\<^sup>* run_reconciled run_begun" by blast
  from journal_is_gapless [OF fresh_sample run_reconciled_reachable this] show ?thesis by blast
qed

lemma run_reconciled_sequences: "map ev_sequence (execution_events run_reconciled) = [1, 2, 3, 4, 5, 6, 7, 8, 9, 10, 11]"
  by code_simp

lemma run_reconciled_replay: "replay_events 0 10000 run_reconciled = execution_events run_reconciled"
proof -
  have "\<forall>x \<in> set (map ev_sequence (execution_events run_reconciled)). 0 < x" unfolding run_reconciled_sequences by simp
  then have "filter (\<lambda>e. 0 < ev_sequence e) (execution_events run_reconciled) = execution_events run_reconciled"
    by (intro filter_True) simp
  moreover have "sort_key ev_sequence (execution_events run_reconciled) = execution_events run_reconciled"
    by (rule sort_key_id_if_sorted) (simp add: run_reconciled_sequences)
  moreover have "length (execution_events run_reconciled) \<le> 10000"
    using arg_cong [OF run_reconciled_sequences, of length] by simp
  ultimately show ?thesis by (simp add: replay_events_def)
qed

lemma run_reconciled_events:
  "execution_events run_reconciled \<noteq> []" "first_kept run_reconciled = 1"
  "es_reset (plan_stream position 0 (event_sequence_bounds run_reconciled) (replay_events 0 10000 run_reconciled)) = None"
proof -
  show some: "execution_events run_reconciled \<noteq> []" using run_reconciled_sequences by auto
  show "first_kept run_reconciled = 1" by (simp add: first_kept_def run_reconciled_sequences)
  have "ev_sequence (last (execution_events run_reconciled)) = 11"
    using last_map [OF some, of ev_sequence] by (simp add: run_reconciled_sequences)
  with some show "es_reset (plan_stream position 0 (event_sequence_bounds run_reconciled) (replay_events 0 10000 run_reconciled)) = None"
    by (simp add: plan_stream_def Let_def run_reconciled_replay event_sequence_bounds_def run_reconciled_sequences
        event_cursor_outside_retention_def event_replay_truncated_def)
qed


end
