(* ===== verification/PolymarketSafety.thy ===== *)
theory PolymarketSafety
  imports PolymarketReconcile
begin

text \<open>
  What the live venue guarantees: every book it hands out is sound, a gap of a stream blocks heartbeats
  until a reconciliation that began after it, a submission whose fate is unknown halts the service, a
  prepared order is funded, and the key file is private.
\<close>

section \<open>Runs of the venue\<close>

text \<open>
  What happens to the venue between two reconciliations, and a reconciliation with what happens
  meanwhile; reconciliations exclude each other.
\<close>

datatype live_event =
    UserItem instant "unit stream_item"
  | BookItem string instant "BookMessage stream_item"
  | PriceItem string instant "PriceMessage stream_item"
  | RulesRequested sdk string string instant
  | HeartbeatSent sdk

datatype live_operation = Happens live_event | Reconciles sdk "live_event list"

fun live_event_step :: "sdk_lib \<Rightarrow> live_event \<Rightarrow> PolymarketVenue \<Rightarrow> PolymarketVenue" where
  "live_event_step L (UserItem now item) v = on_user_item now item v"
| "live_event_step L (BookItem token now item) v = on_book_item L token now item v"
| "live_event_step L (PriceItem token now item) v = on_price_item L token now item v"
| "live_event_step L (RulesRequested K condition token now) v = snd (live_market_rules L K condition token now v)"
| "live_event_step L (HeartbeatSent K) v = snd (live_heartbeat K v)"

fun live_step :: "dec_ops \<Rightarrow> sdk_lib \<Rightarrow> live_operation \<Rightarrow> PolymarketVenue \<Rightarrow> PolymarketVenue" where
  "live_step D L (Happens ev) v = live_event_step L ev v"
| "live_step D L (Reconciles K evs) v = snd (live_reconcile D L K (fold (live_event_step L) evs) v)"

definition run_live :: "dec_ops \<Rightarrow> sdk_lib \<Rightarrow> live_operation list \<Rightarrow> PolymarketVenue \<Rightarrow> PolymarketVenue" where
  "run_live D L = fold (live_step D L)"

section \<open>Books\<close>

definition sound_levels :: "PriceLevel list \<Rightarrow> bool" where
  "sound_levels levels \<longleftrightarrow> distinct (map pl_price levels)
     \<and> (\<forall>l \<in> set levels. 0 < pl_price l \<and> pl_price l \<le> 1 \<and> 0 < pl_size l)"

definition sound_book :: "OrderBook \<Rightarrow> bool" where
  "sound_book book \<longleftrightarrow> sound_levels (bk_bids book) \<and> sound_levels (bk_asks book)
     \<and> (\<forall>b \<in> set (bk_bids book). \<forall>a \<in> set (bk_asks book). pl_price b < pl_price a)
     \<and> (\<forall>hash. bk_hash book = Some hash \<longrightarrow> \<not> is_blank hash)"

lemma consistent_levels_iff:
  "consistent_levels prices levels \<longleftrightarrow> sound_levels levels \<and> pl_price ` set levels \<inter> prices = {}"
  by (induction levels arbitrary: prices) (auto simp: sound_levels_def)

lemma best_bid_None: "best_bid book = None \<longleftrightarrow> bk_bids book = []"
  by (cases "bk_bids book") (simp_all add: best_bid_def)

lemma best_ask_None: "best_ask book = None \<longleftrightarrow> bk_asks book = []"
  by (cases "bk_asks book") (simp_all add: best_ask_def)

lemma uncrossed_iff:
  "(case (best_bid book, best_ask book) of (Some bid, Some ask) \<Rightarrow> bid < ask | _ \<Rightarrow> True)
     \<longleftrightarrow> (\<forall>b \<in> set (bk_bids book). \<forall>a \<in> set (bk_asks book). pl_price b < pl_price a)"
proof (cases "best_bid book")
  case None
  then show ?thesis by (simp add: None best_bid_None [THEN iffD1, OF None])
next
  case (Some bid)
  note bid = this
  show ?thesis
  proof (cases "best_ask book")
    case None
    then show ?thesis by (simp add: bid None best_ask_None [THEN iffD1, OF None])
  next
    case (Some ask)
    obtain b a where "b \<in> set (bk_bids book)" "pl_price b = bid" "a \<in> set (bk_asks book)" "pl_price a = ask"
      using bid Some by (auto simp: best_bid_def best_ask_def iter_max_Some_iff iter_min_Some_iff)
    with best_bid_ge [OF bid] best_ask_le [OF Some] show ?thesis
      by (simp add: bid Some) (meson le_less_trans less_le_trans)
  qed
qed

lemma book_is_consistent_iff: "book_is_consistent book \<longleftrightarrow> sound_book book"
  unfolding book_is_consistent_def uncrossed_iff consistent_levels_iff sound_book_def
  by (auto split: option.splits)

definition books_sound :: "PolymarketVenue \<Rightarrow> bool" where
  "books_sound v \<longleftrightarrow> (\<forall>token book. lv_books v token = Some book \<longrightarrow> sound_book book)"

lemma books_sound_updates:
  "books_sound v \<Longrightarrow> books_sound (note_gap v)"
  "books_sound v \<Longrightarrow> books_sound (drop_book token v)"
  "books_sound v \<Longrightarrow> sound_book book \<Longrightarrow> books_sound (keep_book token book v)"
  by (auto simp: books_sound_def note_gap_def drop_book_def keep_book_def)

lemma books_sound_price_change: "books_sound v \<Longrightarrow> books_sound (on_price_change L t entry v)"
  by (auto simp: on_price_change_def Let_def book_is_consistent_iff books_sound_updates split: option.splits)

lemma books_sound_fold:
  assumes "\<And>x v. books_sound v \<Longrightarrow> books_sound (f x v)"
  shows "books_sound v \<Longrightarrow> books_sound (fold f xs v)"
  using assms by (induction xs arbitrary: v) auto

lemma market_rules_books: "lv_books (snd (live_market_rules L K condition token now v)) = lv_books v"
  by (auto simp: live_market_rules_def ensure_market_subscription_def Let_def split: res.splits prod.splits if_splits)

lemma heartbeat_books: "lv_books (snd (live_heartbeat K v)) = lv_books v"
  by (auto simp: live_heartbeat_def split: res.splits option.splits)

lemma books_sound_event: "books_sound v \<Longrightarrow> books_sound (live_event_step L ev v)"
proof (cases ev)
  case (UserItem now item)
  assume "books_sound v"
  then show ?thesis by (cases item) (simp_all add: UserItem on_user_item_def books_sound_updates, simp add: books_sound_def)
next
  case (BookItem token now item)
  assume "books_sound v"
  then show ?thesis
    by (cases item) (auto simp: BookItem on_book_item_def Let_def book_is_consistent_iff books_sound_updates)
next
  case (PriceItem token now item)
  assume "books_sound v"
  then show ?thesis
    by (cases item) (auto simp: PriceItem on_price_item_def books_sound_updates intro: books_sound_fold books_sound_price_change)
qed (simp_all add: books_sound_def market_rules_books heartbeat_books)

lemma books_sound_step: "books_sound v \<Longrightarrow> books_sound (live_step D L op v)"
proof (cases op)
  case (Reconciles K evs)
  assume "books_sound v"
  then have "books_sound (fold (live_event_step L) evs v)" by (induction evs arbitrary: v) (auto intro: books_sound_event)
  then show ?thesis
    by (auto simp: Reconciles live_reconcile_def Let_def books_sound_def split: res.splits)
qed (simp add: books_sound_event)

interpretation live: invariant_system "\<lambda>v. \<exists>config. v = new_live_venue config" "\<lambda>v v'. \<exists>op. v' = live_step D L op v" books_sound for D L
  by unfold_locales (auto simp: new_live_venue_def books_sound_def intro: books_sound_step [unfolded books_sound_def, rule_format])

lemma run_live_reachable: "(\<lambda>v v'. \<exists>op. v' = live_step D L op v)\<^sup>*\<^sup>* v (run_live D L ops v)"
  by (induction ops arbitrary: v) (auto simp: run_live_def intro: converse_rtranclp_into_rtranclp)

text \<open>
  C14. Every book the live venue hands out is sound.  After any run of stream messages, errors,
  subscriptions, heartbeats and reconciliations, the answer of \<open>order_book\<close> has distinct prices between 0
  and 1 with positive sizes, no bid at or above an ask, and no blank hash; an answer from the cache
  is less than three seconds old.
\<close>

theorem live_books_are_sound:
  assumes "live_order_book L K token now (run_live D L ops (new_live_venue config)) = Ok book"
  shows "sound_book book
     \<and> ((lv_books (run_live D L ops (new_live_venue config)) token = Some book \<and> now - bk_observed_at book < 3 * 10 ^ 9)
        \<or> (\<exists>t. sl_u256 L token = Ok t \<and> sk_order_book K t = Ok book))"
proof -
  define v where "v = run_live D L ops (new_live_venue config)"
  have "books_sound v"
    using live.reachable_inv [of "new_live_venue config" D L v] run_live_reachable by (auto simp: v_def)
  with assms show ?thesis
    unfolding v_def [symmetric] books_sound_def
    by (auto simp: live_order_book_def Let_def res_simps book_is_consistent_iff split: option.splits if_split_asm)
qed

section \<open>Gaps\<close>

text \<open>The gaps an event reports, counted without the counter.\<close>

definition refused_book :: "sdk_lib \<Rightarrow> instant \<Rightarrow> BookMessage \<Rightarrow> PolymarketVenue \<Rightarrow> bool" where
  "refused_book L now m v \<longleftrightarrow>
     (\<exists>prior. lv_books v (sl_show_u256 L (bm_asset_id m)) = Some prior
        \<and> message_time L now (bm_timestamp m) < bk_observed_at prior)
     \<or> \<not> sound_book \<lparr>bk_bids = bm_bids m, bk_asks = bm_asks m, bk_observed_at = message_time L now (bm_timestamp m),
                      bk_hash = bm_hash m\<rparr>"

definition refused_change :: "sdk_lib \<Rightarrow> instant \<Rightarrow> PriceChange \<Rightarrow> PolymarketVenue \<Rightarrow> bool" where
  "refused_change L t entry v \<longleftrightarrow> (\<exists>book. lv_books v (sl_show_u256 L (pe_asset_id entry)) = Some book
     \<and> (t < bk_observed_at book \<or> \<not> sound_book (change_book t entry book)))"

fun refused_changes :: "sdk_lib \<Rightarrow> instant \<Rightarrow> PriceChange list \<Rightarrow> PolymarketVenue \<Rightarrow> nat" where
  "refused_changes L t [] v = 0"
| "refused_changes L t (entry # rest) v =
     (if refused_change L t entry v then 1 else 0) + refused_changes L t rest (on_price_change L t entry v)"

fun gaps :: "sdk_lib \<Rightarrow> live_event \<Rightarrow> PolymarketVenue \<Rightarrow> nat" where
  "gaps L (UserItem now item) v = (case item of StreamOk u \<Rightarrow> 0 | _ \<Rightarrow> 1)"
| "gaps L (BookItem token now item) v = (case item of
     StreamOk m \<Rightarrow> (if refused_book L now m v then 1 else 0)
   | _ \<Rightarrow> 1)"
| "gaps L (PriceItem token now item) v = (case item of
     StreamOk m \<Rightarrow> refused_changes L (message_time L now (px_timestamp m)) (px_price_changes m) v
   | _ \<Rightarrow> 1)"
| "gaps L (RulesRequested K condition token now) v = 0"
| "gaps L (HeartbeatSent K) v = 0"

fun gaps_of :: "sdk_lib \<Rightarrow> live_event list \<Rightarrow> PolymarketVenue \<Rightarrow> nat" where
  "gaps_of L [] v = 0"
| "gaps_of L (ev # evs) v = gaps L ev v + gaps_of L evs (live_event_step L ev v)"

text \<open>The gaps since the last successful reconciliation began.\<close>

fun pending_gaps :: "dec_ops \<Rightarrow> sdk_lib \<Rightarrow> live_operation list \<Rightarrow> nat \<Rightarrow> PolymarketVenue \<Rightarrow> nat" where
  "pending_gaps D L [] n v = n"
| "pending_gaps D L (Happens ev # ops) n v = pending_gaps D L ops (n + gaps L ev v) (live_event_step L ev v)"
| "pending_gaps D L (Reconciles K evs # ops) n v =
     pending_gaps D L ops
       (if is_ok (fst (live_reconcile D L K (fold (live_event_step L) evs) v)) then gaps_of L evs v else n + gaps_of L evs v)
       (live_step D L (Reconciles K evs) v)"

lemma price_change_counters:
  "lv_stream_gap_generation (on_price_change L t entry v)
     = lv_stream_gap_generation v + of_nat (if refused_change L t entry v then 1 else 0)
   \<and> lv_reconciled_stream_generation (on_price_change L t entry v) = lv_reconciled_stream_generation v"
  by (auto simp: on_price_change_def refused_change_def book_is_consistent_iff Let_def note_gap_def drop_book_def keep_book_def split: option.splits)

lemma price_changes_counters:
  "lv_stream_gap_generation (fold (on_price_change L t) entries v)
     = lv_stream_gap_generation v + of_nat (refused_changes L t entries v)
   \<and> lv_reconciled_stream_generation (fold (on_price_change L t) entries v) = lv_reconciled_stream_generation v"
  by (induction entries arbitrary: v) (simp_all add: price_change_counters)

lemma market_rules_counters:
  "lv_stream_gap_generation (snd (live_market_rules L K condition token now v)) = lv_stream_gap_generation v"
  "lv_reconciled_stream_generation (snd (live_market_rules L K condition token now v)) = lv_reconciled_stream_generation v"
  by (auto simp: live_market_rules_def ensure_market_subscription_def Let_def split: res.splits prod.splits if_splits)

lemma heartbeat_counters:
  "lv_stream_gap_generation (snd (live_heartbeat K v)) = lv_stream_gap_generation v"
  "lv_reconciled_stream_generation (snd (live_heartbeat K v)) = lv_reconciled_stream_generation v"
  by (auto simp: live_heartbeat_def split: res.splits option.splits)

lemma event_counters:
  "lv_stream_gap_generation (live_event_step L ev v) = lv_stream_gap_generation v + of_nat (gaps L ev v)
   \<and> lv_reconciled_stream_generation (live_event_step L ev v) = lv_reconciled_stream_generation v"
proof (cases ev)
  case (UserItem now item)
  then show ?thesis by (cases item) (simp_all add: on_user_item_def note_gap_def)
next
  case (BookItem token now item)
  then show ?thesis
    by (cases item)
      (auto simp: on_book_item_def refused_book_def book_is_consistent_iff note_gap_def drop_book_def keep_book_def Let_def
        split: option.splits)
next
  case (PriceItem token now item)
  then show ?thesis
    by (cases item) (simp_all add: on_price_item_def note_gap_def drop_book_def price_changes_counters)
qed (simp_all add: market_rules_counters heartbeat_counters)

lemma events_counters:
  "lv_stream_gap_generation (fold (live_event_step L) evs v) = lv_stream_gap_generation v + of_nat (gaps_of L evs v)
   \<and> lv_reconciled_stream_generation (fold (live_event_step L) evs v) = lv_reconciled_stream_generation v"
  by (induction evs arbitrary: v) (simp_all add: event_counters)

lemma pending_gaps_counted:
  assumes "lv_stream_gap_generation v = lv_reconciled_stream_generation v + of_nat n"
  shows "lv_stream_gap_generation (run_live D L ops v)
     = lv_reconciled_stream_generation (run_live D L ops v) + of_nat (pending_gaps D L ops n v)"
  using assms
proof (induction ops arbitrary: n v)
  case (Cons op ops)
  show ?case
  proof (cases op)
    case (Happens ev)
    with Cons show ?thesis by (simp add: run_live_def event_counters)
  next
    case (Reconciles K evs)
    have "lv_stream_gap_generation (live_step D L op v) = lv_reconciled_stream_generation (live_step D L op v)
        + of_nat (if is_ok (fst (live_reconcile D L K (fold (live_event_step L) evs) v)) then gaps_of L evs v else n + gaps_of L evs v)"
      using Cons.prems
      by (auto simp: Reconciles live_reconcile_def Let_def events_counters split: res.splits)
    from Cons.IH [OF this] show ?thesis by (simp add: Reconciles run_live_def)
  qed
qed (simp add: run_live_def)

text \<open>
  C15. A gap blocks heartbeats until a reconciliation that began after it succeeds.  Over any run of the
  venue, with fewer than \<open>2 ^ 64\<close> gaps since the last successful reconciliation began, a heartbeat is
  refused for a gap exactly while such a gap is pending, the gaps noticed during that reconciliation
  included; and it asks the venue nothing then.
\<close>

theorem gap_blocks_heartbeat:
  assumes "pending_gaps D L ops 0 (new_live_venue config) < 2 ^ 64"
    and "v = run_live D L ops (new_live_venue config)"
    and "sk_user_connected K" "sk_market_connected K"
  shows "(0 < pending_gaps D L ops 0 (new_live_venue config)
            \<longrightarrow> live_heartbeat K v = (Err (Stale ''a WebSocket gap requires reconciliation''), v))
     \<and> (pending_gaps D L ops 0 (new_live_venue config) = 0 \<longrightarrow>
          (\<forall>i. sk_heartbeat K (lv_heartbeat_id v) = Ok (None, i) \<longrightarrow> fst (live_heartbeat K v) = Ok ()))"
proof -
  let ?n = "pending_gaps D L ops 0 (new_live_venue config)"
  have "lv_stream_gap_generation v = lv_reconciled_stream_generation v + of_nat ?n"
    unfolding assms(2) by (rule pending_gaps_counted) (simp add: new_live_venue_def)
  moreover have "(of_nat ?n :: 64 word) = 0 \<longleftrightarrow> ?n = 0"
    using assms(1) by (auto simp: word_of_nat_eq_0_iff dest: dvd_imp_le)
  ultimately show ?thesis
    using assms(3,4) by (auto simp: live_heartbeat_def)
qed

section \<open>Orders\<close>

definition certainly_refused :: "sdk_lib \<Rightarrow> sdk \<Rightarrow> PreparedVenueOrder \<Rightarrow> bool" where
  "certainly_refused L K prepared \<longleftrightarrow>
     (\<forall>payload signed. pv_signed_payload_json prepared = Some payload \<longrightarrow> reconstruct_signed_order L payload = Ok signed \<longrightarrow>
        (\<exists>response. sk_post_order K signed = Ok response \<and> \<not> pr_success response)
        \<or> (\<exists>e. sk_post_order K signed = Err e \<and> sx_status e = None \<and> sx_kind e = KindValidation)
        \<or> (\<exists>e status. sk_post_order K signed = Err e \<and> sx_status e = Some status
             \<and> ss_code status \<noteq> 425 \<and> (ss_code status < 500 \<or> 600 \<le> ss_code status)))"

lemma submission_error_halts:
  "requires_halt (classify_submission_error e)
     \<or> (sx_status e = None \<and> sx_kind e = KindValidation)
     \<or> (\<exists>status. sx_status e = Some status \<and> ss_code status \<noteq> 425 \<and> (ss_code status < 500 \<or> 600 \<le> ss_code status))"
  by (auto simp: classify_submission_error_def classify_pre_submit_error_def split: option.splits SdkErrorKind.splits)

lemma map_order_status_known: "map_order_status s \<noteq> OrderState.Unknown \<Longrightarrow> map_order_status s \<in> {OrderState.Live, OrderState.Filled, OrderState.Cancelled}"
  by (cases s) auto

lemma submission_of_response_Ok:
  "submission_of_response D L request response = Ok s \<Longrightarrow>
     pr_success response \<and> vs_state s = map_order_status (pr_status response) \<and> vs_state s \<noteq> OrderState.Unknown"
  by (auto simp: submission_of_response_def res_simps split: if_split_asm prod.splits)

lemma submission_of_response_Err:
  "submission_of_response D L request response = Err e \<Longrightarrow> \<not> pr_success response \<or> requires_halt e"
  by (auto simp: submission_of_response_def rbind_eq_Err fill_price_def split: if_split_asm prod.splits)


lemma ensure_trading_allowed_Ok:
  "ensure_trading_allowed K config = Ok () \<longleftrightarrow>
     sk_version K = Ok (pm_expected_protocol config) \<and> (\<exists>country region. sk_geoblock K = Ok (False, country, region))
     \<and> sk_closed_only K = Ok False"
  by (auto simp: ensure_trading_allowed_def res_simps split: prod.splits)

definition needed_funds :: "OrderIntentRequest \<Rightarrow> decimal \<Rightarrow> decimal \<Rightarrow> decimal" where
  "needed_funds request quantity price =
     (if rq_side request = Buy \<and> rq_time_in_force request \<in> {Gtc, Gtd} then quantity * price else quantity)"

lemma required_funds_Ok:
  "dec_exact D \<Longrightarrow> required_funds D request quantity price = Ok r \<Longrightarrow> r = needed_funds request quantity price"
  by (cases "rq_time_in_force request")
    (auto simp: required_funds_def needed_funds_def res_simps dec_exactD split: Side.splits if_split_asm)

text \<open>
  C32. A prepared live order is permitted and funded.  When preparation succeeds, the venue speaks the
  expected protocol, neither the location nor the account is blocked, and the account's balance of the
  asset the order spends, as well as the allowance of the exchange that the order is hashed for, cover
  the order: its quote amount or price times quantity for a buy, its shares for a sell.
\<close>

theorem prepared_orders_are_funded:
  assumes "dec_exact D" "live_prepare D L K config request = Ok p"
  shows "sk_version K = Ok (pm_expected_protocol config) \<and> (\<exists>country region. sk_geoblock K = Ok (False, country, region))
     \<and> sk_closed_only K = Ok False
     \<and> (\<exists>signed exchange token balance raw allowance scale quantity price.
          sl_u256 L (rq_token_id request) = Ok token
          \<and> sk_balance K (if rq_side request = Buy then Collateral else Conditional token) = Ok balance
          \<and> map_of (ba_allowances balance) exchange = Some raw \<and> d_from_str_exact D raw = Some (allowance, scale)
          \<and> quantity_decimal D request = Ok quantity \<and> protection_price D request = Ok price
          \<and> needed_funds request quantity price \<le> ba_balance balance \<and> needed_funds request quantity price \<le> allowance
          \<and> sign_order D L K request = Ok signed
          \<and> pv_deterministic_order_id p = sl_signing_hash L (pm_chain_id config) exchange (sd_order signed))"
proof -
  from assms(2) obtain signed neg exchange payload nj where s:
    "ensure_trading_allowed K config = Ok ()" "sign_order D L K request = Ok signed"
    "sl_exchange_v2 L (pm_chain_id config) neg = Some exchange" "ensure_balance_and_allowance D L K request exchange = Ok ()"
    "pv_deterministic_order_id p = sl_signing_hash L (pm_chain_id config) exchange (sd_order signed)"
    by (auto simp: live_prepare_def res_simps)
  from s(4) obtain token balance quantity price required raw allowance scale where b:
    "sl_u256 L (rq_token_id request) = Ok token"
    "sk_balance K (case rq_side request of Buy \<Rightarrow> Collateral | Sell \<Rightarrow> Conditional token) = Ok balance"
    "quantity_decimal D request = Ok quantity" "protection_price D request = Ok price"
    "required_funds D request quantity price = Ok required" "required \<le> ba_balance balance"
    "map_of (ba_allowances balance) exchange = Some raw" "d_from_str_exact D raw = Some (allowance, scale)" "required \<le> allowance"
    by (auto simp: ensure_balance_and_allowance_def res_simps not_less)
  have "required = needed_funds request quantity price" using assms(1) b(5) by (rule required_funds_Ok)
  moreover have "sk_balance K (if rq_side request = Buy then Collateral else Conditional token) = Ok balance"
    using b(2) by (cases "rq_side request") simp_all
  moreover note s(1) [unfolded ensure_trading_allowed_Ok]
  ultimately show ?thesis using s b by blast
qed

section \<open>Listings\<close>

text \<open>A listing as if it ended with its page number \<open>n\<close>.\<close>

definition ended_after :: "nat \<Rightarrow> (string option \<Rightarrow> nat \<Rightarrow> (SdkError, 'a SdkPage) res) \<Rightarrow> string option \<Rightarrow> nat \<Rightarrow> (SdkError, 'a SdkPage) res" where
  "ended_after n pages cursor k = (case pages cursor k of
     Ok p \<Rightarrow> Ok (if n \<le> k + 1 then p\<lparr>pp_next_cursor := []\<rparr> else p) | r \<Rightarrow> r)"

lemma orders_loop_ended:
  "k + n = 100 \<Longrightarrow> orders_loop D L (K\<lparr>sk_orders := ended_after 100 (sk_orders K), sk_trades := t\<rparr>) k n cursor count acc
     = orders_loop D L K k n cursor count acc"
proof (induction n arbitrary: k cursor count acc)
  case (Suc n)
  then show ?case
    by (cases n) (auto simp: ended_after_def last_cursor_def intro!: arg_cong2 [where f = rbind] split: res.splits)
qed simp

lemma trades_loop_ended:
  "k + n = 100 \<Longrightarrow> trades_loop L (K\<lparr>sk_orders := os, sk_trades := ended_after 100 (sk_trades K)\<rparr>) k n cursor count acc
     = trades_loop L K k n cursor count acc"
proof (induction n arbitrary: k cursor count acc)
  case (Suc n)
  then show ?case
    by (cases n) (auto simp: ended_after_def last_cursor_def Let_def split: res.splits)
qed simp

lemma positions_loop_sdk: "positions_loop L (K\<lparr>sk_orders := os, sk_trades := ts\<rparr>) funder k n acc findings = positions_loop L K funder k n acc findings"
  by (induction n arbitrary: k acc findings) (simp_all add: Let_def cong: if_cong)

lemma allowances_loop_sdk: "allowances_loop L (K\<lparr>sk_orders := os, sk_trades := ts\<rparr>) tokens findings = allowances_loop L K tokens findings"
  by (induction tokens arbitrary: findings) (simp_all cong: if_cong)

text \<open>
  Reconciliation does not notice a listing of orders or trades that goes on after its hundredth page:
  its result, findings included, is the one it gives for the listings that end there.
\<close>

theorem long_listings_go_unnoticed:
  "live_reconcile D L (K\<lparr>sk_orders := ended_after 100 (sk_orders K), sk_trades := ended_after 100 (sk_trades K)\<rparr>) meanwhile v
     = live_reconcile D L K meanwhile v"
proof -
  let ?K = "K\<lparr>sk_orders := ended_after 100 (sk_orders K), sk_trades := ended_after 100 (sk_trades K)\<rparr>"
  have "ensure_trading_allowed (K\<lparr>sk_orders := os, sk_trades := ts\<rparr>) config = ensure_trading_allowed K config" for os ts config
    by (simp add: ensure_trading_allowed_def cong: if_cong)
  then have "live_observations D L ?K config = live_observations D L K config" for config
    by (simp add: live_observations_def orders_loop_ended trades_loop_ended positions_loop_sdk allowances_loop_sdk Let_def
        cong: if_cong)
  moreover have "sk_market_connected ?K = sk_market_connected K" by simp
  ultimately show ?thesis by (simp only: live_reconcile_def)
qed

fun position_pages :: "sdk \<Rightarrow> nat \<Rightarrow> nat \<Rightarrow> nat \<Rightarrow> SdkPosition list list \<Rightarrow> bool" where
  "position_pages K funder k n [] \<longleftrightarrow> n = 0"
| "position_pages K funder k n (p # ps) \<longleftrightarrow> n \<noteq> 0 \<and> sk_positions K funder 500 (k * 500) = Ok p
     \<and> (if length p < 500 then ps = [] else position_pages K funder (k + 1) (n - 1) ps)"

lemma positions_loop_pages:
  "positions_loop L K funder k n acc findings = Ok (held, findings') \<Longrightarrow> k + n = 21 \<Longrightarrow>
     \<exists>pages. position_pages K funder k n pages \<and> held = acc @ map (observed_live_position L) (concat pages)
       \<and> (\<exists>more. findings' = findings @ more)
       \<and> (n \<noteq> 0 \<longrightarrow> (\<exists>p \<in> set pages. length p < 500)
            \<or> ''position reconciliation exceeded the Data API pagination bound'' \<in> set findings')"
proof (induction n arbitrary: k acc findings)
  case (Suc n)
  from Suc.prems(1) obtain p where p: "sk_positions K funder 500 (k * 500) = Ok p"
    by (auto simp: res_simps)
  show ?case
  proof (cases "length p < 500")
    case True
    with Suc.prems(1) p show ?thesis by (intro exI [of _ "[p]"]) (auto simp: res_simps Let_def)
  next
    case False
    let ?f = "if k = 20 then findings @ [''position reconciliation exceeded the Data API pagination bound''] else findings"
    have "positions_loop L K funder (k + 1) n (acc @ map (observed_live_position L) p) ?f = Ok (held, findings')"
      using Suc.prems(1) p False by (auto simp: res_simps Let_def)
    from Suc.IH [OF this] Suc.prems(2) obtain pages where
      "position_pages K funder (k + 1) n pages" "held = acc @ map (observed_live_position L) p @ map (observed_live_position L) (concat pages)"
      "\<exists>more. findings' = ?f @ more"
      "n \<noteq> 0 \<longrightarrow> (\<exists>p \<in> set pages. length p < 500) \<or> ''position reconciliation exceeded the Data API pagination bound'' \<in> set findings'"
      by auto
    then show ?thesis using p False Suc.prems(2) by (intro exI [of _ "p # pages"]) (auto split: if_split_asm)
  qed
next
  case 0
  then show ?case by (intro exI [of _ "[]"]) simp
qed

lemma allowances_loop_extends: "allowances_loop L K tokens findings = Ok findings' \<Longrightarrow> \<exists>more. findings' = findings @ more"
  by (induction tokens arbitrary: findings) (fastforce simp: res_simps)+

text \<open>
  C33. Positions are observed completely or the shortfall is reported.  A successful reconciliation observed
  the positions of consecutive pages of five hundred from the first one on, up to the page that is not
  full, or it read twenty-one full pages and carries a critical finding that says so.
\<close>

theorem positions_complete_or_reported:
  assumes "fst (live_reconcile D L K meanwhile v) = Ok result"
  shows "\<exists>funder pages. funder_address L (lv_config v) = Ok funder \<and> position_pages K funder 0 21 pages
     \<and> rr_observed_positions result = map (observed_live_position L) (concat pages)
     \<and> ((\<exists>p \<in> set pages. length p < 500)
        \<or> ''position reconciliation exceeded the Data API pagination bound'' \<in> set (rr_critical_findings result))"
proof -
  from assms have "live_observations D L K (lv_config v) = Ok result"
    by (auto simp: live_reconcile_def Let_def split: res.splits if_split_asm)
  then obtain os fs funder held fs' fs'' where o: "funder_address L (lv_config v) = Ok funder"
    "positions_loop L K funder 0 21 [] fs = Ok (held, fs')" "allowances_loop L K (token_ids L os held) fs' = Ok fs''"
    "rr_observed_positions result = held" "rr_critical_findings result = fs''"
    by (auto simp: live_observations_def res_simps Let_def split: prod.splits if_split_asm)
  from positions_loop_pages [OF o(2)] allowances_loop_extends [OF o(3)] o show ?thesis by auto
qed

section \<open>The key file\<close>

lemma mask_trans: "(w :: 32 word) AND 4095 = m \<Longrightarrow> w AND 127 = m AND 127"
proof -
  assume "w AND 4095 = m"
  then have "m AND 127 = w AND (4095 AND 127)" by (simp only: and.assoc [symmetric])
  moreover have "(4095 :: 32 word) AND 127 = 127" by simp
  ultimately show ?thesis by simp
qed

text \<open>
  C34. The key file is private and was read as it was inspected.  When the signer is loaded, its path names a
  regular file and no symbolic link, before and after it was opened, the open file is the same file in
  both looks, nobody but its owner has any permission on it and its owner may not execute it, it was
  read to its end, and the address of the key in it is the configured one, on Polygon.
\<close>

theorem live_key_is_private:
  assumes "load_live_signer L F config = Ok signer"
  shows "\<exists>path link opened current contents raw.
     pm_chain_id config = 137 \<and> pm_private_key_file config = Some path
     \<and> kf_link_metadata F path = Some link \<and> kf_current_metadata F path = Some current \<and> kf_opened_metadata F = Some opened
     \<and> fm_file link \<and> \<not> fm_symlink link \<and> fm_file current \<and> \<not> fm_symlink current \<and> fm_file opened
     \<and> (fm_dev opened, fm_ino opened) = (fm_dev link, fm_ino link) \<and> (fm_dev current, fm_ino current) = (fm_dev link, fm_ino link)
     \<and> fm_mode opened AND 127 = 0
     \<and> kf_read_exact F (fm_len opened) = Some contents \<and> kf_read_more F = Some 0
     \<and> kf_private_key F (trim contents) = Some signer
     \<and> pm_signer_address config = Some raw \<and> sl_address L raw = Ok signer"
proof -
  have mode: "private_key_mode_is_allowed m \<Longrightarrow> m AND 127 = 0" for m
    by (auto simp: private_key_mode_is_allowed_def dest: mask_trans)
  show ?thesis
    using assms mode by (auto simp: load_live_signer_def res_simps)
qed

end
