(* ===== verification/PolymarketRuns.thy ===== *)
theory PolymarketRuns
  imports PolymarketSafety Admission
begin

text \<open>The theorems on the live venue applied to a concrete SDK.\<close>

definition sample_lib :: sdk_lib where
  "sample_lib = \<lparr>sl_u256 = (\<lambda>s. if s = ''7'' then Ok 7 else Err ''not a number''), sl_show_u256 = show_nat,
     sl_address = (\<lambda>s. if s = ''signer'' then Ok 5 else if s = ''funder'' then Ok 6 else Err ''no address''),
     sl_show_address = show_nat, sl_b256 = (\<lambda>_. Ok 0), sl_uuid = (\<lambda>_. Ok 0), sl_show_decimal = (\<lambda>_. ''1''),
     sl_show_json = (\<lambda>_. ''1''), sl_parse_json = (\<lambda>_. Err ''no json''), sl_order_status = (\<lambda>_. ''live''),
     sl_trade_status = (\<lambda>_. ''matched''), sl_time_of_millis = (\<lambda>ms. Some (ms * 10 ^ 6)),
     sl_usdc = (\<lambda>x. Ok (UsdcAmount x)), sl_shares = (\<lambda>x. Ok (SharesAmount x)), sl_side_byte = (\<lambda>_. 0),
     sl_exchange_v2 = (\<lambda>chain neg. Some 9), sl_signing_hash = (\<lambda>_ _ _. ''hash''), sl_signed_json = (\<lambda>_. Ok ''signed''),
     sl_order_json = (\<lambda>_. Ok JNull), sl_positions_request = (\<lambda>_ _. Ok ()), sl_arrange = id\<rparr>"

definition sample_order :: OrderV2 where
  "sample_order = \<lparr>o2_salt = 1, o2_maker = 5, o2_signer = 5, o2_tokenId = 7, o2_makerAmount = 1, o2_takerAmount = 1,
     o2_side = 0, o2_signatureType = 3, o2_timestamp = 1, o2_metadata = 0, o2_builder = 0\<rparr>"

definition sample_signed :: SignedOrder where
  "sample_signed = \<lparr>sd_order = sample_order, sd_expiration = 0, sd_signature = ''sig'', sd_order_type = SdkGTC, sd_owner = 0,
     sd_post_only = False, sd_defer_exec = False\<rparr>"

definition sdk_down :: SdkError where
  "sdk_down = \<lparr>sx_status = None, sx_kind = KindOther ''Internal'', sx_text = ''connection reset''\<rparr>"

definition sample_sdk :: sdk where
  "sample_sdk = \<lparr>sk_version = Ok 2, sk_geoblock = Ok (False, ''DE'', ''BE''), sk_closed_only = Ok False,
     sk_user_connected = True, sk_market_connected = True, sk_connects = (\<lambda>k. k = 3),
     sk_subscribe_orderbook = (\<lambda>_. Ok ()), sk_subscribe_prices = (\<lambda>_. Ok ()), sk_subscribe_user = Ok (),
     sk_market = (\<lambda>_. Err sdk_down), sk_order_book = (\<lambda>_. Err sdk_down), sk_build = (\<lambda>_. Ok 0), sk_sign = (\<lambda>_. Ok sample_signed),
     sk_neg_risk = (\<lambda>_. Ok False), sk_balance = (\<lambda>_. Ok \<lparr>ba_balance = 1000, ba_allowances = [(9, ''1000'')]\<rparr>),
     sk_post_order = (\<lambda>_. Err sdk_down), sk_cancel_order = (\<lambda>_. Err sdk_down), sk_order = (\<lambda>_. Err sdk_down),
     sk_orders = (\<lambda>_ _. Ok \<lparr>pp_data = [], pp_next_cursor = ''LTE=''\<rparr>),
     sk_trades = (\<lambda>_ _. Ok \<lparr>pp_data = [], pp_next_cursor = ''LTE=''\<rparr>),
     sk_positions = (\<lambda>_ _ _. Ok []), sk_heartbeat = (\<lambda>_. Ok (None, 4)), sk_client = Ok (), sk_web_socket = Ok (),
     sk_credentials = Ok (), sk_authenticate = (\<lambda>_. Ok ()), sk_data_client = Ok ()\<rparr>"

definition sample_live :: PolymarketConfig where
  "sample_live = default_polymarket\<lparr>pm_signer_address := Some ''signer'', pm_funder_address := Some ''funder'',
     pm_private_key_file := Some ''/run/key''\<rparr>"

definition book_message :: BookMessage where
  "book_message = \<lparr>bm_asset_id = 7, bm_timestamp = 1000, bm_bids = [\<lparr>pl_price = 1/2, pl_size = 10\<rparr>],
     bm_asks = [\<lparr>pl_price = 3/4, pl_size = 5\<rparr>], bm_hash = None\<rparr>"

definition price_message :: PriceMessage where
  "price_message = \<lparr>px_timestamp = 2000, px_price_changes =
     [\<lparr>pe_asset_id = 7, pe_side = SdkBuy, pe_price = 1/2, pe_size = Some 3, pe_hash = None\<rparr>]\<rparr>"

definition streaming :: "live_operation list" where
  "streaming = [Happens (RulesRequested sample_sdk ''c'' ''7'' 0), Happens (BookItem ''7'' 0 (StreamOk book_message)),
     Happens (PriceItem ''7'' 0 (StreamOk price_message))]"

definition streamed_book :: OrderBook where
  "streamed_book = \<lparr>bk_bids = [\<lparr>pl_price = 1/2, pl_size = 3\<rparr>], bk_asks = [\<lparr>pl_price = 3/4, pl_size = 5\<rparr>],
     bk_observed_at = 2000 * 10 ^ 6, bk_hash = None\<rparr>"

lemma show_7: "show_nat 7 = ''7''"
  by code_simp

lemma streamed: "lv_books (run_live D sample_lib streaming (new_live_venue sample_live)) ''7'' = Some streamed_book"
proof -
  have "sample_lib\<lparr>sl_arrange := sl_arrange sample_lib\<rparr> = sample_lib" by simp
  have lib: "sl_show_u256 sample_lib = show_nat" "sl_time_of_millis sample_lib = (\<lambda>ms. Some (ms * 10 ^ 6))"
    by (simp_all add: sample_lib_def)
  show ?thesis
    by (simp add: streaming_def run_live_def on_book_item_def on_price_item_def on_price_change_def market_rules_books
        new_live_venue_def book_message_def price_message_def message_time_def lib show_7 book_is_consistent_def
        best_bid_def best_ask_def keep_book_def change_book_def change_levels_def streamed_book_def Let_def)
qed

theorem live_books_are_sound_witness: "sound_book streamed_book"
proof -
  have "live_order_book sample_lib sample_sdk ''7'' (3000 * 10 ^ 6) (run_live undefined sample_lib streaming (new_live_venue sample_live))
      = Ok streamed_book"
    by (simp add: live_order_book_def streamed Let_def) (simp add: streamed_book_def)
  from live_books_are_sound [OF this] show ?thesis by blast
qed

theorem gap_blocks_heartbeat_witness:
  "\<exists>v. live_heartbeat sample_sdk v = (Err (Stale ''a WebSocket gap requires reconciliation''), v)"
proof -
  have "pending_gaps undefined sample_lib [Happens (UserItem 0 StreamError)] 0 (new_live_venue sample_live) = 1" by simp
  then show ?thesis
    using gap_blocks_heartbeat [of undefined sample_lib "[Happens (UserItem 0 StreamError)]" sample_live _ sample_sdk]
    by (auto simp: sample_sdk_def)
qed

definition live_prepared :: PreparedVenueOrder where
  "live_prepared = \<lparr>pv_deterministic_order_id = ''hash'', pv_normalized_json = JNull, pv_signed_payload_json = Some ''signed'',
     pv_signer_address = None, pv_funder_address = None, pv_protocol_version = 2, pv_sdk_version = ''0.7.0''\<rparr>"


theorem prepared_orders_are_funded_witness:
  "is_ok (live_prepare dec_rat sample_lib sample_sdk sample_live sample_request)
   \<and> sk_version sample_sdk = Ok (pm_expected_protocol sample_live)
   \<and> (\<exists>quantity price. \<exists>balance :: BalanceAllowance. quantity_decimal dec_rat sample_request = Ok quantity \<and> protection_price dec_rat sample_request = Ok price
        \<and> needed_funds sample_request quantity price \<le> ba_balance balance)"
proof -
  have ok: "is_ok (live_prepare dec_rat sample_lib sample_sdk sample_live sample_request)" by code_simp
  then obtain p where "live_prepare dec_rat sample_lib sample_sdk sample_live sample_request = Ok p" by (auto simp: is_ok_iff)
  from prepared_orders_are_funded [OF dec_rat_exact this] ok show ?thesis by (elim conjE exE) blast
qed

theorem positions_complete_or_reported_witness:
  "\<exists>result. fst (live_reconcile dec_rat sample_lib sample_sdk id (new_live_venue sample_live)) = Ok result
     \<and> rr_observed_positions result = []"
proof -
  have "orders_loop dec_rat sample_lib sample_sdk 0 (Suc n) None 0 [] = Ok (0, [])"
    "trades_loop sample_lib sample_sdk 0 (Suc n) None 0 ([], []) = Ok (0, [], [])"
    "positions_loop sample_lib sample_sdk 6 0 (Suc n) [] [] = Ok ([], [])" for n
    by (simp_all add: sample_sdk_def sample_lib_def last_cursor_def)
  from this(1,2) [of 99] this(3) [of 20] have loops:
    "orders_loop dec_rat sample_lib sample_sdk 0 100 None 0 [] = Ok (0, [])"
    "trades_loop sample_lib sample_sdk 0 100 None 0 ([], []) = Ok (0, [], [])"
    "positions_loop sample_lib sample_sdk 6 0 21 [] [] = Ok ([], [])" by simp_all
  have answers: "sk_version sample_sdk = Ok 2" "sk_geoblock sample_sdk = Ok (False, ''DE'', ''BE'')" "sk_closed_only sample_sdk = Ok False"
    "sk_user_connected sample_sdk" "sk_balance sample_sdk Collateral = Ok \<lparr>ba_balance = 1000, ba_allowances = [(9, ''1000'')]\<rparr>"
    "sl_address sample_lib ''funder'' = Ok 6" "sl_arrange sample_lib = id"
    by (simp_all add: sample_sdk_def sample_lib_def)
  have allowed: "ensure_trading_allowed sample_sdk sample_live = Ok ()"
    by (simp add: ensure_trading_allowed_Ok answers sample_live_def default_polymarket_def)
  have funder: "funder_address sample_lib sample_live = Ok 6"
    by (simp add: funder_address_def sample_live_def answers)
  have "is_ok (live_observations dec_rat sample_lib sample_sdk sample_live)"
    by (simp add: live_observations_def allowed funder token_ids_def List.map_filter_simps loops answers)
  then have "is_ok (fst (live_reconcile dec_rat sample_lib sample_sdk id (new_live_venue sample_live)))"
    by (auto simp: live_reconcile_def is_ok_iff new_live_venue_def)
  then obtain result where r: "fst (live_reconcile dec_rat sample_lib sample_sdk id (new_live_venue sample_live)) = Ok result"
    by (auto simp: is_ok_iff)
  from positions_complete_or_reported [OF r] obtain funder pages where
    "position_pages sample_sdk funder 0 21 pages" "rr_observed_positions result = map (observed_live_position sample_lib) (concat pages)"
    by blast
  then have "rr_observed_positions result = []" by (cases pages) (auto simp: sample_sdk_def)
  with r show ?thesis by blast
qed

definition sample_keys :: key_file_system where
  "sample_keys = (let meta = \<lparr>fm_symlink = False, fm_file = True, fm_dev = 1, fm_ino = 2, fm_mode = 33152, fm_len = 4\<rparr> in
     \<lparr>kf_link_metadata = (\<lambda>_. Some meta), kf_open = (\<lambda>_. True), kf_opened_metadata = Some meta, kf_current_metadata = (\<lambda>_. Some meta),
      kf_read_exact = (\<lambda>_. Some ''key ''), kf_read_more = Some 0, kf_utf8 = (\<lambda>_. True),
      kf_private_key = (\<lambda>s. if s = ''key'' then Some 5 else None)\<rparr>)"

theorem live_key_is_private_witness:
  "load_live_signer sample_lib sample_keys sample_live = Ok 5
   \<and> (\<exists>opened. kf_opened_metadata sample_keys = Some opened \<and> fm_mode opened AND 127 = 0)"
proof -
  have "trim ''key '' = ''key''" by code_simp
  moreover have "private_key_mode_is_allowed 33152" by (simp add: private_key_mode_is_allowed_def)
  ultimately have "load_live_signer sample_lib sample_keys sample_live = Ok 5"
    by (simp add: load_live_signer_def sample_keys_def sample_live_def default_polymarket_def sample_lib_def Let_def)
  with live_key_is_private [OF this] show ?thesis by blast
qed

end
