(* ===== verification/EntryRuns.thy ===== *)
theory EntryRuns
  imports EntrySafety ApiRuns PolymarketRuns "HOL-Library.Countable"
begin

text \<open>The theorems on backups, on the process and on the client applied to a concrete host.\<close>

section \<open>A backup\<close>

text \<open>Texts of manifests and of JSON values in unary, by an enumeration of the values.\<close>

definition manifest_text :: "BackupManifest \<Rightarrow> string" where
  "manifest_text m = replicate (to_nat (ma_backup_id m, ma_schema_version m, mode_text (ma_mode m), ma_chain_id m, ma_protocol_version m,
     ma_signer_address m, ma_funder_address m, ma_last_event_sequence m, ma_database_size_bytes m, ma_checksum_sha256 m, ma_created_at m))
     (CHR ''m'')"

definition manifest_of_text :: "string \<Rightarrow> BackupManifest" where
  "manifest_of_text t = (case from_nat (length t) of (bid, version, m, chain, protocol, signer, funder, seq, len, digest, made) \<Rightarrow>
     \<lparr>ma_backup_id = bid, ma_schema_version = version, ma_mode = the (mode_from_str m), ma_chain_id = chain, ma_protocol_version = protocol,
      ma_signer_address = signer, ma_funder_address = funder, ma_last_event_sequence = seq, ma_database_size_bytes = len,
      ma_checksum_sha256 = digest, ma_created_at = made\<rparr>)"

lemma manifest_roundtrip: "manifest_of_text (manifest_text m) = m"
  by (simp add: manifest_text_def manifest_of_text_def)

definition sample_files :: backup_library where
  "sample_files = \<lparr>bl_uuid = show_nat, bl_path = (\<lambda>(d, n). d @ CHR ''/'' # n), bl_fails = (\<lambda>_. None),
     bl_integrity = (\<lambda>_. Ok ''ok''), bl_sha = (\<lambda>c. case c of DatabaseFile db v \<Rightarrow> ''d'' | TextFile t \<Rightarrow> ''t'' @ t),
     bl_size = (\<lambda>_. 4096), bl_schema_version = 3, bl_show_manifest = manifest_text,
     bl_parse_manifest = (\<lambda>t. Ok (manifest_of_text t)), bl_umask = 420\<rparr>"

definition backed_up :: Store where
  "backed_up = (new_store Mode.Paper 100 0)\<lparr>
     instance_metadata := Some \<lparr>im_mode = ''paper'', im_chain_id = 137, im_protocol_version = 2, im_signer_address = None,
       im_funder_address = None, im_created_at = 0\<rparr>,
     backups := [\<lparr>bu_id = 4, bu_state = ''RUNNING'', bu_database_path = None, bu_manifest_path = None, bu_checksum_sha256 = None,
       bu_last_event_sequence = None, bu_error = None, bu_created_at = 1, bu_updated_at = 1\<rparr>]\<rparr>"

lemma sample_backup_runs: "\<exists>db' fs'. run_backup_files sample_files ''backups'' 4 2 (backed_up, Map.empty) = (Ok (), db', fs')"
  using backup_names [of sample_files 4]
  by (simp add: run_backup_files_def backed_up_def new_store_def create_backup_files_def fs_bind_def may_fail_def vacuum_into_def write_file_def
      set_owner_only_file_def reading_def sqlite_integrity_check_def sha256_file_def fs_result_def backup_manifest_def rename_file_def
      sample_files_def run_backup_def Let_def)

theorem completed_backup_verifies_witness:
  "\<exists>db' fs' m. run_backup_files sample_files ''backups'' 4 2 (backed_up, Map.empty) = (Ok (), db', fs')
     \<and> verify_backup sample_files (''backups'', manifest_file sample_files 4) Mode.Paper fs' = Ok m \<and> ma_last_event_sequence m = 0"
proof -
  obtain db' fs' where r: "run_backup_files sample_files ''backups'' 4 2 (backed_up, Map.empty) = (Ok (), db', fs')"
    using sample_backup_runs by blast
  have "\<forall>m. bl_parse_manifest sample_files (bl_show_manifest sample_files m) = Ok m"
    by (simp add: sample_files_def manifest_roundtrip)
  from completed_backup_verifies [OF r this, of _ fs'] r show ?thesis
    by (fastforce simp: backed_up_def new_store_def last_sequence_def coalesce_def)
qed

section \<open>A process\<close>

definition hex_of :: "bytes \<Rightarrow> string" where
  "hex_of = map (\<lambda>w. char_of (unat w))"

definition unhex_of :: "string \<Rightarrow> bytes option" where
  "unhex_of s = Some (map (\<lambda>c. word_of_nat (of_char c)) s)"

lemma unhex_hex: "unhex_of (hex_of b) = Some b"
proof -
  have "unat w mod 256 = unat w" for w :: "8 word"
  proof -
    have "unat w < 2 ^ LENGTH(8)" by (rule unsigned_less)
    then show ?thesis by simp
  qed
  then show ?thesis by (induction b) (simp_all add: unhex_of_def hex_of_def)
qed

definition live_policy :: RiskPolicy where
  "live_policy = sample_policy\<lparr>rp_allowed_condition_ids := {''c''}, rp_allowed_token_ids := {''7''}\<rparr>"

definition sample_host :: host where
  "sample_host = \<lparr>ho_read = (\<lambda>_. Ok ''file''), ho_parse_json = (\<lambda>_. Ok JNull), ho_schema_error = (\<lambda>_. ''schema''),
     ho_parse_config = (\<lambda>_. Some live_config), ho_parse_policy = (\<lambda>_. Some live_policy), ho_write = (\<lambda>_ _. Ok ()),
     ho_parent = id, ho_exists = (\<lambda>_. True), ho_unhex = sample_unhex, ho_hex_error = id, ho_hex = hex_of,
     ho_sha = (\<lambda>_. replicate 32 205), ho_env = (\<lambda>_. Some ''YES''), ho_live_feature = True, ho_recorder = Ok (),
     ho_bind = (\<lambda>_. True), ho_show_addr = (\<lambda>_. ''addr''), ho_database = Ok (), ho_token_length = (\<lambda>_. Some 33),
     ho_read_exact = (\<lambda>_ n. Some (replicate n (CHR ''a''))), ho_read_more = (\<lambda>_. Ok 0), ho_utf8 = (\<lambda>_. True),
     ho_client = Ok (), ho_send = (\<lambda>_. Ok (200, Ok JNull)), ho_get = (\<lambda>_. None), ho_show_status = show_nat,
     ho_show_json = (\<lambda>_. ''null'')\<rparr>"

definition live_life :: life where
  "live_life = \<lparr>lf_host = sample_host, lf_args = \<lparr>sr_config = ''oddsfox.toml'', sr_risk_policy = ''policy.json'', sr_mode = Some ''live''\<rparr>,
     lf_surroundings = quiet, lf_web = sample_web, lf_files = no_files, lf_now = 0, lf_paper_client = Ok (),
     lf_paper_streams = (\<lambda>_. (True, Ok (), Ok ())), lf_sdk_lib = sample_lib\<lparr>sl_address := (\<lambda>_. Ok 5)\<rparr>, lf_keys = sample_keys,
     lf_sdk = sample_sdk, lf_meanwhile = id, lf_events = [Turn Worker, Request 7 backup_request, RunTask 0], lf_graceful = True\<rparr>"

lemma sample_setup: "read_setup sample_host dec_const (lf_args live_life) = Ok (live_config, live_policy, sample_registry)"
proof -
  have config: "validate_config sample_unhex True (\<lambda>_. Some ''YES'') live_config = Ok ()"
    using live_config_sound by (simp add: validate_simps)
  have mode: "mode_from_str ''live'' = Some Mode.Live" using mode_roundtrip [of Mode.Live] by simp
  have same: "live_config\<lparr>cf_mode := Mode.Live\<rparr> = live_config" by (simp add: live_config_def)
  have version: "\<not> is_blank ''v1''" "\<not> str_contains ''example'' (ascii_lowercase ''v1'')"
    "\<not> str_contains ''placeholder'' (ascii_lowercase ''v1'')" by code_simp+
  have policy: "validate_policy dec_const live_policy = Ok ()"
    using version(1) by (simp add: validate_policy_def live_policy_def sample_policy_def policy_decimals_def dec_const_def)
  have "validate_mode_policy live_config live_policy = Ok ()"
    using version(2,3) by (simp add: validate_mode_policy_def live_policy_def sample_policy_def)
  then show ?thesis
    by (simp add: read_setup_def live_life_def sample_host_def mode_of_text_def mode load_config_def same config load_policy_def policy
        sample_registry_new)
qed

lemma sample_socket: "wait_for_ws sample_sdk channel = Ok ()"
proof -
  have "wait_loop (\<lambda>k. k = 3) channel 0 (Suc (Suc (Suc (Suc n)))) = Ok ()" for n by simp
  from this [of 96] show ?thesis by (simp add: wait_for_ws_def sample_sdk_def)
qed

lemma sample_venue:
  "\<exists>v. polymarket_new True (lf_sdk_lib live_life) sample_keys sample_sdk id (cf_polymarket live_config) = Ok v"
proof -
  have "trim ''key '' = ''key''" by code_simp
  moreover have "private_key_mode_is_allowed 33152" by (simp add: private_key_mode_is_allowed_def)
  ultimately have "load_live_signer (lf_sdk_lib live_life) sample_keys (cf_polymarket live_config) = Ok 5"
    by (simp add: load_live_signer_def sample_keys_def live_config_def default_polymarket_def live_life_def Let_def)
  then show ?thesis
    using sample_socket
    by (simp add: polymarket_new_def funder_address_def sample_sdk_def live_config_def default_polymarket_def live_life_def)
qed

lemma sample_boot: "\<exists>db. boot live_life (new_store Mode.Paper 100 0) = (Ok (live_config, live_policy, sample_registry), db)"
proof -
  have "\<exists>db1. open_store (identity_of (cf_polymarket live_config)) 0 (reopened live_config (new_store Mode.Paper 100 0)) = Ok db1"
    by (simp add: open_store_def legacy_active_exposure_def reopened_def new_store_def bind_identity_def identity_of_def
        live_config_def default_polymarket_def i64_max_def)
  then obtain db1 where o: "open_store (identity_of (cf_polymarket live_config)) 0 (reopened live_config (new_store Mode.Paper 100 0)) = Ok db1" ..
  obtain v where v: "polymarket_new True (lf_sdk_lib live_life) sample_keys sample_sdk id (cf_polymarket live_config) = Ok v"
    using sample_venue by blast
  have "cf_mode live_config = Mode.Live" by (simp add: live_config_def)
  then have "open_venue live_life live_config db1 = (Ok (), db1)"
    using v by (simp add: open_venue_def live_life_def sample_host_def)
  then show ?thesis
    using sample_setup o
    by (simp add: boot_def live_life_def quiet_def) (simp add: open_listeners_def sample_host_def)
qed

theorem live_start_is_guarded_witness:
  "\<exists>db row. boot live_life (new_store Mode.Paper 100 0) = (Ok (live_config, live_policy, sample_registry), db)
     \<and> instance_metadata db = Some row \<and> im_mode row = ''live'' \<and> im_chain_id row = 137"
proof -
  obtain db where b: "boot live_life (new_store Mode.Paper 100 0) = (Ok (live_config, live_policy, sample_registry), db)"
    using sample_boot by blast
  have "cf_mode live_config = Mode.Live" by (simp add: live_config_def)
  from live_start_is_guarded [OF b this] b show ?thesis by blast
qed

theorem processes_submit_at_most_once_witness:
  "length (filter (\<lambda>call. submitted_intent call = Some 10)
     (fst (run_processes [live_life, live_life\<lparr>lf_graceful := False\<rparr>, live_life] ([], new_store Mode.Paper 100 0)))) \<le> 1"
proof -
  have "\<forall>F \<in> set [live_life, live_life\<lparr>lf_graceful := False\<rparr>, live_life]. interferes (lf_surroundings F)"
    using quiet_interferes by (simp add: live_life_def)
  from processes_submit_at_most_once [OF fresh_sample this, of 10] show ?thesis by blast
qed

section \<open>The client\<close>

definition sample_token :: string where
  "sample_token = replicate 32 (CHR ''a'')"

definition token_host :: host where
  "token_host = sample_host\<lparr>ho_unhex := unhex_of\<rparr>"

definition token_config :: Config where
  "token_config = live_config\<lparr>cf_mode := Mode.Paper, cf_auth := [\<lparr>cd_actor_id = ''operator'', cd_token_sha256 = hex_of (replicate 32 205),
     cd_scopes = [''operate'']\<rparr>]\<rparr>"

theorem token_file_authenticates_witness:
  "\<exists>auth. new_registry unhex_of id (cf_auth token_config) = Ok auth
     \<and> authenticate (\<lambda>_. replicate 32 205) auth sample_token = Some \<lparr>ac_id = ''operator'', ac_scopes = {''operate''}\<rparr>"
proof -
  have "trim sample_token = sample_token" by code_simp
  then have t: "parse_api_token (sample_token @ [CHR 0x0A]) = Ok sample_token"
    by (simp add: parse_api_token_iff char_count_def byte_def) (simp add: sample_token_def)
  have blank: "\<not> is_blank ''operator''" by code_simp
  have "length (hex_of (replicate 32 205)) = 32" by (simp add: hex_of_def)
  then have "sound_auth unhex_of (cf_auth token_config)"
    by (simp add: token_config_def sound_auth_def sound_credential_def unhex_hex blank)
  moreover have "sound_bounds token_config" using live_config_sound(2) by (simp add: token_config_def sound_bounds_def)
  ultimately have "validate_config unhex_of False (\<lambda>_. None) token_config = Ok ()"
    by (simp add: validate_simps) (simp add: token_config_def)
  moreover have "token_digest_command token_host (sample_token @ [CHR 0x0A]) = Ok (hex_of (replicate 32 205))"
    by (simp add: token_digest_command_def token_digest_def token_host_def sample_host_def sample_token_def trim_end_matches_append)
  ultimately show ?thesis
    using token_file_authenticates [OF t, of token_host] unhex_hex
    by (fastforce simp: token_host_def sample_host_def token_config_def credential_actor_def)
qed

fun raw_of :: "json \<Rightarrow> raw_json" where
  "raw_of JNull = RawNull"
| "raw_of (JBool b) = RawBool b"
| "raw_of (JInt n) = RawInt n"
| "raw_of (JDec x) = RawFloat (Some x)"
| "raw_of (JArr vs) = RawArr (map raw_of vs)"
| "raw_of (JObj kvs) = RawObj (map (\<lambda>(k, v). (k, raw_of v)) kvs)"
| "raw_of v = RawText v"

lemma unique_raw_of: "fields_once j \<Longrightarrow> unique_json (raw_of j) = Some j"
proof (induction j)
  case (JArr vs)
  then have "unique_seq (map raw_of us) acc = Some (JArr (acc @ us))" if "set us \<subseteq> set vs" for us acc
    using that by (induction us arbitrary: acc) auto
  from this [of vs "[]"] show ?case by simp
next
  case (JObj kvs)
  have "unique_map (map (\<lambda>(k, v). (k, raw_of v)) us) keys acc = Some (JObj (acc @ us))"
    if "set us \<subseteq> set kvs" "distinct (map fst us)" "fst ` set us \<inter> keys = {}" for us keys acc
    using that
  proof (induction us arbitrary: keys acc)
    case (Cons u us)
    obtain k v where u: "u = (k, v)" by fastforce
    have "unique_json (raw_of v) = Some v" using JObj Cons.prems(1) by (auto simp: u)
    with Cons u show ?case by auto
  qed simp
  from this [of kvs "{}" "[]"] JObj.prems show ?case by simp
qed simp_all

instance json :: countable
  by countable_datatype

definition unary_json :: "json \<Rightarrow> string" where
  "unary_json j = replicate (to_nat j) (CHR ''j'')"

definition halt_web :: http_library where
  "halt_web = sample_web\<lparr>hl_parse_json := (\<lambda>t. Some (raw_of (from_nat (length t)))),
     hl_route := (\<lambda>rq. if hq_method rq = POST \<and> hq_path rq = ''/v1/control/halt'' then Some PostHalt else None)\<rparr>"

definition halt_args :: ApiArgs where
  "halt_args = \<lparr>aa_url = ''http://127.0.0.1:8787/'', aa_token_file = ''token'', aa_idempotency_key = None\<rparr>"

definition halt_call :: api_call where
  "halt_call = api_call_of (\<lambda>_. replicate 36 (CHR ''7'')) 7 sample_token halt_args POST ''/v1/control/halt'' (Some (json_of_reason ''fire'')) True"

theorem cli_requests_are_understood_witness:
  "handle halt_web quiet PostHalt no_actor (sent_request unary_json ''/v1/control/halt'' halt_call)
     = post_halt halt_web quiet no_actor (Some (''cli-'' @ replicate 36 (CHR ''7''))) ''fire''"
proof -
  have "same_json halt_web unary_json"
    by (simp add: same_json_def halt_web_def unary_json_def unique_raw_of)
  moreover have "follows_routes halt_web" by (auto simp: follows_routes_def halt_web_def split: if_split_asm)
  moreover have "\<forall>s. printable s \<longrightarrow> hl_header_text halt_web s = Some s" by (simp add: halt_web_def sample_web_def)
  moreover have "command_request sample_host (CmdHalt halt_args ''fire'')
      = Some (Ok (halt_args, POST, ''/v1/control/halt'', Some (json_of_reason ''fire''), True))"
    by (simp add: command_request_def)
  moreover have "hl_route halt_web (sent_request unary_json ''/v1/control/halt'' halt_call) = Some PostHalt"
    by (simp add: halt_web_def sent_request_def halt_call_def api_call_of_def)
  moreover have "literal_path (snd (endpoint_route PostHalt))" by (simp add: literal_path_def)
  moreover have "printable (replicate 36 (CHR ''7''))" by (simp add: printable_def byte_def list_all_iff)
  ultimately have "handle halt_web quiet PostHalt no_actor (sent_request unary_json ''/v1/control/halt'' halt_call)
      \<in> command_effect halt_web quiet sample_host no_actor
          (hq_idempotency_key (sent_request unary_json ''/v1/control/halt'' halt_call)) (CmdHalt halt_args ''fire'')"
    unfolding halt_call_def by (intro cli_requests_are_understood [THEN conjunct1]) (assumption | rule refl | simp)+
  then show ?thesis
    by (simp add: command_effect_def sent_request_def halt_call_def api_call_of_def halt_args_def)
qed

end
