(* ===== verification/PaperMatching.thy ===== *)
theory PaperMatching
  imports PaperVenue "HOL-Library.Multiset"
begin

text \<open>
  What the paper venue promises: an immediate order spends or sells no more than requested, at no worse
  price than the limit, and stops short only when the visible depth is exhausted; fill-or-kill is all or
  nothing; every commit keeps the books of the ledger balanced; a repeated submission changes nothing; and
  what the venue answers passes the checks of the store on venue evidence.
\<close>

section \<open>What an immediate order executes\<close>

text \<open>
  \<open>d_div\<close> is not exact: a quotient that does not terminate is rounded at the last of 28 places.
  \<open>dec_div_near D \<epsilon>\<close> bounds that error.
\<close>

definition dec_div_near :: "dec_ops \<Rightarrow> decimal \<Rightarrow> bool" where
  "dec_div_near D \<epsilon> \<longleftrightarrow> 0 \<le> \<epsilon> \<and> (\<forall>a b c. d_div D a b = Some c \<longrightarrow> \<bar>c - a / b\<bar> \<le> \<epsilon>)"

lemma dec_rat_div_near: "dec_div_near dec_rat 0"
  by (auto simp: dec_div_near_def dec_rat_def)

definition level_ok :: "PriceLevel \<Rightarrow> bool" where
  "level_ok l \<longleftrightarrow> 0 < pl_price l \<and> 0 \<le> pl_size l"

abbreviation depth :: "PriceLevel list \<Rightarrow> decimal" where
  "depth levels \<equiv> sum_list (map pl_size levels)"

lemma add_fill_exact:
  assumes "dec_exact D" "add_fill D s q e f = Some f'"
  shows "f' = f\<lparr>fl_shares := fl_shares f + s, fl_quote := fl_quote f + q, fl_fee := fl_fee f + e\<rparr>"
  using assms(2) by (auto simp: add_fill_def bind_Some_simps dec_exact_simps [OF assms(1)])

lemma quotient_cancel: "0 < c \<Longrightarrow> (q / c + e) * c = q + e * c" for c :: decimal
  by (simp add: distrib_right)

text \<open>One level of a buy: what it buys, and what is left to spend.\<close>

lemma buy_level:
  assumes near: "dec_div_near D \<epsilon>" and sign: "dec_sign D" and l: "level_ok l" "pl_price l \<le> worst" and f: "0 \<le> f"
    and q: "0 \<le> q" and a: "d_div D q (pl_price l * (1 + f)) = Some a" and tiny: "\<epsilon> * worst * (1 + f) \<le> dust"
  defines "s \<equiv> min (pl_size l) a"
  shows "0 \<le> s" and "s * pl_price l * (1 + f) \<le> q + \<epsilon> * worst * (1 + f)"
    and "dust < q - s * pl_price l * (1 + f) \<Longrightarrow> s = pl_size l"
proof -
  let ?c = "pl_price l * (1 + f)"
  have c: "0 < ?c" using l f by (auto simp: level_ok_def intro: mult_pos_pos)
  have e: "0 \<le> \<epsilon>" and d: "\<bar>a - q / ?c\<bar> \<le> \<epsilon>" using near a by (auto simp: dec_div_near_def)
  have "0 \<le> a" using dec_signD [OF sign a q c] .
  then show "0 \<le> s" using l by (simp add: s_def level_ok_def)
  have ec: "\<epsilon> * ?c \<le> \<epsilon> * worst * (1 + f)"
    using l f e by (simp add: mult.assoc mult_left_mono mult_right_mono)
  have up: "a * ?c \<le> q + \<epsilon> * ?c"
  proof -
    have "a * ?c \<le> (q / ?c + \<epsilon>) * ?c" using d c by (intro mult_right_mono) auto
    also have "\<dots> = q + \<epsilon> * ?c" by (rule quotient_cancel [OF c])
    finally show ?thesis .
  qed
  have lo: "q - \<epsilon> * ?c \<le> a * ?c"
  proof -
    have "q - \<epsilon> * ?c = (q / ?c + - \<epsilon>) * ?c" using quotient_cancel [OF c, of q "- \<epsilon>"] by simp
    also have "\<dots> \<le> a * ?c" using d c by (intro mult_right_mono) auto
    finally show ?thesis .
  qed
  have "s * ?c \<le> a * ?c" using c by (intro mult_right_mono) (auto simp: s_def)
  with up ec show "s * pl_price l * (1 + f) \<le> q + \<epsilon> * worst * (1 + f)" by (simp add: mult.assoc)
  show "s = pl_size l" if "dust < q - s * pl_price l * (1 + f)"
  proof (rule ccontr)
    assume "s \<noteq> pl_size l"
    then have "s = a" by (auto simp: s_def min_def split: if_split_asm)
    with that lo ec tiny show False by (simp add: mult.assoc)
  qed
qed

definition buy_outcome :: "decimal \<Rightarrow> decimal \<Rightarrow> decimal \<Rightarrow> decimal \<Rightarrow> decimal \<Rightarrow> PaperFill \<Rightarrow> PaperFill \<Rightarrow> bool" where
  "buy_outcome slack worst f q available fill fill' \<longleftrightarrow>
     (let s = fl_shares fill' - fl_shares fill; c = fl_quote fill' - fl_quote fill; e = fl_fee fill' - fl_fee fill
      in 0 \<le> s \<and> 0 \<le> c \<and> c \<le> worst * s \<and> e = f * c \<and> c + e \<le> q + slack
         \<and> (if fl_complete fill' then q - dust \<le> c + e else s = available))"

lemma buy_outcome_Nil: "0 \<le> q \<Longrightarrow> 0 \<le> slack \<Longrightarrow> \<not> fl_complete fill \<Longrightarrow> buy_outcome slack worst f q 0 fill fill"
  by (simp add: buy_outcome_def)

lemma buy_outcome_last:
  assumes "0 \<le> s" "0 \<le> p" "p \<le> worst" "0 \<le> f" "s * p + s * p * f \<le> q + slack" "q - (s * p + s * p * f) \<le> dust"
  shows "buy_outcome slack worst f q avail fill
    (fill\<lparr>fl_shares := fl_shares fill + s, fl_quote := fl_quote fill + s * p, fl_fee := fl_fee fill + s * p * f,
          fl_complete := True\<rparr>)"
proof -
  have "s * p \<le> s * worst" using assms by (intro mult_left_mono) auto
  with assms show ?thesis by (auto simp: buy_outcome_def Let_def mult.commute)
qed

lemma buy_outcome_step:
  assumes "0 \<le> s" "0 \<le> p" "p \<le> worst" "0 \<le> f"
    and "buy_outcome slack worst f (q - (s * p + s * p * f)) avail
      (fill\<lparr>fl_shares := fl_shares fill + s, fl_quote := fl_quote fill + s * p, fl_fee := fl_fee fill + s * p * f\<rparr>) fill'"
  shows "buy_outcome slack worst f q (s + avail) fill fill'"
proof -
  have "s * p \<le> s * worst" using assms by (intro mult_left_mono) auto
  moreover have "0 \<le> s * p" using assms by simp
  ultimately show ?thesis
    using assms(1,5) by (auto simp: buy_outcome_def Let_def algebra_simps split: if_splits)
qed

lemma walk_buy_outcome:
  assumes D: "dec_exact D" "dec_sign D" "dec_div_near D \<epsilon>" and f: "0 \<le> f" and tiny: "\<epsilon> * worst * (1 + f) \<le> dust"
    and slack: "0 \<le> \<epsilon> * worst * (1 + f)"
  shows "walk_buy D f levels q fill = Some fill' \<Longrightarrow> 0 \<le> q \<Longrightarrow> \<not> fl_complete fill \<Longrightarrow>
     list_all (\<lambda>l. level_ok l \<and> pl_price l \<le> worst) levels \<Longrightarrow>
     buy_outcome (\<epsilon> * worst * (1 + f)) worst f q (depth levels) fill fill'"
proof (induction levels arbitrary: q fill)
  case Nil
  then show ?case using slack by (auto intro: buy_outcome_Nil)
next
  case (Cons l levels)
  let ?p = "pl_price l"
  let ?spent = "\<lambda>a. min (pl_size l) a * ?p + min (pl_size l) a * ?p * f"
  have l: "level_ok l" "?p \<le> worst" using Cons.prems by auto
  from Cons.prems(1) obtain a where a: "d_div D q (?p * (1 + f)) = Some a"
    and rest: "(if q - ?spent a \<le> dust
       then Some (fill\<lparr>fl_shares := fl_shares fill + min (pl_size l) a, fl_quote := fl_quote fill + min (pl_size l) a * ?p,
                       fl_fee := fl_fee fill + min (pl_size l) a * ?p * f, fl_complete := True\<rparr>)
       else walk_buy D f levels (q - ?spent a)
              (fill\<lparr>fl_shares := fl_shares fill + min (pl_size l) a, fl_quote := fl_quote fill + min (pl_size l) a * ?p,
                    fl_fee := fl_fee fill + min (pl_size l) a * ?p * f\<rparr>)) = Some fill'"
    by (auto simp: bind_Some_simps Let_def dec_exact_simps [OF D(1)] dest!: add_fill_exact [OF D(1)])
  note b = buy_level [OF D(3,2) l f Cons.prems(2) a tiny, unfolded distrib_left [of "min (pl_size l) a * ?p" 1 f] mult_1_right]
  have p: "0 \<le> ?p" using l by (simp add: level_ok_def)
  show ?case
  proof (cases "q - ?spent a \<le> dust")
    case True
    with rest show ?thesis using buy_outcome_last [OF b(1) p l(2) f b(2) True] by auto
  next
    case False
    with b(3) have s: "min (pl_size l) a = pl_size l" by simp
    have pos: "0 \<le> q - ?spent a" using False by (simp add: dust_def)
    have "buy_outcome (\<epsilon> * worst * (1 + f)) worst f (q - ?spent a) (depth levels)
       (fill\<lparr>fl_shares := fl_shares fill + min (pl_size l) a, fl_quote := fl_quote fill + min (pl_size l) a * ?p,
             fl_fee := fl_fee fill + min (pl_size l) a * ?p * f\<rparr>) fill'"
      using rest False Cons.prems by (intro Cons.IH [OF _ pos]) auto
    from buy_outcome_step [OF b(1) p l(2) f this] s show ?thesis by simp
  qed
qed

definition sell_outcome :: "decimal \<Rightarrow> decimal \<Rightarrow> decimal \<Rightarrow> decimal \<Rightarrow> PaperFill \<Rightarrow> PaperFill \<Rightarrow> bool" where
  "sell_outcome worst f n available fill fill' \<longleftrightarrow>
     (let s = fl_shares fill' - fl_shares fill; c = fl_quote fill' - fl_quote fill; e = fl_fee fill' - fl_fee fill
      in 0 \<le> s \<and> s \<le> n \<and> worst * s \<le> c \<and> e = f * c \<and> (if fl_complete fill' then n - dust \<le> s else s = available))"

lemma walk_sell_outcome:
  assumes D: "dec_exact D"
  shows "walk_sell D f levels n fill = Some fill' \<Longrightarrow> 0 \<le> n \<Longrightarrow> \<not> fl_complete fill \<Longrightarrow>
     list_all (\<lambda>l. level_ok l \<and> worst \<le> pl_price l) levels \<Longrightarrow>
     sell_outcome worst f n (depth levels) fill fill'"
proof (induction levels arbitrary: n fill)
  case Nil
  then show ?case by (auto simp: sell_outcome_def)
next
  case (Cons l levels)
  let ?s = "min (pl_size l) n"
  let ?fill = "fill\<lparr>fl_shares := fl_shares fill + ?s, fl_quote := fl_quote fill + ?s * pl_price l,
                    fl_fee := fl_fee fill + ?s * pl_price l * f\<rparr>"
  from Cons.prems(1) have rest: "(if n - ?s \<le> dust then Some (?fill\<lparr>fl_complete := True\<rparr>)
       else walk_sell D f levels (n - ?s) ?fill) = Some fill'"
    by (auto simp: bind_Some_simps Let_def dec_exact_simps [OF D(1)] dest!: add_fill_exact [OF D(1)])
  have s: "0 \<le> ?s" "?s * worst \<le> ?s * pl_price l"
    using Cons.prems(2,4) by (auto simp: level_ok_def intro!: mult_left_mono)
  show ?case
  proof (cases "n - ?s \<le> dust")
    case True
    with rest s show ?thesis by (auto simp: sell_outcome_def Let_def algebra_simps)
  next
    case False
    then have full: "?s = pl_size l" by (auto simp: dust_def)
    have "sell_outcome worst f (n - ?s) (depth levels) ?fill fill'"
      using rest False Cons.prems by (intro Cons.IH) auto
    with s full show ?thesis by (auto simp: sell_outcome_def Let_def algebra_simps split: if_splits)
  qed
qed

lemma depth_sorted: "depth (filter P (sort_key k levels)) = depth (filter P levels)"
proof -
  have "mset (map pl_size (filter P (sort_key k levels))) = mset (map pl_size (filter P levels))"
    by simp
  then show ?thesis by (metis sum_mset_sum_list)
qed

section \<open>What a submission commits\<close>

abbreviation worst_fee :: "MarketRules \<Rightarrow> decimal" where
  "worst_fee m \<equiv> max (mk_maker_fee_rate m) (mk_taker_fee_rate m)"

lemma parse_positive_pos: "parse_positive_decimal D field raw = Ok x \<Longrightarrow> 0 < x"
  by (auto simp: parse_positive_decimal_def split: option.splits if_split_asm)

lemma paper_submitE:
  assumes "paper_submit D book market attempt prepared request now v db = (Ok (sub, db'), v')"
  obtains b m price q fill c snap where "book = Ok b" "market = Ok m"
    "protection_price D request = Ok price" "quantity_decimal D request = Ok q"
    "if is_immediate (rq_time_in_force request)
     then walk_book D b (rq_side request) q price (worst_fee m) = Some fill else fill = no_fill"
    "paper_commit D request m price q fill (pv_deterministic_order_id prepared) = Some c"
    "commit_paper_order D c now db = Ok (snap, db')" "sub = submission_of snap"
proof -
  from assms obtain b m price q where t: "submit_terms D book market request = Ok (b, m, price, q)"
    by (auto simp: paper_submit_def split: res.splits)
  then have "book = Ok b" "market = Ok m" "protection_price D request = Ok price" "quantity_decimal D request = Ok q"
    by (auto simp: submit_terms_def res_simps)
  with assms t that show thesis
    by (auto simp: paper_submit_def submit_commit_def Let_def res_simps split: if_split_asm prod.splits)
qed

lemma paper_commit_facts:
  assumes D: "dec_exact D" and run: "paper_commit D request m price q fill oid = Some c"
  shows "pc_venue_order_id c = oid" "pc_token_id c = rq_token_id request" "pc_side c = rq_side request"
    "pc_state c = committed_state request fill" "pc_price c = price" "pc_fee_rate c = worst_fee m"
    "pc_remaining_quantity c = (if is_immediate (rq_time_in_force request) then 0 else pc_original_quantity c)"
    "committed_quantity D request q (mk_tick_size m) = Some (pc_original_quantity c)"
    "pc_filled_quantity c = fl_shares (applied_fill request fill)"
    "pc_quote_amount c = fl_quote (applied_fill request fill)" "pc_fee_amount c = fl_fee (applied_fill request fill)"
    "average_price D (applied_fill request fill) = Some (pc_filled_price c)"
    "pc_reserved_quote c = (if \<not> is_immediate (rq_time_in_force request) \<and> rq_side request = Buy
                            then q * price * (1 + worst_fee m) else 0)"
    "pc_reserved_shares c = (if \<not> is_immediate (rq_time_in_force request) \<and> rq_side request = Sell then q else 0)"
    "pc_venue_trade_ids c = (if fl_shares (applied_fill request fill) > 0 then [''paper_trade_'' @ oid] else [])"
    "pc_evidence c = fill_evidence request fill (pc_filled_price c)"
proof -
  obtain rq orig avg where r: "reserved_quote D request q price (worst_fee m) = Some rq"
    and o: "committed_quantity D request q (mk_tick_size m) = Some orig"
    and a: "average_price D (applied_fill request fill) = Some avg"
    using run by (auto simp: paper_commit_def Let_def bind_Some_simps)
  have "rq = (if \<not> is_immediate (rq_time_in_force request) \<and> rq_side request = Buy then q * price * (1 + worst_fee m) else 0)"
    using r by (auto simp: reserved_quote_def bind_Some_simps dec_exact_simps [OF D] split: if_split_asm)
  with run r o a show "pc_venue_order_id c = oid" "pc_token_id c = rq_token_id request" "pc_side c = rq_side request"
    "pc_state c = committed_state request fill" "pc_price c = price" "pc_fee_rate c = worst_fee m"
    "pc_remaining_quantity c = (if is_immediate (rq_time_in_force request) then 0 else pc_original_quantity c)"
    "committed_quantity D request q (mk_tick_size m) = Some (pc_original_quantity c)"
    "pc_filled_quantity c = fl_shares (applied_fill request fill)"
    "pc_quote_amount c = fl_quote (applied_fill request fill)" "pc_fee_amount c = fl_fee (applied_fill request fill)"
    "average_price D (applied_fill request fill) = Some (pc_filled_price c)"
    "pc_reserved_quote c = (if \<not> is_immediate (rq_time_in_force request) \<and> rq_side request = Buy
                            then q * price * (1 + worst_fee m) else 0)"
    "pc_reserved_shares c = (if \<not> is_immediate (rq_time_in_force request) \<and> rq_side request = Sell then q else 0)"
    "pc_venue_trade_ids c = (if fl_shares (applied_fill request fill) > 0 then [''paper_trade_'' @ oid] else [])"
    "pc_evidence c = fill_evidence request fill (pc_filled_price c)"
    by (simp_all only: paper_commit_def Let_def bind.simps option.inject) (auto simp del: max_def)
qed

text \<open>The side of the book an order meets, up to its limit.\<close>

definition reachable_levels :: "OrderBook \<Rightarrow> Side \<Rightarrow> decimal \<Rightarrow> PriceLevel list" where
  "reachable_levels b side worst = (case side of
     Buy \<Rightarrow> filter (\<lambda>l. pl_price l \<le> worst) (bk_asks b) | Sell \<Rightarrow> filter (\<lambda>l. worst \<le> pl_price l) (bk_bids b))"

definition book_ok :: "OrderBook \<Rightarrow> bool" where
  "book_ok b \<longleftrightarrow> list_all level_ok (bk_asks b) \<and> list_all level_ok (bk_bids b)"

lemma no_fill_sel [simp]:
  "fl_shares no_fill = 0" "fl_quote no_fill = 0" "fl_fee no_fill = 0" "\<not> fl_complete no_fill"
  by (simp_all add: no_fill_def)

lemma walk_book_outcome:
  assumes D: "dec_exact D" "dec_sign D" "dec_div_near D \<epsilon>" and f: "0 \<le> f" and w: "0 < worst" and q: "0 \<le> q"
    and tiny: "\<epsilon> * worst * (1 + f) \<le> dust" and b: "book_ok b" and run: "walk_book D b side q worst f = Some fill"
  shows "case side of
      Buy \<Rightarrow> buy_outcome (\<epsilon> * worst * (1 + f)) worst f q (depth (reachable_levels b side worst)) no_fill fill
    | Sell \<Rightarrow> sell_outcome worst f q (depth (reachable_levels b side worst)) no_fill fill"
proof (cases side)
  case Buy
  have "0 \<le> \<epsilon>" using D(3) by (simp add: dec_div_near_def)
  then have slack: "0 \<le> \<epsilon> * worst * (1 + f)" using f w by simp
  have "buy_outcome (\<epsilon> * worst * (1 + f)) worst f q
      (depth (filter (\<lambda>l. pl_price l \<le> worst) (sort_key pl_price (bk_asks b)))) no_fill fill"
    using run Buy b by (intro walk_buy_outcome [OF D f tiny slack _ q]) (auto simp: walk_book_def list_all_iff book_ok_def)
  with Buy show ?thesis by (simp add: reachable_levels_def depth_sorted)
next
  case Sell
  have "sell_outcome worst f q
      (depth (filter (\<lambda>l. worst \<le> pl_price l) (sort_key (\<lambda>l. - pl_price l) (bk_bids b)))) no_fill fill"
    using run Sell b by (intro walk_sell_outcome [OF D(1) _ q]) (auto simp: walk_book_def list_all_iff book_ok_def)
  with Sell show ?thesis by (simp add: reachable_levels_def depth_sorted)
qed

lemma walk_book_signs:
  assumes "dec_exact D" "dec_sign D" "dec_div_near D \<epsilon>" "0 \<le> f" "f \<le> 1" "0 < worst" "0 \<le> q"
    "\<epsilon> * worst * (1 + f) \<le> dust" "book_ok b" "walk_book D b side q worst f = Some fill"
  shows "0 \<le> fl_shares fill" "0 \<le> fl_quote fill" "fl_fee fill \<le> fl_quote fill"
proof -
  note w = walk_book_outcome [OF assms(1-4,6-10)]
  have *: "0 \<le> fl_shares fill \<and> 0 \<le> fl_quote fill \<and> fl_fee fill = f * fl_quote fill"
  proof (cases side)
    case Buy
    with w show ?thesis by (auto simp: buy_outcome_def Let_def)
  next
    case Sell
    with w have "0 \<le> fl_shares fill" "worst * fl_shares fill \<le> fl_quote fill" "fl_fee fill = f * fl_quote fill"
      by (auto simp: sell_outcome_def Let_def)
    moreover from this have "0 \<le> worst * fl_shares fill" using assms(6) by simp
    ultimately show ?thesis by auto
  qed
  then show "0 \<le> fl_shares fill" "0 \<le> fl_quote fill" "fl_fee fill \<le> fl_quote fill"
    using mult_right_mono [OF assms(5), of "fl_quote fill"] by auto
qed

text \<open>What a submission relies on of the market data: fees are rates and the levels of the book are real offers.\<close>

definition market_data_ok :: "dec_ops \<Rightarrow> decimal \<Rightarrow> OrderBook vres \<Rightarrow> MarketRules vres \<Rightarrow> bool" where
  "market_data_ok D \<epsilon> book market \<longleftrightarrow> dec_div_near D \<epsilon> \<and> \<epsilon> * 2 \<le> dust
     \<and> (case book of Ok b \<Rightarrow> book_ok b | _ \<Rightarrow> True)
     \<and> (case market of Ok m \<Rightarrow> 0 \<le> worst_fee m \<and> worst_fee m \<le> 1 \<and> 0 < mk_tick_size m | _ \<Rightarrow> True)"

lemma protection_price_bounds: "protection_price D r = Ok p \<Longrightarrow> 0 < p \<and> p < 1"
  by (auto simp: protection_price_def res_simps dest: parse_positive_pos split: if_split_asm)

lemma quantity_pos: "quantity_decimal D r = Ok q \<Longrightarrow> 0 < q"
  by (auto simp: quantity_decimal_def dest: parse_positive_pos)

lemma rounding_small:
  assumes "0 \<le> \<epsilon>" "\<epsilon> * 2 \<le> dust" "0 < p" "p < 1" "0 \<le> f" "f \<le> (1 :: decimal)"
  shows "\<epsilon> * p * (1 + f) \<le> dust"
proof -
  have "p * (1 + f) \<le> 1 * 2" using assms by (intro mult_mono) auto
  then have "\<epsilon> * (p * (1 + f)) \<le> \<epsilon> * 2" using assms by (intro mult_left_mono) auto
  with assms show ?thesis by (simp add: mult.assoc)
qed

lemma submit_commit_balanced:
  assumes D: "dec_exact D" "dec_sign D" and data: "market_data_ok D \<epsilon> book market"
    and t: "book = Ok b" "market = Ok m" "protection_price D request = Ok price" "quantity_decimal D request = Ok q"
    and f: "if is_immediate (rq_time_in_force request)
            then walk_book D b (rq_side request) q price (worst_fee m) = Some fill else fill = no_fill"
    and c: "paper_commit D request m price q fill oid = Some c"
  shows "commit_balanced c"
proof -
  note facts = paper_commit_facts [OF D(1) c]
  have near: "dec_div_near D \<epsilon>" "0 \<le> \<epsilon>" "\<epsilon> * 2 \<le> dust" and m: "0 \<le> worst_fee m" "worst_fee m \<le> 1"
    and b: "book_ok b" using data t(1,2) by (auto simp: market_data_ok_def dec_div_near_def)
  note p = protection_price_bounds [OF t(3)] and q = quantity_pos [OF t(4)]
  have tiny: "\<epsilon> * price * (1 + worst_fee m) \<le> dust" using p by (intro rounding_small near m) auto
  have fill: "0 \<le> fl_shares fill \<and> fl_fee fill \<le> fl_quote fill"
  proof (cases "is_immediate (rq_time_in_force request)")
    case True
    with f have w: "walk_book D b (rq_side request) q price (worst_fee m) = Some fill" by simp
    show ?thesis
      using walk_book_signs [OF D near(1) m conjunct1 [OF p] less_imp_le [OF q] tiny b w] by simp
  qed (use f in simp)
  then have applied: "0 \<le> fl_shares (applied_fill request fill)"
    "fl_fee (applied_fill request fill) \<le> fl_quote (applied_fill request fill)"
    by (simp_all add: applied_fill_def)
  show ?thesis
  proof (cases "is_immediate (rq_time_in_force request)")
    case True
    then show ?thesis using p m applied by (cases "rq_side request") (simp_all add: commit_balanced_def facts)
  next
    case False
    then have "pc_original_quantity c = q" using facts(8) by (simp add: committed_quantity_def)
    with False show ?thesis using p m q applied
      by (cases "rq_side request")
         (auto simp: commit_balanced_def facts committed_state_def fok_unfilled_def)
  qed
qed

lemma commit_snapshot:
  assumes D: "dec_text D" and no: "load_paper_order D (pc_venue_order_id c) db = Ok None"
    and run: "commit_paper_order D c now db = Ok (snap, db')"
  shows "snap = \<lparr>pn_venue_order_id = pc_venue_order_id c, pn_state = pc_state c,
    pn_remaining_quantity = pc_remaining_quantity c, pn_filled_quantity = pc_filled_quantity c,
    pn_filled_price = pc_filled_price c, pn_venue_trade_ids = pc_venue_trade_ids c, pn_evidence = pc_evidence c\<rparr>"
  using run
proof (cases rule: commit_paper_orderE)
  case replayed
  with no show ?thesis by simp
next
  case (committed l l' e)
  have row: "sql_find (\<lambda>r. po_venue_order_id r = pc_venue_order_id c) (paper_venue_orders db')
      = Some (paper_order_row D c now)"
    using committed(4) by (auto simp: committed(5) sql_find_append sql_find_None_iff image_iff split: option.splits
        dest!: sql_find_SomeD)
  from committed(6) D show ?thesis
    by (cases "pc_filled_price c") (auto simp: load_paper_order_def row paper_order_row_def res_simps)
qed

lemma load_save_ledger:
  assumes D: "dec_text D" and l: "load_ledger D tok db = Ok l" and d: "distinct (map pi_token_id (paper_inventory db))"
  shows "load_ledger D tok (save_ledger D tok l' now db) = Ok l'"
proof -
  let ?p = "\<lparr>pi_token_id = tok, pi_shares = d_norm D (lg_shares l'),
             pi_reserved_shares = d_norm D (lg_reserved_shares l'), pi_updated_at = now\<rparr>"
  from l obtain a where a: "paper_account db = Some a" by (auto simp: load_ledger_def res_simps)
  have "\<exists>v. sql_find (\<lambda>r. pi_token_id r = tok) (upsert_inventory ?p (paper_inventory db)) = Some v
          \<and> pi_shares v = pi_shares ?p \<and> pi_reserved_shares v = pi_reserved_shares ?p"
  proof (cases "list_ex (\<lambda>r. pi_token_id r = tok) (paper_inventory db)")
    case True
    then obtain v where v: "v \<in> set (paper_inventory db)" "pi_token_id v = tok" by (auto simp: list_ex_iff)
    show ?thesis
      using sql_find_update_key [OF d v(1) v(2), of "\<lambda>r. r\<lparr>pi_shares := pi_shares ?p,
          pi_reserved_shares := pi_reserved_shares ?p, pi_updated_at := now\<rparr>"] True
      by (simp add: upsert_inventory_def)
  next
    case False
    then have "sql_find (\<lambda>r. pi_token_id r = tok) (paper_inventory db) = None"
      by (auto simp: sql_find_None_iff list_ex_iff)
    with False show ?thesis by (simp add: upsert_inventory_def sql_find_append)
  qed
  then obtain v where "sql_find (\<lambda>r. pi_token_id r = tok) (upsert_inventory ?p (paper_inventory db)) = Some v"
    "pi_shares v = pi_shares ?p" "pi_reserved_shares v = pi_reserved_shares ?p" by blast
  moreover have "parse_stored_decimal D (d_norm D x) = Ok x" for x using D by simp
  ultimately show ?thesis using a by (simp add: load_ledger_def save_ledger_def del: parse_stored_Ok)
qed

lemma commit_ledger:
  assumes D: "dec_text D" and no: "load_paper_order D (pc_venue_order_id c) db = Ok None"
    and d: "distinct (map pi_token_id (paper_inventory db))" and run: "commit_paper_order D c now db = Ok (snap, db')"
  obtains l l' where "load_ledger D (pc_token_id c) db = Ok l" "settle_commit D c l = Ok l'"
    "load_ledger D (pc_token_id c) db' = Ok l'"
  using run
proof (cases rule: commit_paper_orderE)
  case replayed
  with no show ?thesis by simp
next
  case (committed l l' e)
  have "load_ledger D (pc_token_id c) db' = load_ledger D (pc_token_id c) (save_ledger D (pc_token_id c) l' now db)"
    by (simp add: committed(5) load_ledger_def)
  with load_save_ledger [OF D committed(2) d] committed(2,3) that show ?thesis by simp
qed

text \<open>The average price lies between the cheapest and the dearest level of the book.\<close>

definition priced :: "decimal \<Rightarrow> decimal \<Rightarrow> PaperFill \<Rightarrow> bool" where
  "priced lo hi fill \<longleftrightarrow>
     0 \<le> fl_shares fill \<and> lo * fl_shares fill \<le> fl_quote fill \<and> fl_quote fill \<le> hi * fl_shares fill"

lemma priced_step:
  assumes "priced lo hi fill" "0 \<le> s" "lo \<le> p" "p \<le> hi"
  shows "priced lo hi (fill\<lparr>fl_shares := fl_shares fill + s, fl_quote := fl_quote fill + s * p, fl_fee := e\<rparr>)"
proof -
  have "s * lo \<le> s * p" "s * p \<le> s * hi" using assms by (auto intro: mult_left_mono)
  with assms show ?thesis by (auto simp: priced_def algebra_simps)
qed

lemma walk_buy_priced:
  assumes D: "dec_exact D" "dec_sign D" and f: "0 \<le> f"
  shows "walk_buy D f levels q fill = Some fill' \<Longrightarrow> 0 \<le> q \<Longrightarrow> priced lo hi fill \<Longrightarrow>
     list_all (\<lambda>l. level_ok l \<and> lo \<le> pl_price l \<and> pl_price l \<le> hi) levels \<Longrightarrow> priced lo hi fill'"
proof (induction levels arbitrary: q fill)
  case (Cons l levels)
  let ?p = "pl_price l"
  from Cons.prems(1) obtain a where a: "d_div D q (?p * (1 + f)) = Some a"
    and rest: "(let s = min (pl_size l) a; q' = q - (s * ?p + s * ?p * f); fill = fill\<lparr>fl_shares := fl_shares fill + s,
          fl_quote := fl_quote fill + s * ?p, fl_fee := fl_fee fill + s * ?p * f\<rparr>
       in if q' \<le> dust then Some (fill\<lparr>fl_complete := True\<rparr>) else walk_buy D f levels q' fill) = Some fill'"
    by (auto simp: bind_Some_simps Let_def dec_exact_simps [OF D(1)] dest!: add_fill_exact [OF D(1)])
  have l: "0 < ?p" "0 \<le> pl_size l" "lo \<le> ?p" "?p \<le> hi" using Cons.prems(4) by (auto simp: level_ok_def)
  have "0 < ?p * (1 + f)" using l f by (intro mult_pos_pos) auto
  then have s: "0 \<le> min (pl_size l) a" using dec_signD [OF D(2) a Cons.prems(2)] l by simp
  let ?fill = "fill\<lparr>fl_shares := fl_shares fill + min (pl_size l) a, fl_quote := fl_quote fill + min (pl_size l) a * ?p,
                    fl_fee := fl_fee fill + min (pl_size l) a * ?p * f\<rparr>"
  have p: "priced lo hi ?fill" by (rule priced_step [OF Cons.prems(3) s l(3,4)])
  show ?case
  proof (cases "q - (min (pl_size l) a * ?p + min (pl_size l) a * ?p * f) \<le> dust")
    case True
    with rest p show ?thesis by (auto simp: Let_def priced_def)
  next
    case False
    then have "0 \<le> q - (min (pl_size l) a * ?p + min (pl_size l) a * ?p * f)" by (simp add: dust_def)
    from Cons.IH [OF _ this p] rest False Cons.prems(4) show ?thesis by (simp add: Let_def)
  qed
qed simp

lemma walk_sell_priced:
  assumes D: "dec_exact D"
  shows "walk_sell D f levels n fill = Some fill' \<Longrightarrow> 0 \<le> n \<Longrightarrow> priced lo hi fill \<Longrightarrow>
     list_all (\<lambda>l. level_ok l \<and> lo \<le> pl_price l \<and> pl_price l \<le> hi) levels \<Longrightarrow> priced lo hi fill'"
proof (induction levels arbitrary: n fill)
  case (Cons l levels)
  let ?s = "min (pl_size l) n"
  let ?fill = "fill\<lparr>fl_shares := fl_shares fill + ?s, fl_quote := fl_quote fill + ?s * pl_price l,
                    fl_fee := fl_fee fill + ?s * pl_price l * f\<rparr>"
  from Cons.prems(1) have rest: "(if n - ?s \<le> dust then Some (?fill\<lparr>fl_complete := True\<rparr>)
       else walk_sell D f levels (n - ?s) ?fill) = Some fill'"
    by (auto simp: bind_Some_simps Let_def dec_exact_simps [OF D(1)] dest!: add_fill_exact [OF D(1)])
  have p: "priced lo hi ?fill"
    using Cons.prems(2-4) by (intro priced_step) (auto simp: level_ok_def)
  show ?case
  proof (cases "n - ?s \<le> dust")
    case True
    with rest p show ?thesis by (auto simp: priced_def)
  next
    case False
    from Cons.IH [OF _ _ p, of "n - ?s"] rest False Cons.prems(2,4) show ?thesis by simp
  qed
qed simp

lemma walk_book_priced:
  assumes D: "dec_exact D" "dec_sign D" and f: "0 \<le> f" and q: "0 \<le> q" and b: "book_ok b"
    and lohi: "\<forall>l \<in> set (bk_asks b) \<union> set (bk_bids b). lo \<le> pl_price l \<and> pl_price l \<le> hi"
    and run: "walk_book D b side q worst f = Some fill"
  shows "priced lo hi fill"
proof -
  have start: "priced lo hi no_fill" by (simp add: priced_def)
  show ?thesis
  proof (cases side)
    case Buy
    with run b lohi show ?thesis
      by (intro walk_buy_priced [OF D f _ q start]) (auto simp: walk_book_def list_all_iff book_ok_def)
  next
    case Sell
    with run b lohi show ?thesis
      by (intro walk_sell_priced [OF D(1) _ q start]) (auto simp: walk_book_def list_all_iff book_ok_def)
  qed
qed

section \<open>Properties\<close>

text \<open>
  C21. An immediate order keeps to its limits.  A buy spends, fees included, at most what was requested (up
  to the rounding of one quotient) and pays no more than the limit per share on average; a sale gives up
  at most the requested shares and earns no less than the limit per share; the fee is the rate on the
  quote.  A fill marked complete leaves no more than a millionth open, and any other fill has taken the
  whole depth of the book up to the limit.
\<close>

theorem walk_book_within_limits:
  assumes "dec_exact D" "dec_sign D" "dec_div_near D \<epsilon>" "0 \<le> fee_rate" "0 < worst" "0 \<le> requested"
    and "\<epsilon> * worst * (1 + fee_rate) \<le> dust" "book_ok b"
    and "walk_book D b side requested worst fee_rate = Some fill"
  shows "fl_fee fill = fee_rate * fl_quote fill \<and> 0 \<le> fl_shares fill \<and> (case side of
      Buy \<Rightarrow> fl_quote fill + fl_fee fill \<le> requested + \<epsilon> * worst * (1 + fee_rate)
           \<and> fl_quote fill \<le> worst * fl_shares fill
           \<and> (if fl_complete fill then requested - dust \<le> fl_quote fill + fl_fee fill
              else fl_shares fill = sum_list (map pl_size (filter (\<lambda>l. pl_price l \<le> worst) (bk_asks b))))
    | Sell \<Rightarrow> fl_shares fill \<le> requested \<and> worst * fl_shares fill \<le> fl_quote fill
           \<and> (if fl_complete fill then requested - dust \<le> fl_shares fill
              else fl_shares fill = sum_list (map pl_size (filter (\<lambda>l. worst \<le> pl_price l) (bk_bids b)))))"
  using walk_book_outcome [OF assms]
  by (cases side) (auto simp: buy_outcome_def sell_outcome_def Let_def reachable_levels_def)

text \<open>
  Whatever the request and the book, what the paper venue commits keeps the books balanced: the
  reservation of the account and of every holding is the sum over the open orders, and never exceeds what
  is there.
\<close>

theorem paper_submit_keeps_books:
  assumes D: "dec_sound D" "dec_sign D" and data: "market_data_ok D \<epsilon> book market" and ok: "books_balance D db"
    and run: "paper_submit D book market attempt prepared request now v db = (Ok (sub, db'), v')"
  shows "books_balance D db'"
  using run
proof (rule paper_submitE)
  fix b m price q fill c snap
  assume t: "book = Ok b" "market = Ok m" "protection_price D request = Ok price" "quantity_decimal D request = Ok q"
    and f: "if is_immediate (rq_time_in_force request)
            then walk_book D b (rq_side request) q price (worst_fee m) = Some fill else fill = no_fill"
    and c: "paper_commit D request m price q fill (pv_deterministic_order_id prepared) = Some c"
    and commit: "commit_paper_order D c now db = Ok (snap, db')"
  have e: "dec_exact D" "dec_text D" using D(1) by (simp_all add: dec_sound_def)
  have "commit_balanced c" by (rule submit_commit_balanced [OF e(1) D(2) data t f c])
  then show ?thesis using commit_books [OF e ok _ commit] by simp
qed

lemma settled_by_side:
  assumes "dec_exact D" "settle_commit D c l = Ok l'" "pc_side c = side" "pc_reserved_quote c = 0" "pc_reserved_shares c = 0"
  shows "case side of
      Buy \<Rightarrow> l' = l\<lparr>lg_quote_balance := lg_quote_balance l - (pc_quote_amount c + pc_fee_amount c),
                   lg_shares := lg_shares l + pc_filled_quantity c\<rparr>
    | Sell \<Rightarrow> l' = l\<lparr>lg_quote_balance := lg_quote_balance l + (pc_quote_amount c - pc_fee_amount c),
                    lg_shares := lg_shares l - pc_filled_quantity c\<rparr>"
  using assms(2-5)
  by (cases side) (auto simp: settle_commit_def res_simps bind_Some_simps dec_exact_simps [OF assms(1)])

text \<open>
  C22. Fill-or-kill is all or nothing.  A fill-or-kill order is answered \<open>FILLED\<close>, and then the requested
  amount has left the account (the quote of a buy, the shares of a sale, up to a millionth), or it is
  answered \<open>CANCELLED\<close> with no fill and no trade, and then the account and the holding are as before.
\<close>

theorem fok_all_or_nothing:
  assumes D: "dec_sound D" "dec_sign D" and data: "market_data_ok D \<epsilon> book market" and ok: "books_balance D db"
    and fok: "rq_time_in_force request = Fok" and q: "quantity_decimal D request = Ok q"
    and fresh: "find_paper_order D (pv_deterministic_order_id prepared) db = Ok None"
    and run: "paper_submit D book market attempt prepared request now v db = (Ok (sub, db'), v')"
  shows "\<exists>l l'. load_ledger D (rq_token_id request) db = Ok l \<and> load_ledger D (rq_token_id request) db' = Ok l' \<and>
    (vs_state sub = OrderState.Filled \<and> (case rq_side request of
        Buy \<Rightarrow> \<bar>lg_quote_balance l - lg_quote_balance l' - q\<bar> \<le> dust
      | Sell \<Rightarrow> \<bar>lg_shares l - lg_shares l' - q\<bar> \<le> dust)
    \<or> vs_state sub = OrderState.Cancelled \<and> vs_filled_quantity sub = 0 \<and> vs_venue_trade_ids sub = [] \<and> l' = l)"
  using run
proof (rule paper_submitE)
  fix b m price q' fill c snap
  assume t: "book = Ok b" "market = Ok m" "protection_price D request = Ok price" "quantity_decimal D request = Ok q'"
    and f: "if is_immediate (rq_time_in_force request)
            then walk_book D b (rq_side request) q' price (worst_fee m) = Some fill else fill = no_fill"
    and c: "paper_commit D request m price q' fill (pv_deterministic_order_id prepared) = Some c"
    and commit: "commit_paper_order D c now db = Ok (snap, db')" and sub: "sub = submission_of snap"
  have e: "dec_exact D" "dec_text D" using D(1) by (simp_all add: dec_sound_def)
  note facts = paper_commit_facts [OF e(1) c]
  have no: "load_paper_order D (pc_venue_order_id c) db = Ok None"
    using fresh by (simp add: find_paper_order_def facts)
  have dist: "distinct (map pi_token_id (paper_inventory db))" using ok by (simp add: books_balance_def)
  have sub': "vs_state sub = pc_state c" "vs_filled_quantity sub = pc_filled_quantity c"
    "vs_venue_trade_ids sub = pc_venue_trade_ids c"
    using commit_snapshot [OF e(2) no commit] sub by (simp_all add: submission_of_def)
  obtain l l' where l: "load_ledger D (pc_token_id c) db = Ok l" "settle_commit D c l = Ok l'"
    "load_ledger D (pc_token_id c) db' = Ok l'"
    by (rule commit_ledger [OF e(2) no dist commit])
  have moved: "pc_reserved_quote c = 0" "pc_reserved_shares c = 0" using fok by (simp_all add: facts(13,14))
  note moved = settled_by_side [OF e(1) l(2) facts(3) this]
  have w: "walk_book D b (rq_side request) q price (worst_fee m) = Some fill" and q': "q' = q" using f fok q t(4) by auto
  have near: "dec_div_near D \<epsilon>" "0 \<le> \<epsilon>" "\<epsilon> * 2 \<le> dust" and m: "0 \<le> worst_fee m" "worst_fee m \<le> 1"
    and b: "book_ok b" using data t(1,2) by (auto simp: market_data_ok_def dec_div_near_def)
  note p = protection_price_bounds [OF t(3)]
  have tiny: "\<epsilon> * price * (1 + worst_fee m) \<le> dust" using p by (intro rounding_small near m) auto
  note outcome = walk_book_outcome [OF e(1) D(2) near(1) m(1) conjunct1 [OF p] less_imp_le [OF quantity_pos [OF q]] tiny b w]
  show ?thesis
  proof (cases "fl_complete fill")
    case True
    with outcome tiny moved l(1,3) fok show ?thesis
      by (cases "rq_side request")
         (auto simp: sub' facts committed_state_def applied_fill_def fok_unfilled_def buy_outcome_def sell_outcome_def Let_def)
  next
    case False
    with moved l(1,3) fok show ?thesis
      by (cases "rq_side request") (auto simp: sub' facts committed_state_def applied_fill_def fok_unfilled_def)
  qed
qed

lemma priced_average:
  assumes near: "dec_div_near D 0" and p: "priced lo hi fill" "0 < lo" "hi < 1" and pos: "0 < fl_shares fill"
    and a: "average_price D fill = Some avg"
  shows "\<exists>x. avg = Some x \<and> 0 < x \<and> x < 1"
proof -
  from a pos obtain x where x: "avg = Some x" "d_div D (fl_quote fill) (fl_shares fill) = Some x"
    by (auto simp: average_price_def)
  then have eq: "x = fl_quote fill / fl_shares fill" using near by (auto simp: dec_div_near_def)
  have "0 < lo * fl_shares fill" using p pos by simp
  moreover have "hi * fl_shares fill < 1 * fl_shares fill" using p pos by (intro mult_strict_right_mono) auto
  ultimately have "0 < fl_quote fill" "fl_quote fill < fl_shares fill" using p(1) by (auto simp: priced_def)
  with pos eq x(1) show ?thesis by simp
qed

lemma prices_below_one:
  assumes "\<forall>l \<in> set ls. pl_price l < 1"
  obtains hi where "hi < 1" "\<forall>l \<in> set ls. pl_price l \<le> hi"
proof
  let ?hi = "Max (insert 0 (pl_price ` set ls))"
  show "?hi < 1" using assms by simp
  show "\<forall>l \<in> set ls. pl_price l \<le> ?hi" by simp
qed

text \<open>The fill of an immediate order stays within the quantity the order is persisted with.\<close>

lemma walk_within_committed:
  assumes e: "dec_exact D" "dec_sign D" and near: "dec_div_near D 0" and m: "0 \<le> worst_fee m" "0 < mk_tick_size m"
    and p: "0 < price \<and> price < 1" and q: "0 < q" and b: "book_ok b"
    and w: "walk_book D b (rq_side request) q price (worst_fee m) = Some fill" and imm: "rq_time_in_force request \<in> {Fok, Fak}"
    and c: "committed_quantity D request q (mk_tick_size m) = Some original" and pr: "priced (mk_tick_size m) hi fill"
  shows "fl_shares fill \<le> original \<and> 0 < original"
proof (cases "rq_side request")
  have tiny: "0 * price * (1 + worst_fee m) \<le> dust" by (simp add: dust_def)
  note outcome = walk_book_outcome [OF e(1) e(2) near m(1) conjunct1 [OF p] less_imp_le [OF q] tiny b w]
  case Buy
  have "original = q / mk_tick_size m" using c Buy imm near by (auto simp: committed_quantity_def dec_div_near_def)
  moreover have "fl_quote fill \<le> q"
    using outcome Buy m(1) by (auto simp: buy_outcome_def Let_def dest: mult_nonneg_nonneg [OF m(1)])
  ultimately show ?thesis using pr m(2) q by (auto simp: priced_def pos_le_divide_eq mult.commute)
next
  have tiny: "0 * price * (1 + worst_fee m) \<le> dust" by (simp add: dust_def)
  note outcome = walk_book_outcome [OF e(1) e(2) near m(1) conjunct1 [OF p] less_imp_le [OF q] tiny b w]
  case Sell
  have "original = q" using c Sell by (simp add: committed_quantity_def)
  with outcome Sell q show ?thesis by (auto simp: sell_outcome_def Let_def)
qed


text \<open>
  Submitting an immediate order again changes nothing.  With the same book and market, a second
  submission of an order that was answered returns the same answer and leaves the store as it is: no
  second debit, no event.
\<close>

theorem paper_resubmission_is_idempotent:
  assumes D: "dec_exact D" "dec_text D" and imm: "rq_time_in_force request \<in> {Fok, Fak}"
    and fresh: "find_paper_order D (pv_deterministic_order_id prepared) db = Ok None"
    and run: "paper_submit D book market attempt prepared request now v db = (Ok (sub, db'), v')"
  shows "paper_submit D book market attempt2 prepared request later v2 db' = (Ok (sub, db'), v2)"
  using run
proof (rule paper_submitE)
  fix b m price q fill c snap
  assume t: "book = Ok b" "market = Ok m" "protection_price D request = Ok price" "quantity_decimal D request = Ok q"
    and f: "if is_immediate (rq_time_in_force request)
            then walk_book D b (rq_side request) q price (worst_fee m) = Some fill else fill = no_fill"
    and c: "paper_commit D request m price q fill (pv_deterministic_order_id prepared) = Some c"
    and commit: "commit_paper_order D c now db = Ok (snap, db')" and sub: "sub = submission_of snap"
  note facts = paper_commit_facts [OF D(1) c]
  have no: "load_paper_order D (pc_venue_order_id c) db = Ok None"
    using fresh by (simp add: find_paper_order_def facts)
  have snap: "pn_evidence snap = pc_evidence c" by (simp add: commit_snapshot [OF D(2) no commit])
  have again: "commit_paper_order D c later db' = Ok (snap, db')"
    using commit
  proof (cases rule: commit_paper_orderE)
    case replayed
    with no show ?thesis by simp
  next
    case (committed l l' e)
    have "st_mode db = Paper" using commit by (auto simp: commit_paper_order_def split: if_split_asm)
    then have "st_mode db' = Paper" by (simp add: committed(5) save_ledger_def)
    with committed(6) snap show ?thesis by (simp add: commit_paper_order_def)
  qed
  have "submit_terms D book market request = Ok (b, m, price, q)" using t by (simp add: submit_terms_def)
  then show ?thesis
    using f imm c again sub by (auto simp: paper_submit_def submit_commit_def)
qed

text \<open>
  A failed stream stops the venue until a trade of that token arrives.  However the reconnection of a
  heartbeat goes, a token in the failed set stays there and the heartbeat reports no health; reconciliation
  refuses as stale; a message with a trade of the token is what takes it out of the set.
\<close>

theorem stream_failure_clears_by_trade_only:
  assumes "token \<in> pv_failures v"
  shows "fst (paper_heartbeat attempts listing db v) \<noteq> Ok ()
    \<and> token \<in> pv_failures (snd (paper_heartbeat attempts listing db v))
    \<and> (\<forall>failed. set failed = pv_failures v \<longrightarrow> paper_reconcile D failed db = Err (stale_streams failed))
    \<and> (\<forall>other msg fresh now db'. token \<in> pv_failures (fst (on_stream_message D H T U other msg fresh now (v, db')))
         \<or> other = token \<and> (\<exists>t. msg = Trade t))"
proof -
  have one: "pv_failures (snd (ensure_trade_subscription a t w)) = pv_failures w" for a t w
    by (cases a) (auto simp: ensure_trade_subscription_def Let_def split: res.splits)
  have all: "pv_failures (snd (ensure_all attempts ts w)) = pv_failures w" for ts w
  proof (induction ts arbitrary: w)
    case (Cons t ts)
    obtain r w' where e: "ensure_trade_subscription (attempts t) t w = (r, w')" by fastforce
    with one [of "attempts t" t w] Cons.IH [of w'] show ?case by (cases r) auto
  qed simp
  obtain r w where e: "ensure_all attempts (paper_active_tokens db) v = (r, w)" by fastforce
  with all [of "paper_active_tokens db" v] have w: "pv_failures w = pv_failures v" by simp
  have "fst (paper_heartbeat attempts listing db v) \<noteq> Ok () \<and> token \<in> pv_failures (snd (paper_heartbeat attempts listing db v))"
    using assms w by (cases r) (auto simp: paper_heartbeat_def e)
  moreover have "\<forall>failed. set failed = pv_failures v \<longrightarrow> paper_reconcile D failed db = Err (stale_streams failed)"
    using assms by (auto simp: paper_reconcile_def)
  moreover have "token \<in> pv_failures (fst (on_stream_message D H T U other msg fresh now (v, db')))
      \<or> other = token \<and> (\<exists>t. msg = Trade t)" for other msg fresh now db'
    using assms by (auto simp: on_stream_message_def Let_def split: stream_message.splits option.splits res.splits)
  ultimately show ?thesis by blast
qed

end
