(* ===== verification/PaperRuns.thy ===== *)
theory PaperRuns
  imports PaperBooks
begin

text \<open>
  A run of the paper ledger from a fresh database: the account is opened, a buy order rests, a market
  trade fills part of it, and the rest is cancelled.  The theorems of the ledger are applied to it.
\<close>

definition paper_config :: PaperConfig where
  "paper_config = \<lparr>pg_starting_quote_balance = ''9'', pg_starting_positions = []\<rparr>"

definition resting_buy :: PaperOrderCommit where
  "resting_buy = \<lparr>pc_venue_order_id = ''v'', pc_condition_id = ''c'', pc_token_id = ''7'', pc_side = Buy,
     pc_state = OrderState.Live, pc_price = 1 / 2, pc_fee_rate = 0, pc_original_quantity = 8,
     pc_remaining_quantity = 8, pc_filled_quantity = 0, pc_filled_price = None, pc_quote_amount = 0,
     pc_fee_amount = 0, pc_reserved_quote = 4, pc_reserved_shares = 0, pc_venue_trade_ids = [],
     pc_evidence = JObj []\<rparr>"

definition market_sell :: market_trade where
  "market_sell = \<lparr>mt_event_id = ''e'', mt_token_id = ''7'', mt_price = 1 / 4, mt_size = 2, mt_observed_at = 5\<rparr>"

definition paper_opened :: Store where
  "paper_opened = committed (new_store Mode.Paper 100 0)
     (unit_res (initialize_paper_account dec_rat sample_hash paper_config 1 (new_store Mode.Paper 100 0)))"

definition paper_resting :: Store where
  "paper_resting = committed paper_opened (commit_paper_order dec_rat resting_buy 2 paper_opened)"

definition paper_traded :: Store where
  "paper_traded = committed paper_resting
     (apply_paper_trade_through dec_rat show_nat market_sell (\<lambda>_. 0) 6 paper_resting)"

lemma paper_opened_commits:
  "is_ok (initialize_paper_account dec_rat sample_hash paper_config 1 (new_store Mode.Paper 100 0))"
  by code_simp

lemma paper_resting_commits: "is_ok (commit_paper_order dec_rat resting_buy 2 paper_opened)"
  by code_simp

lemma paper_traded_commits: "is_ok (apply_paper_trade_through dec_rat show_nat market_sell (\<lambda>_. 0) 6 paper_resting)"
  by code_simp

lemma dec_rat_sound: "dec_sound dec_rat"
  by (simp add: dec_sound_def dec_rat_exact dec_rat_text dec_rat_zero)

lemma resting_buy_balanced: "commit_balanced resting_buy"
  by (simp add: commit_balanced_def resting_buy_def)

abbreviation paper_step :: "Store \<Rightarrow> Store \<Rightarrow> bool" where
  "paper_step \<equiv> ledger_step dec_rat sample_hash show_nat"

lemma paper_new: "no_paper (new_store Mode.Paper 100 0)"
  by (simp add: no_paper_def new_store_def)

lemma paper_resting_reachable: "paper_step\<^sup>*\<^sup>* (new_store Mode.Paper 100 0) paper_resting"
proof -
  have "paper_step (new_store Mode.Paper 100 0) paper_opened"
    unfolding paper_opened_def by (rule ledger_step.initialize) (rule unit_committed_Ok [OF paper_opened_commits])
  moreover have "paper_step paper_opened paper_resting"
    using committed_Ok [OF paper_resting_commits, of paper_opened] resting_buy_balanced
    unfolding paper_resting_def [symmetric] by (auto intro: ledger_step.commit)
  ultimately show ?thesis by (meson rtranclp.rtrancl_into_rtrancl rtranclp.rtrancl_refl)
qed

lemma paper_resting_balances: "books_balance dec_rat paper_resting"
  using paper.reachable_inv [OF paper_new paper_resting_reachable] dec_rat_sound by blast

lemma paper_traded_run:
  "\<exists>n. apply_paper_trade_through dec_rat show_nat market_sell (\<lambda>_. 0) 6 paper_resting = Ok (n, paper_traded)"
  using committed_Ok [OF paper_traded_commits, of paper_resting] by (simp add: paper_traded_def)

theorem paper_books_always_balance_witness: "books_balance dec_rat paper_traded"
proof -
  from paper_traded_run have "paper_step paper_resting paper_traded" by (auto intro: ledger_step.trade)
  with paper_resting_reachable show ?thesis
    by (intro paper_books_always_balance [OF dec_rat_sound paper_new, of sample_hash show_nat]) auto
qed

lemma market_sell_new: "mt_event_id market_sell \<notin> pe_event_id ` set (paper_market_events paper_resting)"
  by code_simp


theorem trade_through_never_overdraws_witness:
  "apply_paper_trade_through dec_rat show_nat market_sell (\<lambda>_. 0) 6 paper_resting
     \<noteq> Err (IdentityMismatch ''paper trade-through would overdraw the account'')"
  by (rule trade_through_never_overdraws [OF dec_rat_sound paper_resting_balances])

theorem trade_through_applies_once_witness:
  "apply_paper_trade_through dec_rat show_nat market_sell (\<lambda>_. 1) 7 paper_traded = Ok (0, paper_traded)"
proof -
  from paper_traded_run obtain n where
    "apply_paper_trade_through dec_rat show_nat market_sell (\<lambda>_. 0) 6 paper_resting = Ok (n, paper_traded)" ..
  then show ?thesis by (rule trade_through_applies_once)
qed

definition paper_cancelled :: Store where
  "paper_cancelled = committed paper_resting (cancel_paper_order dec_rat ''v'' 8 paper_resting)"

lemma paper_cancelled_commits: "is_ok (cancel_paper_order dec_rat ''v'' 8 paper_resting)"
  by code_simp

lemma paper_resting_order:
  "sql_find (\<lambda>r. po_venue_order_id r = ''v'') (paper_venue_orders paper_resting) = Some (paper_order_row dec_rat resting_buy 2)"
  by code_simp

theorem cancel_releases_reservation_witness:
  "available_quote dec_rat paper_cancelled
     = available_quote dec_rat paper_resting + stored dec_rat (po_reserved_quote (paper_order_row dec_rat resting_buy 2))"
proof -
  from committed_Ok [OF paper_cancelled_commits, of paper_resting] obtain snap where
    "cancel_paper_order dec_rat ''v'' 8 paper_resting = Ok (snap, paper_cancelled)" by (auto simp: paper_cancelled_def)
  moreover have "paper_active (paper_order_row dec_rat resting_buy 2)"
    by (simp add: paper_active_def paper_order_row_def resting_buy_def)
  ultimately show ?thesis
    using cancel_releases_reservation [OF dec_rat_sound paper_resting_balances _ paper_resting_order] by blast
qed

end
