(* ===== verification/PaperVenueRuns.thy ===== *)
theory PaperVenueRuns
  imports PaperMatching PaperRuns
begin

text \<open>
  A run of the paper venue: on the opened account a fill-or-kill buy meets two levels of a book.  The
  theorems of the venue are applied to it, and to a stream that failed.
\<close>

definition fok_book :: OrderBook where
  "fok_book = \<lparr>bk_bids = [], bk_asks = [\<lparr>pl_price = 1 / 2, pl_size = 10\<rparr>, \<lparr>pl_price = 1 / 4, pl_size = 4\<rparr>],
     bk_observed_at = 0, bk_hash = None\<rparr>"

definition fok_buy :: OrderIntentRequest where
  "fok_buy = sample_request\<lparr>rq_side := Buy, rq_time_in_force := Fok, rq_quantity := \<lparr>q_unit = Quote, q_value = ''3''\<rparr>\<rparr>"

definition fok_prepared :: PreparedVenueOrder where
  "fok_prepared = \<lparr>pv_deterministic_order_id = ''p'', pv_normalized_json = JObj [], pv_signed_payload_json = None,
     pv_signer_address = None, pv_funder_address = None, pv_protocol_version = 2, pv_sdk_version = ''paper-v1''\<rparr>"

definition no_streams :: PaperStreams where
  "no_streams = \<lparr>pv_subscriptions = {}, pv_failures = {}\<rparr>"

abbreviation fok_submit :: "instant \<Rightarrow> Store \<Rightarrow> (VenueSubmission \<times> Store) vres \<times> PaperStreams" where
  "fok_submit now db \<equiv> paper_submit dec_rat (Ok fok_book) (Ok sample_market) (True, Ok (), Ok ()) fok_prepared fok_buy now no_streams db"

definition fok_submitted :: Store where
  "fok_submitted = committed paper_opened (fst (fok_submit 2 paper_opened))"

lemma fok_commits: "is_ok (fst (fok_submit 2 paper_opened))"
  by code_simp

lemma fok_run: "\<exists>sub. fok_submit 2 paper_opened = (Ok (sub, fok_submitted), no_streams)"
proof -
  from committed_Ok [OF fok_commits, of paper_opened] obtain sub where
    s: "fst (fok_submit 2 paper_opened) = Ok (sub, fok_submitted)" by (auto simp: fok_submitted_def)
  have "snd (fok_submit 2 paper_opened) = no_streams"
    by (auto simp: paper_submit_def fok_buy_def Let_def split: res.splits)
  with s show ?thesis by (metis prod.collapse)
qed

lemma fok_data: "market_data_ok dec_rat 0 (Ok fok_book) (Ok sample_market)"
  by (simp add: market_data_ok_def dec_rat_div_near dust_def book_ok_def level_ok_def fok_book_def sample_market_def)

lemma fok_fresh: "find_paper_order dec_rat (pv_deterministic_order_id fok_prepared) paper_opened = Ok None"
  by code_simp

lemma fok_quantity: "quantity_decimal dec_rat fok_buy = Ok 3"
  by code_simp

lemma paper_opened_balances: "books_balance dec_rat paper_opened"
proof -
  have "paper_step (new_store Mode.Paper 100 0) paper_opened"
    unfolding paper_opened_def by (rule ledger_step.initialize) (rule unit_committed_Ok [OF paper_opened_commits])
  then show ?thesis
    using paper.reachable_inv [OF paper_new r_into_rtranclp] dec_rat_sound by blast
qed

theorem walk_book_within_limits_witness:
  "\<exists>fill. walk_book dec_rat fok_book Buy 3 (1 / 2) 0 = Some fill \<and> fl_quote fill + fl_fee fill \<le> 3
     \<and> fl_quote fill \<le> 1 / 2 * fl_shares fill"
proof -
  have "walk_book dec_rat fok_book Buy 3 (1 / 2) 0 \<noteq> None" by code_simp
  then obtain fill where w: "walk_book dec_rat fok_book Buy 3 (1 / 2) 0 = Some fill" by blast
  have b: "book_ok fok_book" using fok_data by (simp add: market_data_ok_def)
  from walk_book_within_limits [OF dec_rat_exact dec_rat_sign dec_rat_div_near _ _ _ _ b w] w show ?thesis
    by (simp add: dust_def)
qed

theorem paper_submit_keeps_books_witness: "books_balance dec_rat fok_submitted"
proof -
  from fok_run obtain sub where "fok_submit 2 paper_opened = (Ok (sub, fok_submitted), no_streams)" ..
  from paper_submit_keeps_books [OF dec_rat_sound dec_rat_sign fok_data paper_opened_balances this] show ?thesis .
qed

theorem fok_all_or_nothing_witness:
  "\<exists>sub. fok_submit 2 paper_opened = (Ok (sub, fok_submitted), no_streams)
     \<and> (vs_state sub = OrderState.Filled \<or> vs_state sub = OrderState.Cancelled \<and> vs_filled_quantity sub = 0)"
proof -
  from fok_run obtain sub where s: "fok_submit 2 paper_opened = (Ok (sub, fok_submitted), no_streams)" ..
  have "rq_time_in_force fok_buy = Fok" by (simp add: fok_buy_def)
  from fok_all_or_nothing [OF dec_rat_sound dec_rat_sign fok_data paper_opened_balances this fok_quantity fok_fresh s] s
  show ?thesis by blast
qed


theorem paper_resubmission_is_idempotent_witness:
  "\<exists>sub. fok_submit 2 paper_opened = (Ok (sub, fok_submitted), no_streams)
     \<and> fok_submit 9 fok_submitted = (Ok (sub, fok_submitted), no_streams)"
proof -
  from fok_run obtain sub where s: "fok_submit 2 paper_opened = (Ok (sub, fok_submitted), no_streams)" ..
  have "rq_time_in_force fok_buy \<in> {Fok, Fak}" by (simp add: fok_buy_def)
  from paper_resubmission_is_idempotent [OF dec_rat_exact dec_rat_text this fok_fresh s] s show ?thesis by blast
qed

theorem stream_failure_clears_by_trade_only_witness:
  "fst (paper_heartbeat (\<lambda>_. (True, Ok (), Ok ())) (\<lambda>_. [''7'']) paper_resting
          \<lparr>pv_subscriptions = {}, pv_failures = {''7''}\<rparr>) \<noteq> Ok ()"
  by (rule stream_failure_clears_by_trade_only [THEN conjunct1, of "''7''"]) simp

end
