(* ===== verification/Spec2Isabelle.thy ===== *)
theory Spec2Isabelle
  imports EntryRuns PaperVenueRuns
begin

text \<open>
  A verification library for the order execution service under \<open>src/\<close>: a process that admits order
  intents over HTTP, checks them against a risk policy, journals every step in an SQLite database and
  submits each order at most once to a venue, a paper venue that simulates fills or Polymarket.

  \<^bold>\<open>How the parts interact.\<close>  The HTTP interface (\<open>api.rs\<close>) admits an intent through the store and puts its
  id on the queue of the execution coordinator (\<open>execution.rs\<close>).  The worker takes it from there: health,
  freshness and risk checks, preparation by the venue, a commit that marks the order SUBMITTING, the
  venue's answer, a commit of the answer.  Reconciliation compares the journal with what the venue
  reports; every discrepancy halts the service, and only an operator resumes it.  The store
  (\<open>store.rs\<close>) makes each of these steps one SQL transaction; the risk policy (\<open>risk.rs\<close>) decides on a
  snapshot taken inside the transaction that reserves the exposure.

  \<^bold>\<open>Theories and the code they model.\<close>

  \<^item> \<open>Prelude\<close>: the result type (\<open>Ok\<close>, \<open>Err\<close>, \<open>Panic\<close>), JSON values, SQL statements on tables kept as lists
    of rows, string functions of the standard library, the locale of systems with an invariant.
    \<open>Decimal\<close>: \<open>rust_decimal\<close> as the parameter \<open>D\<close>.
  \<^item> \<open>Domain\<close> (\<open>domain.rs\<close>), \<open>Venue\<close> (\<open>venue/mod.rs\<close>), \<open>Risk\<close> (\<open>risk.rs\<close>): the contract types, their JSON,
    request validation, books, the risk policy and its decision.
  \<^item> \<open>StoreTypes\<close> to \<open>Journal\<close> (\<open>store.rs\<close>, \<open>migrations/\<close>): the tables of the record \<open>Store\<close> and one definition
    per public method, in the groups Admission, Control (service state), RiskReserve, Submission,
    Recovery, OrderLifecycle and Journal (events, reconciliation runs, backups, identity).
  \<^item> \<open>PaperLedger\<close> (the paper tables of \<open>store.rs\<close>), \<open>PaperVenue\<close> (\<open>venue/paper.rs\<close>): account, inventory, resting
    orders, market trades, walking the book, trade streams and their health.
  \<^item> \<open>CoordinatorState\<close>, \<open>Coordinator\<close> (\<open>execution.rs\<close>): the coordinator as a state passing program over the
    store and its surroundings \<open>E\<close>; one definition per method, one per turn of a background task.
  \<^item> \<open>Config\<close> (\<open>config.rs\<close>), \<open>Auth\<close> (\<open>auth.rs\<close>), \<open>Api\<close> and \<open>ApiDocument\<close> (\<open>api.rs\<close>): the configuration and its validation,
    bearer tokens and scopes, every HTTP handler over the coordinator, the strict JSON reader, the
    admission limiter, pagination, the event stream, the router and the OpenAPI document.
  \<^item> \<open>Polymarket\<close>, \<open>PolymarketOrders\<close>, \<open>PolymarketReconcile\<close> (\<open>venue/polymarket.rs\<close>): the live venue over the answers \<open>K\<close>
    of the client SDK: the book cache its stream tasks maintain, rules and books; signing, preparation, persisted
    orders, submission and its errors; construction, reconciliation, heartbeat and the key file.
  \<^item> \<open>Backup\<close> (\<open>store.rs\<close>): the files of a backup on a map from paths to contents, and their verification.
    \<open>Entry\<close>, \<open>Client\<close> (\<open>main.rs\<close>): the start, run and end of a service process and of a sequence of them on one
    database, the diagnosis, and the command line client.

  \<^bold>\<open>What the lemmas show.\<close>

  \<^item> \<open>PipelineTables\<close>, \<open>Pipeline\<close>, \<open>PipelineSafety\<close>: every committed transaction as a step relation on stores, the
    invariant that links intents, orders, prepared payloads and attempts, and what follows from it:
    one order per intent, one submission at most, the intent state machine, restart recovery.
  \<^item> \<open>RiskReserve\<close>: an approval keeps every limit for the next snapshot; \<open>Risk\<close>: the decision procedure equals its
    specification and its exposure bounds every fill.
  \<^item> \<open>PaperBooks\<close>, \<open>PaperMatching\<close>: the reservations of the paper ledger balance in every run, a trade serves the
    queue of resting orders, what the paper venue answers passes the checks of the store.
  \<^item> \<open>ControlFrame\<close>, \<open>CoordinatorFrame\<close>: locales for what every operation of the coordinator keeps, proved once
    from laws about a single interaction.  \<open>CoordinatorSafety\<close> instantiates them with the step relation:
    the coordinator refines the transactions of the store and submits each intent at most once.
    \<open>CoordinatorLatch\<close> instantiates them with the halt latch.  \<open>CoordinatorChecks\<close>: the checks around one intent.
  \<^item> \<open>JournalFrame\<close>: what every transaction does to the event journal, its broadcast and the recorded responses;
    the journal of every reachable store is gapless.
  \<^item> \<open>ApiFrame\<close> extends the locales of the coordinator to a service that answers requests, runs the tasks its
    handlers spawned and takes background turns; \<open>ApiSafety\<close> draws refinement, single submission and the
    halt latch for the whole service, \<open>ApiAccess\<close> the scopes needed to write, \<open>ApiLimits\<close> the admission rate and the
    strict reader, \<open>ApiPages\<close> the end and completeness of pagination, \<open>ApiStream\<close> that the event stream skips and
    repeats nothing while other tasks commit.
  \<^item> \<open>PolymarketSafety\<close>: the books of the live venue are sound, a gap of a stream blocks heartbeats until a
    reconciliation that began after it, a submission of unknown fate halts, a prepared order is funded, and
    the key file is private.  \<open>Backup\<close>: a completed backup verifies.
  \<^item> \<open>EntrySafety\<close>: over all runs of the service on a database an intent is submitted at most once, a live
    service starts only behind every guard, and client and service agree on tokens and requests.
  \<^item> \<open>ApiRuns\<close>, \<open>EntryRuns\<close>, \<open>PipelineRuns\<close>, \<open>CoordinatorRuns\<close>, \<open>PaperRuns\<close>, \<open>PaperVenueRuns\<close>, \<open>PolymarketRuns\<close>: the theorems applied to concrete runs.

  \<^bold>\<open>Parameters.\<close>  Code outside \<open>src/\<close> is an argument of the definitions: \<open>D\<close> the decimal operations, \<open>H\<close> the hash of a
  canonical JSON, \<open>S\<close> SHA-256 of a text, \<open>U\<close> the text of a UUID, ids and times as arguments of each
  operation, and in \<open>E\<close> all of these with the answers of the venue, deadlines included; \<open>W\<close> the HTTP and JSON
  libraries, \<open>L\<close> and \<open>K\<close> the conversions and the answers of the Polymarket SDK, \<open>P\<close> the host of a process.
  Hypotheses on them are named: \<open>dec_exact\<close>, \<open>dec_text\<close>, \<open>dec_sign\<close> and \<open>dec_div_near\<close> on decimals,
  \<open>interferes\<close> (other tasks only commit transactions of the model) and \<open>undisturbed\<close> (other tasks do not
  resume the service), \<open>follows_routes\<close> on the router, \<open>same_json\<close> on what client and service read of a JSON text.

  \<^bold>\<open>Bounds.\<close>  Every loop of the model is structural, or over the bytes of a text, so no fuel is used; listings of
  the live venue stop after the 100 pages, and 21 pages of positions, of the code.  The control revision is
  bounded by \<open>i64_max\<close>, the queue of admitted intents by 100 and the admitted operations by 64 slots, as in the
  code; the counters of gaps and events wrap at \<open>2 ^ 64\<close>.  Interleaving is explicit: before every interaction
  \<open>su_before\<close> may change the store, so the theorems on the coordinator hold for every schedule; its mutexes
  only exclude some of them.  A process ends between two of its events; what a crash between two transactions
  leaves is a reachable store of the step relation of \<open>Pipeline\<close>, which \<open>PipelineSafety\<close> covers.

  \<^bold>\<open>Not modelled.\<close>  SQLite itself, the lock file and the directories, metrics and log lines, signals, timers and
  the waiting of a send on a full queue; the Polymarket SDK, \<open>alloy\<close>, \<open>axum\<close>, \<open>serde_json\<close> and the other libraries,
  which are parameters; the stubs that replace the live venue in a binary without the live feature, apart from
  the two entry points that refuse.
\<close>

end
